(* ===== verification/Sproyt_Prelude.thy ===== *)
theory Sproyt_Prelude
  imports Main "HOL-Library.AList" "HOL-Library.Word"
begin

text \<open>
  Shared vocabulary of the development: machine integers, the hash maps and hash sets of the
  Rust standard library as association lists and duplicate-free lists, results with an error
  side, and the two interfaces the component theories instantiate: a keyed map and a machine
  with an invariant.

  A \<open>HashMap\<close> is an association list whose keys are distinct. Rust leaves the iteration
  order of a \<open>HashMap\<close> open; here it is the order of the list, and every theorem about a
  state holds for every list that satisfies the invariant, in whatever order.
\<close>

named_theorems repo_simps \<open>definitions of repository operations, unfolded by the component proofs\<close>

section \<open>Machine integers\<close>

type_synonym u16 = "16 word"
type_synonym u32 = "32 word"
type_synonym u64 = "64 word"
type_synonym uuid = "128 word"

text \<open>A UTC instant, in nanoseconds since the epoch (the resolution of \<open>chrono\<close>).\<close>

type_synonym instant = int

text \<open>\<open>u64::checked_add\<close>: nothing when the sum does not fit.\<close>

definition checked_add_u64 :: "u64 \<Rightarrow> u64 \<Rightarrow> u64 option" where
  "checked_add_u64 a b = (if unat a + unat b < 2 ^ 64 then Some (a + b) else None)"

lemma checked_add_u64_Some:
  "checked_add_u64 a b = Some c \<Longrightarrow> unat c = unat a + unat b"
  by (auto simp: checked_add_u64_def unat_word_ariths split: if_splits)

lemma checked_add_u64_one_None:
  "checked_add_u64 a 1 = None \<longleftrightarrow> unat a = 2 ^ 64 - 1"
  using unsigned_less [of a, where ?'a = nat] by (auto simp: checked_add_u64_def)

text \<open>\<open>usize as u32\<close> keeps the low 32 bits.\<close>

definition as_u32 :: "nat \<Rightarrow> u32" where
  "as_u32 n = word_of_nat n"

text \<open>
  Signed 64-bit integers are kept as integers in range; \<open>i64_max\<close> is the largest.
\<close>

definition i64_max :: int where
  "i64_max = 2 ^ 63 - 1"

definition saturating_succ_i64 :: "int \<Rightarrow> int" where
  "saturating_succ_i64 n = min (n + 1) i64_max"

section \<open>Results\<close>

type_synonym ('e, 'a) result = "'e + 'a"

definition is_ok :: "('e, 'a) result \<Rightarrow> bool" where
  "is_ok r = (case r of Inl _ \<Rightarrow> False | Inr _ \<Rightarrow> True)"

lemma is_ok_simps [simp]: "is_ok (Inr a)" "\<not> is_ok (Inl e)"
  by (simp_all add: is_ok_def)

definition result_bind :: "('e, 'a) result \<Rightarrow> ('a \<Rightarrow> ('e, 'b) result) \<Rightarrow> ('e, 'b) result" where
  "result_bind r f = (case r of Inl e \<Rightarrow> Inl e | Inr a \<Rightarrow> f a)"

lemma result_bind_simps [simp]:
  "result_bind (Inl e) f = Inl e"
  "result_bind (Inr a) f = f a"
  by (simp_all add: result_bind_def)

lemma result_bind_Inr:
  "result_bind r f = Inr b \<longleftrightarrow> (\<exists>a. r = Inr a \<and> f a = Inr b)"
  by (cases r) simp_all

section \<open>Hash maps\<close>

type_synonym ('k, 'v) hmap = "('k \<times> 'v) list"

abbreviation hm_get :: "('k, 'v) hmap \<Rightarrow> 'k \<Rightarrow> 'v option" where
  "hm_get \<equiv> map_of"

definition hm_has :: "('k, 'v) hmap \<Rightarrow> 'k \<Rightarrow> bool" where
  "hm_has m k = (case map_of m k of None \<Rightarrow> False | Some _ \<Rightarrow> True)"

definition hm_insert :: "'k \<Rightarrow> 'v \<Rightarrow> ('k, 'v) hmap \<Rightarrow> ('k, 'v) hmap" where
  "hm_insert k v m = AList.update k v m"

definition hm_remove :: "'k \<Rightarrow> ('k, 'v) hmap \<Rightarrow> ('k, 'v) hmap" where
  "hm_remove k m = AList.delete k m"

definition hm_retain :: "('k \<Rightarrow> 'v \<Rightarrow> bool) \<Rightarrow> ('k, 'v) hmap \<Rightarrow> ('k, 'v) hmap" where
  "hm_retain P m = filter (\<lambda>(k, v). P k v) m"

text \<open>\<open>entry(k).or_insert(v)\<close>: the value stays when the key is there.\<close>

definition hm_or_insert :: "'k \<Rightarrow> 'v \<Rightarrow> ('k, 'v) hmap \<Rightarrow> ('k, 'v) hmap" where
  "hm_or_insert k v m = (if hm_has m k then m else hm_insert k v m)"

abbreviation hm_keys :: "('k, 'v) hmap \<Rightarrow> 'k list" where
  "hm_keys m \<equiv> map fst m"

abbreviation hm_values :: "('k, 'v) hmap \<Rightarrow> 'v list" where
  "hm_values m \<equiv> map snd m"

definition hm_get_or :: "'v \<Rightarrow> ('k, 'v) hmap \<Rightarrow> 'k \<Rightarrow> 'v" where
  "hm_get_or d m k = (case map_of m k of None \<Rightarrow> d | Some v \<Rightarrow> v)"

definition hm_wf :: "('k, 'v) hmap \<Rightarrow> bool" where
  "hm_wf m = distinct (map fst m)"

lemma hm_has_iff: "hm_has m k \<longleftrightarrow> map_of m k \<noteq> None"
  by (simp add: hm_has_def split: option.splits)

lemma hm_has_Nil [simp]: "\<not> hm_has [] k"
  by (simp add: hm_has_iff)

lemma hm_has_dom: "hm_has m k \<longleftrightarrow> k \<in> fst ` set m"
  by (metis hm_has_iff map_of_eq_None_iff)

lemma hm_get_insert [simp]: "map_of (hm_insert k v m) = (map_of m)(k \<mapsto> v)"
  by (simp add: hm_insert_def update_conv')

lemma hm_get_remove [simp]: "map_of (hm_remove k m) = (map_of m)(k := None)"
  by (simp add: hm_remove_def delete_conv')

lemma hm_get_or_insert [simp]:
  "map_of (hm_or_insert k v m) = (if hm_has m k then map_of m else (map_of m)(k \<mapsto> v))"
  by (simp add: hm_or_insert_def)

lemma hm_wf_Nil [simp]: "hm_wf []"
  by (simp add: hm_wf_def)

lemma hm_wf_insert [simp, intro]: "hm_wf m \<Longrightarrow> hm_wf (hm_insert k v m)"
  by (simp add: hm_wf_def hm_insert_def distinct_update)

lemma hm_wf_remove [simp, intro]: "hm_wf m \<Longrightarrow> hm_wf (hm_remove k m)"
  by (simp add: hm_wf_def hm_remove_def distinct_delete)

lemma hm_wf_or_insert [simp, intro]: "hm_wf m \<Longrightarrow> hm_wf (hm_or_insert k v m)"
  by (simp add: hm_or_insert_def)

lemma hm_wf_retain [simp, intro]: "hm_wf m \<Longrightarrow> hm_wf (hm_retain P m)"
  by (simp add: hm_wf_def hm_retain_def distinct_map_filter)

lemma hm_get_retain:
  assumes "hm_wf m"
  shows "map_of (hm_retain P m) k = (case map_of m k of None \<Rightarrow> None | Some v \<Rightarrow> if P k v then Some v else None)"
  using assms
proof (induction m)
  case Nil
  then show ?case by (simp add: hm_retain_def)
next
  case (Cons p m)
  obtain k' v' where p: "p = (k', v')" by (cases p)
  from Cons.prems p have wf: "hm_wf m" and notin: "k' \<notin> fst ` set m"
    by (simp_all add: hm_wf_def)
  from notin have none: "map_of m k' = None" by (simp add: map_of_eq_None_iff)
  from Cons.IH [OF wf] show ?case
    by (cases "k = k'") (auto simp: hm_retain_def p none)
qed

lemma hm_values_iff:
  assumes "hm_wf m"
  shows "v \<in> set (hm_values m) \<longleftrightarrow> (\<exists>k. map_of m k = Some v)"
proof -
  have "v \<in> set (hm_values m) \<longleftrightarrow> (\<exists>k. (k, v) \<in> set m)" by force
  also have "\<dots> \<longleftrightarrow> (\<exists>k. map_of m k = Some v)"
    using assms by (simp add: hm_wf_def)
  finally show ?thesis .
qed

lemma hm_entry_iff: "hm_wf m \<Longrightarrow> (k, v) \<in> set m \<longleftrightarrow> map_of m k = Some v"
  by (simp add: hm_wf_def)

lemma hm_has_insert [simp]: "hm_has (hm_insert k v m) k' \<longleftrightarrow> k' = k \<or> hm_has m k'"
  by (auto simp: hm_has_iff)

lemma hm_has_remove [simp]: "hm_has (hm_remove k m) k' \<longleftrightarrow> k' \<noteq> k \<and> hm_has m k'"
  by (auto simp: hm_has_iff)

lemma hm_has_or_insert [simp]: "hm_has (hm_or_insert k v m) k' \<longleftrightarrow> k' = k \<or> hm_has m k'"
  by (auto simp: hm_or_insert_def)

section \<open>Hash sets\<close>

text \<open>A \<open>HashSet\<close> is a duplicate-free list; inserting a member changes nothing.\<close>

definition hs_insert :: "'a \<Rightarrow> 'a list \<Rightarrow> 'a list" where
  "hs_insert x xs = (if x \<in> set xs then xs else xs @ [x])"

definition hs_remove :: "'a \<Rightarrow> 'a list \<Rightarrow> 'a list" where
  "hs_remove x xs = removeAll x xs"

lemma set_hs_insert [simp]: "set (hs_insert x xs) = insert x (set xs)"
  by (auto simp: hs_insert_def)

lemma set_hs_remove [simp]: "set (hs_remove x xs) = set xs - {x}"
  by (simp add: hs_remove_def)

lemma distinct_hs_insert [simp]: "distinct (hs_insert x xs) \<longleftrightarrow> distinct xs"
  by (simp add: hs_insert_def)

lemma distinct_hs_remove [simp, intro]: "distinct xs \<Longrightarrow> distinct (hs_remove x xs)"
  by (simp add: hs_remove_def distinct_removeAll)

section \<open>Interface: a keyed map\<close>

text \<open>
  What the repository relies on of the standard library's map: an insert is what the next
  lookup returns, a removal forgets exactly one key, \<open>or_insert\<close> never replaces.
\<close>

locale keyed_map =
  fixes get :: "'m \<Rightarrow> 'k \<Rightarrow> 'v option"
    and put :: "'k \<Rightarrow> 'v \<Rightarrow> 'm \<Rightarrow> 'm"
    and del :: "'k \<Rightarrow> 'm \<Rightarrow> 'm"
    and put_new :: "'k \<Rightarrow> 'v \<Rightarrow> 'm \<Rightarrow> 'm"
    and wf :: "'m \<Rightarrow> bool"
  assumes get_put: "wf m \<Longrightarrow> get (put k v m) k' = (if k' = k then Some v else get m k')"
    and get_del: "wf m \<Longrightarrow> get (del k m) k' = (if k' = k then None else get m k')"
    and get_put_new: "wf m \<Longrightarrow> get (put_new k v m) k' =
      (if k' = k then (case get m k of None \<Rightarrow> Some v | Some w \<Rightarrow> Some w) else get m k')"
    and wf_put: "wf m \<Longrightarrow> wf (put k v m)"
    and wf_del: "wf m \<Longrightarrow> wf (del k m)"
    and wf_put_new: "wf m \<Longrightarrow> wf (put_new k v m)"
begin

lemma put_new_keeps:
  "wf m \<Longrightarrow> get m k = Some v \<Longrightarrow> get (put_new k' w m) k = Some v"
  by (cases "k = k'") (simp_all add: get_put_new)

lemma put_new_present:
  "wf m \<Longrightarrow> get (put_new k v m) k \<noteq> None"
  by (simp add: get_put_new split: option.splits)

lemma put_del:
  "wf m \<Longrightarrow> get (put k v (del k m)) k' = get (put k v m) k'"
  by (simp add: get_put get_del wf_del)

end

interpretation hm: keyed_map "map_of :: ('k \<times> 'v) list \<Rightarrow> 'k \<Rightarrow> 'v option" hm_insert hm_remove
    hm_or_insert hm_wf
  by unfold_locales (auto simp: hm_has_iff split: option.splits)

section \<open>Interface: a machine with an invariant\<close>

text \<open>
  A component that handles one command at a time: the states it can reach from its initial
  state and, for a predicate every command keeps, that the predicate holds in all of them.
  The repository, the chat actor and the client machines are instances.
\<close>

inductive reachable :: "'s \<Rightarrow> ('s \<Rightarrow> 'c \<Rightarrow> bool) \<Rightarrow> ('s \<Rightarrow> 'c \<Rightarrow> 's) \<Rightarrow> 's \<Rightarrow> bool"
  for init :: 's and guard :: "'s \<Rightarrow> 'c \<Rightarrow> bool" and step :: "'s \<Rightarrow> 'c \<Rightarrow> 's" where
  start: "reachable init guard step init"
| step: "reachable init guard step s \<Longrightarrow> guard s c \<Longrightarrow> reachable init guard step (step s c)"

locale guarded_machine =
  fixes init :: 's
    and guard :: "'s \<Rightarrow> 'c \<Rightarrow> bool"
    and step :: "'s \<Rightarrow> 'c \<Rightarrow> 's"
    and inv :: "'s \<Rightarrow> bool"
  assumes inv_init: "inv init"
    and inv_step: "inv s \<Longrightarrow> guard s c \<Longrightarrow> inv (step s c)"
begin

lemma reachable_inv: "reachable init guard step s \<Longrightarrow> inv s"
  by (induction rule: reachable.induct) (auto intro: inv_init inv_step)

end

section \<open>Lists\<close>

text \<open>\<open>iter().find(p)\<close> is \<^const>\<open>List.find\<close>; what it returns satisfies the test.\<close>

lemma find_SomeD: "List.find P xs = Some x \<Longrightarrow> x \<in> set xs \<and> P x"
  by (induction xs) (auto split: if_splits)

lemma find_None_iff': "List.find P xs = None \<longleftrightarrow> (\<forall>x \<in> set xs. \<not> P x)"
  by (induction xs) auto

lemma find_unique:
  assumes "x \<in> set xs" "P x" "\<And>y. y \<in> set xs \<Longrightarrow> P y \<Longrightarrow> y = x"
  shows "List.find P xs = Some x"
proof (cases "List.find P xs")
  case None
  then have "\<not> P x" using assms(1) by (simp add: find_None_iff')
  with assms(2) show ?thesis by contradiction
next
  case (Some y)
  then have "y = x" by (metis find_SomeD assms(3))
  with Some show ?thesis by simp
qed

text \<open>\<open>Iterator::last\<close> and \<open>Vec::last\<close> of an empty list are nothing.\<close>

definition last_opt :: "'a list \<Rightarrow> 'a option" where
  "last_opt xs = (if xs = [] then None else Some (last xs))"

lemma last_opt_simps [simp]:
  "last_opt [] = None"
  "last_opt (xs @ [x]) = Some x"
  by (simp_all add: last_opt_def)

end
