(* ===== verification/Rust_Text.thy ===== *)
theory Rust_Text
  imports Sproyt_Prelude "HOL-Library.List_Lexorder"
begin

text \<open>
  Rust strings, and the validated text types of \<open>crates/sproyt-protocol/src/text.rs\<close>:
  message bodies, channel slugs, display names and handles, with the error values their
  constructors return.

  A \<open>String\<close> is the list of its Unicode scalar values; \<open>len()\<close> counts the bytes of its
  UTF-8 encoding and \<open>chars()\<close> is the list itself. The two places where the code consults
  the Unicode character tables beyond white space (\<open>to_lowercase\<close> and
  \<open>char::is_alphanumeric\<close>) take those tables as an argument.
\<close>

section \<open>Strings\<close>

type_synonym rchar = nat
type_synonym rstr = "rchar list"

definition lit :: "string \<Rightarrow> rstr" where
  "lit s = map of_char s"

lemma lit_Nil_iff [simp]: "lit s = [] \<longleftrightarrow> s = []"
  by (simp add: lit_def)

definition len_utf8 :: "rchar \<Rightarrow> nat" where
  "len_utf8 c = (if c < 0x80 then 1 else if c < 0x800 then 2 else if c < 0x10000 then 3 else 4)"

definition utf8_len :: "rstr \<Rightarrow> nat" where
  "utf8_len s = sum_list (map len_utf8 s)"

lemma len_utf8_bounds: "1 \<le> len_utf8 c \<and> len_utf8 c \<le> 4"
  by (simp add: len_utf8_def)

lemma utf8_len_simps [simp]:
  "utf8_len [] = 0"
  "utf8_len (c # s) = len_utf8 c + utf8_len s"
  "utf8_len (s @ t) = utf8_len s + utf8_len t"
  by (simp_all add: utf8_len_def)

lemma length_le_utf8_len: "length s \<le> utf8_len s"
proof (induction s)
  case (Cons c s)
  with len_utf8_bounds [of c] show ?case by simp
qed simp

lemma utf8_len_eq_0 [simp]: "utf8_len s = 0 \<longleftrightarrow> s = []"
  using length_le_utf8_len [of s] by (cases s) auto

text \<open>The code points with the Unicode property \<open>White_Space\<close>.\<close>

definition is_whitespace :: "rchar \<Rightarrow> bool" where
  "is_whitespace c \<longleftrightarrow>
     (0x09 \<le> c \<and> c \<le> 0x0D) \<or> c = 0x20 \<or> c = 0x85 \<or> c = 0xA0 \<or> c = 0x1680 \<or>
     (0x2000 \<le> c \<and> c \<le> 0x200A) \<or> c = 0x2028 \<or> c = 0x2029 \<or> c = 0x202F \<or> c = 0x205F \<or> c = 0x3000"

text \<open>General category \<open>Cc\<close>.\<close>

definition is_control :: "rchar \<Rightarrow> bool" where
  "is_control c \<longleftrightarrow> c < 0x20 \<or> (0x7F \<le> c \<and> c < 0xA0)"

definition trim :: "rstr \<Rightarrow> rstr" where
  "trim s = rev (dropWhile is_whitespace (rev (dropWhile is_whitespace s)))"

lemma set_trim_subset: "set (trim s) \<subseteq> set s"
  by (metis set_dropWhileD set_rev subsetI trim_def)

lemma utf8_len_dropWhile: "utf8_len (dropWhile P s) \<le> utf8_len s"
  by (induction s) auto

lemma utf8_len_rev [simp]: "utf8_len (rev s) = utf8_len s"
  by (induction s) auto

lemma utf8_len_trim: "utf8_len (trim s) \<le> utf8_len s"
  unfolding trim_def
  by (metis utf8_len_rev utf8_len_dropWhile le_trans)

lemma trim_no_whitespace:
  assumes "\<forall>c \<in> set s. \<not> is_whitespace c"
  shows "trim s = s"
proof -
  have "dropWhile is_whitespace t = t" if "\<forall>c \<in> set t. \<not> is_whitespace c" for t
    using that by (cases t) simp_all
  from this [of s] this [of "rev s"] assms show ?thesis
    by (simp add: trim_def)
qed

lemma trim_ends:
  "trim s \<noteq> [] \<Longrightarrow> \<not> is_whitespace (hd (trim s)) \<and> \<not> is_whitespace (last (trim s))"
proof -
  assume ne: "trim s \<noteq> []"
  let ?d = "dropWhile is_whitespace s"
  have "trim s = rev (dropWhile is_whitespace (rev ?d))" by (simp add: trim_def)
  with ne have r: "dropWhile is_whitespace (rev ?d) \<noteq> []" by simp
  then have last: "\<not> is_whitespace (last (trim s))"
    using hd_dropWhile [OF r] by (simp add: trim_def last_rev)
  have d: "?d \<noteq> []"
    using r by (metis dropWhile.simps(1) rev.simps(1))
  have "\<exists>zs. ?d = trim s @ zs"
  proof -
    have "rev ?d = takeWhile is_whitespace (rev ?d) @ dropWhile is_whitespace (rev ?d)" by simp
    then have "?d = rev (dropWhile is_whitespace (rev ?d)) @ rev (takeWhile is_whitespace (rev ?d))"
      by (metis rev_append rev_rev_ident)
    then show ?thesis by (auto simp: trim_def)
  qed
  then have "hd (trim s) = hd ?d" using ne by (metis hd_append2)
  with hd_dropWhile [OF d] have "\<not> is_whitespace (hd (trim s))" by simp
  with last show ?thesis by simp
qed

lemma trim_id:
  assumes "s \<noteq> []" "\<not> is_whitespace (hd s)" "\<not> is_whitespace (last s)"
  shows "trim s = s"
proof -
  from assms have "dropWhile is_whitespace s = s" by (cases s) auto
  moreover from assms have "dropWhile is_whitespace (rev s) = rev s"
    by (cases s rule: rev_cases) auto
  ultimately show ?thesis by (simp add: trim_def)
qed

lemma trim_idem [simp]: "trim (trim s) = trim s"
proof (cases "trim s = []")
  case True
  have "trim [] = []" by (simp add: trim_def)
  with True show ?thesis by simp
next
  case False
  with trim_ends [OF False] show ?thesis by (blast intro: trim_id)
qed

section \<open>Unicode tables\<close>

text \<open>
  \<open>str::to_lowercase\<close> (which maps one scalar to several and looks at the context of a sigma)
  and \<open>char::is_alphanumeric\<close> consult tables generated from the Unicode character database.
\<close>

record unicode =
  to_lowercase :: "rstr \<Rightarrow> rstr"
  is_alphanumeric :: "rchar \<Rightarrow> bool"

definition is_ascii_lower :: "rchar \<Rightarrow> bool" where
  "is_ascii_lower c \<longleftrightarrow> 97 \<le> c \<and> c \<le> 122"

definition is_ascii_upper :: "rchar \<Rightarrow> bool" where
  "is_ascii_upper c \<longleftrightarrow> 65 \<le> c \<and> c \<le> 90"

definition is_ascii_digit :: "rchar \<Rightarrow> bool" where
  "is_ascii_digit c \<longleftrightarrow> 48 \<le> c \<and> c \<le> 57"

definition ascii_lower :: "rchar \<Rightarrow> rchar" where
  "ascii_lower c = (if is_ascii_upper c then c + 32 else c)"

text \<open>
  What the code relies on: on ASCII the tables are the ASCII ones, no character disappears
  under lower-casing, and a lower-cased string has at most as many scalars as its source has
  UTF-8 bytes (the one scalar with a longer image, U+0130, has two bytes and two images).
\<close>

definition unicode_facts :: "unicode \<Rightarrow> bool" where
  "unicode_facts u \<longleftrightarrow>
     (\<forall>s. (\<forall>c \<in> set s. c < 128) \<longrightarrow> to_lowercase u s = map ascii_lower s) \<and>
     (\<forall>c. c < 128 \<longrightarrow> is_alphanumeric u c = (is_ascii_lower c \<or> is_ascii_upper c \<or> is_ascii_digit c)) \<and>
     (\<forall>s. s \<noteq> [] \<longrightarrow> to_lowercase u s \<noteq> []) \<and>
     (\<forall>s. length (to_lowercase u s) \<le> utf8_len s)"

lemma unicode_factsD:
  assumes "unicode_facts u"
  shows "\<forall>c \<in> set s. c < 128 \<Longrightarrow> to_lowercase u s = map ascii_lower s"
    and "c < 128 \<Longrightarrow> is_alphanumeric u c = (is_ascii_lower c \<or> is_ascii_upper c \<or> is_ascii_digit c)"
    and "s \<noteq> [] \<Longrightarrow> to_lowercase u s \<noteq> []"
    and "length (to_lowercase u s) \<le> utf8_len s"
  using assms unfolding unicode_facts_def by blast+

text \<open>
  A table of the shape of the database, for evaluation: ASCII letters and one pair of letters
  outside ASCII whose lower case has the longer encoding (U+023A and U+2C65).
\<close>

definition sample_lower :: "rchar \<Rightarrow> rchar" where
  "sample_lower c = (if c = 0x23A then 0x2C65 else ascii_lower c)"

definition sample_unicode :: unicode where
  "sample_unicode = \<lparr> to_lowercase = map sample_lower,
     is_alphanumeric = (\<lambda>c. is_ascii_lower c \<or> is_ascii_upper c \<or> is_ascii_digit c \<or> c = 0x23A \<or> c = 0x2C65) \<rparr>"

lemma sample_unicode_facts: "unicode_facts sample_unicode"
  by (auto simp: unicode_facts_def sample_unicode_def sample_lower_def length_le_utf8_len)

section \<open>Validation errors\<close>

datatype text_validation_error =
    Empty string
  | InvalidSlug
  | InvalidHandle
  | InvalidSequence
  | InvalidReaction
  | InvalidCircleName
  | SequenceOverflow
  | InvalidUuid string
  | TooLarge string nat

fun dec_digits :: "nat \<Rightarrow> rstr" where
  "dec_digits n = (if n < 10 then [48 + n] else dec_digits (n div 10) @ [48 + n mod 10])"

declare dec_digits.simps [simp del]

fun text_error_display :: "text_validation_error \<Rightarrow> rstr" where
  "text_error_display (Empty field) = lit field @ lit '' cannot be empty''"
| "text_error_display InvalidSlug =
     lit ''channel slug can only contain lowercase letters, numbers, '' @ lit [CHR 0x27, CHR ''-'', CHR 0x27] @
     lit '' and '' @ lit [CHR 0x27, CHR ''_'', CHR 0x27]"
| "text_error_display InvalidHandle =
     lit ''handle can only contain letters, numbers, '' @ lit [CHR 0x27, CHR ''.'', CHR 0x27] @ lit '', '' @
     lit [CHR 0x27, CHR ''-'', CHR 0x27] @ lit '' and '' @ lit [CHR 0x27, CHR ''_'', CHR 0x27]"
| "text_error_display InvalidSequence = lit ''channel sequence cannot be negative''"
| "text_error_display InvalidCircleName = lit ''circle name must contain 1 to 120 characters''"
| "text_error_display InvalidReaction = lit ''reaction emoji is not supported''"
| "text_error_display SequenceOverflow = lit ''channel sequence is exhausted''"
| "text_error_display (InvalidUuid field) = lit field @ lit '' must be a UUID''"
| "text_error_display (TooLarge field max_bytes) =
     lit field @ lit '' cannot exceed '' @ dec_digits max_bytes @ lit '' bytes''"

section \<open>Validated text\<close>

definition bounded_non_empty :: "rstr \<Rightarrow> string \<Rightarrow> nat \<Rightarrow> (text_validation_error, rstr) result" where
  "bounded_non_empty value field max_bytes =
     (let value = trim value in
      if value = [] then Inl (Empty field)
      else if utf8_len value > max_bytes then Inl (TooLarge field max_bytes)
      else Inr value)"

datatype message_body = MessageBody (body_str: rstr)
datatype channel_slug = ChannelSlug (slug_str: rstr)
datatype display_name = DisplayName (name_str: rstr)
datatype handle = Handle (handle_str: rstr)

definition message_body_max_bytes :: nat where
  "message_body_max_bytes = 64 * 1024"

definition message_body_new :: "rstr \<Rightarrow> (text_validation_error, message_body) result" where
  "message_body_new value =
     map_sum id MessageBody (bounded_non_empty value ''message body'' message_body_max_bytes)"

definition slug_char :: "rchar \<Rightarrow> bool" where
  "slug_char c \<longleftrightarrow> is_ascii_lower c \<or> is_ascii_digit c \<or> c = 45 \<or> c = 95"

definition channel_slug_max_bytes :: nat where
  "channel_slug_max_bytes = 80"

definition channel_slug_new :: "unicode \<Rightarrow> rstr \<Rightarrow> (text_validation_error, channel_slug) result" where
  "channel_slug_new u value =
     result_bind (bounded_non_empty value ''channel slug'' channel_slug_max_bytes)
       (\<lambda>value. let normalized = to_lowercase u value in
          if \<not> list_all slug_char normalized then Inl InvalidSlug
          else Inr (ChannelSlug normalized))"

definition circle_name :: "rstr \<Rightarrow> (text_validation_error, display_name) result" where
  "circle_name value =
     (let value = trim value in
      if value = [] \<or> length value > 120 then Inl InvalidCircleName
      else Inr (DisplayName value))"

definition display_name_max_bytes :: nat where
  "display_name_max_bytes = 120"

definition display_name_new :: "rstr \<Rightarrow> (text_validation_error, display_name) result" where
  "display_name_new value =
     map_sum id DisplayName (bounded_non_empty value ''display name'' display_name_max_bytes)"

definition handle_max_bytes :: nat where
  "handle_max_bytes = 80"

text \<open>The loop of \<open>with_suffix\<close>: characters are pushed until one does not fit.\<close>

fun push_while_fits :: "nat \<Rightarrow> rstr \<Rightarrow> rstr \<Rightarrow> rstr" where
  "push_while_fits limit base [] = base"
| "push_while_fits limit base (c # cs) =
     (if utf8_len base + len_utf8 c > limit then base else push_while_fits limit (base @ [c]) cs)"

definition with_suffix :: "handle \<Rightarrow> u32 \<Rightarrow> handle" where
  "with_suffix h ordinal =
     (if ordinal \<le> 1 then h
      else let suffix = 45 # dec_digits (unat ordinal);
               limit = handle_max_bytes - utf8_len suffix;
               base = push_while_fits limit [] (handle_str h)
           in Handle (base @ suffix))"

definition handle_char :: "unicode \<Rightarrow> rchar \<Rightarrow> bool" where
  "handle_char u c \<longleftrightarrow> is_alphanumeric u c \<or> c = 95 \<or> c = 45 \<or> c = 46"

definition handle_new :: "unicode \<Rightarrow> rstr \<Rightarrow> (text_validation_error, handle) result" where
  "handle_new u value =
     result_bind (bounded_non_empty value ''handle'' handle_max_bytes)
       (\<lambda>value. let normalized = to_lowercase u value in
          if \<not> list_all (handle_char u) normalized then Inl InvalidHandle
          else Inr (Handle normalized))"

fun from_external_loop :: "unicode \<Rightarrow> rstr \<Rightarrow> rstr \<Rightarrow> rstr" where
  "from_external_loop u normalized [] = normalized"
| "from_external_loop u normalized (c # cs) =
     (if \<not> handle_char u c then from_external_loop u normalized cs
      else if utf8_len normalized + len_utf8 c > handle_max_bytes then normalized
      else from_external_loop u (normalized @ [c]) cs)"

definition from_external :: "unicode \<Rightarrow> rstr \<Rightarrow> handle" where
  "from_external u value =
     (let normalized = from_external_loop u [] (to_lowercase u (trim value)) in
      Handle (if normalized = [] then lit ''user'' else normalized))"


text \<open>The equations that evaluate the text functions on literals.\<close>

lemmas text_eval = lit_def trim_def is_whitespace_def is_control_def len_utf8_def ascii_lower_def
  is_ascii_lower_def is_ascii_upper_def is_ascii_digit_def sample_unicode_def sample_lower_def
  bounded_non_empty_def slug_char_def channel_slug_max_bytes_def channel_slug_new_def
  message_body_new_def message_body_max_bytes_def display_name_new_def display_name_max_bytes_def
  circle_name_def handle_max_bytes_def handle_char_def handle_new_def with_suffix_def
  from_external_def dec_digits.simps

section \<open>What the constructors accept\<close>

lemma bounded_non_empty_Inr:
  "bounded_non_empty v f m = Inr t \<longleftrightarrow> t = trim v \<and> t \<noteq> [] \<and> utf8_len t \<le> m"
  by (auto simp: bounded_non_empty_def Let_def)

lemma bounded_non_empty_trim: "bounded_non_empty (trim v) f m = bounded_non_empty v f m"
  by (simp add: bounded_non_empty_def)

lemma map_sum_id_Inr: "map_sum id f r = Inr b \<longleftrightarrow> (\<exists>a. r = Inr a \<and> b = f a)"
  by (cases r) auto

lemma slug_char_not_whitespace: "slug_char c \<Longrightarrow> \<not> is_whitespace c"
  by (auto simp: slug_char_def is_whitespace_def is_ascii_lower_def is_ascii_digit_def)

lemma slug_char_ascii: "slug_char c \<Longrightarrow> c < 128 \<and> ascii_lower c = c"
  by (auto simp: slug_char_def is_ascii_lower_def is_ascii_digit_def ascii_lower_def is_ascii_upper_def)

lemma utf8_len_ascii: "\<forall>c \<in> set s. c < 128 \<Longrightarrow> utf8_len s = length s"
  by (induction s) (auto simp: len_utf8_def)

lemma channel_slug_new_Inr:
  "channel_slug_new u v = Inr s \<longleftrightarrow>
     trim v \<noteq> [] \<and> utf8_len (trim v) \<le> channel_slug_max_bytes \<and>
     list_all slug_char (to_lowercase u (trim v)) \<and> s = ChannelSlug (to_lowercase u (trim v))"
  by (auto simp: channel_slug_new_def result_bind_Inr bounded_non_empty_Inr Let_def)

lemma slug_text_canonical:
  assumes "unicode_facts u" "list_all slug_char t" "t \<noteq> []" "utf8_len t \<le> channel_slug_max_bytes"
  shows "channel_slug_new u t = Inr (ChannelSlug t)"
proof -
  have ascii: "\<forall>c \<in> set t. c < 128" "map ascii_lower t = t"
    using assms(2) by (auto simp: list_all_iff slug_char_ascii intro: map_idI)
  have "trim t = t"
    using assms(2) by (intro trim_no_whitespace) (auto simp: list_all_iff slug_char_not_whitespace)
  moreover have "to_lowercase u t = t"
    using unicode_factsD(1) [OF assms(1) ascii(1)] ascii(2) by simp
  ultimately show ?thesis
    using assms by (simp add: channel_slug_new_Inr)
qed

text \<open>
  C32. A channel slug that the constructor accepts is non-empty, holds only lower-case ASCII
  letters, digits, \<open>-\<close> and \<open>_\<close>, has at most 80 bytes, and is canonical: constructing it again
  from its own text gives the same slug.
\<close>

theorem channel_slug_canonical:
  assumes "unicode_facts u" and "channel_slug_new u value = Inr s"
  shows "slug_str s \<noteq> [] \<and> list_all slug_char (slug_str s) \<and>
    utf8_len (slug_str s) \<le> channel_slug_max_bytes \<and> channel_slug_new u (slug_str s) = Inr s"
proof -
  let ?n = "to_lowercase u (trim value)"
  from assms(2) have v: "trim value \<noteq> []" "utf8_len (trim value) \<le> channel_slug_max_bytes"
    "list_all slug_char ?n" "s = ChannelSlug ?n"
    by (simp_all add: channel_slug_new_Inr)
  have ne: "?n \<noteq> []" using unicode_factsD(3) [OF assms(1)] v(1) by simp
  have "utf8_len ?n = length ?n"
    using v(3) by (intro utf8_len_ascii) (auto simp: list_all_iff slug_char_ascii)
  then have len: "utf8_len ?n \<le> channel_slug_max_bytes"
    using unicode_factsD(4) [OF assms(1), of "trim value"] v(2) by simp
  from slug_text_canonical [OF assms(1) v(3) ne len] v ne len show ?thesis by simp
qed

theorem channel_slug_canonical_witness:
  "\<exists>s. channel_slug_new sample_unicode (lit ''  Fjord-Chat_1 '') = Inr s \<and>
     slug_str s = lit ''fjord-chat_1'' \<and> list_all slug_char (slug_str s) \<and>
     channel_slug_new sample_unicode (slug_str s) = Inr s"
proof -
  have new: "channel_slug_new sample_unicode (lit ''  Fjord-Chat_1 '') = Inr (ChannelSlug (lit ''fjord-chat_1''))"
    by (simp add: text_eval)
  from channel_slug_canonical [OF sample_unicode_facts new] show ?thesis
    by (intro exI [of _ "ChannelSlug (lit ''fjord-chat_1'')"] conjI new) (simp_all only: channel_slug.sel)
qed

text \<open>
  C33. Message bodies and display names: the constructor succeeds exactly on the texts that are
  non-empty after trimming and fit the byte limit; what it returns is the trimmed text, and
  constructing it again changes nothing.
\<close>

theorem text_constructors_canonical:
  "(message_body_new v = Inr b \<longleftrightarrow>
      b = MessageBody (trim v) \<and> trim v \<noteq> [] \<and> utf8_len (trim v) \<le> 64 * 1024) \<and>
   (display_name_new v = Inr d \<longleftrightarrow>
      d = DisplayName (trim v) \<and> trim v \<noteq> [] \<and> utf8_len (trim v) \<le> 120) \<and>
   (circle_name v = Inr d \<longleftrightarrow> d = DisplayName (trim v) \<and> trim v \<noteq> [] \<and> length (trim v) \<le> 120) \<and>
   message_body_new (trim v) = message_body_new v \<and>
   display_name_new (trim v) = display_name_new v \<and> circle_name (trim v) = circle_name v"
  by (simp add: message_body_new_def display_name_new_def circle_name_def map_sum_id_Inr Let_def
      bounded_non_empty_Inr bounded_non_empty_trim message_body_max_bytes_def display_name_max_bytes_def)
     auto

section \<open>Handles\<close>

lemma push_while_fits_len:
  "utf8_len base \<le> limit \<Longrightarrow> utf8_len (push_while_fits limit base cs) \<le> limit"
  by (induction limit base cs rule: push_while_fits.induct) auto

lemma dec_digits_range: "\<forall>c \<in> set (dec_digits n). 48 \<le> c \<and> c \<le> 57"
proof (induction n rule: dec_digits.induct)
  case (1 n)
  then show ?case by (cases "n < 10") (auto simp: dec_digits.simps [of n])
qed

lemma dec_digits_length: "n < 10 ^ Suc k \<Longrightarrow> length (dec_digits n) \<le> Suc k"
proof (induction k arbitrary: n)
  case 0
  then show ?case by (simp add: dec_digits.simps [of n])
next
  case (Suc k)
  show ?case
  proof (cases "n < 10")
    case True
    then show ?thesis by (simp add: dec_digits.simps [of n])
  next
    case False
    from Suc.prems have "n div 10 < 10 ^ Suc k" by (simp add: div_less_iff_less_mult)
    from Suc.IH [OF this] False show ?thesis by (simp add: dec_digits.simps [of n])
  qed
qed

definition dec_value :: "rstr \<Rightarrow> nat" where
  "dec_value s = foldl (\<lambda>a c. a * 10 + (c - 48)) 0 s"

lemma dec_value_digits: "dec_value (dec_digits n) = n"
proof (induction n rule: dec_digits.induct)
  case (1 n)
  then show ?case
    by (cases "n < 10") (auto simp: dec_digits.simps [of n] dec_value_def)
qed

lemma dec_digits_inj: "dec_digits n = dec_digits m \<Longrightarrow> n = m"
  by (metis dec_value_digits)

lemma append_sep_inj:
  assumes "a @ x # d = b @ x # e" "x \<notin> set d" "x \<notin> set e"
  shows "d = e"
proof -
  have "takeWhile (\<lambda>c. c \<noteq> x) (rev (a @ x # d)) = rev d"
    using assms(2) by (simp add: takeWhile_append)
  moreover have "takeWhile (\<lambda>c. c \<noteq> x) (rev (b @ x # e)) = rev e"
    using assms(3) by (simp add: takeWhile_append)
  ultimately show ?thesis using assms(1) by (metis rev_rev_ident)
qed

lemma with_suffix_first [simp]: "ordinal \<le> 1 \<Longrightarrow> with_suffix h ordinal = h"
  by (simp add: with_suffix_def)

text \<open>
  C34. A numbered handle fits the 80-byte limit whatever the base handle is, and two different
  ordinals from 2 on never give the same handle, so the search for a free handle meets a new
  candidate at every step.
\<close>

theorem with_suffix_bounded_and_injective:
  assumes "2 \<le> ordinal"
  shows "utf8_len (handle_str (with_suffix h ordinal)) \<le> handle_max_bytes \<and>
    (\<forall>other. 2 \<le> other \<longrightarrow> with_suffix h other = with_suffix h ordinal \<longrightarrow> other = ordinal)"
proof -
  have big: "\<not> n \<le> 1" if "2 \<le> n" for n :: u32
    using that by (auto simp: word_le_nat_alt)
  let ?suffix = "\<lambda>n :: u32. (45::nat) # dec_digits (unat n)"
  have ascii: "utf8_len (?suffix n) = length (?suffix n)" for n :: u32
    using dec_digits_range [of "unat n"] by (intro utf8_len_ascii) force
  have "unat n < 10 ^ Suc 9" for n :: u32
    using unsigned_less [of n, where ?'a = nat] by simp
  from dec_digits_length [OF this, of ordinal]
  have fits: "utf8_len (?suffix ordinal) \<le> handle_max_bytes"
    unfolding ascii by (simp add: handle_max_bytes_def)
  have bound: "utf8_len (handle_str (with_suffix h ordinal)) \<le> handle_max_bytes"
    using big [OF assms] fits
      push_while_fits_len [of "[]" "handle_max_bytes - utf8_len (?suffix ordinal)" "handle_str h"]
    by (simp add: with_suffix_def Let_def)
  have "other = ordinal" if o: "2 \<le> other" "with_suffix h other = with_suffix h ordinal" for other
  proof -
    have sep: "45 \<notin> set (dec_digits n)" for n
      using dec_digits_range [of n] by auto
    from o(2) have "dec_digits (unat other) = dec_digits (unat ordinal)"
      using big [OF assms] big [OF o(1)]
      by (auto simp: with_suffix_def Let_def intro: append_sep_inj [OF _ sep sep])
    then show ?thesis by (metis dec_digits_inj word_unat_eq_iff)
  qed
  with bound show ?thesis by blast
qed

theorem with_suffix_bounded_and_injective_witness:
  "(2::u32) \<le> 7 \<and> handle_str (with_suffix (Handle (lit ''kari'')) 7) = lit ''kari-7'' \<and>
   utf8_len (handle_str (with_suffix (Handle (lit ''kari'')) 7)) \<le> handle_max_bytes"
proof -
  have h: "(2::u32) \<le> 7" by simp
  have e: "handle_str (with_suffix (Handle (lit ''kari'')) 7) = lit ''kari-7''"
    by (simp add: text_eval word_le_nat_alt)
  show ?thesis using h e with_suffix_bounded_and_injective [OF h, of "Handle (lit ''kari'')"] by blast
qed

lemma from_external_loop_valid:
  "utf8_len n \<le> handle_max_bytes \<Longrightarrow> list_all (handle_char u) n \<Longrightarrow>
   utf8_len (from_external_loop u n cs) \<le> handle_max_bytes \<and>
   list_all (handle_char u) (from_external_loop u n cs)"
  by (induction u n cs rule: from_external_loop.induct) auto

text \<open>
  C35. Canonicalising an external user name always gives a usable handle: not empty, at most 80
  bytes, and made of letters, digits, \<open>_\<close>, \<open>-\<close> and \<open>.\<close> only.
\<close>

theorem from_external_valid:
  assumes "unicode_facts u"
  shows "handle_str (from_external u value) \<noteq> [] \<and>
    utf8_len (handle_str (from_external u value)) \<le> handle_max_bytes \<and>
    list_all (handle_char u) (handle_str (from_external u value))"
proof -
  let ?n = "from_external_loop u [] (to_lowercase u (trim value))"
  have n: "utf8_len ?n \<le> handle_max_bytes" "list_all (handle_char u) ?n"
    using from_external_loop_valid [of "[]" u] by simp_all
  have user: "list_all (handle_char u) (lit ''user'')" "utf8_len (lit ''user'') \<le> handle_max_bytes"
    using unicode_factsD(2) [OF assms]
    by (simp_all add: lit_def handle_char_def handle_max_bytes_def len_utf8_def is_ascii_lower_def)
  show ?thesis
  proof (cases "?n = []")
    case True
    with user show ?thesis by (simp add: from_external_def)
  next
    case False
    with n show ?thesis by (simp add: from_external_def)
  qed
qed

theorem from_external_valid_witness:
  "unicode_facts sample_unicode \<and>
   handle_str (from_external sample_unicode (lit '' Kari Nordmann! '')) = lit ''karinordmann'' \<and>
   list_all (handle_char sample_unicode) (handle_str (from_external sample_unicode (lit '' Kari Nordmann! '')))"
proof -
  have e: "handle_str (from_external sample_unicode (lit '' Kari Nordmann! '')) = lit ''karinordmann''"
    by (simp add: text_eval)
  show ?thesis
    using e sample_unicode_facts from_external_valid [OF sample_unicode_facts, of "lit '' Kari Nordmann! ''"]
    by blast
qed

text \<open>
  C40. \<open>Handle::new\<close> checks the 80-byte limit before it lower-cases: where the lower case of a
  letter has a longer encoding than the letter, as U+023A (two bytes) and U+2C65 (three), it
  accepts an 80-byte text and returns a handle of 120 bytes.
\<close>

theorem handle_new_exceeds_limit:
  assumes "to_lowercase u (replicate 40 0x23A) = replicate 40 0x2C65" and "is_alphanumeric u 0x2C65"
  shows "\<exists>h. handle_new u (replicate 40 0x23A) = Inr h \<and> utf8_len (handle_str h) = 120 \<and>
    handle_max_bytes < utf8_len (handle_str h)"
proof -
  let ?v = "replicate 40 (0x23A::nat)"
  have trim: "trim ?v = ?v"
    by (rule trim_no_whitespace) (simp add: is_whitespace_def)
  have len: "utf8_len ?v = 80" by (simp add: utf8_len_def map_replicate sum_list_replicate len_utf8_def)
  have "bounded_non_empty ?v ''handle'' handle_max_bytes = Inr ?v"
    using trim len by (simp add: bounded_non_empty_Inr handle_max_bytes_def)
  then have "handle_new u ?v = Inr (Handle (replicate 40 0x2C65))"
    using assms by (simp add: handle_new_def handle_char_def list_all_iff)
  moreover have "utf8_len (replicate 40 (0x2C65::nat)) = 120"
    by (simp add: utf8_len_def map_replicate sum_list_replicate len_utf8_def)
  ultimately show ?thesis by (simp add: handle_max_bytes_def)
qed

theorem handle_new_exceeds_limit_witness:
  "to_lowercase sample_unicode (replicate 40 0x23A) = replicate 40 0x2C65 \<and>
   is_alphanumeric sample_unicode 0x2C65 \<and>
   (\<exists>h. handle_new sample_unicode (replicate 40 0x23A) = Inr h \<and> handle_max_bytes < utf8_len (handle_str h))"
proof -
  have a: "to_lowercase sample_unicode (replicate 40 0x23A) = replicate 40 0x2C65"
    by (simp add: sample_unicode_def sample_lower_def map_replicate)
  have b: "is_alphanumeric sample_unicode 0x2C65"
    by (simp add: sample_unicode_def)
  show ?thesis using a b handle_new_exceeds_limit [OF a b] by blast
qed

end
