(* ===== verification/Protocol_Model.thy ===== *)
theory Protocol_Model
  imports Rust_Text
begin

text \<open>
  The vocabulary of the wire protocol, crate \<open>sproyt-protocol\<close>: identifiers (\<open>ids.rs\<close>), the
  records and enums of the data model (\<open>models.rs\<close>), the command structures (\<open>commands.rs\<close>), the
  published events (\<open>events.rs\<close>) and the version check and envelopes (\<open>lib.rs\<close>). An identifier
  is a newtype over a 128-bit UUID. The two functions of the \<open>uuid\<close> crate that the code calls,
  \<open>Uuid::parse_str\<close> and \<open>Uuid::new_v5\<close>, are arguments of the definitions that use them. A 64-bit
  float is kept as its bit pattern, which is what the equality of \<open>DirectActivity\<close> compares.
\<close>

section \<open>Identifiers\<close>

datatype user_id = UserId (user_uuid: uuid)
datatype channel_id = ChannelId (channel_uuid: uuid)
datatype circle_id = CircleId (circle_uuid: uuid)
datatype invitation_id = InvitationId (invitation_uuid: uuid)
datatype message_id = MessageId (message_uuid: uuid)
datatype media_id = MediaId (media_uuid: uuid)
datatype channel_sequence = ChannelSequence (seq_u64: u64)

text \<open>The derived orders of the newtypes are those of the values they hold.\<close>

instantiation user_id :: linorder
begin

definition less_eq_user_id :: "user_id \<Rightarrow> user_id \<Rightarrow> bool" where
  "less_eq_user_id a b \<longleftrightarrow> user_uuid a \<le> user_uuid b"

definition less_user_id :: "user_id \<Rightarrow> user_id \<Rightarrow> bool" where
  "less_user_id a b \<longleftrightarrow> user_uuid a < user_uuid b"

instance
  by intro_classes (auto simp: less_eq_user_id_def less_user_id_def user_id.expand)

end

instantiation circle_id :: linorder
begin

definition less_eq_circle_id :: "circle_id \<Rightarrow> circle_id \<Rightarrow> bool" where
  "less_eq_circle_id a b \<longleftrightarrow> circle_uuid a \<le> circle_uuid b"

definition less_circle_id :: "circle_id \<Rightarrow> circle_id \<Rightarrow> bool" where
  "less_circle_id a b \<longleftrightarrow> circle_uuid a < circle_uuid b"

instance
  by intro_classes (auto simp: less_eq_circle_id_def less_circle_id_def circle_id.expand)

end

instantiation message_id :: linorder
begin

definition less_eq_message_id :: "message_id \<Rightarrow> message_id \<Rightarrow> bool" where
  "less_eq_message_id a b \<longleftrightarrow> message_uuid a \<le> message_uuid b"

definition less_message_id :: "message_id \<Rightarrow> message_id \<Rightarrow> bool" where
  "less_message_id a b \<longleftrightarrow> message_uuid a < message_uuid b"

instance
  by intro_classes (auto simp: less_eq_message_id_def less_message_id_def message_id.expand)

end

instantiation channel_sequence :: linorder
begin

definition less_eq_channel_sequence :: "channel_sequence \<Rightarrow> channel_sequence \<Rightarrow> bool" where
  "less_eq_channel_sequence a b \<longleftrightarrow> seq_u64 a \<le> seq_u64 b"

definition less_channel_sequence :: "channel_sequence \<Rightarrow> channel_sequence \<Rightarrow> bool" where
  "less_channel_sequence a b \<longleftrightarrow> seq_u64 a < seq_u64 b"

instance
  by intro_classes
    (auto simp: less_eq_channel_sequence_def less_channel_sequence_def channel_sequence.expand)

end

lemmas seq_order = less_eq_channel_sequence_def less_channel_sequence_def

abbreviation seq_nat :: "channel_sequence \<Rightarrow> nat" where
  "seq_nat s \<equiv> unat (seq_u64 s)"

lemma seq_le_nat: "a \<le> b \<longleftrightarrow> seq_nat a \<le> seq_nat b"
  by (simp add: seq_order word_le_nat_alt)

lemma seq_less_nat: "a < b \<longleftrightarrow> seq_nat a < seq_nat b"
  by (simp add: seq_order word_less_nat_alt)

lemma seq_nat_inj: "seq_nat a = seq_nat b \<longleftrightarrow> a = b"
  by (metis channel_sequence.expand word_unat_eq_iff)

definition seq_default :: channel_sequence where
  "seq_default = ChannelSequence 0"

definition seq_first :: channel_sequence where
  "seq_first = ChannelSequence 1"

definition checked_next :: "channel_sequence \<Rightarrow> (text_validation_error, channel_sequence) result" where
  "checked_next s =
     (case checked_add_u64 (seq_u64 s) 1 of
        Some v \<Rightarrow> Inr (ChannelSequence v)
      | None \<Rightarrow> Inl SequenceOverflow)"

text \<open>\<open>TryFrom<i64>\<close>: the argument is the two's complement of the \<open>i64\<close>.\<close>

definition sequence_try_from :: "64 word \<Rightarrow> (text_validation_error, channel_sequence) result" where
  "sequence_try_from v = (if sint v < 0 then Inl InvalidSequence else Inr (ChannelSequence v))"

lemma checked_next_Inr:
  "checked_next s = Inr t \<longleftrightarrow> seq_nat t = Suc (seq_nat s)"
proof (cases "seq_nat s = 2 ^ 64 - 1")
  case True
  then have "checked_add_u64 (seq_u64 s) 1 = None"
    by (simp only: checked_add_u64_one_None)
  then have "checked_next s = Inl SequenceOverflow"
    by (simp add: checked_next_def)
  moreover have "seq_nat t < 2 ^ 64" using unsigned_less [of "seq_u64 t", where ?'a = nat] by simp
  ultimately show ?thesis using True by simp
next
  case False
  then have "Suc (seq_nat s) < 2 ^ 64" using unsigned_less [of "seq_u64 s", where ?'a = nat] by simp
  then have u: "unat (seq_u64 s + 1) = Suc (seq_nat s)"
    by (simp add: unat_word_ariths)
  have "checked_add_u64 (seq_u64 s) 1 = Some (seq_u64 s + 1)"
    using \<open>Suc (seq_nat s) < 2 ^ 64\<close> by (simp add: checked_add_u64_def)
  then have "checked_next s = Inr (ChannelSequence (seq_u64 s + 1))"
    by (simp add: checked_next_def)
  with u show ?thesis
    by (metis channel_sequence.exhaust_sel channel_sequence.sel sum.inject(2) word_unat_eq_iff)
qed

lemma checked_next_Inl:
  "checked_next s = Inl e \<longleftrightarrow> e = SequenceOverflow \<and> seq_nat s = 2 ^ 64 - 1"
  using checked_add_u64_one_None [of "seq_u64 s"]
  by (cases "checked_add_u64 (seq_u64 s) 1") (auto simp: checked_next_def)

text \<open>
  C38. The successor of a channel sequence is exact: it fails with \<open>SequenceOverflow\<close> exactly at
  the largest 64-bit value, and otherwise is the next larger sequence with nothing in between;
  reading a stored \<open>i64\<close> accepts exactly the non-negative values and keeps the number.
\<close>

theorem sequence_arithmetic_exact:
  "(checked_next s = Inl e \<longleftrightarrow> e = SequenceOverflow \<and> seq_nat s = 2 ^ 64 - 1) \<and>
   (checked_next s = Inr t \<longleftrightarrow> s < t \<and> \<not> (\<exists>m. s < m \<and> m < t)) \<and>
   (sequence_try_from v = Inr r \<longleftrightarrow> 0 \<le> sint v \<and> int (seq_nat r) = sint v)"
proof (intro conjI)
  show "checked_next s = Inl e \<longleftrightarrow> e = SequenceOverflow \<and> seq_nat s = 2 ^ 64 - 1"
    by (rule checked_next_Inl)
  show "checked_next s = Inr t \<longleftrightarrow> s < t \<and> \<not> (\<exists>m. s < m \<and> m < t)"
  proof
    assume "checked_next s = Inr t"
    then show "s < t \<and> \<not> (\<exists>m. s < m \<and> m < t)"
      by (auto simp: checked_next_Inr seq_less_nat)
  next
    assume t: "s < t \<and> \<not> (\<exists>m. s < m \<and> m < t)"
    show "checked_next s = Inr t"
    proof (cases "checked_next s")
      case (Inl a)
      then have "seq_nat s = 2 ^ 64 - 1" by (simp add: checked_next_Inl)
      moreover have "seq_nat t < 2 ^ 64" using unsigned_less [of "seq_u64 t", where ?'a = nat] by simp
      ultimately show ?thesis using t by (simp add: seq_less_nat)
    next
      case (Inr n)
      then have "seq_nat n = Suc (seq_nat s)" by (simp add: checked_next_Inr)
      then have "\<not> seq_nat n < seq_nat t" "seq_nat s < seq_nat t"
        using t by (metis lessI seq_less_nat)+
      with \<open>seq_nat n = Suc (seq_nat s)\<close> have "seq_nat t = Suc (seq_nat s)" by simp
      then show ?thesis by (simp add: checked_next_Inr)
    qed
  qed
  have nonneg: "sint v = int (unat v)" if "0 \<le> sint v"
    using that uint_sint [of v] sint_lt [of v] by (simp add: take_bit_int_eq_self)
  then show "sequence_try_from v = Inr r \<longleftrightarrow> 0 \<le> sint v \<and> int (seq_nat r) = sint v"
    by (cases r) (auto simp: sequence_try_from_def word_uint_eq_iff)
qed

section \<open>Parsing identifiers\<close>

definition non_empty :: "rstr \<Rightarrow> string \<Rightarrow> (text_validation_error, rstr) result" where
  "non_empty value field =
     (let value = trim value in if value = [] then Inl (Empty field) else Inr value)"

definition parse_uuid :: "(rstr \<Rightarrow> uuid option) \<Rightarrow> rstr \<Rightarrow> string \<Rightarrow> (text_validation_error, uuid) result" where
  "parse_uuid parse_str value field =
     result_bind (non_empty value field)
       (\<lambda>value. case parse_str value of Some i \<Rightarrow> Inr i | None \<Rightarrow> Inl (InvalidUuid field))"

definition user_id_new :: "(rstr \<Rightarrow> uuid option) \<Rightarrow> rstr \<Rightarrow> (text_validation_error, user_id) result" where
  "user_id_new parse_str value = map_sum id UserId (parse_uuid parse_str value ''user id'')"

definition channel_id_new :: "(rstr \<Rightarrow> uuid option) \<Rightarrow> rstr \<Rightarrow> (text_validation_error, channel_id) result" where
  "channel_id_new parse_str value = map_sum id ChannelId (parse_uuid parse_str value ''channel id'')"

definition media_id_new :: "(rstr \<Rightarrow> uuid option) \<Rightarrow> rstr \<Rightarrow> (text_validation_error, media_id) result" where
  "media_id_new parse_str value = map_sum id MediaId (parse_uuid parse_str value ''media id'')"

text \<open>\<open>url_v5\<close> is \<open>Uuid::new_v5(NAMESPACE_URL, _)\<close>.\<close>

definition user_id_named :: "(rstr \<Rightarrow> uuid) \<Rightarrow> rstr \<Rightarrow> user_id" where
  "user_id_named url_v5 value = UserId (url_v5 value)"

definition user_id_from_oidc :: "(rstr \<Rightarrow> uuid) \<Rightarrow> rstr \<Rightarrow> rstr \<Rightarrow> user_id" where
  "user_id_from_oidc url_v5 issuer subject = user_id_named url_v5 (issuer @ 58 # subject)"

section \<open>Enumerations\<close>

datatype principal_kind = Human | Agent
datatype channel_kind = Public | Local | Private
datatype membership_role = Owner | Moderator | Member | Observer
datatype circle_role = CircleOwner | CircleModerator | CircleMember

fun principal_kind_as_str :: "principal_kind \<Rightarrow> string" where
  "principal_kind_as_str Human = ''human''"
| "principal_kind_as_str Agent = ''agent''"

definition principal_kind_parse :: "string \<Rightarrow> principal_kind option" where
  "principal_kind_parse value =
     (if value = ''human'' then Some Human else if value = ''agent'' then Some Agent else None)"

fun channel_kind_as_str :: "channel_kind \<Rightarrow> string" where
  "channel_kind_as_str Public = ''public''"
| "channel_kind_as_str Local = ''local''"
| "channel_kind_as_str Private = ''private''"

definition channel_kind_parse :: "string \<Rightarrow> channel_kind option" where
  "channel_kind_parse value =
     (if value = ''public'' then Some Public else if value = ''local'' then Some Local
      else if value = ''private'' then Some Private else None)"

fun circle_role_as_str :: "circle_role \<Rightarrow> string" where
  "circle_role_as_str CircleOwner = ''owner''"
| "circle_role_as_str CircleModerator = ''moderator''"
| "circle_role_as_str CircleMember = ''member''"

definition circle_role_parse :: "string \<Rightarrow> circle_role option" where
  "circle_role_parse value =
     (if value = ''owner'' then Some CircleOwner else if value = ''moderator'' then Some CircleModerator
      else if value = ''member'' then Some CircleMember else None)"

fun membership_role_as_str :: "membership_role \<Rightarrow> string" where
  "membership_role_as_str Owner = ''owner''"
| "membership_role_as_str Moderator = ''moderator''"
| "membership_role_as_str Member = ''member''"
| "membership_role_as_str Observer = ''observer''"

definition membership_role_parse :: "string \<Rightarrow> membership_role option" where
  "membership_role_parse value =
     (if value = ''owner'' then Some Owner else if value = ''moderator'' then Some Moderator
      else if value = ''member'' then Some Member else if value = ''observer'' then Some Observer
      else None)"

text \<open>The conversion of \<open>commands.rs\<close> that repeats the table.\<close>

fun membership_role_into_str :: "membership_role \<Rightarrow> string" where
  "membership_role_into_str Owner = ''owner''"
| "membership_role_into_str Moderator = ''moderator''"
| "membership_role_into_str Member = ''member''"
| "membership_role_into_str Observer = ''observer''"

text \<open>
  C39. The stored names of the four enumerations round-trip: parsing accepts exactly the names
  that the printers give, and returns the value that was printed; the two printers of a
  membership role agree.
\<close>

theorem enum_names_roundtrip:
  "(principal_kind_parse s = Some k \<longleftrightarrow> s = principal_kind_as_str k) \<and>
   (channel_kind_parse s = Some c \<longleftrightarrow> s = channel_kind_as_str c) \<and>
   (circle_role_parse s = Some r \<longleftrightarrow> s = circle_role_as_str r) \<and>
   (membership_role_parse s = Some m \<longleftrightarrow> s = membership_role_as_str m) \<and>
   membership_role_into_str m = membership_role_as_str m"
proof (intro conjI)
  show "principal_kind_parse s = Some k \<longleftrightarrow> s = principal_kind_as_str k"
    by (cases k) (auto simp: principal_kind_parse_def)
  show "channel_kind_parse s = Some c \<longleftrightarrow> s = channel_kind_as_str c"
    by (cases c) (auto simp: channel_kind_parse_def)
  show "circle_role_parse s = Some r \<longleftrightarrow> s = circle_role_as_str r"
    by (cases r) (auto simp: circle_role_parse_def)
  show "membership_role_parse s = Some m \<longleftrightarrow> s = membership_role_as_str m"
    by (cases m) (auto simp: membership_role_parse_def)
  show "membership_role_into_str m = membership_role_as_str m"
    by (cases m) simp_all
qed

section \<open>The data model\<close>

type_synonym f64_bits = "64 word"
type_synonym i64 = int

record user =
  usr_id :: user_id
  usr_kind :: principal_kind
  usr_display_name :: display_name
  usr_handle :: "handle option"
  usr_external_provider :: "rstr option"
  usr_external_subject :: "rstr option"
  usr_created_at :: instant

record user_profile =
  prof_user :: user
  prof_early_adopter :: bool
  prof_status_text :: rstr
  prof_status_emoji :: rstr
  prof_status_expires_at :: "instant option"

record circle =
  crc_id :: circle_id
  crc_slug :: channel_slug
  crc_name :: display_name
  crc_created_by :: user_id
  crc_created_at :: instant

record circle_membership =
  cm_circle_id :: circle_id
  cm_user_id :: user_id
  cm_role :: circle_role
  cm_joined_at :: instant

record circle_invitation =
  inv_id :: invitation_id
  inv_circle_id :: circle_id
  inv_invited_by :: user_id
  inv_expires_at :: instant

record issued_invitation =
  issued_invitation :: circle_invitation
  issued_token :: rstr

datatype invitation_target =
    CircleTarget circle_id
  | ChannelTarget circle_id channel_id

datatype invitation_response = Declined | Accepted

record invitation_preview =
  prev_target :: invitation_target
  prev_circle_name :: display_name
  prev_channel_name :: "display_name option"
  prev_invited_by :: user_id
  prev_invited_by_name :: display_name
  prev_expires_at :: instant
  prev_response :: "invitation_response option"
  prev_accepted_count :: u32
  prev_declined_count :: u32

record issued_chat_invitation =
  ici_target :: invitation_target
  ici_token :: rstr
  ici_expires_at :: instant

record channel =
  ch_id :: channel_id
  ch_slug :: channel_slug
  ch_name :: display_name
  ch_kind :: channel_kind
  ch_circle_id :: "circle_id option"
  ch_created_by :: user_id

record accepted_chat_invitation =
  aci_target :: invitation_target
  aci_channel :: channel

record direct_activity =
  da_last_message_at :: "instant option"
  da_score :: f64_bits
  da_calculated_at :: instant

record channel_summary =
  cs_id :: channel_id
  cs_slug :: channel_slug
  cs_name :: display_name
  cs_kind :: channel_kind
  cs_circle_id :: "circle_id option"
  cs_direct_user_id :: "user_id option"
  cs_is_direct :: bool
  cs_is_personal :: bool
  cs_direct_activity :: "direct_activity option"
  cs_description :: rstr
  cs_role :: membership_role
  cs_last_read_sequence :: channel_sequence
  cs_latest_sequence :: channel_sequence

record discoverable_channel =
  dc_channel :: channel
  dc_description :: rstr

record membership =
  mb_channel_id :: channel_id
  mb_user_id :: user_id
  mb_role :: membership_role
  mb_last_read_sequence :: channel_sequence

record chat_message =
  msg_id :: message_id
  msg_channel_id :: channel_id
  msg_parent :: "message_id option"
  msg_sender_id :: user_id
  msg_sender_display_name :: display_name
  msg_body :: message_body
  msg_sequence :: channel_sequence
  msg_sent_at :: instant
  msg_edited_at :: "instant option"
  msg_deleted_at :: "instant option"

record thread_summary =
  ts_root_message_id :: message_id
  ts_reply_count :: u32
  ts_unread_count :: u32
  ts_latest_sequence :: channel_sequence

record message_reaction_summary =
  rs_message_id :: message_id
  rs_emoji :: rstr
  rs_count :: u32
  rs_reacted_by_me :: bool
  rs_user_ids :: "user_id list"

record message_reaction_change =
  rc_message_id :: message_id
  rc_channel_id :: channel_id
  rc_user_id :: user_id
  rc_emoji :: rstr
  rc_added :: bool
  rc_count :: u32

end
