(* ===== verification/Client_Core.thy ===== *)
theory Client_Core
  imports Protocol_Model
begin

text \<open>
  The browser-side transport decisions, crate \<open>sproyt-client-core\<close>: admission of an already
  persisted send and the durable-send state machine (\<open>lib.rs\<close>), session refresh and recovery
  (\<open>session.rs\<close>), and the raw 32-bit integer interfaces that the WebAssembly module exports.
\<close>

section \<open>Admission of a persisted send\<close>

record transport_readiness =
  connected :: bool
  subscribed_channel_id :: "rstr option"
  handoff_active :: bool

datatype send_admission = DispatchNow | QueueUntilSubscribed

definition admit_persisted_send :: "rstr \<Rightarrow> transport_readiness \<Rightarrow> send_admission" where
  "admit_persisted_send channel_id readiness =
     (if connected readiness \<and> \<not> handoff_active readiness \<and>
         subscribed_channel_id readiness = Some channel_id
      then DispatchNow else QueueUntilSubscribed)"

definition sproyt_admit_persisted_send :: "u32 \<Rightarrow> u32 \<Rightarrow> u32 \<Rightarrow> u32" where
  "sproyt_admit_persisted_send connected' channel_matches handoff_active' =
     (case admit_persisted_send (lit ''channel'')
        \<lparr> connected = (connected' \<noteq> 0),
          subscribed_channel_id = (if channel_matches \<noteq> 0 then Some (lit ''channel'') else None),
          handoff_active = (handoff_active' \<noteq> 0) \<rparr> of
        QueueUntilSubscribed \<Rightarrow> 0
      | DispatchNow \<Rightarrow> 1)"

section \<open>The durable-send state machine\<close>

datatype durable_send_state = Persisting | Queued | Dispatching | Uncertain | Acknowledged | Rejected

datatype durable_send_event =
    Ev_Persisted send_admission
  | Ev_DispatchFailed
  | Ev_SocketLost
  | Ev_Acknowledged
  | Ev_Rejected

fun transition :: "durable_send_state \<Rightarrow> durable_send_event \<Rightarrow> durable_send_state" where
  "transition Persisting (Ev_Persisted DispatchNow) = Dispatching"
| "transition Queued (Ev_Persisted DispatchNow) = Dispatching"
| "transition Persisting (Ev_Persisted QueueUntilSubscribed) = Queued"
| "transition Dispatching Ev_DispatchFailed = Queued"
| "transition Dispatching Ev_SocketLost = Queued"
| "transition Uncertain Ev_DispatchFailed = Queued"
| "transition Uncertain Ev_SocketLost = Queued"
| "transition Dispatching Ev_Acknowledged = Acknowledged"
| "transition Uncertain Ev_Acknowledged = Acknowledged"
| "transition Dispatching Ev_Rejected = Rejected"
| "transition Uncertain Ev_Rejected = Rejected"
| "transition state _ = state"

fun_cases transition_AcknowledgedE: "transition s e = Acknowledged"
fun_cases transition_RejectedE: "transition s e = Rejected"
fun_cases transition_UncertainE: "transition s e = Uncertain"

definition terminal :: "durable_send_state \<Rightarrow> bool" where
  "terminal s \<longleftrightarrow> s = Acknowledged \<or> s = Rejected"

lemma transition_terminal: "terminal s \<Longrightarrow> transition s e = s"
  by (auto simp: terminal_def)

lemma run_terminal: "terminal s \<Longrightarrow> foldl transition s es = s"
  by (induction es) (simp_all add: transition_terminal)

lemma run_not_uncertain: "s \<noteq> Uncertain \<Longrightarrow> foldl transition s es \<noteq> Uncertain"
proof (induction es arbitrary: s)
  case (Cons e es)
  from Cons.prems have "transition s e \<noteq> Uncertain" by (auto elim: transition_UncertainE)
  from Cons.IH [OF this] show ?case by simp
qed simp

lemma transition_to_Acknowledged:
  "transition s e = Acknowledged \<Longrightarrow> s = Acknowledged \<or> e = Ev_Acknowledged \<and> (s = Dispatching \<or> s = Uncertain)"
  by (auto elim: transition_AcknowledgedE)

lemma run_to_Acknowledged:
  assumes "s \<noteq> Acknowledged" "s \<noteq> Uncertain"
  shows "foldl transition s es = Acknowledged \<longleftrightarrow>
    (\<exists>pre post. es = pre @ Ev_Acknowledged # post \<and> foldl transition s pre = Dispatching)"
proof
  assume "foldl transition s es = Acknowledged"
  then show "\<exists>pre post. es = pre @ Ev_Acknowledged # post \<and> foldl transition s pre = Dispatching"
  proof (induction es rule: rev_induct)
    case Nil
    with assms show ?case by simp
  next
    case (snoc e es)
    from snoc.prems have "transition (foldl transition s es) e = Acknowledged" by simp
    with transition_to_Acknowledged run_not_uncertain [OF assms(2), of es]
    consider "foldl transition s es = Acknowledged"
      | "e = Ev_Acknowledged" "foldl transition s es = Dispatching" by blast
    then show ?case
    proof cases
      case 1
      with snoc.IH obtain pre post where "es = pre @ Ev_Acknowledged # post" "foldl transition s pre = Dispatching"
        by blast
      then have "es @ [e] = pre @ Ev_Acknowledged # (post @ [e])" by simp
      with \<open>foldl transition s pre = Dispatching\<close> show ?thesis by blast
    qed blast
  qed
next
  assume "\<exists>pre post. es = pre @ Ev_Acknowledged # post \<and> foldl transition s pre = Dispatching"
  then show "foldl transition s es = Acknowledged"
    by (auto simp: run_terminal terminal_def)
qed


section \<open>Session refresh and recovery\<close>

datatype refresh_outcome = Rotated | RetryableFailure | AuthenticationRejected

datatype current_session = CurNotChecked | CurValid | CurAuthenticationRejected | CurRetryableFailure

datatype refresh_disposition_type = RdScheduleServerDeadline | RdRetryShortly
  | RdRetryAfterAuthenticationRejection

fun refresh_disposition :: "refresh_outcome \<Rightarrow> refresh_disposition_type" where
  "refresh_disposition Rotated = RdScheduleServerDeadline"
| "refresh_disposition RetryableFailure = RdRetryShortly"
| "refresh_disposition AuthenticationRejected = RdRetryAfterAuthenticationRejection"

datatype recovery_decision_type = SessionRotated | WaitForNetwork | ProbeCurrentSession
  | UseCurrentSession | WaitForReauthentication | RequireLogin

fun recovery_decision :: "refresh_outcome \<Rightarrow> current_session \<Rightarrow> bool \<Rightarrow> bool \<Rightarrow> recovery_decision_type" where
  "recovery_decision Rotated _ _ _ = SessionRotated"
| "recovery_decision RetryableFailure _ _ _ = WaitForNetwork"
| "recovery_decision AuthenticationRejected CurNotChecked _ _ = ProbeCurrentSession"
| "recovery_decision AuthenticationRejected CurValid _ _ = UseCurrentSession"
| "recovery_decision AuthenticationRejected CurRetryableFailure _ _ = WaitForNetwork"
| "recovery_decision AuthenticationRejected CurAuthenticationRejected foreground recently_active =
     (if foreground \<and> recently_active then WaitForReauthentication else RequireLogin)"

datatype session_probe = ProbeValid | ProbeAuthenticationRejected | ProbeRetryableFailure

datatype start_decision_type = SdScheduleServerDeadline | SdRefreshNow | SdRetryShortly

fun start_decision :: "session_probe \<Rightarrow> start_decision_type" where
  "start_decision ProbeValid = SdScheduleServerDeadline"
| "start_decision ProbeAuthenticationRejected = SdRefreshNow"
| "start_decision ProbeRetryableFailure = SdRetryShortly"

definition refresh_outcome_from_abi :: "u32 \<Rightarrow> refresh_outcome" where
  "refresh_outcome_from_abi value =
     (if value = 0 then Rotated else if value = 2 then AuthenticationRejected else RetryableFailure)"

fun refresh_disposition_to_abi :: "refresh_disposition_type \<Rightarrow> u32" where
  "refresh_disposition_to_abi RdScheduleServerDeadline = 0"
| "refresh_disposition_to_abi RdRetryShortly = 1"
| "refresh_disposition_to_abi RdRetryAfterAuthenticationRejection = 2"

definition current_session_from_abi :: "u32 \<Rightarrow> current_session" where
  "current_session_from_abi value =
     (if value = 1 then CurValid else if value = 2 then CurAuthenticationRejected
      else if value = 3 then CurRetryableFailure else CurNotChecked)"

fun recovery_decision_to_abi :: "recovery_decision_type \<Rightarrow> u32" where
  "recovery_decision_to_abi SessionRotated = 0"
| "recovery_decision_to_abi WaitForNetwork = 1"
| "recovery_decision_to_abi ProbeCurrentSession = 2"
| "recovery_decision_to_abi UseCurrentSession = 3"
| "recovery_decision_to_abi WaitForReauthentication = 4"
| "recovery_decision_to_abi RequireLogin = 5"

fun start_decision_to_abi :: "start_decision_type \<Rightarrow> u32" where
  "start_decision_to_abi SdScheduleServerDeadline = 0"
| "start_decision_to_abi SdRefreshNow = 1"
| "start_decision_to_abi SdRetryShortly = 2"

definition sproyt_refresh_disposition :: "u32 \<Rightarrow> u32" where
  "sproyt_refresh_disposition refresh_outcome =
     refresh_disposition_to_abi (refresh_disposition (refresh_outcome_from_abi refresh_outcome))"

definition sproyt_recovery_decision :: "u32 \<Rightarrow> u32 \<Rightarrow> u32 \<Rightarrow> u32 \<Rightarrow> u32" where
  "sproyt_recovery_decision refresh_outcome current_session foreground recently_active =
     recovery_decision_to_abi (recovery_decision (refresh_outcome_from_abi refresh_outcome)
       (current_session_from_abi current_session) (foreground \<noteq> 0) (recently_active \<noteq> 0))"

definition sproyt_start_session_decision :: "u32 \<Rightarrow> u32" where
  "sproyt_start_session_decision probe =
     (let probe = (case refresh_outcome_from_abi probe of
                     Rotated \<Rightarrow> ProbeValid
                   | AuthenticationRejected \<Rightarrow> ProbeAuthenticationRejected
                   | RetryableFailure \<Rightarrow> ProbeRetryableFailure)
      in start_decision_to_abi (start_decision probe))"

lemma recovery_requires_login:
  "recovery_decision r c f a = RequireLogin \<longleftrightarrow>
     r = AuthenticationRejected \<and> c = CurAuthenticationRejected \<and> \<not> (f \<and> a)"
  by (cases r; cases c; simp)

lemma recovery_to_abi_5: "recovery_decision_to_abi d = 5 \<longleftrightarrow> d = RequireLogin"
  by (cases d) simp_all

text \<open>
  The exported integer interface decides as documented on all 32-bit inputs, unknown codes
  included: a send is dispatched exactly when the socket is connected, its channel is the
  subscribed one and no handoff is running; the user is sent to the login page exactly when the
  refresh and the session probe were both rejected and the user is not active in the foreground.
\<close>

theorem wasm_abi_decisions:
  "(sproyt_admit_persisted_send c m h = 1 \<longleftrightarrow> c \<noteq> 0 \<and> m \<noteq> 0 \<and> h = 0) \<and>
   (sproyt_admit_persisted_send c m h = 0 \<longleftrightarrow> \<not> (c \<noteq> 0 \<and> m \<noteq> 0 \<and> h = 0)) \<and>
   (sproyt_recovery_decision r s f a = 5 \<longleftrightarrow> r = 2 \<and> s = 2 \<and> (f = 0 \<or> a = 0)) \<and>
   sproyt_refresh_disposition r = (if r = 0 then 0 else if r = 2 then 2 else 1) \<and>
   sproyt_start_session_decision r = (if r = 0 then 0 else if r = 2 then 1 else 2)"
proof (intro conjI)
  show "sproyt_recovery_decision r s f a = 5 \<longleftrightarrow> r = 2 \<and> s = 2 \<and> (f = 0 \<or> a = 0)"
    unfolding sproyt_recovery_decision_def recovery_to_abi_5 recovery_requires_login
    by (auto simp: refresh_outcome_from_abi_def current_session_from_abi_def)
qed (auto simp: sproyt_admit_persisted_send_def admit_persisted_send_def sproyt_refresh_disposition_def
      sproyt_start_session_decision_def refresh_outcome_from_abi_def)

end
