(* ===== verification/Protocol_Wire.thy ===== *)
theory Protocol_Wire
  imports Protocol_Model
begin

text \<open>
  The frames of the wire protocol: the rest of the data model (\<open>models.rs\<close>), the command
  structures (\<open>commands.rs\<close>), the published events (\<open>events.rs\<close>), client commands and server
  events (\<open>wire.rs\<close>), and the version check and the envelopes (\<open>lib.rs\<close>). Constructors carry the
  fields in the order of the source. The JSON encoding of these types is generated by \<open>serde\<close>
  and is not modelled.
\<close>

section \<open>Media, inbox and export records\<close>

datatype json = JNull | JBool bool | JNumber rstr | JString rstr | JArray "json list"
  | JObject "(rstr \<times> json) list"

record media_object =
  mo_id :: media_id
  mo_owner_id :: user_id
  mo_channel_id :: channel_id
  mo_original_filename :: rstr
  mo_content_type :: rstr
  mo_size_bytes :: u64
  mo_sha256 :: rstr
  mo_width :: "u32 option"
  mo_height :: "u32 option"
  mo_duration_ms :: "u64 option"
  mo_alt_text :: rstr
  mo_analysis_status :: rstr
  mo_analysis_metadata :: json
  mo_created_at :: instant

type_synonym byte = "8 word"

record media_variant =
  mv_content_type :: rstr
  mv_width :: u32
  mv_height :: u32
  mv_content :: "byte list"

record media_upload =
  mu_actor :: user_id
  mu_channel_id :: channel_id
  mu_filename :: rstr
  mu_content_type :: rstr
  mu_content :: "byte list"
  mu_dimensions :: "(u32 \<times> u32) option"
  mu_preview :: "media_variant option"

record inbox_mention =
  im_message :: chat_message
  im_channel_name :: display_name
  im_read :: bool

record user_task =
  task_id :: uuid
  task_source_message_id :: message_id
  task_channel_id :: channel_id
  task_channel_name :: display_name
  task_assignee_id :: user_id
  task_created_by :: user_id
  task_process_link_id :: "uuid option"
  task_title :: rstr
  task_status :: rstr
  task_created_at :: instant
  task_completed_at :: "instant option"

record saved_status =
  ss_text :: rstr
  ss_emoji :: rstr
  ss_save_count :: i64
  ss_last_used_at :: instant

record personal_note =
  pn_markdown :: rstr
  pn_revision :: i64

definition personal_note_default :: personal_note where
  "personal_note_default = \<lparr> pn_markdown = [], pn_revision = 0 \<rparr>"

record exported_channel =
  ec_channel :: channel_summary
  ec_messages :: "chat_message list"

record exported_circle =
  xc_circle :: circle
  xc_role :: circle_role

record portable_user_export =
  ex_format :: rstr
  ex_exported_at :: instant
  ex_user :: user
  ex_signup_ordinal :: "u64 option"
  ex_saved_emojis :: "rstr list"
  ex_saved_statuses :: "saved_status list"
  ex_favorite_circles :: "circle_id list"
  ex_personal_note :: "personal_note option"
  ex_circles :: "exported_circle list"
  ex_channels :: "exported_channel list"
  ex_agent_memories :: "json list"

definition portable_user_export_format :: rstr where
  "portable_user_export_format = lit ''sproyt.user-export.v1''"

section \<open>Command structures\<close>

datatype channel_ref = RefId channel_id | RefSlug channel_slug

datatype message_limit = MessageLimit (limit_u16: u16)

definition message_limit_max :: u16 where
  "message_limit_max = 200"

definition message_limit_default :: message_limit where
  "message_limit_default = MessageLimit 50"

definition message_limit_new :: "u16 \<Rightarrow> message_limit" where
  "message_limit_new value =
     (if value > message_limit_max then MessageLimit message_limit_max else MessageLimit value)"

definition message_limit_usize :: "message_limit \<Rightarrow> nat" where
  "message_limit_usize l = unat (limit_u16 l)"

lemma message_limit_new_usize: "message_limit_usize (message_limit_new v) = min (unat v) 200"
  by (auto simp: message_limit_new_def message_limit_usize_def message_limit_max_def word_less_nat_alt)

datatype create_channel = CreateChannel (cch_actor: user_id) (cch_slug: channel_slug)
  (cch_name: display_name) (cch_kind: channel_kind) (cch_circle_id: "circle_id option")
datatype create_circle = CreateCircle (ccr_actor: user_id) (ccr_slug: channel_slug) (ccr_name: display_name)
datatype rename_circle = RenameCircle (rnc_actor: user_id) (rnc_circle_id: circle_id) (rnc_name: display_name)
datatype delete_circle = DeleteCircle (dlc_actor: user_id) (dlc_circle_id: circle_id)
datatype leave_circle = LeaveCircle (lvc_actor: user_id) (lvc_circle_id: circle_id)
datatype create_circle_invitation = CreateCircleInvitation (cci_actor: user_id) (cci_circle_id: circle_id)
datatype accept_circle_invitation = AcceptCircleInvitation (aci_actor: user_id) (aci_token: rstr)
datatype create_chat_invitation =
  CreateChatInvitation (cti_actor: user_id) (cti_target: invitation_target)
datatype invitation_token_command = InvitationTokenCommand (itc_actor: user_id) (itc_token: rstr)
datatype join_channel = JoinChannel (jch_actor: user_id) (jch_channel: channel_ref)
datatype add_channel_member =
  AddChannelMember (acm_actor: user_id) (acm_channel_id: channel_id) (acm_user_id: user_id)
datatype update_channel_description =
  UpdateChannelDescription (ucd_actor: user_id) (ucd_channel_id: channel_id) (ucd_description: rstr)
datatype leave_channel = LeaveChannel (lch_actor: user_id) (lch_channel_id: channel_id)
datatype load_recent_messages = LoadRecentMessages (lrm_actor: user_id) (lrm_channel_id: channel_id)
  (lrm_limit: message_limit) (lrm_after: "channel_sequence option") (lrm_before: "channel_sequence option")
datatype send_message = SendMessage (snd_actor: user_id) (snd_channel_id: channel_id)
  (snd_parent: "message_id option") (snd_body: message_body)
datatype edit_message = EditMessage (edm_actor: user_id) (edm_message_id: message_id) (edm_body: message_body)
datatype delete_message = DeleteMessage (dlm_actor: user_id) (dlm_message_id: message_id)
datatype mark_read = MarkRead (mrk_actor: user_id) (mrk_channel_id: channel_id) (mrk_sequence: channel_sequence)
datatype set_circle_member_role = SetCircleMemberRole (scr_actor: user_id) (scr_circle_id: circle_id)
  (scr_user_id: user_id) (scr_role: circle_role)

section \<open>Published events\<close>

datatype chat_event =
    E_ChannelCreated channel_id user_id "channel_id option"
  | E_ParticipantJoined channel_id user_id
  | E_ParticipantLeft channel_id user_id
  | E_MessageAccepted chat_message
  | E_MessageEdited chat_message
  | E_MessageDeleted chat_message
  | E_MessageReactionChanged message_reaction_change
  | E_ReadMarkerUpdated channel_id user_id channel_sequence

section \<open>Client commands and server events\<close>

datatype (plugins only: size) client_command =
    C_Hello
  | C_ListUsers
  | C_ListCircleMembers circle_id
  | C_SetCircleMemberRole circle_id user_id circle_role
  | C_ListCircleUsers circle_id
  | C_SetStatus rstr rstr "instant option"
  | C_UpdateProfile rstr
  | C_OpenDirectChannel user_id
  | C_ExpandDirectChannel channel_id user_id
  | C_CreateChannel rstr rstr channel_kind "circle_id option"
  | C_JoinChannel channel_ref
  | C_LeaveChannel channel_id
  | C_ListMyChannels
  | C_ListChannelUsers channel_id
  | C_UpdateChannelDescription channel_id rstr
  | C_ListJoinableChannels "circle_id option"
  | C_AddChannelMember channel_id user_id
  | C_LoadRecentMessages channel_id "u16 option" "channel_sequence option" "channel_sequence option"
  | C_LoadThread message_id
  | C_ListThreadSummaries channel_id
  | C_MarkThreadRead message_id channel_sequence
  | C_SubscribeChannel channel_id
  | C_UnsubscribeChannel channel_id
  | C_SendMessage channel_id "message_id option" rstr
  | C_EditMessage message_id rstr
  | C_DeleteMessage message_id
  | C_ListChannelReactions channel_id
  | C_ToggleMessageReaction message_id rstr
  | C_MarkRead channel_id channel_sequence
  | C_ListMentions
  | C_MarkMentionRead message_id
  | C_CreateTask message_id user_id rstr "uuid option"
  | C_ListTasks
  | C_SetTaskDone uuid bool
  | C_Ping
  | C_CreateCircle rstr rstr
  | C_RenameCircle circle_id rstr
  | C_ListMyCircles
  | C_DeleteCircle circle_id
  | C_LeaveCircle circle_id
  | C_CreateCircleInvitation circle_id
  | C_AcceptCircleInvitation rstr
  | C_CreateInvitation invitation_target
  | C_InspectInvitation rstr
  | C_DeclineInvitation rstr
  | C_AcceptInvitation rstr

datatype (plugins only: size) server_event =
    S_Hello user_id "u64 option"
  | S_UsersListed "user_profile list"
  | S_CircleMembersListed circle_id "(user_profile \<times> circle_role) list"
  | S_CircleMemberRoleChanged circle_membership
  | S_CircleUsersListed circle_id "user_profile list"
  | S_StatusUpdated user_profile
  | S_ProfileUpdated user_profile
  | S_DirectChannelOpened channel
  | S_DirectChannelExpanded channel
  | S_ChannelCreated channel
  | S_MembershipJoined membership
  | S_MembershipLeft channel_id
  | S_ChannelsListed "channel_summary list"
  | S_ChannelUsersListed channel_id "user_profile list"
  | S_ChannelDescriptionUpdated channel_id rstr
  | S_JoinableChannelsListed "discoverable_channel list"
  | S_ChannelMemberAdded membership
  | S_MessagesLoaded channel_id "chat_message list"
  | S_ThreadLoaded message_id "chat_message list"
  | S_ThreadSummariesListed channel_id "thread_summary list"
  | S_ThreadReadUpdated thread_summary
  | S_SubscriptionStarted channel_id "chat_message list"
  | S_SubscriptionEnded channel_id
  | S_MessageAccepted chat_message
  | S_MessageEdited chat_message
  | S_MessageDeleted chat_message
  | S_ChannelReactionsListed channel_id "message_reaction_summary list"
  | S_MessageReactionChanged message_reaction_change
  | S_ReadMarkerUpdated membership
  | S_MentionsListed "inbox_mention list"
  | S_MentionRead message_id
  | S_TaskCreated user_task
  | S_TasksListed "user_task list"
  | S_TaskUpdated user_task
  | S_Chat chat_event
  | S_Lagged channel_id channel_sequence channel_sequence u64 rstr
  | S_Pong
  | S_CircleCreated circle
  | S_CircleRenamed circle
  | S_CirclesChanged
  | S_CirclesListed "(circle \<times> circle_role) list"
  | S_CircleDeleted circle_id
  | S_CircleLeft circle_id
  | S_CircleInvitationCreated issued_invitation
  | S_CircleInvitationAccepted circle_membership
  | S_InvitationCreated issued_chat_invitation
  | S_InvitationInspected rstr invitation_preview
  | S_InvitationDeclined rstr invitation_preview
  | S_InvitationAccepted rstr accepted_chat_invitation
  | S_Error rstr rstr

section \<open>Envelopes\<close>

definition protocol_id :: rstr where
  "protocol_id = lit ''sproyt.chat.v1''"

datatype protocol_version = Supported | Unsupported

definition check_protocol :: "rstr \<Rightarrow> protocol_version" where
  "check_protocol value = (if value = protocol_id then Supported else Unsupported)"

record 'c client_envelope =
  cenv_protocol :: rstr
  cenv_request_id :: rstr
  cenv_command :: 'c

record 'e server_envelope =
  senv_protocol :: rstr
  senv_request_id :: "rstr option"
  senv_event :: 'e

definition envelope_response :: "rstr \<Rightarrow> 'e \<Rightarrow> 'e server_envelope" where
  "envelope_response request_id event =
     \<lparr> senv_protocol = protocol_id, senv_request_id = Some request_id, senv_event = event \<rparr>"

definition envelope_event :: "'e \<Rightarrow> 'e server_envelope" where
  "envelope_event event =
     \<lparr> senv_protocol = protocol_id, senv_request_id = None, senv_event = event \<rparr>"

end
