(* ===== verification/Authorization.thy ===== *)
theory Authorization
  imports Protocol_Model
begin

text \<open>
  The authorization policy, \<open>src/domain/policy.rs\<close>: one predicate per guarded action, on the
  optional role of the actor in the circle or channel. Every guard of the repository model goes
  through these predicates, as in the code.
\<close>

section \<open>The policy\<close>

definition can_invite_to_circle :: "circle_role option \<Rightarrow> bool" where
  "can_invite_to_circle role \<longleftrightarrow> role = Some CircleOwner \<or> role = Some CircleModerator"

definition can_rename_circle :: "circle_role option \<Rightarrow> bool" where
  "can_rename_circle role \<longleftrightarrow> role = Some CircleOwner"

definition can_delete_circle :: "circle_role option \<Rightarrow> bool" where
  "can_delete_circle role = can_rename_circle role"

definition can_leave_circle :: "circle_role option \<Rightarrow> bool" where
  "can_leave_circle role \<longleftrightarrow> role = Some CircleMember \<or> role = Some CircleModerator"

definition can_create_channel_in_circle :: "circle_role option \<Rightarrow> bool" where
  "can_create_channel_in_circle role \<longleftrightarrow>
     role = Some CircleOwner \<or> role = Some CircleModerator \<or> role = Some CircleMember"

definition can_read_channel :: "membership_role option \<Rightarrow> bool" where
  "can_read_channel role \<longleftrightarrow> role \<noteq> None"

definition can_send_to_channel :: "membership_role option \<Rightarrow> bool" where
  "can_send_to_channel role \<longleftrightarrow>
     role = Some Owner \<or> role = Some Moderator \<or> role = Some Member"

definition can_leave_channel :: "membership_role option \<Rightarrow> bool" where
  "can_leave_channel role \<longleftrightarrow> role \<noteq> None"

definition can_moderate_channel :: "membership_role option \<Rightarrow> bool" where
  "can_moderate_channel role \<longleftrightarrow> role = Some Owner \<or> role = Some Moderator"

definition can_complete_process_work :: "membership_role option \<Rightarrow> bool" where
  "can_complete_process_work role = can_send_to_channel role"

definition can_start_process :: "membership_role option \<Rightarrow> bool" where
  "can_start_process role = can_complete_process_work role"

definition can_invite_agent_to_channel :: "membership_role option \<Rightarrow> bool" where
  "can_invite_agent_to_channel role = can_moderate_channel role"

definition can_invite_agent_to_circle :: "circle_role option \<Rightarrow> bool" where
  "can_invite_agent_to_circle role \<longleftrightarrow> role = Some CircleOwner"

lemmas policy_defs = can_invite_to_circle_def can_rename_circle_def can_delete_circle_def
  can_leave_circle_def can_create_channel_in_circle_def can_read_channel_def can_send_to_channel_def
  can_leave_channel_def can_moderate_channel_def can_complete_process_work_def can_start_process_def
  can_invite_agent_to_channel_def can_invite_agent_to_circle_def

lemma policy_no_role [simp]:
  "\<not> can_read_channel None" "\<not> can_send_to_channel None" "\<not> can_leave_channel None"
  "\<not> can_moderate_channel None" "\<not> can_invite_to_circle None" "\<not> can_rename_circle None"
  "\<not> can_delete_circle None" "\<not> can_leave_circle None" "\<not> can_create_channel_in_circle None"
  by (simp_all add: policy_defs)

lemma send_implies_read: "can_send_to_channel r \<Longrightarrow> can_read_channel r"
  by (auto simp: policy_defs)

section \<open>Roles are ordered\<close>

text \<open>The order the roles are meant to have; the absent role is below all.\<close>

fun channel_rank :: "membership_role option \<Rightarrow> nat" where
  "channel_rank None = 0"
| "channel_rank (Some Observer) = 1"
| "channel_rank (Some Member) = 2"
| "channel_rank (Some Moderator) = 3"
| "channel_rank (Some Owner) = 4"

fun circle_rank :: "circle_role option \<Rightarrow> nat" where
  "circle_rank None = 0"
| "circle_rank (Some CircleMember) = 1"
| "circle_rank (Some CircleModerator) = 2"
| "circle_rank (Some CircleOwner) = 3"

lemma channel_rank_cases:
  "(channel_rank r = 0) = (r = None)" "(1 \<le> channel_rank r) = (r \<noteq> None)"
  "(2 \<le> channel_rank r) = (r \<in> {Some Member, Some Moderator, Some Owner})"
  "(3 \<le> channel_rank r) = (r \<in> {Some Moderator, Some Owner})"
  by (cases r rule: channel_rank.cases; simp)+

lemma circle_rank_cases:
  "(1 \<le> circle_rank r) = (r \<noteq> None)"
  "(2 \<le> circle_rank r) = (r \<in> {Some CircleModerator, Some CircleOwner})"
  "(3 \<le> circle_rank r) = (r = Some CircleOwner)"
  by (cases r rule: circle_rank.cases; simp)+


end
