(* ===== verification/Repository_State.thy ===== *)
theory Repository_State
  imports Protocol_Wire Authorization "HOL-Library.Product_Lexorder"
begin

text \<open>
  The state of the chat repository, \<open>src/domain/repository.rs\<close>: its errors, the record of hash
  maps that \<open>InMemoryChatRepository\<close> guards with a mutex, the enrollment records of
  \<open>onboarding.rs\<close>, and the helpers that the operations share. The in-memory repository is the
  executable reference of the \<open>ChatRepository\<close> trait; the SQL repositories run against the same
  contract tests.

  An operation is a function from its arguments and the state to a pair of a result and the new
  state, since several operations change the state and then fail. An operation that can panic
  returns an option, with \<open>None\<close> for the panic. Freshly generated identifiers and tokens and the
  readings of the clock are arguments. A hash map is an association list with distinct keys and
  its iteration order is the order of the list.
\<close>

section \<open>Errors\<close>

datatype repository_error = Quota | Conflict | NotFound | PermissionDenied | Storage rstr

fun repository_error_kind :: "repository_error \<Rightarrow> string" where
  "repository_error_kind Quota = ''quota''"
| "repository_error_kind Conflict = ''conflict''"
| "repository_error_kind NotFound = ''not_found''"
| "repository_error_kind PermissionDenied = ''permission_denied''"
| "repository_error_kind (Storage _) = ''storage''"

fun repository_error_public_message :: "repository_error \<Rightarrow> string" where
  "repository_error_public_message Quota = ''media storage budget is full''"
| "repository_error_public_message Conflict = ''resource conflict''"
| "repository_error_public_message NotFound = ''resource not found''"
| "repository_error_public_message PermissionDenied = ''permission denied''"
| "repository_error_public_message (Storage _) = ''internal storage error''"

fun repository_error_display :: "repository_error \<Rightarrow> rstr" where
  "repository_error_display Quota = lit ''media storage budget is full''"
| "repository_error_display Conflict = lit ''repository conflict''"
| "repository_error_display NotFound = lit ''repository resource not found''"
| "repository_error_display PermissionDenied = lit ''repository permission denied''"
| "repository_error_display (Storage message) = lit ''repository storage error: '' @ message"

definition storage :: "text_validation_error \<Rightarrow> repository_error" where
  "storage e = Storage (text_error_display e)"

section \<open>Enrollment records\<close>

datatype enrollment_invitation_state = Inactive | Active | Consumed

record enrollment_invitation =
  en_id :: uuid
  en_circle_id :: "circle_id option"
  en_invited_by :: user_id
  en_expires_at :: instant
  en_state :: enrollment_invitation_state
  en_authentik_invitation_id :: "uuid option"

record issued_enrollment_invitation =
  ien_invitation :: enrollment_invitation
  ien_token :: rstr

record stored_enrollment_invitation =
  st_invitation :: enrollment_invitation
  st_expected_email_hash :: "byte list"
  st_consumed_by :: "user_id option"

datatype prepare_enrollment_invitation = PrepareEnrollmentInvitation (pre_actor: user_id)
  (pre_circle_id: "circle_id option") (pre_email: rstr) (pre_expires_at: instant)
datatype activate_enrollment_invitation = ActivateEnrollmentInvitation (act_token: rstr)
  (act_authentik_invitation_id: uuid)
datatype accept_enrollment_invitation = AcceptEnrollmentInvitation (acc_actor: user_id)
  (acc_email: rstr) (acc_token: rstr)

text \<open>\<open>sha256\<close> is \<open>Sha256::digest\<close> of the UTF-8 bytes of a string.\<close>

definition enrollment_token_hash :: "(rstr \<Rightarrow> byte list) \<Rightarrow> rstr \<Rightarrow> byte list" where
  "enrollment_token_hash sha256 token = sha256 token"

definition enrollment_email_hash :: "unicode \<Rightarrow> (rstr \<Rightarrow> byte list) \<Rightarrow> rstr \<Rightarrow> byte list" where
  "enrollment_email_hash u sha256 email =
     (let normalized = to_lowercase u (trim email) in sha256 normalized)"

section \<open>The state\<close>

record repository_state =
  circles :: "(circle_id, circle) hmap"
  circles_by_slug :: "(channel_slug, circle_id) hmap"
  circle_memberships :: "(circle_id \<times> user_id, circle_membership) hmap"
  favorite_circles :: "(circle_id \<times> user_id) list"
  circle_invitations :: "(byte list, circle_invitation) hmap"
  enrollment_invitations :: "(byte list, stored_enrollment_invitation) hmap"
  channels :: "(channel_id, channel) hmap"
  channels_by_slug :: "(channel_slug, channel_id) hmap"
  channel_descriptions :: "(channel_id, rstr) hmap"
  personal_spaces :: "(user_id, channel_id \<times> personal_note) hmap"
  personal_saved_links :: "(user_id \<times> message_id, message_id) hmap"
  direct_conversations :: "(user_id \<times> user_id, channel_id) hmap"
  direct_group_conversations :: "(channel_id, channel_id) hmap"
  direct_expansions :: "(channel_id \<times> user_id, channel_id) hmap"
  memberships :: "(channel_id \<times> user_id, membership) hmap"
  messages :: "(channel_id, chat_message list) hmap"
  next_sequences :: "(channel_id, channel_sequence) hmap"
  users :: "(user_id, user) hmap"
  signup_ordinals :: "(user_id, u64) hmap"
  next_signup_ordinal :: u64
  saved_emojis :: "(user_id, rstr list) hmap"
  saved_statuses :: "(user_id, saved_status list) hmap"
  user_statuses :: "(user_id, rstr \<times> rstr \<times> instant option) hmap"
  media :: "(media_id, media_object \<times> byte list) hmap"
  media_previews :: "(media_id, media_variant) hmap"
  command_receipts :: "(user_id \<times> rstr, message_id) hmap"
  message_reactions :: "(message_id \<times> user_id \<times> rstr) list"
  thread_read_markers :: "(message_id \<times> user_id, channel_sequence) hmap"
  circle_updates :: nat

text \<open>
  \<open>circle_updates\<close> counts the notifications sent on the broadcast channel of the repository.
  \<open>RepositoryState::default\<close> is the empty state.
\<close>

definition repository_default :: repository_state where
  "repository_default =
     \<lparr> circles = [], circles_by_slug = [], circle_memberships = [], favorite_circles = [],
       circle_invitations = [], enrollment_invitations = [], channels = [], channels_by_slug = [],
       channel_descriptions = [], personal_spaces = [], personal_saved_links = [],
       direct_conversations = [], direct_group_conversations = [], direct_expansions = [],
       memberships = [], messages = [], next_sequences = [], users = [], signup_ordinals = [],
       next_signup_ordinal = 0, saved_emojis = [], saved_statuses = [], user_statuses = [],
       media = [], media_previews = [], command_receipts = [], message_reactions = [],
       thread_read_markers = [], circle_updates = 0 \<rparr>"

type_synonym 'a op = "(repository_error, 'a) result \<times> repository_state"

section \<open>Helpers of the state\<close>

definition role_of :: "repository_state \<Rightarrow> channel_id \<Rightarrow> user_id \<Rightarrow> membership_role option" where
  "role_of s c u = map_option mb_role (hm_get (memberships s) (c, u))"

definition circle_role_of :: "repository_state \<Rightarrow> circle_id \<Rightarrow> user_id \<Rightarrow> circle_role option" where
  "circle_role_of s c u = map_option cm_role (hm_get (circle_memberships s) (c, u))"

definition is_member :: "repository_state \<Rightarrow> channel_id \<Rightarrow> user_id \<Rightarrow> bool" where
  "is_member s c u = hm_has (memberships s) (c, u)"

definition is_human :: "repository_state \<Rightarrow> user_id \<Rightarrow> bool" where
  "is_human s u = (case hm_get (users s) u of None \<Rightarrow> False | Some x \<Rightarrow> usr_kind x = Human)"

lemma role_of_member: "role_of s c u \<noteq> None \<longleftrightarrow> is_member s c u"
  by (simp add: role_of_def is_member_def hm_has_iff)

text \<open>All messages, in the order of \<open>messages.values().flatten()\<close>, and those of one channel.\<close>

definition all_messages :: "repository_state \<Rightarrow> chat_message list" where
  "all_messages s = concat (hm_values (messages s))"

definition channel_messages :: "repository_state \<Rightarrow> channel_id \<Rightarrow> chat_message list" where
  "channel_messages s c = hm_get_or [] (messages s) c"

definition find_message :: "repository_state \<Rightarrow> message_id \<Rightarrow> chat_message option" where
  "find_message s i = List.find (\<lambda>m. msg_id m = i) (all_messages s)"

definition latest_of :: "chat_message list \<Rightarrow> channel_sequence" where
  "latest_of ms = (case last_opt ms of None \<Rightarrow> ChannelSequence 0 | Some m \<Rightarrow> msg_sequence m)"

text \<open>\<open>messages.entry(c).or_default().push(m)\<close>.\<close>

definition push_message :: "channel_id \<Rightarrow> chat_message \<Rightarrow> (channel_id, chat_message list) hmap \<Rightarrow>
    (channel_id, chat_message list) hmap" where
  "push_message c m ms = hm_insert c (hm_get_or [] ms c @ [m]) ms"

text \<open>
  \<open>values_mut().flatten().find(..)\<close>: the first message with the identifier is changed in place.
\<close>

fun update_first :: "('a \<Rightarrow> bool) \<Rightarrow> ('a \<Rightarrow> 'a) \<Rightarrow> 'a list \<Rightarrow> 'a list" where
  "update_first P f [] = []"
| "update_first P f (x # xs) = (if P x then f x # xs else x # update_first P f xs)"

fun update_message :: "message_id \<Rightarrow> (chat_message \<Rightarrow> chat_message) \<Rightarrow>
    (channel_id, chat_message list) hmap \<Rightarrow> (channel_id, chat_message list) hmap" where
  "update_message i f [] = []"
| "update_message i f ((c, ms) # rest) =
     (if \<exists>m \<in> set ms. msg_id m = i then (c, update_first (\<lambda>m. msg_id m = i) f ms) # rest
      else (c, ms) # update_message i f rest)"

definition new_membership :: "channel_id \<Rightarrow> user_id \<Rightarrow> membership_role \<Rightarrow> membership" where
  "new_membership c u r =
     \<lparr> mb_channel_id = c, mb_user_id = u, mb_role = r, mb_last_read_sequence = ChannelSequence 0 \<rparr>"

definition resolve_channel_ref :: "repository_state \<Rightarrow> channel_ref \<Rightarrow> (repository_error, channel_id) result" where
  "resolve_channel_ref s ref =
     (case ref of
        RefId c \<Rightarrow> if hm_has (channels s) c then Inr c else Inl NotFound
      | RefSlug slug \<Rightarrow> (case hm_get (channels_by_slug s) slug of Some c \<Rightarrow> Inr c | None \<Rightarrow> Inl NotFound))"

definition next_sequence :: "channel_id \<Rightarrow> repository_state \<Rightarrow> channel_sequence op" where
  "next_sequence c s =
     (case (case hm_get (next_sequences s) c of None \<Rightarrow> Inr seq_first | Some q \<Rightarrow> checked_next q) of
        Inl e \<Rightarrow> (Inl (storage e), s)
      | Inr q \<Rightarrow> (Inr q, s\<lparr> next_sequences := hm_insert c q (next_sequences s) \<rparr>))"

text \<open>\<open>sort_saved_statuses\<close>: most used first, then most recent, then by text and emoji.\<close>

definition sort_saved_statuses :: "saved_status list \<Rightarrow> saved_status list" where
  "sort_saved_statuses ss =
     sort_key (\<lambda>x. (- ss_save_count x, - ss_last_used_at x, ss_text x, ss_emoji x)) ss"

definition persisted_now :: "instant \<Rightarrow> instant" where
  "persisted_now now = (now div 1000) * 1000"

end
