(* ===== verification/Thread_Preview.thy ===== *)
theory Thread_Preview
  imports Protocol_Wire
begin

text \<open>
  The preview of the root message of a thread, \<open>ThreadRootPreview::from_parts\<close> of
  \<open>src/domain/repository.rs\<close>: embedded references \<open>[[...]]\<close> are replaced by a label, white space
  is normalised and the text is cut to 180 characters and an ellipsis.
\<close>

section \<open>The preview\<close>

text \<open>
  \<open>find2 c s\<close> is \<open>s.find\<close> of the pattern made of \<open>c\<close> twice: the text before the first match and
  the text after it.
\<close>

fun find2 :: "rchar \<Rightarrow> rstr \<Rightarrow> (rstr \<times> rstr) option" where
  "find2 c (x # y # ys) =
     (if x = c \<and> y = c then Some ([], ys)
      else map_option (\<lambda>(p, q). (x # p, q)) (find2 c (y # ys)))"
| "find2 c _ = None"

lemma find2_length: "find2 c s = Some (p, q) \<Longrightarrow> length q + 2 \<le> length s"
  by (induction c s arbitrary: p rule: find2.induct) (auto split: if_splits)

function replace_references :: "rstr \<Rightarrow> rstr" where
  "replace_references input =
     (case find2 91 input of
        None \<Rightarrow> input
      | Some (before, tail) \<Rightarrow>
          before @ (if take 6 tail = lit ''media:'' then lit '' Vedlegg '' else lit '' Innhald '') @
          replace_references (case find2 93 tail of Some (_, rest) \<Rightarrow> rest | None \<Rightarrow> []))"
  by pat_completeness auto
termination
proof (relation "measure length", goal_cases)
  case (2 input p before tail)
  then have "find2 91 input = Some (before, tail)" by simp
  then have "length tail + 2 \<le> length input" by (rule find2_length)
  moreover have "length (case find2 93 tail of Some (_, rest) \<Rightarrow> rest | None \<Rightarrow> []) \<le> length tail"
    using find2_length [of 93 tail] by (fastforce split: option.splits)
  ultimately show ?case by (simp del: find2.simps)
qed simp

declare replace_references.simps [simp del]

fun split_at_whitespace :: "rstr \<Rightarrow> rstr list" where
  "split_at_whitespace [] = [[]]"
| "split_at_whitespace (c # cs) =
     (if is_whitespace c then [] # split_at_whitespace cs
      else case split_at_whitespace cs of w # ws \<Rightarrow> (c # w) # ws | [] \<Rightarrow> [[c]])"

definition split_whitespace :: "rstr \<Rightarrow> rstr list" where
  "split_whitespace s = filter (\<lambda>w. w \<noteq> []) (split_at_whitespace s)"

fun join_spaced :: "rstr list \<Rightarrow> rstr" where
  "join_spaced [] = []"
| "join_spaced [w] = w"
| "join_spaced (w # v # ws) = w @ 32 # join_spaced (v # ws)"

record thread_root_preview =
  trp_id :: message_id
  trp_author :: "rstr option"
  trp_preview :: rstr
  trp_sent_at :: "instant option"
  trp_deleted :: bool

definition preview_from_parts :: "message_id \<Rightarrow> rstr option \<Rightarrow> rstr option \<Rightarrow> instant option \<Rightarrow> bool \<Rightarrow>
    thread_root_preview" where
  "preview_from_parts i author body sent_at deleted =
     (if deleted
      then \<lparr> trp_id = i, trp_author = None, trp_preview = lit ''Meldinga er sletta'', trp_sent_at = None,
             trp_deleted = deleted \<rparr>
      else let text = replace_references (case body of Some b \<Rightarrow> b | None \<Rightarrow> []);
               normalized = join_spaced (split_whitespace text);
               preview = take 180 normalized;
               preview = (if drop 180 normalized \<noteq> [] then preview @ [0x2026] else preview);
               preview = (if preview = [] then lit ''Innhald'' else preview)
           in \<lparr> trp_id = i, trp_author = author, trp_preview = preview, trp_sent_at = sent_at,
                trp_deleted = deleted \<rparr>)"

section \<open>What a preview reveals\<close>

lemma find2_hit:
  assumes "find2 c p = None" "p = [] \<or> last p \<noteq> c"
  shows "find2 c (p @ c # c # q) = Some (p, q)"
  using assms
proof (induction p)
  case (Cons x p)
  show ?case
  proof (cases p)
    case Nil
    with Cons.prems show ?thesis by simp
  next
    case (Cons y p')
    from Cons.prems(1) Cons have "\<not> (x = c \<and> y = c)" "find2 c p = None"
      by (auto split: if_splits)
    moreover from Cons.prems(2) Cons have "p = [] \<or> last p \<noteq> c" by simp
    ultimately have "find2 c (p @ c # c # q) = Some (p, q)" using Cons.IH by blast
    with \<open>\<not> (x = c \<and> y = c)\<close> Cons show ?thesis by simp
  qed
qed simp

lemma take_prefix_stops:
  assumes "x \<notin> set m" "length m = n"
  shows "take n (s @ x # r) = m \<longleftrightarrow> take n s = m"
proof (cases "n \<le> length s")
  case False
  then have "x \<in> set (take n (s @ x # r))"
    by (simp add: take_Cons')
  moreover from False assms(2) have "take n s \<noteq> m" by auto
  ultimately show ?thesis using assms(1) by metis
qed simp

lemma media_prefix_stops: "take 6 (s @ 93 # r) = lit ''media:'' \<longleftrightarrow> take 6 s = lit ''media:''"
  by (rule take_prefix_stops) (simp_all add: lit_def)

text \<open>The label depends on the first six characters of a reference only.\<close>

lemma replace_references_hides:
  assumes "find2 91 before = None" "before = [] \<or> last before \<noteq> 91"
    and "find2 93 secret = None" "secret = [] \<or> last secret \<noteq> 93"
  shows "replace_references (before @ 91 # 91 # secret @ 93 # 93 # after) =
    before @ (if take 6 secret = lit ''media:'' then lit '' Vedlegg '' else lit '' Innhald '') @
    replace_references after"
  using find2_hit [OF assms(1,2), of "secret @ 93 # 93 # after"] find2_hit [OF assms(3,4), of after]
  by (simp add: replace_references.simps [of "before @ 91 # 91 # secret @ 93 # 93 # after"]
      media_prefix_stops del: find2.simps take_append)

lemma preview_length: "length (trp_preview (preview_from_parts i a b t d)) \<le> 181"
  by (auto simp: preview_from_parts_def Let_def lit_def)

lemma preview_nonempty: "trp_preview (preview_from_parts i a b t d) \<noteq> []"
  by (auto simp: preview_from_parts_def Let_def lit_def)



end
