(* ===== verification/Repository_Messages.thy ===== *)
theory Repository_Messages
  imports Repository_State Thread_Preview
begin

text \<open>
  Messages, threads, reactions, read markers and media of the repository
  (\<open>src/domain/repository.rs\<close>).
\<close>

section \<open>Reading\<close>

definition load_recent_messages :: "load_recent_messages \<Rightarrow> repository_state \<Rightarrow>
    (repository_error, chat_message list) result" where
  "load_recent_messages query s =
     (if \<not> can_read_channel (role_of s (lrm_channel_id query) (lrm_actor query)) then Inl PermissionDenied
      else let limit = message_limit_usize (lrm_limit query) in
           if lrm_after query \<noteq> None \<and> lrm_before query \<noteq> None then Inl Conflict
           else let ms = filter (\<lambda>m. case lrm_before query of None \<Rightarrow> True | Some b \<Rightarrow> msg_sequence m < b)
                           (filter (\<lambda>m. case lrm_after query of None \<Rightarrow> True | Some a \<Rightarrow> msg_sequence m > a)
                             (channel_messages s (lrm_channel_id query)))
                in if lrm_after query \<noteq> None then Inr (take limit ms)
                   else let keep_from = length ms - limit in Inr (drop keep_from ms))"

definition load_message :: "message_id \<Rightarrow> repository_state \<Rightarrow> (repository_error, chat_message) result" where
  "load_message i s = (case find_message s i of Some m \<Rightarrow> Inr m | None \<Rightarrow> Inl NotFound)"

definition latest_sequence :: "channel_id \<Rightarrow> repository_state \<Rightarrow> channel_sequence" where
  "latest_sequence c s = latest_of (channel_messages s c)"

definition find_root :: "repository_state \<Rightarrow> message_id \<Rightarrow> chat_message option" where
  "find_root s i = List.find (\<lambda>m. msg_id m = i \<and> msg_parent m = None) (all_messages s)"

definition load_thread :: "user_id \<Rightarrow> message_id \<Rightarrow> repository_state \<Rightarrow>
    (repository_error, chat_message list) result" where
  "load_thread actor root_message_id s =
     (case find_root s root_message_id of
        None \<Rightarrow> Inl NotFound
      | Some root \<Rightarrow>
          if \<not> hm_has (memberships s) (msg_channel_id root, actor) then Inl PermissionDenied
          else Inr (root # filter (\<lambda>m. msg_parent m = Some root_message_id)
                      (channel_messages s (msg_channel_id root))))"

section \<open>Sending\<close>

text \<open>The checks of a reply: its parent is a live root of the same channel.\<close>

definition check_parent :: "message_id option \<Rightarrow> channel_id \<Rightarrow> repository_state \<Rightarrow> repository_error option" where
  "check_parent parent c s =
     (case parent of
        None \<Rightarrow> None
      | Some parent_id \<Rightarrow>
          (case List.find (\<lambda>m. msg_id m = parent_id) (channel_messages s c) of
             None \<Rightarrow> Some NotFound
           | Some p \<Rightarrow>
               if msg_parent p \<noteq> None \<or> msg_deleted_at p \<noteq> None then Some Conflict else None))"

definition new_message :: "message_id \<Rightarrow> instant \<Rightarrow> display_name \<Rightarrow> channel_sequence \<Rightarrow> send_message \<Rightarrow> chat_message" where
  "new_message fresh now name q cmd =
     \<lparr> msg_id = fresh, msg_channel_id = snd_channel_id cmd, msg_parent = snd_parent cmd,
       msg_sender_id = snd_actor cmd, msg_sender_display_name = name, msg_body = snd_body cmd,
       msg_sequence = q, msg_sent_at = persisted_now now, msg_edited_at = None, msg_deleted_at = None \<rparr>"

definition append_message :: "message_id \<Rightarrow> instant \<Rightarrow> send_message \<Rightarrow> repository_state \<Rightarrow> chat_message op" where
  "append_message fresh now cmd s =
     (let c = snd_channel_id cmd in
      if \<not> can_send_to_channel (role_of s c (snd_actor cmd)) then (Inl PermissionDenied, s)
      else case check_parent (snd_parent cmd) c s of
             Some e \<Rightarrow> (Inl e, s)
           | None \<Rightarrow>
               (case next_sequence c s of
                  (Inl e, s) \<Rightarrow> (Inl e, s)
                | (Inr q, s) \<Rightarrow>
                    (case hm_get (users s) (snd_actor cmd) of
                       None \<Rightarrow> (Inl NotFound, s)
                     | Some user \<Rightarrow>
                         let message = new_message fresh now (usr_display_name user) q cmd
                         in (Inr message, s\<lparr> messages := push_message c message (messages s) \<rparr>))))"

definition append_message_idempotent :: "message_id \<Rightarrow> instant \<Rightarrow> send_message \<Rightarrow> rstr \<Rightarrow> repository_state \<Rightarrow>
    chat_message op" where
  "append_message_idempotent fresh now cmd request_id s =
     (let key = (snd_actor cmd, request_id); c = snd_channel_id cmd in
      case hm_get (command_receipts s) key of
        Some message_id \<Rightarrow>
          (case find_message s message_id of
             None \<Rightarrow> (Inl NotFound, s)
           | Some m \<Rightarrow>
               if msg_channel_id m \<noteq> snd_channel_id cmd \<or> msg_parent m \<noteq> snd_parent cmd \<or>
                  msg_body m \<noteq> snd_body cmd
               then (Inl Conflict, s) else (Inr m, s))
      | None \<Rightarrow>
          if \<not> can_send_to_channel (role_of s c (snd_actor cmd)) then (Inl PermissionDenied, s)
          else case check_parent (snd_parent cmd) c s of
                 Some e \<Rightarrow> (Inl e, s)
               | None \<Rightarrow>
                   (case next_sequence c s of
                      (Inl e, s) \<Rightarrow> (Inl e, s)
                    | (Inr q, s) \<Rightarrow>
                        (case hm_get (users s) (snd_actor cmd) of
                           None \<Rightarrow> (Inl NotFound, s)
                         | Some user \<Rightarrow>
                             let message = new_message fresh now (usr_display_name user) q cmd
                             in (Inr message,
                                 s\<lparr> command_receipts := hm_insert key fresh (command_receipts s),
                                    messages := push_message c message (messages s) \<rparr>))))"

section \<open>Changing\<close>

definition edit_message :: "instant \<Rightarrow> edit_message \<Rightarrow> repository_state \<Rightarrow> chat_message op" where
  "edit_message now cmd s =
     (case find_message s (edm_message_id cmd) of
        None \<Rightarrow> (Inl NotFound, s)
      | Some m \<Rightarrow>
          if msg_sender_id m \<noteq> edm_actor cmd then (Inl PermissionDenied, s)
          else if msg_deleted_at m \<noteq> None then (Inl Conflict, s)
          else let edit = (\<lambda>m. m\<lparr> msg_body := edm_body cmd, msg_edited_at := Some (persisted_now now) \<rparr>)
               in (Inr (edit m), s\<lparr> messages := update_message (edm_message_id cmd) edit (messages s) \<rparr>))"

definition tombstone_body :: message_body where
  "tombstone_body = MessageBody (lit ''Meldinga er sletta.'')"

definition circle_moderates :: "repository_state \<Rightarrow> channel_id \<Rightarrow> user_id \<Rightarrow> bool" where
  "circle_moderates s c actor =
     (case hm_get (channels s) c of
        None \<Rightarrow> False
      | Some channel \<Rightarrow> ch_kind channel \<noteq> Private \<and>
          (case ch_circle_id channel of
             None \<Rightarrow> False
           | Some k \<Rightarrow> circle_role_of s k actor = Some CircleOwner \<or>
                        circle_role_of s k actor = Some CircleModerator))"

definition may_delete :: "repository_state \<Rightarrow> user_id \<Rightarrow> chat_message \<Rightarrow> bool" where
  "may_delete s actor m \<longleftrightarrow>
     msg_sender_id m = actor \<or>
     (case hm_get (memberships s) (msg_channel_id m, actor) of
        None \<Rightarrow> False
      | Some mb \<Rightarrow> can_moderate_channel (Some (mb_role mb)) \<or>
          (circle_moderates s (msg_channel_id m) actor \<and> can_send_to_channel (Some (mb_role mb))))"

definition entomb :: "instant \<Rightarrow> chat_message \<Rightarrow> chat_message" where
  "entomb now m = m\<lparr> msg_body := tombstone_body, msg_edited_at := None,
                     msg_deleted_at := Some (persisted_now now) \<rparr>"

definition delete_message :: "instant \<Rightarrow> delete_message \<Rightarrow> repository_state \<Rightarrow> chat_message op" where
  "delete_message now cmd s =
     (case find_message s (dlm_message_id cmd) of
        None \<Rightarrow> (Inl NotFound, s)
      | Some m \<Rightarrow>
          if \<not> may_delete s (dlm_actor cmd) m then (Inl PermissionDenied, s)
          else if msg_deleted_at m = None
          then (Inr (entomb now m),
                s\<lparr> messages := update_message (dlm_message_id cmd) (entomb now) (messages s),
                   message_reactions := filter (\<lambda>r. fst r \<noteq> dlm_message_id cmd) (message_reactions s) \<rparr>)
          else (Inr m, s))"

section \<open>Reactions\<close>

definition toggle_message_reaction :: "user_id \<Rightarrow> message_id \<Rightarrow> rstr \<Rightarrow> repository_state \<Rightarrow>
    message_reaction_change op" where
  "toggle_message_reaction actor message_id emoji s =
     (case find_message s message_id of
        None \<Rightarrow> (Inl NotFound, s)
      | Some m \<Rightarrow>
          if msg_deleted_at m \<noteq> None then (Inl Conflict, s)
          else if \<not> hm_has (memberships s) (msg_channel_id m, actor) then (Inl PermissionDenied, s)
          else let key = (message_id, actor, emoji);
                   added = (key \<notin> set (message_reactions s));
                   s = s\<lparr> message_reactions := (if added then hs_insert key (message_reactions s)
                                                else hs_remove key (message_reactions s)) \<rparr>;
                   count = as_u32 (length (filter (\<lambda>r. fst r = message_id \<and> snd (snd r) = emoji)
                                            (message_reactions s)))
               in (Inr \<lparr> rc_message_id = message_id, rc_channel_id = msg_channel_id m, rc_user_id = actor,
                         rc_emoji = emoji, rc_added = added, rc_count = count \<rparr>, s))"

text \<open>\<open>grouped.entry(k).or_default().push(v)\<close>.\<close>

definition group_push :: "'k \<Rightarrow> 'v \<Rightarrow> ('k, 'v list) hmap \<Rightarrow> ('k, 'v list) hmap" where
  "group_push k v g = hm_insert k (hm_get_or [] g k @ [v]) g"

definition list_channel_reactions :: "user_id \<Rightarrow> channel_id \<Rightarrow> repository_state \<Rightarrow>
    (repository_error, message_reaction_summary list) result" where
  "list_channel_reactions actor c s =
     (if \<not> hm_has (memberships s) (c, actor) then Inl PermissionDenied
      else let message_ids = map msg_id (channel_messages s c);
               grouped = fold (\<lambda>(i, u, e) g. if i \<in> set message_ids then group_push (i, e) u g else g)
                           (message_reactions s) []
           in Inr (sort_key (\<lambda>x. (rs_message_id x, rs_emoji x))
                (map (\<lambda>((i, e), us). let us = sort us in
                   \<lparr> rs_message_id = i, rs_emoji = e, rs_count = as_u32 (length us),
                     rs_reacted_by_me = (actor \<in> set us), rs_user_ids = us \<rparr>) grouped)))"

section \<open>Threads and read markers\<close>

definition unread_reply :: "user_id \<Rightarrow> channel_sequence \<Rightarrow> chat_message \<Rightarrow> bool" where
  "unread_reply actor marker m \<longleftrightarrow>
     msg_deleted_at m = None \<and> msg_sequence m > marker \<and> msg_sender_id m \<noteq> actor"

definition summarize_thread :: "message_id \<Rightarrow> user_id \<Rightarrow> channel_sequence \<Rightarrow> chat_message list \<Rightarrow> channel_sequence \<Rightarrow>
    thread_summary" where
  "summarize_thread root actor marker replies latest =
     \<lparr> ts_root_message_id = root,
       ts_reply_count = as_u32 (length (filter (\<lambda>m. msg_deleted_at m = None) replies)),
       ts_unread_count = as_u32 (length (filter (unread_reply actor marker) replies)),
       ts_latest_sequence = latest \<rparr>"

text \<open>A group always has a reply, so \<open>replies.last()\<close> is there.\<close>

definition list_thread_summaries :: "user_id \<Rightarrow> channel_id \<Rightarrow> repository_state \<Rightarrow>
    (repository_error, thread_summary list) result" where
  "list_thread_summaries actor c s =
     (if \<not> hm_has (memberships s) (c, actor) then Inl PermissionDenied
      else let grouped = fold (\<lambda>m g. case msg_parent m of None \<Rightarrow> g | Some r \<Rightarrow> group_push r m g)
                           (channel_messages s c) []
           in Inr (sort_key ts_latest_sequence
                (map (\<lambda>(r, replies). summarize_thread r actor
                        (hm_get_or (ChannelSequence 0) (thread_read_markers s) (r, actor)) replies
                        (msg_sequence (last replies))) grouped)))"

definition thread_root_preview_batch_max :: nat where
  "thread_root_preview_batch_max = 30"

definition thread_root_previews :: "user_id \<Rightarrow> channel_id \<Rightarrow> message_id list \<Rightarrow> repository_state \<Rightarrow>
    (repository_error, thread_root_preview list) result" where
  "thread_root_previews actor c root_ids s =
     (if length root_ids > thread_root_preview_batch_max then Inl Conflict
      else if \<not> hm_has (memberships s) (c, actor) then Inl PermissionDenied
      else let ms = channel_messages s c;
               roots_with_replies = List.map_filter msg_parent ms
           in Inr (map (\<lambda>m. let deleted = (msg_deleted_at m \<noteq> None) in
                     preview_from_parts (msg_id m)
                       (if deleted then None else Some (name_str (msg_sender_display_name m)))
                       (if deleted then None else Some (body_str (msg_body m)))
                       (if deleted then None else Some (msg_sent_at m)) deleted)
                (filter (\<lambda>m. msg_parent m = None \<and> msg_id m \<in> set root_ids \<and>
                             msg_id m \<in> set roots_with_replies) ms)))"

definition mark_thread_read :: "user_id \<Rightarrow> message_id \<Rightarrow> channel_sequence \<Rightarrow> repository_state \<Rightarrow> thread_summary op" where
  "mark_thread_read actor root_message_id sequence s =
     (case find_root s root_message_id of
        None \<Rightarrow> (Inl NotFound, s)
      | Some root \<Rightarrow>
          let c = msg_channel_id root in
          if \<not> hm_has (memberships s) (c, actor) then (Inl PermissionDenied, s)
          else let replies = filter (\<lambda>m. msg_parent m = Some root_message_id) (channel_messages s c) in
               case last_opt replies of
                 None \<Rightarrow> (Inl NotFound, s)
               | Some reply \<Rightarrow>
                   let latest = msg_sequence reply in
                   if sequence > latest then (Inl NotFound, s)
                   else let key = (root_message_id, actor);
                            marker = hm_get_or (ChannelSequence 0) (thread_read_markers s) key;
                            marker = (if sequence > marker then sequence else marker)
                        in (Inr (summarize_thread root_message_id actor marker replies latest),
                            s\<lparr> thread_read_markers := hm_insert key marker (thread_read_markers s) \<rparr>))"

definition mark_read :: "mark_read \<Rightarrow> repository_state \<Rightarrow> membership op" where
  "mark_read cmd s =
     (let latest = latest_of (channel_messages s (mrk_channel_id cmd)) in
      if mrk_sequence cmd > latest then (Inl NotFound, s)
      else case hm_get (memberships s) (mrk_channel_id cmd, mrk_actor cmd) of
             None \<Rightarrow> (Inl PermissionDenied, s)
           | Some m \<Rightarrow>
               let m = (if mrk_sequence cmd > mb_last_read_sequence m
                        then m\<lparr> mb_last_read_sequence := mrk_sequence cmd \<rparr> else m)
               in (Inr m, s\<lparr> memberships := hm_insert (mrk_channel_id cmd, mrk_actor cmd) m (memberships s) \<rparr>))"

section \<open>Media\<close>

definition media_read_block_bytes :: nat where
  "media_read_block_bytes = 1024 * 1024"

definition store_media :: "instant \<Rightarrow> media_id \<Rightarrow> media_upload \<Rightarrow> rstr \<Rightarrow> repository_state \<Rightarrow> media_object op" where
  "store_media now fresh upload sha256 s =
     (if \<not> hm_has (memberships s) (mu_channel_id upload, mu_actor upload) then (Inl PermissionDenied, s)
      else let object = \<lparr> mo_id = fresh, mo_owner_id = mu_actor upload, mo_channel_id = mu_channel_id upload,
                 mo_original_filename = mu_filename upload, mo_content_type = mu_content_type upload,
                 mo_size_bytes = word_of_nat (length (mu_content upload)), mo_sha256 = sha256,
                 mo_width = map_option fst (mu_dimensions upload),
                 mo_height = map_option snd (mu_dimensions upload),
                 mo_duration_ms = None, mo_alt_text = [], mo_analysis_status = lit ''pending'',
                 mo_analysis_metadata = JObject [], mo_created_at = now \<rparr>;
               s = (case mu_preview upload of
                      None \<Rightarrow> s
                    | Some preview \<Rightarrow> s\<lparr> media_previews := hm_insert fresh preview (media_previews s) \<rparr>)
           in (Inr object, s\<lparr> media := hm_insert fresh (object, mu_content upload) (media s) \<rparr>))"

definition media_metadata :: "user_id \<Rightarrow> media_id \<Rightarrow> repository_state \<Rightarrow> (repository_error, media_object) result" where
  "media_metadata actor i s =
     (case hm_get (media s) i of
        None \<Rightarrow> Inl NotFound
      | Some (object, _) \<Rightarrow>
          if \<not> hm_has (memberships s) (mo_channel_id object, actor) then Inl NotFound else Inr object)"

text \<open>
  On a 64-bit target \<open>usize::try_from(offset)\<close> never fails, \<open>saturating_add\<close> stops at the
  largest \<open>usize\<close>, and a range that starts after its end reads nothing.
\<close>

definition usize_max :: nat where
  "usize_max = 2 ^ 64 - 1"

definition read_media_slice :: "user_id \<Rightarrow> media_id \<Rightarrow> u64 \<Rightarrow> nat \<Rightarrow> repository_state \<Rightarrow>
    (repository_error, byte list) result" where
  "read_media_slice actor i offset len s =
     (if len = 0 \<or> len > media_read_block_bytes then Inl Conflict
      else case hm_get (media s) i of
             None \<Rightarrow> Inl NotFound
           | Some (object, bytes) \<Rightarrow>
               if \<not> hm_has (memberships s) (mo_channel_id object, actor) then Inl NotFound
               else let offset = unat offset;
                        stop = min (min (offset + len) usize_max) (length bytes)
                    in Inr (if offset \<le> stop then take (stop - offset) (drop offset bytes) else []))"

definition load_media_preview :: "user_id \<Rightarrow> media_id \<Rightarrow> repository_state \<Rightarrow>
    (repository_error, media_variant option) result" where
  "load_media_preview actor i s =
     (case hm_get (media s) i of
        None \<Rightarrow> Inl NotFound
      | Some (object, _) \<Rightarrow>
          if \<not> hm_has (memberships s) (mo_channel_id object, actor) then Inl PermissionDenied
          else Inr (hm_get (media_previews s) i))"

end
