(* ===== verification/Message_Log.thy ===== *)
theory Message_Log
  imports Repository_Messages "HOL-Library.Multiset"
begin

text \<open>
  The message log of the repository: the map from channels to their messages together with the
  sequence counters, the two ways in which operations change it (a message is pushed at the end
  of a channel, one message is changed in place) and the one in which it shrinks (a channel is
  dropped), and the invariant that these keep: every channel holds the sequences 1 to n without
  a gap, its counter stands at n, and no message identifier occurs twice.
\<close>

type_synonym message_map = "(channel_id, chat_message list) hmap"

definition log_all :: "message_map \<Rightarrow> chat_message list" where
  "log_all ms = concat (hm_values ms)"

abbreviation log_of :: "message_map \<Rightarrow> channel_id \<Rightarrow> chat_message list" where
  "log_of ms \<equiv> hm_get_or [] ms"

lemma all_messages_log: "all_messages s = log_all (messages s)"
  by (simp add: all_messages_def log_all_def)

lemma channel_messages_log: "channel_messages s c = log_of (messages s) c"
  by (simp add: channel_messages_def)

lemma log_all_simps [simp]: "log_all [] = []" "log_all (p # ms) = snd p @ log_all ms"
  by (simp_all add: log_all_def)

section \<open>The invariant\<close>

definition run_ok :: "channel_id \<Rightarrow> chat_message list \<Rightarrow> bool" where
  "run_ok c ms \<longleftrightarrow>
     (\<forall>m \<in> set ms. msg_channel_id m = c) \<and>
     map (\<lambda>m. seq_nat (msg_sequence m)) ms = [1..<Suc (length ms)]"

definition counter_of :: "(channel_id, channel_sequence) hmap \<Rightarrow> channel_id \<Rightarrow> nat" where
  "counter_of nx c = (case map_of nx c of None \<Rightarrow> 0 | Some q \<Rightarrow> seq_nat q)"

definition log_inv :: "message_map \<Rightarrow> (channel_id, channel_sequence) hmap \<Rightarrow> bool" where
  "log_inv ms nx \<longleftrightarrow>
     hm_wf ms \<and> (\<forall>c. run_ok c (log_of ms c)) \<and> (\<forall>c. counter_of nx c = length (log_of ms c)) \<and>
     distinct (map msg_id (log_all ms))"

lemma log_invD:
  assumes "log_inv ms nx"
  shows "hm_wf ms" "run_ok c (log_of ms c)" "counter_of nx c = length (log_of ms c)"
    "distinct (map msg_id (log_all ms))"
  using assms by (auto simp: log_inv_def)

lemma run_ok_Nil [simp]: "run_ok c []"
  by (simp add: run_ok_def)

lemma run_ok_snoc:
  "run_ok c (ms @ [m]) \<longleftrightarrow>
     run_ok c ms \<and> msg_channel_id m = c \<and> seq_nat (msg_sequence m) = Suc (length ms)"
  by (auto simp: run_ok_def)

lemma run_ok_nth:
  "run_ok c ms \<Longrightarrow> i < length ms \<Longrightarrow> seq_nat (msg_sequence (ms ! i)) = Suc i"
proof -
  assume r: "run_ok c ms" and i: "i < length ms"
  have "map (\<lambda>m. seq_nat (msg_sequence m)) ms ! i = [1..<Suc (length ms)] ! i"
    using r by (simp only: run_ok_def)
  with i show ?thesis by (simp del: upt_Suc)
qed

lemma run_ok_latest: "run_ok c ms \<Longrightarrow> seq_nat (latest_of ms) = length ms"
proof (cases ms rule: rev_cases)
  case (snoc ys y)
  assume "run_ok c ms"
  with snoc show ?thesis by (simp add: latest_of_def run_ok_snoc)
qed (simp add: latest_of_def)

lemma run_ok_sorted: "run_ok c ms \<Longrightarrow> sorted (map msg_sequence ms) \<and> distinct (map msg_sequence ms)"
proof -
  assume r: "run_ok c ms"
  have "sorted (map msg_sequence ms)"
    by (simp add: sorted_iff_nth_mono seq_le_nat run_ok_nth [OF r])
  moreover have "map (\<lambda>m. seq_nat (msg_sequence m)) ms = map seq_nat (map msg_sequence ms)"
    by simp
  then have "distinct (map seq_nat (map msg_sequence ms))"
    using r unfolding run_ok_def by (metis distinct_upt)
  then have "distinct (map msg_sequence ms)"
    unfolding distinct_map [of seq_nat] by blast
  ultimately show ?thesis by simp
qed

section \<open>Looking up\<close>

lemma log_of_mem: "m \<in> set (log_of ms c) \<Longrightarrow> m \<in> set (log_all ms)"
  by (cases "map_of ms c") (auto simp: hm_get_or_def log_all_def dest!: map_of_SomeD intro!: bexI)

lemma log_all_mem:
  assumes "hm_wf ms"
  shows "m \<in> set (log_all ms) \<longleftrightarrow> (\<exists>c. m \<in> set (log_of ms c))"
proof
  assume "m \<in> set (log_all ms)"
  then obtain c xs where "(c, xs) \<in> set ms" "m \<in> set xs" by (auto simp: log_all_def)
  with assms have "map_of ms c = Some xs" by (simp add: hm_entry_iff)
  then have "log_of ms c = xs" by (simp add: hm_get_or_def)
  with \<open>m \<in> set xs\<close> show "\<exists>c. m \<in> set (log_of ms c)" by blast
qed (use log_of_mem in blast)

lemma log_channel:
  assumes "log_inv ms nx" "m \<in> set (log_all ms)"
  shows "m \<in> set (log_of ms (msg_channel_id m))"
proof -
  from assms log_all_mem log_invD(1) obtain c where c: "m \<in> set (log_of ms c)" by blast
  moreover from c log_invD(2) [OF assms(1), of c] have "msg_channel_id m = c" by (simp add: run_ok_def)
  ultimately show ?thesis by simp
qed

lemma find_unique_id:
  assumes "distinct (map msg_id xs)" "m \<in> set xs"
  shows "List.find (\<lambda>x. msg_id x = msg_id m) xs = Some m"
  using assms by (intro find_unique) (auto simp: distinct_map inj_on_def)

section \<open>Pushing a message\<close>

lemma push_message_wf: "hm_wf ms \<Longrightarrow> hm_wf (push_message c m ms)"
  by (simp add: push_message_def)

lemma log_of_push: "log_of (push_message c m ms) d = (if d = c then log_of ms c @ [m] else log_of ms d)"
  by (simp add: push_message_def hm_get_or_def)

lemma mset_log_push: "mset (log_all (push_message c m ms)) = add_mset m (mset (log_all ms))"
proof -
  have "mset (log_all (AList.update c (hm_get_or [] ms c @ [m]) ms)) = add_mset m (mset (log_all ms))"
  proof (induction ms)
    case Nil
    then show ?case by (simp add: hm_get_or_def)
  next
    case (Cons p ms)
    obtain k xs where p: "p = (k, xs)" by (cases p)
    with Cons show ?case by (cases "k = c") (simp_all add: hm_get_or_def)
  qed
  then show ?thesis by (simp add: push_message_def hm_insert_def)
qed

lemma set_log_push: "set (log_all (push_message c m ms)) = insert m (set (log_all ms))"
  using mset_log_push [of c m ms] by (metis set_mset_add_mset_insert set_mset_mset)

lemma ids_log_push:
  "distinct (map msg_id (log_all (push_message c m ms))) \<longleftrightarrow>
     distinct (map msg_id (log_all ms)) \<and> msg_id m \<notin> msg_id ` set (log_all ms)"
proof -
  have "mset (map msg_id (log_all (push_message c m ms))) = mset (map msg_id (m # log_all ms))"
    by (simp only: mset_map mset_log_push mset.simps image_mset_add_mset list.map)
  from mset_eq_imp_distinct_iff [OF this] show ?thesis by (simp only: list.map distinct.simps set_map) blast
qed

section \<open>Changing a message in place\<close>

definition keeps_shape :: "(chat_message \<Rightarrow> chat_message) \<Rightarrow> bool" where
  "keeps_shape f \<longleftrightarrow> (\<forall>m. msg_id (f m) = msg_id m \<and> msg_channel_id (f m) = msg_channel_id m \<and>
     msg_parent (f m) = msg_parent m \<and> msg_sender_id (f m) = msg_sender_id m \<and>
     msg_sequence (f m) = msg_sequence m)"

lemma keeps_shapeD:
  assumes "keeps_shape f"
  shows "msg_id (f m) = msg_id m" "msg_channel_id (f m) = msg_channel_id m"
    "msg_parent (f m) = msg_parent m" "msg_sender_id (f m) = msg_sender_id m"
    "msg_sequence (f m) = msg_sequence m"
  using assms by (auto simp: keeps_shape_def)

definition at_id :: "message_id \<Rightarrow> (chat_message \<Rightarrow> chat_message) \<Rightarrow> chat_message \<Rightarrow> chat_message" where
  "at_id i f m = (if msg_id m = i then f m else m)"

lemma keeps_shape_at_id [simp, intro]: "keeps_shape f \<Longrightarrow> keeps_shape (at_id i f)"
  by (simp add: keeps_shape_def at_id_def)

lemma at_id_absent: "\<forall>m \<in> set xs. msg_id m \<noteq> i \<Longrightarrow> map (at_id i f) xs = xs"
  by (auto simp: at_id_def intro: map_idI)

lemma update_first_map:
  "distinct (map msg_id xs) \<Longrightarrow> update_first (\<lambda>m. msg_id m = i) f xs = map (at_id i f) xs"
proof (induction xs)
  case (Cons x xs)
  show ?case
  proof (cases "msg_id x = i")
    case True
    with Cons.prems have "i \<notin> msg_id ` set xs" by auto
    then have "\<forall>m \<in> set xs. msg_id m \<noteq> i" by blast
    with True show ?thesis by (simp add: at_id_absent) (simp add: at_id_def)
  next
    case False
    with Cons show ?thesis by (simp add: at_id_def)
  qed
qed simp

lemma update_message_map:
  "distinct (map msg_id (log_all ms)) \<Longrightarrow>
   update_message i f ms = map (\<lambda>(c, xs). (c, map (at_id i f) xs)) ms"
proof (induction ms)
  case (Cons p ms)
  obtain c xs where p: "p = (c, xs)" by (cases p)
  from Cons.prems p have d: "distinct (map msg_id xs)" "distinct (map msg_id (log_all ms))"
    and disj: "msg_id ` set xs \<inter> msg_id ` set (log_all ms) = {}"
    by simp_all
  show ?case
  proof (cases "\<exists>m \<in> set xs. msg_id m = i")
    case True
    with disj have "\<forall>m \<in> set (log_all ms). msg_id m \<noteq> i" by blast
    then have "map (at_id i f) ys = ys" if "(k, ys) \<in> set ms" for k ys
      using that by (intro at_id_absent) (force simp: log_all_def)
    then have "map (\<lambda>(c, xs). (c, map (at_id i f) xs)) ms = ms"
      by (intro map_idI) auto
    with True p d show ?thesis by (simp add: update_first_map)
  next
    case False
    then have "map (at_id i f) xs = xs" by (intro at_id_absent) blast
    with False p Cons.IH [OF d(2)] show ?thesis by simp
  qed
qed simp

lemma log_of_mapped: "log_of (map (\<lambda>(c, xs). (c, map g xs)) ms) c = map g (log_of ms c)"
  by (induction ms) (auto simp: hm_get_or_def)

lemma log_all_mapped: "log_all (map (\<lambda>(c, xs). (c, map g xs)) ms) = map g (log_all ms)"
  by (induction ms) auto

lemma run_ok_mapped: "keeps_shape g \<Longrightarrow> run_ok c (map g xs) \<longleftrightarrow> run_ok c xs"
  by (simp add: run_ok_def keeps_shapeD comp_def)

lemma wf_mapped: "hm_wf (map (\<lambda>(c, xs). (c, map g xs)) ms) = hm_wf ms"
  by (simp add: hm_wf_def comp_def case_prod_unfold)

text \<open>With unique identifiers the change in place is a change of the whole log.\<close>

lemma log_update:
  assumes "distinct (map msg_id (log_all ms))"
  shows "log_all (update_message i f ms) = map (at_id i f) (log_all ms)"
    "log_of (update_message i f ms) c = map (at_id i f) (log_of ms c)"
    "hm_wf (update_message i f ms) = hm_wf ms"
  by (simp_all only: update_message_map [OF assms] log_all_mapped log_of_mapped wf_mapped)

lemma latest_mapped: "keeps_shape g \<Longrightarrow> latest_of (map g xs) = latest_of xs"
  by (cases xs rule: rev_cases) (simp_all add: latest_of_def keeps_shapeD)

section \<open>Dropping a channel\<close>

lemma log_of_remove: "log_of (hm_remove c ms) d = (if d = c then [] else log_of ms d)"
  by (simp add: hm_get_or_def)

lemma log_all_remove: "log_all (hm_remove c ms) = log_all (filter (\<lambda>p. c \<noteq> fst p) ms)"
  by (simp add: hm_remove_def AList.delete_eq case_prod_unfold)

lemma set_log_filter: "set (log_all (filter P ms)) \<subseteq> set (log_all ms)"
  by (induction ms) auto

lemma distinct_log_filter:
  "distinct (map f (log_all ms)) \<Longrightarrow> distinct (map f (log_all (filter P ms)))"
proof (induction ms)
  case (Cons p ms)
  then show ?case using set_log_filter [of P ms] by auto
qed simp

lemma set_log_remove: "set (log_all (hm_remove c ms)) \<subseteq> set (log_all ms)"
  by (simp add: log_all_remove set_log_filter)

section \<open>The sequence counter\<close>

lemma next_sequence_Inr:
  "next_sequence c s = (Inr q, s') \<longleftrightarrow>
     s' = s\<lparr> next_sequences := hm_insert c q (next_sequences s) \<rparr> \<and>
     seq_nat q = Suc (counter_of (next_sequences s) c)"
proof (cases "hm_get (next_sequences s) c")
  case None
  have "seq_nat q = Suc 0 \<longleftrightarrow> q = seq_first"
    using seq_nat_inj [of q seq_first] by (simp add: seq_first_def)
  with None show ?thesis by (auto simp: next_sequence_def counter_of_def)
next
  case (Some r)
  have "checked_next r = Inr q \<longleftrightarrow> seq_nat q = Suc (seq_nat r)" by (rule checked_next_Inr)
  with Some show ?thesis
    by (cases "checked_next r") (auto simp: next_sequence_def counter_of_def)
qed

lemma next_sequence_Inl: "next_sequence c s = (Inl e, s') \<Longrightarrow> s' = s"
  by (auto simp: next_sequence_def split: sum.splits option.splits)

section \<open>What else the operations keep\<close>

text \<open>A reply points to an earlier root of the same channel.\<close>

definition parents_inv :: "message_map \<Rightarrow> bool" where
  "parents_inv ms \<longleftrightarrow> (\<forall>c. \<forall>m \<in> set (log_of ms c). \<forall>p. msg_parent m = Some p \<longrightarrow>
     (\<exists>r \<in> set (log_of ms c). msg_id r = p \<and> msg_parent r = None \<and> msg_sequence r < msg_sequence m))"

text \<open>A receipt points to a message of the user who got it.\<close>

definition receipts_inv :: "message_map \<Rightarrow> (user_id \<times> rstr, message_id) hmap \<Rightarrow> bool" where
  "receipts_inv ms rc \<longleftrightarrow> hm_wf rc \<and> (\<forall>k i. map_of rc k = Some i \<longrightarrow>
     (\<exists>m \<in> set (log_all ms). msg_id m = i \<and> msg_sender_id m = fst k))"

text \<open>A deleted message keeps neither its text nor reactions.\<close>

definition tombs_inv :: "message_map \<Rightarrow> (message_id \<times> user_id \<times> rstr) list \<Rightarrow> bool" where
  "tombs_inv ms rs \<longleftrightarrow> distinct rs \<and> (\<forall>m \<in> set (log_all ms). msg_deleted_at m \<noteq> None \<longrightarrow>
     msg_body m = tombstone_body \<and> msg_edited_at m = None \<and> (\<forall>r \<in> set rs. fst r \<noteq> msg_id m))"

text \<open>Nobody has read further than the last message.\<close>

definition reads_inv :: "message_map \<Rightarrow> (channel_id \<times> user_id, membership) hmap \<Rightarrow> bool" where
  "reads_inv ms mbs \<longleftrightarrow> (\<forall>k mb. map_of mbs k = Some mb \<longrightarrow>
     seq_nat (mb_last_read_sequence mb) \<le> length (log_of ms (fst k)))"

subsection \<open>under a push\<close>

lemma log_inv_push:
  assumes "log_inv ms nx" "msg_channel_id m = c" "seq_nat (msg_sequence m) = Suc (counter_of nx c)"
    and "msg_id m \<notin> msg_id ` set (log_all ms)"
  shows "log_inv (push_message c m ms) (hm_insert c (msg_sequence m) nx)"
proof -
  note inv = log_invD [OF assms(1)]
  have "run_ok d (log_of (push_message c m ms) d)" for d
    using inv(2) [of d] inv(2,3) [of c] assms(2,3) by (simp add: log_of_push run_ok_snoc)
  moreover have "counter_of (hm_insert c (msg_sequence m) nx) d = length (log_of (push_message c m ms) d)" for d
    using inv(3) [of d] inv(3) [of c] assms(3) by (simp add: log_of_push counter_of_def)
  moreover have "distinct (map msg_id (log_all (push_message c m ms)))"
    unfolding ids_log_push using inv(4) assms(4) by blast
  ultimately show ?thesis
    using push_message_wf [OF inv(1)] by (simp add: log_inv_def)
qed

lemma parents_inv_push:
  assumes "parents_inv ms"
    and "\<And>p. msg_parent m = Some p \<Longrightarrow>
      \<exists>r \<in> set (log_of ms c). msg_id r = p \<and> msg_parent r = None \<and> msg_sequence r < msg_sequence m"
  shows "parents_inv (push_message c m ms)"
  unfolding parents_inv_def
proof (intro allI ballI impI)
  fix d m' p
  assume m': "m' \<in> set (log_of (push_message c m ms) d)" "msg_parent m' = Some p"
  have sub: "set (log_of ms d) \<subseteq> set (log_of (push_message c m ms) d)"
    by (auto simp: log_of_push)
  from m'(1) consider "m' \<in> set (log_of ms d)" | "d = c" "m' = m"
    by (auto simp: log_of_push split: if_splits)
  then have "\<exists>r \<in> set (log_of ms d). msg_id r = p \<and> msg_parent r = None \<and> msg_sequence r < msg_sequence m'"
    using assms m'(2) by cases (auto simp: parents_inv_def)
  with sub show "\<exists>r \<in> set (log_of (push_message c m ms) d).
      msg_id r = p \<and> msg_parent r = None \<and> msg_sequence r < msg_sequence m'" by blast
qed

lemma receipts_inv_push: "receipts_inv ms rc \<Longrightarrow> receipts_inv (push_message c m ms) rc"
  unfolding receipts_inv_def set_log_push by blast

lemma receipts_inv_push_new:
  "receipts_inv ms rc \<Longrightarrow> msg_sender_id m = fst k \<Longrightarrow>
   receipts_inv (push_message c m ms) (hm_insert k (msg_id m) rc)"
  unfolding receipts_inv_def set_log_push by (cases k) auto

lemma tombs_inv_push:
  "tombs_inv ms rs \<Longrightarrow> msg_deleted_at m = None \<Longrightarrow> tombs_inv (push_message c m ms) rs"
  unfolding tombs_inv_def set_log_push by simp

lemma reads_inv_push: "reads_inv ms mbs \<Longrightarrow> reads_inv (push_message c m ms) mbs"
  unfolding reads_inv_def log_of_push by (simp add: le_SucI)

subsection \<open>under a change in place\<close>

lemma log_inv_update:
  assumes "log_inv ms nx" "keeps_shape f"
  shows "log_inv (update_message i f ms) nx"
  using log_invD [OF assms(1)]
  by (simp add: log_inv_def log_update run_ok_mapped [OF keeps_shape_at_id [OF assms(2)]]
      keeps_shapeD [OF keeps_shape_at_id [OF assms(2)]] comp_def)

lemma parents_inv_update:
  assumes "log_inv ms nx" "keeps_shape f" "parents_inv ms"
  shows "parents_inv (update_message i f ms)"
  using assms(3) log_invD(4) [OF assms(1)]
  by (simp add: log_update parents_inv_def keeps_shapeD [OF keeps_shape_at_id [OF assms(2)]])

lemma receipts_inv_update:
  assumes "log_inv ms nx" "keeps_shape f" "receipts_inv ms rc"
  shows "receipts_inv (update_message i f ms) rc"
  using assms(3) log_invD(4) [OF assms(1)]
  by (simp add: log_update receipts_inv_def keeps_shapeD [OF keeps_shape_at_id [OF assms(2)]])

lemma reads_inv_update:
  assumes "log_inv ms nx" "reads_inv ms mbs"
  shows "reads_inv (update_message i f ms) mbs"
  using assms(2) log_invD(4) [OF assms(1)]
  by (simp add: log_update reads_inv_def)

subsection \<open>when a channel is dropped\<close>

lemma log_inv_drop: "log_inv ms nx \<Longrightarrow> log_inv (hm_remove c ms) (hm_remove c nx)"
  by (auto simp: log_inv_def log_of_remove counter_of_def log_all_remove
      intro: distinct_log_filter)

lemma parents_inv_drop: "parents_inv ms \<Longrightarrow> parents_inv (hm_remove c ms)"
  by (simp add: parents_inv_def log_of_remove)

lemma tombs_inv_drop: "tombs_inv ms rs \<Longrightarrow> tombs_inv (hm_remove c ms) rs"
  using set_log_remove [of c ms] unfolding tombs_inv_def by (metis subsetD)

lemma reads_inv_drop:
  "hm_wf mbs \<Longrightarrow> reads_inv ms mbs \<Longrightarrow> reads_inv (hm_remove c ms) (hm_retain (\<lambda>k _. fst k \<noteq> c) mbs)"
  by (auto simp: reads_inv_def log_of_remove hm_get_retain split: option.splits if_splits)

end
