(* ===== verification/Message_Operations.thy ===== *)
theory Message_Operations
  imports Message_Log
begin

text \<open>
  What the message operations of the repository do: the sending operations on every branch,
  idempotent replay, editing, deleting, reactions, read markers, paging and media, over states
  that satisfy the invariant of the message log.
\<close>

section \<open>The invariant of the messages of a state\<close>

definition member_users :: "repository_state \<Rightarrow> bool" where
  "member_users s \<longleftrightarrow> (\<forall>c u. hm_has (memberships s) (c, u) \<longrightarrow> hm_has (users s) u)"

definition msg_inv :: "repository_state \<Rightarrow> bool" where
  "msg_inv s \<longleftrightarrow>
     log_inv (messages s) (next_sequences s) \<and> parents_inv (messages s) \<and>
     receipts_inv (messages s) (command_receipts s) \<and> tombs_inv (messages s) (message_reactions s) \<and>
     reads_inv (messages s) (memberships s) \<and> hm_wf (memberships s)"

lemma msg_invD:
  assumes "msg_inv s"
  shows "log_inv (messages s) (next_sequences s)" "parents_inv (messages s)"
    "receipts_inv (messages s) (command_receipts s)" "tombs_inv (messages s) (message_reactions s)"
    "reads_inv (messages s) (memberships s)" "hm_wf (memberships s)"
  using assms by (auto simp: msg_inv_def)

definition fresh_message :: "message_id \<Rightarrow> repository_state \<Rightarrow> bool" where
  "fresh_message i s \<longleftrightarrow> i \<notin> msg_id ` set (all_messages s)"

lemma find_message_SomeD:
  "find_message s i = Some m \<Longrightarrow> m \<in> set (log_all (messages s)) \<and> msg_id m = i"
  unfolding find_message_def all_messages_log by (metis (mono_tags, lifting) find_SomeD)

lemma find_message_unique:
  assumes "log_inv (messages s) nx" "m \<in> set (log_all (messages s))"
  shows "find_message s (msg_id m) = Some m"
  unfolding find_message_def all_messages_log
  using find_unique_id [OF log_invD(4) [OF assms(1)] assms(2)] .

lemma same_id_same_message:
  assumes "log_inv ms nx" "m \<in> set (log_all ms)" "m' \<in> set (log_all ms)" "msg_id m = msg_id m'"
  shows "m = m'"
  using log_invD(4) [OF assms(1)] assms(2-) by (auto simp: distinct_map inj_on_def)

section \<open>Sending\<close>

lemma check_parent_None:
  assumes "check_parent parent c s = None" "parent = Some p"
  shows "\<exists>r \<in> set (log_of (messages s) c). msg_id r = p \<and> msg_parent r = None \<and> msg_deleted_at r = None"
proof -
  from assms obtain r where r: "List.find (\<lambda>m. msg_id m = p) (channel_messages s c) = Some r"
    "msg_parent r = None" "msg_deleted_at r = None"
    by (auto simp: check_parent_def split: option.splits if_splits)
  from find_SomeD [OF r(1)] r(2,3) show ?thesis by (auto simp: channel_messages_log)
qed

text \<open>The state after a message was accepted.\<close>

definition accepted_state :: "chat_message \<Rightarrow> repository_state \<Rightarrow> repository_state" where
  "accepted_state m s =
     s\<lparr> next_sequences := hm_insert (msg_channel_id m) (msg_sequence m) (next_sequences s),
        messages := push_message (msg_channel_id m) m (messages s) \<rparr>"

definition accepts :: "message_id \<Rightarrow> instant \<Rightarrow> send_message \<Rightarrow> repository_state \<Rightarrow> chat_message \<Rightarrow> bool" where
  "accepts fresh now cmd s m \<longleftrightarrow>
     can_send_to_channel (role_of s (snd_channel_id cmd) (snd_actor cmd)) \<and>
     check_parent (snd_parent cmd) (snd_channel_id cmd) s = None \<and>
     (\<exists>user q. hm_get (users s) (snd_actor cmd) = Some user \<and>
        seq_nat q = Suc (counter_of (next_sequences s) (snd_channel_id cmd)) \<and>
        m = new_message fresh now (usr_display_name user) q cmd)"

lemma acceptsD:
  assumes "accepts fresh now cmd s m"
  shows "msg_id m = fresh" "msg_channel_id m = snd_channel_id cmd" "msg_parent m = snd_parent cmd"
    "msg_sender_id m = snd_actor cmd" "msg_body m = snd_body cmd" "msg_deleted_at m = None"
    "seq_nat (msg_sequence m) = Suc (counter_of (next_sequences s) (snd_channel_id cmd))"
    "can_send_to_channel (role_of s (snd_channel_id cmd) (snd_actor cmd))"
    "check_parent (snd_parent cmd) (snd_channel_id cmd) s = None"
  using assms by (auto simp: accepts_def new_message_def)

lemma member_has_user:
  "member_users s \<Longrightarrow> can_send_to_channel (role_of s c u) \<Longrightarrow> \<exists>user. hm_get (users s) u = Some user"
  using role_of_member [of s c u] send_implies_read [of "role_of s c u"]
  by (force simp: member_users_def is_member_def hm_has_iff can_read_channel_def)

lemma append_message_result:
  assumes "member_users s" "append_message fresh now cmd s = (r, s')"
  shows "(\<exists>e. r = Inl e \<and> s' = s) \<or> (\<exists>m. r = Inr m \<and> accepts fresh now cmd s m \<and> s' = accepted_state m s)"
proof (cases "can_send_to_channel (role_of s (snd_channel_id cmd) (snd_actor cmd)) \<and>
    check_parent (snd_parent cmd) (snd_channel_id cmd) s = None")
  case False
  with assms(2) show ?thesis by (auto simp: append_message_def Let_def split: if_splits option.splits)
next
  case True
  with assms(1) member_has_user obtain user where user: "hm_get (users s) (snd_actor cmd) = Some user"
    by blast
  show ?thesis
  proof (cases "next_sequence (snd_channel_id cmd) s")
    case (Pair x t)
    show ?thesis
    proof (cases x)
      case (Inl e)
      with Pair next_sequence_Inl have "t = s" by blast
      with True Pair Inl assms(2) show ?thesis by (auto simp: append_message_def Let_def)
    next
      case (Inr q)
      with Pair next_sequence_Inr [of "snd_channel_id cmd" s q t]
      have t: "t = s\<lparr> next_sequences := hm_insert (snd_channel_id cmd) q (next_sequences s) \<rparr>"
        "seq_nat q = Suc (counter_of (next_sequences s) (snd_channel_id cmd))" by simp_all
      let ?m = "new_message fresh now (usr_display_name user) q cmd"
      from True Pair Inr assms(2) user t(1)
      have "r = Inr ?m" "s' = accepted_state ?m s"
        by (auto simp: append_message_def Let_def accepted_state_def new_message_def)
      moreover from True user t(2) have "accepts fresh now cmd s ?m" by (auto simp: accepts_def)
      ultimately show ?thesis by blast
    qed
  qed
qed

text \<open>A request without a receipt runs the plain operation and records the receipt.\<close>

lemma append_idempotent_new:
  assumes "hm_get (command_receipts s) (snd_actor cmd, request_id) = None"
  shows "append_message_idempotent fresh now cmd request_id s =
    (case append_message fresh now cmd s of
       (Inl e, t) \<Rightarrow> (Inl e, t)
     | (Inr m, t) \<Rightarrow> (Inr m, t\<lparr> command_receipts :=
         hm_insert (snd_actor cmd, request_id) fresh (command_receipts s) \<rparr>))"
proof -
  have "command_receipts t = command_receipts s" if "next_sequence c s = (Inr q, t)" for c q t
    using that by (simp add: next_sequence_Inr)
  with assms show ?thesis
    by (auto simp: append_message_idempotent_def append_message_def Let_def
        split: option.split sum.split prod.split)
qed

lemma append_idempotent_replay:
  assumes "hm_get (command_receipts s) (snd_actor cmd, request_id) = Some i"
  shows "append_message_idempotent fresh now cmd request_id s =
    ((case find_message s i of
        None \<Rightarrow> Inl NotFound
      | Some m \<Rightarrow> if msg_channel_id m \<noteq> snd_channel_id cmd \<or> msg_parent m \<noteq> snd_parent cmd \<or>
                      msg_body m \<noteq> snd_body cmd
                   then Inl Conflict else Inr m), s)"
  using assms by (auto simp: append_message_idempotent_def Let_def split: option.splits)

lemma append_idempotent_result:
  assumes "member_users s" "hm_get (command_receipts s) (snd_actor cmd, request_id) = None"
    and "append_message_idempotent fresh now cmd request_id s = (r, s')"
  shows "(\<exists>e. r = Inl e \<and> s' = s) \<or>
    (\<exists>m. r = Inr m \<and> accepts fresh now cmd s m \<and>
       s' = (accepted_state m s)\<lparr> command_receipts :=
              hm_insert (snd_actor cmd, request_id) fresh (command_receipts s) \<rparr>)"
proof -
  obtain x t where app: "append_message fresh now cmd s = (x, t)" by (cases "append_message fresh now cmd s")
  from append_message_result [OF assms(1) app] append_idempotent_new [OF assms(2), of fresh now] app assms(3)
  show ?thesis by auto
qed

lemma accepts_parent:
  assumes "msg_inv s" "accepts fresh now cmd s m" "msg_parent m = Some p"
  shows "\<exists>r \<in> set (log_of (messages s) (snd_channel_id cmd)).
    msg_id r = p \<and> msg_parent r = None \<and> msg_sequence r < msg_sequence m"
proof -
  let ?c = "snd_channel_id cmd"
  from check_parent_None [OF acceptsD(9) [OF assms(2)]] assms(3) acceptsD(3) [OF assms(2)]
  obtain r where r: "r \<in> set (log_of (messages s) ?c)" "msg_id r = p" "msg_parent r = None" by auto
  note inv = log_invD [OF msg_invD(1) [OF assms(1)]]
  from r(1) obtain i where i: "i < length (log_of (messages s) ?c)" "r = log_of (messages s) ?c ! i"
    by (metis in_set_conv_nth)
  from run_ok_nth [OF inv(2) i(1)] i inv(3) [of ?c] acceptsD(7) [OF assms(2)]
  have "msg_sequence r < msg_sequence m" by (simp add: seq_less_nat)
  with r show ?thesis by blast
qed

lemma accepted_inv:
  assumes "msg_inv s" "fresh_message fresh s" "accepts fresh now cmd s m"
  shows "msg_inv (accepted_state m s)"
    "msg_inv ((accepted_state m s)\<lparr> command_receipts :=
       hm_insert (snd_actor cmd, request_id) fresh (command_receipts s) \<rparr>)"
proof -
  note inv = msg_invD [OF assms(1)] and acc = acceptsD [OF assms(3)]
  let ?ms = "push_message (snd_channel_id cmd) m (messages s)"
  have "log_inv ?ms (hm_insert (snd_channel_id cmd) (msg_sequence m) (next_sequences s))"
    using assms(2) acc by (intro log_inv_push inv(1)) (simp_all add: fresh_message_def all_messages_log)
  moreover have "parents_inv ?ms"
    by (rule parents_inv_push [OF inv(2) accepts_parent [OF assms(1,3)]])
  moreover have "receipts_inv ?ms (command_receipts s)" by (rule receipts_inv_push [OF inv(3)])
  moreover have "receipts_inv ?ms (hm_insert (snd_actor cmd, request_id) (msg_id m) (command_receipts s))"
    by (rule receipts_inv_push_new [OF inv(3)]) (simp add: acc)
  moreover have "tombs_inv ?ms (message_reactions s)" by (rule tombs_inv_push [OF inv(4) acc(6)])
  moreover have "reads_inv ?ms (memberships s)" by (rule reads_inv_push [OF inv(5)])
  ultimately show "msg_inv (accepted_state m s)"
    "msg_inv ((accepted_state m s)\<lparr> command_receipts :=
       hm_insert (snd_actor cmd, request_id) fresh (command_receipts s) \<rparr>)"
    using inv(6) by (simp_all add: msg_inv_def accepted_state_def acc)
qed

lemma append_message_inv:
  assumes "msg_inv s" "member_users s" "fresh_message fresh s"
  shows "msg_inv (snd (append_message fresh now cmd s))"
proof -
  obtain r s' where app: "append_message fresh now cmd s = (r, s')" by (cases "append_message fresh now cmd s")
  from append_message_result [OF assms(2) app] accepted_inv(1) [OF assms(1,3)] assms(1) app
  show ?thesis by auto
qed

lemma append_idempotent_inv:
  assumes "msg_inv s" "member_users s" "fresh_message fresh s"
  shows "msg_inv (snd (append_message_idempotent fresh now cmd request_id s))"
proof (cases "hm_get (command_receipts s) (snd_actor cmd, request_id)")
  case None
  obtain r s' where app: "append_message_idempotent fresh now cmd request_id s = (r, s')"
    by (cases "append_message_idempotent fresh now cmd request_id s")
  from append_idempotent_result [OF assms(2) None app] accepted_inv(2) [OF assms(1,3)] assms(1) app
  show ?thesis by auto
next
  case (Some i)
  from append_idempotent_replay [where fresh = fresh and now = now, OF Some] assms(1) show ?thesis by simp
qed

section \<open>Changing\<close>

lemma keeps_shape_edit [simp]:
  "keeps_shape (\<lambda>m. m\<lparr> msg_body := b, msg_edited_at := t \<rparr>)"
  by (simp add: keeps_shape_def)

lemma keeps_shape_entomb [simp]: "keeps_shape (entomb now)"
  by (simp add: keeps_shape_def entomb_def)

lemma tombs_inv_mono:
  assumes "tombs_inv ms rs"
    and "\<forall>x \<in> set (log_all ms'). msg_deleted_at x \<noteq> None \<longrightarrow> x \<in> set (log_all ms)"
  shows "tombs_inv ms' rs"
  using assms unfolding tombs_inv_def by blast

lemma tombs_inv_edit:
  assumes "log_inv ms nx" "tombs_inv ms rs" "m \<in> set (log_all ms)" "msg_deleted_at m = None"
    and "msg_deleted_at (f m) = None"
  shows "tombs_inv (update_message (msg_id m) f ms) rs"
proof (rule tombs_inv_mono [OF assms(2)], intro ballI impI)
  fix x
  assume x: "x \<in> set (log_all (update_message (msg_id m) f ms))" "msg_deleted_at x \<noteq> None"
  from x(1) log_invD(4) [OF assms(1)] obtain y where y: "y \<in> set (log_all ms)" "x = at_id (msg_id m) f y"
    by (auto simp: log_update)
  show "x \<in> set (log_all ms)"
  proof (cases "msg_id y = msg_id m")
    case True
    with same_id_same_message [OF assms(1) y(1) assms(3)] y(2) assms(5) x(2) show ?thesis
      by (simp add: at_id_def)
  next
    case False
    with y show ?thesis by (simp add: at_id_def)
  qed
qed

lemma tombs_inv_delete:
  assumes "log_inv ms nx" "tombs_inv ms rs"
  shows "tombs_inv (update_message i (entomb now) ms) (filter (\<lambda>r. fst r \<noteq> i) rs)"
proof -
  have "msg_body x = tombstone_body \<and> msg_edited_at x = None \<and> msg_id x = i \<or> x \<in> set (log_all ms)"
    if "x \<in> set (log_all (update_message i (entomb now) ms))" for x
    using that log_invD(4) [OF assms(1)] by (auto simp: log_update at_id_def entomb_def)
  moreover have "distinct (filter (\<lambda>r. fst r \<noteq> i) rs)" using assms(2) by (simp add: tombs_inv_def)
  ultimately show ?thesis using assms(2) unfolding tombs_inv_def by fastforce
qed

lemma edit_message_ok:
  assumes "edit_message now cmd s = (Inr m', s')"
  obtains m where "find_message s (edm_message_id cmd) = Some m" "msg_sender_id m = edm_actor cmd"
    "msg_deleted_at m = None"
    "m' = m\<lparr> msg_body := edm_body cmd, msg_edited_at := Some (persisted_now now) \<rparr>"
    "s' = s\<lparr> messages := update_message (edm_message_id cmd)
       (\<lambda>m. m\<lparr> msg_body := edm_body cmd, msg_edited_at := Some (persisted_now now) \<rparr>) (messages s) \<rparr>"
  using assms by (auto simp: edit_message_def Let_def split: option.splits if_splits)

lemma edit_message_fail: "edit_message now cmd s = (Inl e, s') \<Longrightarrow> s' = s"
  by (auto simp: edit_message_def Let_def split: option.splits if_splits)

lemma edit_message_inv:
  assumes "msg_inv s"
  shows "msg_inv (snd (edit_message now cmd s))"
proof (cases "edit_message now cmd s")
  case (Pair r s')
  note inv = msg_invD [OF assms]
  show ?thesis
  proof (cases r)
    case (Inl e)
    with Pair edit_message_fail assms show ?thesis by fastforce
  next
    case (Inr m')
    let ?f = "\<lambda>m. m\<lparr> msg_body := edm_body cmd, msg_edited_at := Some (persisted_now now) \<rparr>"
    from Pair Inr obtain m where m: "find_message s (edm_message_id cmd) = Some m" "msg_deleted_at m = None"
      and s': "s' = s\<lparr> messages := update_message (edm_message_id cmd) ?f (messages s) \<rparr>"
      by (auto elim: edit_message_ok)
    from find_message_SomeD [OF m(1)] have mem: "m \<in> set (log_all (messages s))" "msg_id m = edm_message_id cmd"
      by auto
    from tombs_inv_edit [OF inv(1,4) mem(1) m(2), of ?f] m(2) mem(2)
    have "tombs_inv (update_message (edm_message_id cmd) ?f (messages s)) (message_reactions s)" by simp
    with Pair s' inv show ?thesis
      by (simp add: msg_inv_def log_inv_update parents_inv_update receipts_inv_update reads_inv_update)
  qed
qed

lemma delete_message_inv:
  assumes "msg_inv s"
  shows "msg_inv (snd (delete_message now cmd s))"
proof -
  note inv = msg_invD [OF assms]
  have "msg_inv (s\<lparr> messages := update_message (dlm_message_id cmd) (entomb now) (messages s),
      message_reactions := filter (\<lambda>r. fst r \<noteq> dlm_message_id cmd) (message_reactions s) \<rparr>)"
    using inv tombs_inv_delete [OF inv(1,4)]
    by (simp add: msg_inv_def log_inv_update [OF inv(1)] parents_inv_update [OF inv(1) _ inv(2)]
        receipts_inv_update [OF inv(1) _ inv(3)] reads_inv_update [OF inv(1,5)])
  with assms show ?thesis by (auto simp: delete_message_def split: option.splits)
qed

section \<open>Reactions\<close>

lemma toggle_ok:
  assumes "toggle_message_reaction actor i emoji s = (Inr ch, s')"
  obtains m where "find_message s i = Some m" "msg_deleted_at m = None"
    "hm_has (memberships s) (msg_channel_id m, actor)"
    "rc_added ch \<longleftrightarrow> (i, actor, emoji) \<notin> set (message_reactions s)"
    "s' = s\<lparr> message_reactions := (if rc_added ch then hs_insert (i, actor, emoji) (message_reactions s)
                                    else hs_remove (i, actor, emoji) (message_reactions s)) \<rparr>"
    "rc_count ch = as_u32 (length (filter (\<lambda>r. fst r = i \<and> snd (snd r) = emoji) (message_reactions s')))"
  using assms by (auto simp: toggle_message_reaction_def Let_def split: option.splits if_splits)

lemma toggle_fail: "toggle_message_reaction actor i emoji s = (Inl e, s') \<Longrightarrow> s' = s"
  by (auto simp: toggle_message_reaction_def Let_def split: option.splits if_splits)

lemma tombs_inv_toggle:
  assumes "log_inv ms nx" "tombs_inv ms rs" "m \<in> set (log_all ms)" "msg_deleted_at m = None"
  shows "tombs_inv ms (hs_insert (msg_id m, u, e) rs)" "tombs_inv ms (hs_remove (msg_id m, u, e) rs)"
proof -
  have "\<forall>x \<in> set (log_all ms). msg_deleted_at x \<noteq> None \<longrightarrow> msg_id m \<noteq> msg_id x"
    using same_id_same_message [OF assms(1) assms(3)] assms(4) by metis
  with assms(2) show "tombs_inv ms (hs_insert (msg_id m, u, e) rs)"
    unfolding tombs_inv_def by simp
  from assms(2) show "tombs_inv ms (hs_remove (msg_id m, u, e) rs)"
    unfolding tombs_inv_def by auto
qed

lemma toggle_inv:
  assumes "msg_inv s"
  shows "msg_inv (snd (toggle_message_reaction actor i emoji s))"
proof (cases "toggle_message_reaction actor i emoji s")
  case (Pair r s')
  note inv = msg_invD [OF assms]
  show ?thesis
  proof (cases r)
    case (Inl e)
    with Pair toggle_fail assms show ?thesis by fastforce
  next
    case (Inr ch)
    with Pair obtain m where m: "find_message s i = Some m" "msg_deleted_at m = None"
      and s': "s' = s\<lparr> message_reactions := (if rc_added ch then hs_insert (i, actor, emoji) (message_reactions s)
                                    else hs_remove (i, actor, emoji) (message_reactions s)) \<rparr>"
      by (auto elim: toggle_ok)
    from find_message_SomeD [OF m(1)] have mem: "m \<in> set (log_all (messages s))" "msg_id m = i" by auto
    from tombs_inv_toggle [OF inv(1,4) mem(1) m(2)] mem(2) Pair s' inv show ?thesis
      by (simp add: msg_inv_def)
  qed
qed

section \<open>Read markers\<close>

lemma latest_length: "log_inv ms nx \<Longrightarrow> seq_nat (latest_of (log_of ms c)) = length (log_of ms c)"
  by (rule run_ok_latest [OF log_invD(2)])

lemma mark_read_ok:
  assumes "mark_read cmd s = (Inr m', s')"
  obtains m where "hm_get (memberships s) (mrk_channel_id cmd, mrk_actor cmd) = Some m"
    "mrk_sequence cmd \<le> latest_of (channel_messages s (mrk_channel_id cmd))"
    "m' = m\<lparr> mb_last_read_sequence := max (mrk_sequence cmd) (mb_last_read_sequence m) \<rparr>"
    "s' = s\<lparr> memberships := hm_insert (mrk_channel_id cmd, mrk_actor cmd) m' (memberships s) \<rparr>"
  using assms
  by (auto simp: mark_read_def Let_def max_def not_le split: option.splits if_splits)

lemma mark_read_fail: "mark_read cmd s = (Inl e, s') \<Longrightarrow> s' = s"
  by (auto simp: mark_read_def Let_def split: option.splits if_splits)

lemma reads_inv_insert:
  "reads_inv ms mbs \<Longrightarrow> seq_nat (mb_last_read_sequence mb) \<le> length (log_of ms (fst k)) \<Longrightarrow>
   reads_inv ms (hm_insert k mb mbs)"
  by (cases k) (auto simp: reads_inv_def)

lemma mark_read_inv:
  assumes "msg_inv s"
  shows "msg_inv (snd (mark_read cmd s))"
proof (cases "mark_read cmd s")
  case (Pair r s')
  note inv = msg_invD [OF assms]
  show ?thesis
  proof (cases r)
    case (Inl e)
    with Pair mark_read_fail assms show ?thesis by fastforce
  next
    case (Inr m')
    let ?c = "mrk_channel_id cmd"
    from Pair Inr obtain m where m: "hm_get (memberships s) (?c, mrk_actor cmd) = Some m"
      "mrk_sequence cmd \<le> latest_of (channel_messages s ?c)"
      "m' = m\<lparr> mb_last_read_sequence := max (mrk_sequence cmd) (mb_last_read_sequence m) \<rparr>"
      "s' = s\<lparr> memberships := hm_insert (?c, mrk_actor cmd) m' (memberships s) \<rparr>"
      by (auto elim: mark_read_ok)
    have "seq_nat (mrk_sequence cmd) \<le> length (log_of (messages s) ?c)"
      using m(2) latest_length [OF inv(1), of ?c] by (simp add: seq_le_nat channel_messages_log)
    moreover have "seq_nat (mb_last_read_sequence m) \<le> length (log_of (messages s) ?c)"
      using inv(5) m(1) by (auto simp: reads_inv_def)
    ultimately have "seq_nat (mb_last_read_sequence m') \<le> length (log_of (messages s) ?c)"
      by (simp add: m(3) max_def)
    with reads_inv_insert [OF inv(5), of m' "(?c, mrk_actor cmd)"] Pair m(4) inv show ?thesis
      by (simp add: msg_inv_def)
  qed
qed

end
