(* ===== verification/Repository_Users.thy ===== *)
theory Repository_Users
  imports Repository_State
begin

text \<open>
  Accounts, profiles and private preferences of the repository (\<open>src/domain/repository.rs\<close>):
  sign-up and its ordinals, statuses and saved statuses, saved emojis, and the personal space
  with its note and its saved links.
\<close>

section \<open>Accounts\<close>

text \<open>
  \<open>upsert_user\<close>; \<open>None\<close> is the overflow of the ordinal counter.
\<close>

definition keep_established :: "user option \<Rightarrow> user \<Rightarrow> user" where
  "keep_established existing user =
     (case existing of
        None \<Rightarrow> user
      | Some old \<Rightarrow>
          (let user = user\<lparr> usr_display_name := usr_display_name old \<rparr> in
           if usr_handle old \<noteq> None then user\<lparr> usr_handle := usr_handle old \<rparr> else user))"

definition assign_ordinal :: "user \<Rightarrow> repository_state \<Rightarrow> repository_state option" where
  "assign_ordinal user s =
     (if usr_kind user = Human \<and> \<not> hm_has (signup_ordinals s) (usr_id user)
      then (case checked_add_u64 (next_signup_ordinal s) 1 of
              None \<Rightarrow> None
            | Some ordinal \<Rightarrow>
                Some (s\<lparr> next_signup_ordinal := ordinal,
                         signup_ordinals := hm_insert (usr_id user) ordinal (signup_ordinals s) \<rparr>))
      else Some s)"

definition general_channel :: "repository_state \<Rightarrow> channel_id option" where
  "general_channel s =
     map_option ch_id (List.find (\<lambda>c. slug_str (ch_slug c) = lit ''general'') (hm_values (channels s)))"

definition upsert_user :: "user \<Rightarrow> repository_state \<Rightarrow> user op option" where
  "upsert_user user s =
     (let user = keep_established (hm_get (users s) (usr_id user)) user in
      case assign_ordinal user s of
        None \<Rightarrow> None
      | Some s \<Rightarrow>
          (let s = s\<lparr> users := hm_insert (usr_id user) user (users s) \<rparr>;
               s = (case general_channel s of
                      None \<Rightarrow> s
                    | Some c \<Rightarrow> s\<lparr> memberships := hm_or_insert (c, usr_id user)
                                     (new_membership c (usr_id user) Member) (memberships s) \<rparr>)
           in Some (Inr user, s)))"

definition signup_ordinal :: "user_id \<Rightarrow> repository_state \<Rightarrow> (repository_error, u64 option) result" where
  "signup_ordinal actor s =
     (if \<not> hm_has (users s) actor then Inl PermissionDenied
      else Inr (hm_get (signup_ordinals s) actor))"

definition list_human_users :: "user_id \<Rightarrow> repository_state \<Rightarrow> (repository_error, user list) result" where
  "list_human_users actor s =
     (if \<not> hm_has (users s) actor then Inl PermissionDenied
      else Inr (sort_key (\<lambda>u. name_str (usr_display_name u))
                  (filter (\<lambda>u. usr_kind u = Human) (hm_values (users s)))))"

definition early_adopter :: "repository_state \<Rightarrow> user_id \<Rightarrow> bool" where
  "early_adopter s u = (case hm_get (signup_ordinals s) u of None \<Rightarrow> False | Some n \<Rightarrow> n \<le> 50)"

definition status_of :: "repository_state \<Rightarrow> user_id \<Rightarrow> rstr \<times> rstr \<times> instant option" where
  "status_of s u = hm_get_or ([], [], None) (user_statuses s) u"

definition profile_of :: "instant \<Rightarrow> repository_state \<Rightarrow> user \<Rightarrow> user_profile" where
  "profile_of now s user =
     (let (text, emoji, expires_at) = status_of s (usr_id user);
          active = (case expires_at of None \<Rightarrow> True | Some expiry \<Rightarrow> expiry > now)
      in \<lparr> prof_user = user,
           prof_early_adopter = early_adopter s (usr_id user),
           prof_status_text = (if active then text else []),
           prof_status_emoji = (if active then emoji else []),
           prof_status_expires_at = (if active then expires_at else None) \<rparr>)"

definition list_user_profiles :: "instant \<Rightarrow> user_id \<Rightarrow> repository_state \<Rightarrow>
    (repository_error, user_profile list) result" where
  "list_user_profiles now actor s =
     (if \<not> hm_has (users s) actor then Inl PermissionDenied
      else Inr (sort_key (\<lambda>p. name_str (usr_display_name (prof_user p)))
                  (map (profile_of now s) (filter (\<lambda>u. usr_kind u = Human) (hm_values (users s))))))"

definition list_circle_user_profiles :: "instant \<Rightarrow> user_id \<Rightarrow> circle_id \<Rightarrow> repository_state \<Rightarrow>
    (repository_error, user_profile list) result" where
  "list_circle_user_profiles now actor circle_id s =
     (if \<not> hm_has (circle_memberships s) (circle_id, actor) then Inl PermissionDenied
      else let member_ids = map snd (filter (\<lambda>k. fst k = circle_id) (hm_keys (circle_memberships s))) in
           result_bind (list_user_profiles now actor s)
             (\<lambda>profiles. Inr (filter (\<lambda>p. usr_id (prof_user p) \<in> set member_ids) profiles)))"

definition list_channel_user_profiles :: "instant \<Rightarrow> user_id \<Rightarrow> channel_id \<Rightarrow> repository_state \<Rightarrow>
    (repository_error, user_profile list) result" where
  "list_channel_user_profiles now actor channel_id s =
     (if \<not> hm_has (memberships s) (channel_id, actor) then Inl PermissionDenied
      else let member_ids = map snd (filter (\<lambda>k. fst k = channel_id) (hm_keys (memberships s))) in
           result_bind (list_user_profiles now actor s)
             (\<lambda>profiles. Inr (filter (\<lambda>p. usr_id (prof_user p) \<in> set member_ids) profiles)))"

definition update_profile :: "user_id \<Rightarrow> display_name \<Rightarrow> repository_state \<Rightarrow> user_profile op" where
  "update_profile actor name s =
     (case hm_get (users s) actor of
        None \<Rightarrow> (Inl PermissionDenied, s)
      | Some user \<Rightarrow>
          if usr_kind user \<noteq> Human then (Inl PermissionDenied, s)
          else let user = user\<lparr> usr_display_name := name \<rparr>;
                   s = s\<lparr> users := hm_insert actor user (users s) \<rparr>;
                   (text, emoji, expires_at) = status_of s actor
               in (Inr \<lparr> prof_user = user, prof_early_adopter = early_adopter s (usr_id user),
                         prof_status_text = text, prof_status_emoji = emoji,
                         prof_status_expires_at = expires_at \<rparr>, s))"

section \<open>Statuses and emojis\<close>

text \<open>The saved status with this text and emoji is counted up, or a new one is appended.\<close>

definition remember_status :: "instant \<Rightarrow> rstr \<Rightarrow> rstr \<Rightarrow> saved_status list \<Rightarrow> saved_status list" where
  "remember_status now text emoji statuses =
     (let same = (\<lambda>x. ss_text x = text \<and> ss_emoji x = emoji);
          statuses = (if \<exists>x \<in> set statuses. same x
                      then update_first same
                             (\<lambda>x. x\<lparr> ss_save_count := saturating_succ_i64 (ss_save_count x),
                                     ss_last_used_at := now \<rparr>) statuses
                      else statuses @ [\<lparr> ss_text = text, ss_emoji = emoji, ss_save_count = 1,
                                         ss_last_used_at = now \<rparr>])
      in take 20 (sort_saved_statuses statuses))"

definition set_user_status :: "instant \<Rightarrow> user_id \<Rightarrow> rstr \<Rightarrow> rstr \<Rightarrow> instant option \<Rightarrow> repository_state \<Rightarrow>
    user_profile op" where
  "set_user_status now actor text emoji expires_at s =
     (case hm_get (users s) actor of
        None \<Rightarrow> (Inl PermissionDenied, s)
      | Some user \<Rightarrow>
          if usr_kind user \<noteq> Human then (Inl PermissionDenied, s)
          else let s = (if text \<noteq> [] \<or> emoji \<noteq> []
                        then s\<lparr> saved_statuses := hm_insert actor
                               (remember_status now text emoji (hm_get_or [] (saved_statuses s) actor))
                               (saved_statuses s) \<rparr>
                        else s);
                   s = s\<lparr> user_statuses := hm_insert actor (text, emoji, expires_at) (user_statuses s) \<rparr>
               in (Inr \<lparr> prof_user = user, prof_early_adopter = early_adopter s (usr_id user),
                         prof_status_text = text, prof_status_emoji = emoji,
                         prof_status_expires_at = expires_at \<rparr>, s))"

definition saved_statuses_of :: "user_id \<Rightarrow> repository_state \<Rightarrow> saved_status list" where
  "saved_statuses_of actor s = hm_get_or [] (saved_statuses s) actor"

definition remove_saved_status :: "user_id \<Rightarrow> rstr \<Rightarrow> rstr \<Rightarrow> repository_state \<Rightarrow> unit op" where
  "remove_saved_status actor text emoji s =
     (if \<not> is_human s actor then (Inl PermissionDenied, s)
      else case hm_get (saved_statuses s) actor of
             None \<Rightarrow> (Inr (), s)
           | Some statuses \<Rightarrow>
               (Inr (), s\<lparr> saved_statuses := hm_insert actor
                  (filter (\<lambda>x. ss_text x \<noteq> text \<or> ss_emoji x \<noteq> emoji) statuses) (saved_statuses s) \<rparr>))"

definition saved_emojis_of :: "user_id \<Rightarrow> repository_state \<Rightarrow> rstr list" where
  "saved_emojis_of actor s = hm_get_or [] (saved_emojis s) actor"

definition save_emoji :: "user_id \<Rightarrow> rstr \<Rightarrow> bool \<Rightarrow> repository_state \<Rightarrow> unit op" where
  "save_emoji actor emoji saved s =
     (if \<not> hm_has (users s) actor then (Inl PermissionDenied, s)
      else let choices = hm_get_or [] (saved_emojis s) actor;
               s = s\<lparr> saved_emojis := hm_or_insert actor [] (saved_emojis s) \<rparr>
           in if saved \<and> emoji \<notin> set choices
              then (if length choices \<ge> 50 then (Inl Conflict, s)
                    else (Inr (), s\<lparr> saved_emojis := hm_insert actor (choices @ [emoji]) (saved_emojis s) \<rparr>))
              else if \<not> saved
              then (Inr (), s\<lparr> saved_emojis := hm_insert actor (filter (\<lambda>x. x \<noteq> emoji) choices) (saved_emojis s) \<rparr>)
              else (Inr (), s))"

section \<open>The personal space\<close>

text \<open>
  \<open>simple\<close> and \<open>hyphenated\<close> are the two text forms of a UUID. The slug of a personal channel is
  built from its identifier; a slug the constructor refuses is a panic.
\<close>

definition personal_channel :: "unicode \<Rightarrow> (uuid \<Rightarrow> rstr) \<Rightarrow> channel_id \<Rightarrow> user_id \<Rightarrow> channel option" where
  "personal_channel u simple fresh owner =
     (case (channel_slug_new u (lit ''personal-'' @ simple (channel_uuid fresh)),
            display_name_new (lit ''Omr'' @ 229 # lit ''det mitt'')) of
        (Inr slug, Inr name) \<Rightarrow>
          Some \<lparr> ch_id = fresh, ch_slug = slug, ch_name = name, ch_kind = Private,
                 ch_circle_id = None, ch_created_by = owner \<rparr>
      | _ \<Rightarrow> None)"

definition open_personal_space :: "unicode \<Rightarrow> (uuid \<Rightarrow> rstr) \<Rightarrow> channel_id \<Rightarrow> user_id \<Rightarrow> repository_state \<Rightarrow>
    channel op option" where
  "open_personal_space u simple fresh owner s =
     (if \<not> is_human s owner then Some (Inl PermissionDenied, s)
      else case hm_get (personal_spaces s) owner of
             Some (c, _) \<Rightarrow>
               Some ((case hm_get (channels s) c of Some ch \<Rightarrow> Inr ch | None \<Rightarrow> Inl NotFound), s)
           | None \<Rightarrow>
               (case personal_channel u simple fresh owner of
                  None \<Rightarrow> None
                | Some ch \<Rightarrow>
                    Some (Inr ch,
                      s\<lparr> channels := hm_insert (ch_id ch) ch (channels s),
                         channels_by_slug := hm_insert (ch_slug ch) (ch_id ch) (channels_by_slug s),
                         memberships := hm_insert (ch_id ch, owner)
                           (new_membership (ch_id ch) owner Member) (memberships s),
                         personal_spaces := hm_insert owner (ch_id ch, personal_note_default)
                           (personal_spaces s) \<rparr>)))"

definition personal_note_of :: "user_id \<Rightarrow> repository_state \<Rightarrow> (repository_error, personal_note) result" where
  "personal_note_of owner s =
     (case hm_get (personal_spaces s) owner of Some (_, note) \<Rightarrow> Inr note | None \<Rightarrow> Inl NotFound)"

text \<open>\<open>save_personal_note\<close>; \<open>None\<close> is the overflow of the revision.\<close>

definition save_personal_note :: "user_id \<Rightarrow> personal_note \<Rightarrow> repository_state \<Rightarrow> personal_note op option" where
  "save_personal_note owner note s =
     (case hm_get (personal_spaces s) owner of
        None \<Rightarrow> Some (Inl Conflict, s)
      | Some (c, current) \<Rightarrow>
          if pn_revision current \<noteq> pn_revision note then Some (Inl Conflict, s)
          else if pn_revision note \<ge> i64_max then None
          else let note = note\<lparr> pn_revision := pn_revision note + 1 \<rparr> in
               Some (Inr note, s\<lparr> personal_spaces := hm_insert owner (c, note) (personal_spaces s) \<rparr>))"

definition personal_link_body :: "(uuid \<Rightarrow> rstr) \<Rightarrow> channel_id \<Rightarrow> message_id \<Rightarrow> channel_sequence \<Rightarrow>
    message_id option \<Rightarrow> message_body option" where
  "personal_link_body hyphenated channel_id message_id sequence parent_id =
     (let link = lit ''/?channel='' @ hyphenated (channel_uuid channel_id) @
                 lit ''&message='' @ hyphenated (message_uuid message_id) @
                 lit ''&sequence='' @ dec_digits (unat (seq_u64 sequence));
          link = (case parent_id of None \<Rightarrow> link
                  | Some p \<Rightarrow> link @ lit ''&thread='' @ hyphenated (message_uuid p))
      in case message_body_new (lit ''[[[Lagra melding]('' @ link @ lit '')]]'') of
           Inr b \<Rightarrow> Some b | Inl _ \<Rightarrow> None)"

definition personal_link_message :: "message_id \<Rightarrow> instant \<Rightarrow> channel_id \<Rightarrow> user \<Rightarrow> user_id \<Rightarrow> message_body \<Rightarrow>
    channel_sequence \<Rightarrow> chat_message" where
  "personal_link_message fresh now c user owner body q =
     \<lparr> msg_id = fresh, msg_channel_id = c, msg_parent = None, msg_sender_id = owner,
       msg_sender_display_name = usr_display_name user, msg_body = body, msg_sequence = q,
       msg_sent_at = persisted_now now, msg_edited_at = None, msg_deleted_at = None \<rparr>"

definition link_saved :: "(user_id \<times> message_id) \<Rightarrow> channel_id \<Rightarrow> repository_state \<Rightarrow> bool" where
  "link_saved key c s =
     (case hm_get (personal_saved_links s) key of
        None \<Rightarrow> False
      | Some existing \<Rightarrow> \<exists>m \<in> set (channel_messages s c). msg_id m = existing \<and> msg_deleted_at m = None)"

text \<open>The part of \<open>save_personal_link\<close> after the personal space was opened.\<close>

definition store_personal_link :: "(uuid \<Rightarrow> rstr) \<Rightarrow> instant \<Rightarrow> message_id \<Rightarrow> user_id \<Rightarrow> chat_message \<Rightarrow> channel_id \<Rightarrow>
    repository_state \<Rightarrow> message_id option op option" where
  "store_personal_link hyphenated now fresh owner source c s =
     (let key = (owner, msg_id source) in
      if link_saved key c s then Some (Inr None, s)
      else case hm_get (users s) owner of
             None \<Rightarrow> Some (Inl NotFound, s)
           | Some user \<Rightarrow>
               (case next_sequence c s of
                  (Inl e, s) \<Rightarrow> Some (Inl e, s)
                | (Inr q, s) \<Rightarrow>
                    (case personal_link_body hyphenated (msg_channel_id source) (msg_id source)
                            (msg_sequence source) (msg_parent source) of
                       None \<Rightarrow> None
                     | Some body \<Rightarrow>
                         Some (Inr (Some fresh),
                           s\<lparr> messages := push_message c
                                (personal_link_message fresh now c user owner body q) (messages s),
                              personal_saved_links := hm_insert key fresh (personal_saved_links s) \<rparr>))))"

definition save_personal_link :: "unicode \<Rightarrow> (uuid \<Rightarrow> rstr) \<Rightarrow> (uuid \<Rightarrow> rstr) \<Rightarrow> instant \<Rightarrow> channel_id \<Rightarrow>
    message_id \<Rightarrow> user_id \<Rightarrow> message_id \<Rightarrow> repository_state \<Rightarrow> message_id option op option" where
  "save_personal_link u simple hyphenated now fresh_channel fresh_message owner source_id s =
     (case List.find (\<lambda>m. msg_id m = source_id \<and> msg_deleted_at m = None \<and>
             hm_has (memberships s) (msg_channel_id m, owner)) (all_messages s) of
        None \<Rightarrow> Some (Inl NotFound, s)
      | Some source \<Rightarrow>
          (case open_personal_space u simple fresh_channel owner s of
             None \<Rightarrow> None
           | Some (Inl e, s) \<Rightarrow> Some (Inl e, s)
           | Some (Inr channel, s) \<Rightarrow>
               store_personal_link hyphenated now fresh_message owner source (ch_id channel) s))"

end
