(* ===== verification/Repository_Circles.thy ===== *)
theory Repository_Circles
  imports Repository_State
begin

text \<open>
  Circles, their members, favorites and invitations, and the enrollment invitations that admit
  new accounts (\<open>src/domain/repository.rs\<close>). The SHA-256 digest is an argument, and so are the
  generated tokens: \<open>Inl\<close> is a failure of the random source.
\<close>

section \<open>Circles\<close>

definition create_circle :: "instant \<Rightarrow> circle_id \<Rightarrow> create_circle \<Rightarrow> repository_state \<Rightarrow> circle op" where
  "create_circle now fresh cmd s =
     (if \<not> hm_has (users s) (ccr_actor cmd) then (Inl PermissionDenied, s)
      else if hm_has (circles_by_slug s) (ccr_slug cmd) then (Inl Conflict, s)
      else let circle = \<lparr> crc_id = fresh, crc_slug = ccr_slug cmd, crc_name = ccr_name cmd,
                          crc_created_by = ccr_actor cmd, crc_created_at = now \<rparr>;
               membership = \<lparr> cm_circle_id = fresh, cm_user_id = ccr_actor cmd, cm_role = CircleOwner,
                              cm_joined_at = now \<rparr>
           in (Inr circle,
               s\<lparr> circles_by_slug := hm_insert (crc_slug circle) (crc_id circle) (circles_by_slug s),
                  circles := hm_insert (crc_id circle) circle (circles s),
                  circle_memberships := hm_insert (crc_id circle, ccr_actor cmd) membership
                    (circle_memberships s) \<rparr>))"

definition list_circles_for_user :: "user_id \<Rightarrow> repository_state \<Rightarrow> (circle \<times> circle_role) list" where
  "list_circles_for_user actor s =
     sort_key (\<lambda>p. slug_str (crc_slug (fst p)))
       (List.map_filter (\<lambda>m. map_option (\<lambda>c. (c, cm_role m)) (hm_get (circles s) (cm_circle_id m)))
         (filter (\<lambda>m. cm_user_id m = actor) (hm_values (circle_memberships s))))"

definition circle_member_roles :: "user_id \<Rightarrow> circle_id \<Rightarrow> repository_state \<Rightarrow>
    (repository_error, (user_id \<times> circle_role) list) result" where
  "circle_member_roles actor circle_id s =
     (if \<not> hm_has (circle_memberships s) (circle_id, actor) then Inl PermissionDenied
      else Inr (map (\<lambda>m. (cm_user_id m, cm_role m))
                 (filter (\<lambda>m. cm_circle_id m = circle_id) (hm_values (circle_memberships s)))))"

definition set_circle_member_role :: "set_circle_member_role \<Rightarrow> repository_state \<Rightarrow> circle_membership op" where
  "set_circle_member_role cmd s =
     (if scr_role cmd = CircleOwner \<or>
         circle_role_of s (scr_circle_id cmd) (scr_actor cmd) \<noteq> Some CircleOwner \<or>
         \<not> is_human s (scr_user_id cmd)
      then (Inl PermissionDenied, s)
      else case hm_get (circle_memberships s) (scr_circle_id cmd, scr_user_id cmd) of
             None \<Rightarrow> (Inl PermissionDenied, s)
           | Some member \<Rightarrow>
               if cm_role member = CircleOwner then (Inl PermissionDenied, s)
               else let member = member\<lparr> cm_role := scr_role cmd \<rparr>
                    in (Inr member,
                        s\<lparr> circle_memberships := hm_insert (scr_circle_id cmd, scr_user_id cmd) member
                             (circle_memberships s),
                           circle_updates := Suc (circle_updates s) \<rparr>))"

definition rename_circle :: "rename_circle \<Rightarrow> repository_state \<Rightarrow> circle op" where
  "rename_circle cmd s =
     (if \<not> can_rename_circle (circle_role_of s (rnc_circle_id cmd) (rnc_actor cmd))
      then (Inl PermissionDenied, s)
      else case hm_get (circles s) (rnc_circle_id cmd) of
             None \<Rightarrow> (Inl NotFound, s)
           | Some circle \<Rightarrow>
               let circle = circle\<lparr> crc_name := rnc_name cmd \<rparr>
               in (Inr circle, s\<lparr> circles := hm_insert (rnc_circle_id cmd) circle (circles s),
                                  circle_updates := Suc (circle_updates s) \<rparr>))"

definition circle_channel_ids :: "circle_id \<Rightarrow> repository_state \<Rightarrow> channel_id list" where
  "circle_channel_ids circle_id s =
     map ch_id (filter (\<lambda>c. ch_circle_id c = Some circle_id) (hm_values (channels s)))"

text \<open>The body of the loop of \<open>delete_circle\<close> over the channels of the circle.\<close>

definition drop_channel :: "channel_id \<Rightarrow> repository_state \<Rightarrow> repository_state" where
  "drop_channel c s =
     (let s = (case hm_get (channels s) c of
                 None \<Rightarrow> s
               | Some channel \<Rightarrow>
                   s\<lparr> channels := hm_remove c (channels s),
                      channels_by_slug := hm_remove (ch_slug channel) (channels_by_slug s) \<rparr>)
      in s\<lparr> memberships := hm_retain (\<lambda>k _. fst k \<noteq> c) (memberships s),
            messages := hm_remove c (messages s),
            next_sequences := hm_remove c (next_sequences s) \<rparr>)"

definition delete_circle :: "delete_circle \<Rightarrow> repository_state \<Rightarrow> unit op" where
  "delete_circle cmd s =
     (if \<not> can_delete_circle (circle_role_of s (dlc_circle_id cmd) (dlc_actor cmd))
      then (Inl PermissionDenied, s)
      else case hm_get (circles s) (dlc_circle_id cmd) of
             None \<Rightarrow> (Inl NotFound, s)
           | Some circle \<Rightarrow>
               let k = dlc_circle_id cmd;
                   s = s\<lparr> circles := hm_remove k (circles s),
                          circles_by_slug := hm_remove (crc_slug circle) (circles_by_slug s),
                          favorite_circles := filter (\<lambda>p. fst p \<noteq> k) (favorite_circles s),
                          circle_memberships := hm_retain (\<lambda>p _. fst p \<noteq> k) (circle_memberships s),
                          circle_invitations := hm_retain (\<lambda>_ i. inv_circle_id i \<noteq> k) (circle_invitations s) \<rparr>;
                   channel_ids = circle_channel_ids k s;
                   message_ids = map msg_id (concat (map (channel_messages s) channel_ids));
                   s = fold drop_channel channel_ids s
               in (Inr (), s\<lparr> command_receipts :=
                     hm_retain (\<lambda>_ i. i \<notin> set message_ids) (command_receipts s) \<rparr>))"

definition leave_circle :: "leave_circle \<Rightarrow> repository_state \<Rightarrow> unit op" where
  "leave_circle cmd s =
     (let key = (lvc_circle_id cmd, lvc_actor cmd) in
      if \<not> can_leave_circle (circle_role_of s (lvc_circle_id cmd) (lvc_actor cmd))
      then (Inl PermissionDenied, s)
      else let s = s\<lparr> circle_memberships := hm_remove key (circle_memberships s),
                      favorite_circles := hs_remove key (favorite_circles s) \<rparr>;
               channel_ids = circle_channel_ids (lvc_circle_id cmd) s
           in (Inr (), s\<lparr> memberships :=
                 hm_retain (\<lambda>p _. snd p \<noteq> lvc_actor cmd \<or> fst p \<notin> set channel_ids) (memberships s) \<rparr>))"

section \<open>Favorites\<close>

definition favorite_circles_of :: "(uuid \<Rightarrow> rstr) \<Rightarrow> user_id \<Rightarrow> repository_state \<Rightarrow> circle_id list" where
  "favorite_circles_of hyphenated actor s =
     sort_key (\<lambda>c. hyphenated (circle_uuid c))
       (map fst (filter (\<lambda>p. snd p = actor) (favorite_circles s)))"

definition set_circle_favorite :: "user_id \<Rightarrow> circle_id \<Rightarrow> bool \<Rightarrow> repository_state \<Rightarrow> unit op" where
  "set_circle_favorite actor circle favorite s =
     (let key = (circle, actor) in
      if \<not> favorite then (Inr (), s\<lparr> favorite_circles := hs_remove key (favorite_circles s) \<rparr>)
      else if \<not> hm_has (circle_memberships s) key then (Inl PermissionDenied, s)
      else if key \<notin> set (favorite_circles s) \<and>
              length (filter (\<lambda>p. snd p = actor) (favorite_circles s)) \<ge> 12
           then (Inl Conflict, s)
      else (Inr (), s\<lparr> favorite_circles := hs_insert key (favorite_circles s) \<rparr>))"

section \<open>Circle invitations\<close>

definition seven_days :: int where
  "seven_days = 7 * 24 * 60 * 60 * 1000000000"

definition create_circle_invitation :: "(rstr \<Rightarrow> byte list) \<Rightarrow> (rstr, rstr) result \<Rightarrow> instant \<Rightarrow> invitation_id \<Rightarrow>
    create_circle_invitation \<Rightarrow> repository_state \<Rightarrow> issued_invitation op" where
  "create_circle_invitation sha256 generated now fresh cmd s =
     (if \<not> is_human s (cci_actor cmd) then (Inl PermissionDenied, s)
      else if \<not> can_invite_to_circle (circle_role_of s (cci_circle_id cmd) (cci_actor cmd))
           then (Inl PermissionDenied, s)
      else case generated of
             Inl e \<Rightarrow> (Inl (Storage e), s)
           | Inr token \<Rightarrow>
               let invitation = \<lparr> inv_id = fresh, inv_circle_id = cci_circle_id cmd,
                                  inv_invited_by = cci_actor cmd, inv_expires_at = now + seven_days \<rparr>
               in (Inr \<lparr> issued_invitation = invitation, issued_token = token \<rparr>,
                   s\<lparr> circle_invitations := hm_insert (sha256 token) invitation (circle_invitations s) \<rparr>))"

text \<open>The clock is read once for the expiry and once for the membership.\<close>

definition accept_circle_invitation :: "(rstr \<Rightarrow> byte list) \<Rightarrow> instant \<Rightarrow> instant \<Rightarrow> accept_circle_invitation \<Rightarrow>
    repository_state \<Rightarrow> circle_membership op" where
  "accept_circle_invitation sha256 now joined cmd s =
     (if \<not> hm_has (users s) (aci_actor cmd) then (Inl PermissionDenied, s)
      else case hm_get (circle_invitations s) (sha256 (aci_token cmd)) of
             None \<Rightarrow> (Inl NotFound, s)
           | Some invitation \<Rightarrow>
               let s = s\<lparr> circle_invitations := hm_remove (sha256 (aci_token cmd)) (circle_invitations s) \<rparr>
               in if inv_expires_at invitation < now then (Inl NotFound, s)
                  else let membership = \<lparr> cm_circle_id = inv_circle_id invitation,
                             cm_user_id = aci_actor cmd, cm_role = CircleMember, cm_joined_at = joined \<rparr>
                       in (Inr membership,
                           s\<lparr> circle_memberships := hm_insert (inv_circle_id invitation, aci_actor cmd)
                                membership (circle_memberships s) \<rparr>))"

section \<open>Enrollment invitations\<close>

definition prepare_enrollment_invitation :: "unicode \<Rightarrow> (rstr \<Rightarrow> byte list) \<Rightarrow> (rstr, rstr) result \<Rightarrow> uuid \<Rightarrow>
    prepare_enrollment_invitation \<Rightarrow> repository_state \<Rightarrow> issued_enrollment_invitation op" where
  "prepare_enrollment_invitation u sha256 generated fresh cmd s =
     (case hm_get (users s) (pre_actor cmd) of
        None \<Rightarrow> (Inl PermissionDenied, s)
      | Some actor \<Rightarrow>
          if usr_kind actor \<noteq> Human then (Inl PermissionDenied, s)
          else if (case pre_circle_id cmd of
                     None \<Rightarrow> False
                   | Some k \<Rightarrow> \<not> can_invite_to_circle (circle_role_of s k (pre_actor cmd)))
               then (Inl PermissionDenied, s)
          else case generated of
                 Inl e \<Rightarrow> (Inl (Storage e), s)
               | Inr token \<Rightarrow>
                   let invitation = \<lparr> en_id = fresh, en_circle_id = pre_circle_id cmd,
                         en_invited_by = pre_actor cmd, en_expires_at = pre_expires_at cmd,
                         en_state = Inactive, en_authentik_invitation_id = None \<rparr>;
                       stored = \<lparr> st_invitation = invitation,
                         st_expected_email_hash = enrollment_email_hash u sha256 (pre_email cmd),
                         st_consumed_by = None \<rparr>
                   in (Inr \<lparr> ien_invitation = invitation, ien_token = token \<rparr>,
                       s\<lparr> enrollment_invitations := hm_insert (enrollment_token_hash sha256 token) stored
                            (enrollment_invitations s) \<rparr>))"

definition activate_enrollment_invitation :: "(rstr \<Rightarrow> byte list) \<Rightarrow> instant \<Rightarrow>
    activate_enrollment_invitation \<Rightarrow> repository_state \<Rightarrow> enrollment_invitation op" where
  "activate_enrollment_invitation sha256 now cmd s =
     (let h = enrollment_token_hash sha256 (act_token cmd) in
      case hm_get (enrollment_invitations s) h of
        None \<Rightarrow> (Inl NotFound, s)
      | Some stored \<Rightarrow>
          if en_state (st_invitation stored) \<noteq> Inactive \<or> en_expires_at (st_invitation stored) \<le> now
          then (Inl NotFound, s)
          else let invitation = (st_invitation stored)\<lparr> en_state := Active,
                     en_authentik_invitation_id := Some (act_authentik_invitation_id cmd) \<rparr>
               in (Inr invitation,
                   s\<lparr> enrollment_invitations := hm_insert h (stored\<lparr> st_invitation := invitation \<rparr>)
                        (enrollment_invitations s) \<rparr>))"

definition accept_enrollment_invitation :: "unicode \<Rightarrow> (rstr \<Rightarrow> byte list) \<Rightarrow> instant \<Rightarrow> instant \<Rightarrow>
    accept_enrollment_invitation \<Rightarrow> repository_state \<Rightarrow> circle_membership option op" where
  "accept_enrollment_invitation u sha256 now joined cmd s =
     (if \<not> hm_has (users s) (acc_actor cmd) then (Inl PermissionDenied, s)
      else let h = enrollment_token_hash sha256 (acc_token cmd) in
           case hm_get (enrollment_invitations s) h of
             None \<Rightarrow> (Inl NotFound, s)
           | Some stored \<Rightarrow>
               if en_state (st_invitation stored) \<noteq> Active \<or> en_expires_at (st_invitation stored) \<le> now \<or>
                  st_expected_email_hash stored \<noteq> enrollment_email_hash u sha256 (acc_email cmd)
               then (Inl NotFound, s)
               else let stored = stored\<lparr> st_invitation := (st_invitation stored)\<lparr> en_state := Consumed \<rparr>,
                                         st_consumed_by := Some (acc_actor cmd) \<rparr>;
                        s = s\<lparr> enrollment_invitations := hm_insert h stored (enrollment_invitations s) \<rparr>
                    in case en_circle_id (st_invitation stored) of
                         None \<Rightarrow> (Inr None, s)
                       | Some k \<Rightarrow>
                           let membership = \<lparr> cm_circle_id = k, cm_user_id = acc_actor cmd,
                                 cm_role = CircleMember, cm_joined_at = joined \<rparr>;
                               s = s\<lparr> circle_memberships := hm_or_insert (k, acc_actor cmd) membership
                                        (circle_memberships s) \<rparr>
                           in (Inr (hm_get (circle_memberships s) (k, acc_actor cmd)), s))"

end
