(* ===== verification/Repository_Channels.thy ===== *)
theory Repository_Channels
  imports Repository_State
begin

text \<open>
  Channels, memberships, direct conversations and the account export
  (\<open>src/domain/repository.rs\<close>), and the activity of direct conversations
  (\<open>src/domain/direct_activity.rs\<close>). The floating-point update of the activity score is an
  argument; everything around it is modelled.
\<close>

section \<open>Direct activity\<close>

definition direct_activity_empty :: "instant \<Rightarrow> direct_activity" where
  "direct_activity_empty now = \<lparr> da_last_message_at = None, da_score = 0, da_calculated_at = now \<rparr>"

definition day_nanos :: int where
  "day_nanos = 24 * 60 * 60 * 1000000000"

text \<open>
  A day is the number of days since the epoch. \<open>bump score others age\<close> is the score after a day
  of the given age in seconds on which the actor wrote.
\<close>

definition direct_activity_add_day :: "(f64_bits \<Rightarrow> bool \<Rightarrow> int \<Rightarrow> f64_bits) \<Rightarrow> int \<Rightarrow> instant \<Rightarrow> bool \<Rightarrow> bool \<Rightarrow>
    direct_activity \<Rightarrow> direct_activity" where
  "direct_activity_add_day bump day latest actor_sent others_sent activity =
     (let activity = activity\<lparr> da_last_message_at :=
            Some (case da_last_message_at activity of None \<Rightarrow> latest | Some old \<Rightarrow> max old latest) \<rparr>
      in if actor_sent
         then let age = max 0 ((da_calculated_at activity - day * day_nanos) div 1000000000)
              in activity\<lparr> da_score := bump (da_score activity) others_sent age \<rparr>
         else activity)"

definition activity_day :: "repository_state \<Rightarrow> user_id \<Rightarrow> chat_message \<Rightarrow>
    (int, instant \<times> bool \<times> bool) hmap \<Rightarrow> (int, instant \<times> bool \<times> bool) hmap" where
  "activity_day s actor m days =
     (let day = msg_sent_at m div day_nanos;
          (latest, mine, others) = hm_get_or (msg_sent_at m, False, False) days day;
          latest = max latest (msg_sent_at m);
          human = is_human s (msg_sender_id m)
      in hm_insert day (latest, mine \<or> (human \<and> msg_sender_id m = actor),
                        others \<or> (human \<and> msg_sender_id m \<noteq> actor)) days)"

definition direct_activity_of :: "(f64_bits \<Rightarrow> bool \<Rightarrow> int \<Rightarrow> f64_bits) \<Rightarrow> instant \<Rightarrow> repository_state \<Rightarrow> user_id \<Rightarrow>
    channel_id \<Rightarrow> direct_activity" where
  "direct_activity_of bump now s actor c =
     (let days = fold (activity_day s actor)
                   (filter (\<lambda>m. msg_deleted_at m = None) (channel_messages s c)) []
      in fold (\<lambda>(day, latest, mine, others). direct_activity_add_day bump day latest mine others)
           (sort_key fst days) (direct_activity_empty now))"

section \<open>Direct conversations\<close>

text \<open>The key of a one-to-one conversation does not depend on who opens it.\<close>

definition direct_pair :: "user_id \<Rightarrow> user_id \<Rightarrow> user_id \<times> user_id" where
  "direct_pair actor other = (if actor < other then (actor, other) else (other, actor))"

text \<open>The identifiers of the channel and of its slug are generated independently.\<close>

definition open_direct_channel :: "unicode \<Rightarrow> (uuid \<Rightarrow> rstr) \<Rightarrow> channel_id \<Rightarrow> uuid \<Rightarrow> user_id \<Rightarrow> user_id \<Rightarrow>
    repository_state \<Rightarrow> channel op" where
  "open_direct_channel u simple fresh fresh_slug actor other s =
     (if actor = other then (Inl Conflict, s)
      else case hm_get (users s) other of
             None \<Rightarrow> (Inl NotFound, s)
           | Some other_user \<Rightarrow>
               if \<not> hm_has (users s) actor then (Inl PermissionDenied, s)
               else let pair = direct_pair actor other in
                    case hm_get (direct_conversations s) pair of
                      Some c \<Rightarrow>
                        ((case hm_get (channels s) c of
                            Some channel \<Rightarrow> Inr channel
                          | None \<Rightarrow> Inl (Storage (lit ''direct channel is missing''))), s)
                    | None \<Rightarrow>
                        (case channel_slug_new u (lit ''dm-'' @ simple fresh_slug) of
                           Inl e \<Rightarrow> (Inl (storage e), s)
                         | Inr slug \<Rightarrow>
                             let channel = \<lparr> ch_id = fresh, ch_slug = slug,
                                   ch_name = usr_display_name other_user, ch_kind = Private,
                                   ch_circle_id = None, ch_created_by = actor \<rparr>
                             in (Inr channel,
                                 s\<lparr> channels_by_slug := hm_insert slug fresh (channels_by_slug s),
                                    channels := hm_insert fresh channel (channels s),
                                    direct_conversations := hm_insert pair fresh (direct_conversations s),
                                    memberships :=
                                      hm_insert (fresh, other) (new_membership fresh other Member)
                                        (hm_insert (fresh, actor) (new_membership fresh actor Owner)
                                          (memberships s)) \<rparr>)))"

definition is_direct :: "repository_state \<Rightarrow> channel_id \<Rightarrow> bool" where
  "is_direct s c \<longleftrightarrow>
     c \<in> set (hm_values (direct_conversations s)) \<or> hm_has (direct_group_conversations s) c"

text \<open>\<open>names.join(", ")\<close> and the name of a group of participants.\<close>

fun join_names :: "rstr list \<Rightarrow> rstr" where
  "join_names [] = []"
| "join_names [x] = x"
| "join_names (x # y # ys) = x @ lit '', '' @ join_names (y # ys)"

definition group_name :: "rstr list \<Rightarrow> rstr" where
  "group_name names =
     (if length names > 3
      then join_names (take 3 names) @ lit '', + '' @ dec_digits (length names - 3)
      else join_names names)"

text \<open>\<open>collect::<Result<Vec<_>, _>>\<close>: the first error, or all the values.\<close>

fun collect_results :: "('e, 'a) result list \<Rightarrow> ('e, 'a list) result" where
  "collect_results [] = Inr []"
| "collect_results (Inl e # rs) = Inl e"
| "collect_results (Inr a # rs) =
     (case collect_results rs of Inl e \<Rightarrow> Inl e | Inr as \<Rightarrow> Inr (a # as))"

definition participant_name :: "repository_state \<Rightarrow> user_id \<Rightarrow> (repository_error, rstr) result" where
  "participant_name s i =
     (case hm_get (users s) i of Some user \<Rightarrow> Inr (name_str (usr_display_name user)) | None \<Rightarrow> Inl NotFound)"

definition add_members :: "channel_id \<Rightarrow> user_id list \<Rightarrow> (channel_id \<times> user_id, membership) hmap \<Rightarrow>
    (channel_id \<times> user_id, membership) hmap" where
  "add_members c us ms = fold (\<lambda>x. hm_insert (c, x) (new_membership c x Member)) us ms"

definition expand_direct_channel :: "unicode \<Rightarrow> (uuid \<Rightarrow> rstr) \<Rightarrow> channel_id \<Rightarrow> uuid \<Rightarrow> user_id \<Rightarrow> channel_id \<Rightarrow>
    user_id \<Rightarrow> repository_state \<Rightarrow> channel op" where
  "expand_direct_channel u simple fresh fresh_slug actor source other s =
     (if \<not> hm_has (users s) other \<or> other = actor then (Inl NotFound, s)
      else if \<not> hm_has (memberships s) (source, actor) then (Inl PermissionDenied, s)
      else if \<not> is_direct s source then (Inl PermissionDenied, s)
      else if hm_has (memberships s) (source, other) then (Inl Conflict, s)
      else case hm_get (direct_expansions s) (source, other) of
             Some c \<Rightarrow>
               ((case hm_get (channels s) c of
                   Some channel \<Rightarrow> Inr channel
                 | None \<Rightarrow> Inl (Storage (lit ''expanded direct channel is missing''))), s)
           | None \<Rightarrow>
               let participants = sort (map mb_user_id
                     (filter (\<lambda>m. mb_channel_id m = source) (hm_values (memberships s))) @ [other])
               in case result_bind (collect_results (map (participant_name s) participants))
                         (\<lambda>names. result_bind (map_sum storage id
                              (channel_slug_new u (lit ''dm-group-'' @ simple fresh_slug)))
                         (\<lambda>slug. result_bind (map_sum storage id (display_name_new (group_name names)))
                         (\<lambda>name. Inr \<lparr> ch_id = fresh, ch_slug = slug, ch_name = name, ch_kind = Private,
                                       ch_circle_id = None, ch_created_by = actor \<rparr>))) of
                    Inl e \<Rightarrow> (Inl e, s)
                  | Inr channel \<Rightarrow>
                      (Inr channel,
                       s\<lparr> channels_by_slug := hm_insert (ch_slug channel) fresh (channels_by_slug s),
                          channels := hm_insert fresh channel (channels s),
                          direct_group_conversations :=
                            hm_insert fresh source (direct_group_conversations s),
                          direct_expansions := hm_insert (source, other) fresh (direct_expansions s),
                          memberships := add_members fresh participants (memberships s) \<rparr>))"

text \<open>
  The SQL repositories name a one-to-one channel after both participants, with an arrow between
  (\<open>src/db/sqlite.rs\<close>).
\<close>

definition sql_direct_channel_name :: "display_name \<Rightarrow> display_name \<Rightarrow> (repository_error, display_name) result" where
  "sql_direct_channel_name a b =
     map_sum storage id (display_name_new (name_str a @ [32, 0x2194, 32] @ name_str b))"

section \<open>Channels\<close>

text \<open>One step of the membership loop of \<open>create_channel\<close>.\<close>

definition admit_member :: "channel_id \<Rightarrow> user_id \<times> membership_role \<Rightarrow>
    (channel_id \<times> user_id, membership) hmap \<Rightarrow> (channel_id \<times> user_id, membership) hmap" where
  "admit_member c p ms =
     (let (u, role) = p; membership = new_membership c u role in
      if hm_has ms (c, u)
      then (if mb_role membership = Owner then hm_insert (c, u) membership ms else ms)
      else hm_insert (c, u) membership ms)"

definition create_channel :: "channel_id \<Rightarrow> create_channel \<Rightarrow> repository_state \<Rightarrow> channel op" where
  "create_channel fresh cmd s =
     (if \<not> hm_has (users s) (cch_actor cmd) then (Inl PermissionDenied, s)
      else if hm_has (channels_by_slug s) (cch_slug cmd) then (Inl Conflict, s)
      else if (case cch_circle_id cmd of
                 None \<Rightarrow> False
               | Some k \<Rightarrow> \<not> can_create_channel_in_circle (circle_role_of s k (cch_actor cmd)))
           then (Inl PermissionDenied, s)
      else let is_general = (slug_str (cch_slug cmd) = lit ''general'' \<and> cch_circle_id cmd = None);
               general_users = (if is_general then hm_keys (users s) else []);
               channel = \<lparr> ch_id = fresh, ch_slug = cch_slug cmd, ch_name = cch_name cmd,
                           ch_kind = cch_kind cmd, ch_circle_id = cch_circle_id cmd,
                           ch_created_by = cch_actor cmd \<rparr>;
               members = map (\<lambda>x. (x, Member)) general_users @ [(cch_actor cmd, Owner)]
           in (Inr channel,
               s\<lparr> channels_by_slug := hm_insert (cch_slug cmd) fresh (channels_by_slug s),
                  channels := hm_insert fresh channel (channels s),
                  memberships := fold (admit_member fresh) members (memberships s) \<rparr>))"

definition join_channel :: "join_channel \<Rightarrow> repository_state \<Rightarrow> membership op" where
  "join_channel cmd s =
     (if \<not> hm_has (users s) (jch_actor cmd) then (Inl PermissionDenied, s)
      else case resolve_channel_ref s (jch_channel cmd) of
             Inl e \<Rightarrow> (Inl e, s)
           | Inr c \<Rightarrow>
               (case hm_get (channels s) c of
                  None \<Rightarrow> (Inl NotFound, s)
                | Some channel \<Rightarrow>
                    if (case ch_circle_id channel of
                          None \<Rightarrow> False
                        | Some k \<Rightarrow> \<not> hm_has (circle_memberships s) (k, jch_actor cmd))
                    then (Inl PermissionDenied, s)
                    else if ch_kind channel = Private \<and> slug_str (ch_slug channel) \<noteq> lit ''general''
                    then (Inl PermissionDenied, s)
                    else let membership = new_membership c (jch_actor cmd) Member
                         in (Inr membership,
                             s\<lparr> memberships := hm_insert (c, jch_actor cmd) membership (memberships s) \<rparr>)))"

definition list_joinable_channels :: "user_id \<Rightarrow> circle_id option \<Rightarrow> repository_state \<Rightarrow>
    (repository_error, discoverable_channel list) result" where
  "list_joinable_channels actor circle_id s =
     (if \<not> hm_has (users s) actor \<or>
         (case circle_id of None \<Rightarrow> False | Some k \<Rightarrow> \<not> hm_has (circle_memberships s) (k, actor))
      then Inl PermissionDenied
      else Inr (sort_key (\<lambda>d. slug_str (ch_slug (dc_channel d)))
             (map (\<lambda>c. \<lparr> dc_channel = c, dc_description = hm_get_or [] (channel_descriptions s) (ch_id c) \<rparr>)
               (filter (\<lambda>c. ch_circle_id c = circle_id \<and> ch_kind c \<noteq> Private \<and>
                            \<not> hm_has (memberships s) (ch_id c, actor)) (hm_values (channels s))))))"

definition add_channel_member :: "add_channel_member \<Rightarrow> repository_state \<Rightarrow> membership op" where
  "add_channel_member cmd s =
     (case hm_get (channels s) (acm_channel_id cmd) of
        None \<Rightarrow> (Inl NotFound, s)
      | Some channel \<Rightarrow>
          let actor_role = role_of s (acm_channel_id cmd) (acm_actor cmd);
              target_allowed =
                (case ch_circle_id channel of
                   Some k \<Rightarrow> hm_has (circle_memberships s) (k, acm_user_id cmd)
                 | None \<Rightarrow> (ch_kind channel = Public \<or> ch_kind channel = Local) \<and>
                            is_human s (acm_user_id cmd))
          in if \<not> can_moderate_channel actor_role \<or> \<not> target_allowed then (Inl PermissionDenied, s)
             else let key = (acm_channel_id cmd, acm_user_id cmd);
                      membership = new_membership (acm_channel_id cmd) (acm_user_id cmd) Member
                  in (Inr (hm_get_or membership (memberships s) key),
                      s\<lparr> memberships := hm_or_insert key membership (memberships s) \<rparr>))"

definition eq_ignore_ascii_case :: "rstr \<Rightarrow> rstr \<Rightarrow> bool" where
  "eq_ignore_ascii_case a b \<longleftrightarrow> map ascii_lower a = map ascii_lower b"

definition leave_channel :: "leave_channel \<Rightarrow> repository_state \<Rightarrow> unit op" where
  "leave_channel cmd s =
     (let key = (lch_channel_id cmd, lch_actor cmd) in
      case hm_get (channels s) (fst key) of
        None \<Rightarrow> (Inl NotFound, s)
      | Some channel \<Rightarrow>
          if (case hm_get (personal_spaces s) (snd key) of None \<Rightarrow> False | Some (c, _) \<Rightarrow> c = fst key) \<or>
             (ch_circle_id channel \<noteq> None \<and>
              eq_ignore_ascii_case (name_str (ch_name channel)) (lit ''Prat''))
          then (Inl PermissionDenied, s)
          else if \<not> can_leave_channel (role_of s (fst key) (snd key)) then (Inl NotFound, s)
          else if \<not> hm_has (memberships s) key then (Inl NotFound, s)
          else (Inr (), s\<lparr> memberships := hm_remove key (memberships s) \<rparr>))"

definition update_channel_description :: "update_channel_description \<Rightarrow> repository_state \<Rightarrow> rstr op" where
  "update_channel_description cmd s =
     (let description = trim (ucd_description cmd) in
      if utf8_len description > 2000 then (Inl Conflict, s)
      else if role_of s (ucd_channel_id cmd) (ucd_actor cmd) \<noteq> Some Owner then (Inl PermissionDenied, s)
      else (Inr description,
            s\<lparr> channel_descriptions := hm_insert (ucd_channel_id cmd) description (channel_descriptions s) \<rparr>))"

section \<open>Channel references\<close>

record resolved_channel_reference =
  rcr_id :: channel_id
  rcr_slug :: channel_slug
  rcr_name :: display_name
  rcr_is_member :: bool

text \<open>\<open>Vec::dedup\<close> drops a value equal to the one before it.\<close>

definition resolve_one :: "unicode \<Rightarrow> (uuid \<Rightarrow> rstr) \<Rightarrow> repository_state \<Rightarrow> user_id \<Rightarrow> channel \<Rightarrow> channel_slug \<Rightarrow>
    resolved_channel_reference option" where
  "resolve_one u simple s actor source slug =
     (let alias = (case ch_circle_id source of
                     None \<Rightarrow> []
                   | Some k \<Rightarrow>
                       (case channel_slug_new u (simple (circle_uuid k) @ 45 # slug_str slug) of
                          Inr a \<Rightarrow> [a] | Inl _ \<Rightarrow> []));
          targets = filter (\<lambda>t. ch_circle_id t = ch_circle_id source \<and> ch_kind t \<noteq> Private)
                      (List.map_filter (hm_get (channels s))
                        (List.map_filter (hm_get (channels_by_slug s)) (slug # alias)))
      in case targets of
           [t] \<Rightarrow> Some \<lparr> rcr_id = ch_id t, rcr_slug = slug, rcr_name = ch_name t,
                        rcr_is_member = hm_has (memberships s) (ch_id t, actor) \<rparr>
         | _ \<Rightarrow> None)"

definition resolve_channel_references :: "unicode \<Rightarrow> (uuid \<Rightarrow> rstr) \<Rightarrow> user_id \<Rightarrow> channel_id \<Rightarrow> channel_slug list \<Rightarrow>
    repository_state \<Rightarrow> (repository_error, resolved_channel_reference list) result" where
  "resolve_channel_references u simple actor source slugs s =
     (case hm_get (channels s) source of
        None \<Rightarrow> Inl PermissionDenied
      | Some channel \<Rightarrow>
          if \<not> hm_has (memberships s) (ch_id channel, actor) \<or>
             (case ch_circle_id channel of
                None \<Rightarrow> False
              | Some k \<Rightarrow> \<not> hm_has (circle_memberships s) (k, actor))
          then Inl PermissionDenied
          else Inr (List.map_filter (resolve_one u simple s actor channel)
                 (remdups_adj (sort_key slug_str slugs))))"

section \<open>Summaries and export\<close>

definition direct_user :: "repository_state \<Rightarrow> user_id \<Rightarrow> channel_id \<Rightarrow> user_id option" where
  "direct_user s actor c =
     (case List.find (\<lambda>e. snd e = c) (direct_conversations s) of
        None \<Rightarrow> None
      | Some ((left, right), _) \<Rightarrow> Some (if left = actor then right else left))"

definition summary_of :: "repository_state \<Rightarrow> user_id \<Rightarrow> membership \<Rightarrow> channel \<Rightarrow> channel_summary" where
  "summary_of s actor m c =
     \<lparr> cs_id = ch_id c, cs_slug = ch_slug c, cs_name = ch_name c, cs_kind = ch_kind c,
       cs_circle_id = ch_circle_id c, cs_direct_user_id = direct_user s actor (ch_id c),
       cs_is_direct = is_direct s (ch_id c),
       cs_is_personal = (case hm_get (personal_spaces s) actor of None \<Rightarrow> False | Some (i, _) \<Rightarrow> i = ch_id c),
       cs_direct_activity = None,
       cs_description = hm_get_or [] (channel_descriptions s) (ch_id c),
       cs_role = mb_role m, cs_last_read_sequence = mb_last_read_sequence m,
       cs_latest_sequence = latest_of (channel_messages s (ch_id c)) \<rparr>"

definition list_channels_for_user :: "(f64_bits \<Rightarrow> bool \<Rightarrow> int \<Rightarrow> f64_bits) \<Rightarrow> instant \<Rightarrow> user_id \<Rightarrow> repository_state \<Rightarrow>
    channel_summary list" where
  "list_channels_for_user bump now actor s =
     (let channels' = List.map_filter (\<lambda>m. map_option (summary_of s actor m) (hm_get (channels s) (mb_channel_id m)))
                        (filter (\<lambda>m. mb_user_id m = actor) (hm_values (memberships s)));
          channels' = map (\<lambda>c. if cs_is_direct c
                             then c\<lparr> cs_direct_activity := Some (direct_activity_of bump now s actor (cs_id c)) \<rparr>
                             else c) channels'
      in sort_key (\<lambda>c. slug_str (cs_slug c)) channels')"

definition export_user_data :: "(uuid \<Rightarrow> rstr) \<Rightarrow> instant \<Rightarrow> user_id \<Rightarrow> repository_state \<Rightarrow>
    (repository_error, portable_user_export) result" where
  "export_user_data hyphenated now actor s =
     (case hm_get (users s) actor of
        None \<Rightarrow> Inl NotFound
      | Some user \<Rightarrow>
          Inr \<lparr> ex_format = portable_user_export_format, ex_exported_at = now, ex_user = user,
                ex_signup_ordinal = hm_get (signup_ordinals s) actor,
                ex_saved_emojis = hm_get_or [] (saved_emojis s) actor,
                ex_saved_statuses = hm_get_or [] (saved_statuses s) actor,
                ex_favorite_circles = sort_key (\<lambda>c. hyphenated (circle_uuid c))
                  (map fst (filter (\<lambda>p. snd p = actor) (favorite_circles s))),
                ex_personal_note = map_option snd (hm_get (personal_spaces s) actor),
                ex_circles = sort_key (\<lambda>c. slug_str (crc_slug (xc_circle c)))
                  (List.map_filter (\<lambda>m. map_option (\<lambda>c. \<lparr> xc_circle = c, xc_role = cm_role m \<rparr>)
                      (hm_get (circles s) (cm_circle_id m)))
                    (filter (\<lambda>m. cm_user_id m = actor) (hm_values (circle_memberships s)))),
                ex_channels = sort_key (\<lambda>c. slug_str (cs_slug (ec_channel c)))
                  (List.map_filter (\<lambda>m. map_option (\<lambda>c. \<lparr> ec_channel = summary_of s actor m c,
                                                          ec_messages = channel_messages s (ch_id c) \<rparr>)
                      (hm_get (channels s) (mb_channel_id m)))
                    (filter (\<lambda>m. mb_user_id m = actor) (hm_values (memberships s)))),
                ex_agent_memories = [] \<rparr>)"

end
