(* ===== verification/Directory.thy ===== *)
theory Directory
  imports Message_Operations Repository_Users Repository_Circles Repository_Channels
begin

text \<open>
  The directory of the repository: accounts, circles, channels, memberships, favorites and the
  channels that conversations and personal spaces point to. Each part of the invariant is a
  predicate on the maps it is about, so that an operation that leaves them alone keeps it.
\<close>

section \<open>The parts of the invariant\<close>

definition users_inv :: "(user_id, user) hmap \<Rightarrow> bool" where
  "users_inv us \<longleftrightarrow> hm_wf us \<and> (\<forall>k x. map_of us k = Some x \<longrightarrow> usr_id x = k)"

definition channels_inv :: "(channel_id, channel) hmap \<Rightarrow> (channel_slug, channel_id) hmap \<Rightarrow> bool" where
  "channels_inv chs slugs \<longleftrightarrow> hm_wf chs \<and> hm_wf slugs \<and>
     (\<forall>c x. map_of chs c = Some x \<longrightarrow> ch_id x = c \<and> map_of slugs (ch_slug x) = Some c) \<and>
     (\<forall>k c. map_of slugs k = Some c \<longrightarrow> (\<exists>x. map_of chs c = Some x \<and> ch_slug x = k))"

definition members_inv :: "(channel_id \<times> user_id, membership) hmap \<Rightarrow> (channel_id, channel) hmap \<Rightarrow>
    (user_id, user) hmap \<Rightarrow> bool" where
  "members_inv mbs chs us \<longleftrightarrow> hm_wf mbs \<and>
     (\<forall>c u m. map_of mbs (c, u) = Some m \<longrightarrow>
        mb_channel_id m = c \<and> mb_user_id m = u \<and> hm_has chs c \<and> hm_has us u)"

definition circles_inv :: "(circle_id, circle) hmap \<Rightarrow> (channel_slug, circle_id) hmap \<Rightarrow> bool" where
  "circles_inv crs slugs \<longleftrightarrow> hm_wf crs \<and> hm_wf slugs \<and>
     (\<forall>k x. map_of crs k = Some x \<longrightarrow> crc_id x = k \<and> map_of slugs (crc_slug x) = Some k) \<and>
     (\<forall>sl k. map_of slugs sl = Some k \<longrightarrow> (\<exists>x. map_of crs k = Some x \<and> crc_slug x = sl))"

definition circle_members_inv :: "(circle_id \<times> user_id, circle_membership) hmap \<Rightarrow> (user_id, user) hmap \<Rightarrow> bool" where
  "circle_members_inv cms us \<longleftrightarrow> hm_wf cms \<and>
     (\<forall>k u m. map_of cms (k, u) = Some m \<longrightarrow> cm_circle_id m = k \<and> cm_user_id m = u \<and> hm_has us u)"

text \<open>
  Only members of a circle are members of its channels. The channel with the slug \<open>general\<close> is
  left out: sign-up adds every user to it, see \<open>upsert_joins_circle_general\<close>.
\<close>

definition confined :: "(channel_id \<times> user_id, membership) hmap \<Rightarrow> (channel_id, channel) hmap \<Rightarrow>
    (circle_id \<times> user_id, circle_membership) hmap \<Rightarrow> bool" where
  "confined mbs chs cms \<longleftrightarrow> (\<forall>c u x k. map_of chs c = Some x \<longrightarrow> ch_circle_id x = Some k \<longrightarrow>
     slug_str (ch_slug x) \<noteq> lit ''general'' \<longrightarrow> hm_has mbs (c, u) \<longrightarrow> hm_has cms (k, u))"

definition favorites_inv :: "(circle_id \<times> user_id) list \<Rightarrow> (circle_id \<times> user_id, circle_membership) hmap \<Rightarrow> bool" where
  "favorites_inv favs cms \<longleftrightarrow> distinct favs \<and> (\<forall>p \<in> set favs. hm_has cms p) \<and>
     (\<forall>u. length (filter (\<lambda>p. snd p = u) favs) \<le> 12)"

text \<open>A channel that is not part of a circle is never deleted.\<close>

definition anchors :: "repository_state \<Rightarrow> channel_id set" where
  "anchors s = (fst \<circ> snd) ` set (personal_spaces s) \<union> snd ` set (direct_conversations s) \<union>
     snd ` set (direct_expansions s)"

definition anchors_inv :: "channel_id set \<Rightarrow> (channel_id, channel) hmap \<Rightarrow> bool" where
  "anchors_inv A chs \<longleftrightarrow> (\<forall>c \<in> A. \<exists>x. map_of chs c = Some x \<and> ch_circle_id x = None)"

definition live_log :: "message_map \<Rightarrow> (channel_id, channel) hmap \<Rightarrow> bool" where
  "live_log ms chs \<longleftrightarrow> (\<forall>c. log_of ms c \<noteq> [] \<longrightarrow> hm_has chs c)"

definition repo_inv :: "repository_state \<Rightarrow> bool" where
  "repo_inv s \<longleftrightarrow> msg_inv s \<and> users_inv (users s) \<and> channels_inv (channels s) (channels_by_slug s) \<and>
     members_inv (memberships s) (channels s) (users s) \<and> circles_inv (circles s) (circles_by_slug s) \<and>
     circle_members_inv (circle_memberships s) (users s) \<and>
     confined (memberships s) (channels s) (circle_memberships s) \<and>
     favorites_inv (favorite_circles s) (circle_memberships s) \<and>
     anchors_inv (anchors s) (channels s) \<and> live_log (messages s) (channels s)"

lemma repo_invD:
  assumes "repo_inv s"
  shows "msg_inv s" "users_inv (users s)" "channels_inv (channels s) (channels_by_slug s)"
    "members_inv (memberships s) (channels s) (users s)" "circles_inv (circles s) (circles_by_slug s)"
    "circle_members_inv (circle_memberships s) (users s)"
    "confined (memberships s) (channels s) (circle_memberships s)"
    "favorites_inv (favorite_circles s) (circle_memberships s)"
    "anchors_inv (anchors s) (channels s)" "live_log (messages s) (channels s)"
  using assms by (auto simp: repo_inv_def)

lemma repo_inv_member_users: "repo_inv s \<Longrightarrow> member_users s"
  by (auto simp: repo_inv_def members_inv_def member_users_def hm_has_iff)

lemma anchors_cong:
  "personal_spaces s' = personal_spaces s \<Longrightarrow> direct_conversations s' = direct_conversations s \<Longrightarrow>
   direct_expansions s' = direct_expansions s \<Longrightarrow> anchors s' = anchors s"
  by (simp add: anchors_def)

lemma set_hm_insert: "set (hm_insert k v m) \<subseteq> insert (k, v) (set m)"
  unfolding hm_insert_def by (induction m) auto

lemma image_hm_insert: "f ` set (hm_insert k v m) \<subseteq> insert (f (k, v)) (f ` set m)"
  using image_mono [OF set_hm_insert] by (metis image_insert)

lemma repo_inv_default: "repo_inv repository_default"
  by (simp add: repo_inv_def msg_inv_def repository_default_def users_inv_def channels_inv_def members_inv_def
      circles_inv_def circle_members_inv_def confined_def favorites_inv_def anchors_inv_def anchors_def
      live_log_def log_inv_def parents_inv_def receipts_inv_def tombs_inv_def reads_inv_def counter_of_def
      hm_get_or_def)

section \<open>One more channel\<close>

text \<open>
  The four operations that create a channel insert it under a fresh identifier and a fresh slug
  and add memberships of that channel only.
\<close>

definition admits :: "channel \<Rightarrow> repository_state \<Rightarrow> (channel_id \<times> user_id, membership) hmap \<Rightarrow> bool" where
  "admits ch s mbs \<longleftrightarrow> hm_wf mbs \<and>
     (\<forall>c u. c \<noteq> ch_id ch \<longrightarrow> map_of mbs (c, u) = map_of (memberships s) (c, u)) \<and>
     (\<forall>u m. map_of mbs (ch_id ch, u) = Some m \<longrightarrow>
        mb_channel_id m = ch_id ch \<and> mb_user_id m = u \<and> mb_last_read_sequence m = ChannelSequence 0 \<and>
        hm_has (users s) u \<and>
        (\<forall>k. ch_circle_id ch = Some k \<longrightarrow> slug_str (ch_slug ch) \<noteq> lit ''general'' \<longrightarrow>
           hm_has (circle_memberships s) (k, u)))"

lemma new_channel_parts:
  assumes "repo_inv s" "admits ch s mbs"
    and "\<not> hm_has (channels s) (ch_id ch)" "\<not> hm_has (channels_by_slug s) (ch_slug ch)"
  shows "channels_inv (hm_insert (ch_id ch) ch (channels s)) (hm_insert (ch_slug ch) (ch_id ch) (channels_by_slug s))"
    "members_inv mbs (hm_insert (ch_id ch) ch (channels s)) (users s)"
    "confined mbs (hm_insert (ch_id ch) ch (channels s)) (circle_memberships s)"
    "live_log (messages s) (hm_insert (ch_id ch) ch (channels s))"
    "reads_inv (messages s) mbs" "hm_wf mbs"
proof -
  note inv = repo_invD [OF assms(1)]
  show "channels_inv (hm_insert (ch_id ch) ch (channels s)) (hm_insert (ch_slug ch) (ch_id ch) (channels_by_slug s))"
    using inv(3) assms(3,4) by (auto simp: channels_inv_def hm_has_iff) (metis option.distinct(1))+
  show "members_inv mbs (hm_insert (ch_id ch) ch (channels s)) (users s)"
    using inv(4) assms(2) by (auto simp: members_inv_def admits_def) (metis)+
  show "confined mbs (hm_insert (ch_id ch) ch (channels s)) (circle_memberships s)"
    using inv(7) assms(2) by (auto simp: confined_def admits_def hm_has_iff)
  show "live_log (messages s) (hm_insert (ch_id ch) ch (channels s))"
    using inv(10) by (auto simp: live_log_def)
  show "reads_inv (messages s) mbs"
    unfolding reads_inv_def
  proof (intro allI impI)
    fix k mb
    assume k: "map_of mbs k = Some mb"
    show "seq_nat (mb_last_read_sequence mb) \<le> length (log_of (messages s) (fst k))"
    proof (cases "fst k = ch_id ch")
      case True
      with k assms(2) have "mb_last_read_sequence mb = ChannelSequence 0"
        by (cases k) (auto simp: admits_def)
      then show ?thesis by simp
    next
      case False
      with k assms(2) have "map_of (memberships s) k = Some mb" by (cases k) (auto simp: admits_def)
      with msg_invD(5) [OF inv(1)] show ?thesis by (cases k) (auto simp: reads_inv_def)
    qed
  qed
  show "hm_wf mbs" using assms(2) by (simp add: admits_def)
qed

lemma anchors_inv_mono:
  "anchors_inv A chs \<Longrightarrow> \<not> hm_has chs c \<Longrightarrow> anchors_inv A (hm_insert c x chs)"
  by (auto simp: anchors_inv_def hm_has_iff)

lemma anchors_inv_insert:
  "anchors_inv A chs \<Longrightarrow> \<not> hm_has chs c \<Longrightarrow> ch_circle_id x = None \<Longrightarrow> B \<subseteq> insert c A \<Longrightarrow>
   anchors_inv B (hm_insert c x chs)"
  by (auto simp: anchors_inv_def hm_has_iff)

end
