(* ===== verification/Directory_Operations.thy ===== *)
theory Directory_Operations
  imports Directory
begin

text \<open>
  Every operation of the repository keeps the invariant. The lemmas follow the order of the
  operations in the component theories.
\<close>

section \<open>Fields the invariant does not mention\<close>

lemma repo_inv_irrelevant [simp]:
  "repo_inv (s\<lparr> circle_invitations := ci \<rparr>) = repo_inv s"
  "repo_inv (s\<lparr> enrollment_invitations := ei \<rparr>) = repo_inv s"
  "repo_inv (s\<lparr> channel_descriptions := cd \<rparr>) = repo_inv s"
  "repo_inv (s\<lparr> personal_saved_links := psl \<rparr>) = repo_inv s"
  "repo_inv (s\<lparr> direct_group_conversations := dgc \<rparr>) = repo_inv s"
  "repo_inv (s\<lparr> signup_ordinals := so \<rparr>) = repo_inv s"
  "repo_inv (s\<lparr> next_signup_ordinal := nso \<rparr>) = repo_inv s"
  "repo_inv (s\<lparr> saved_emojis := se \<rparr>) = repo_inv s"
  "repo_inv (s\<lparr> saved_statuses := ss \<rparr>) = repo_inv s"
  "repo_inv (s\<lparr> user_statuses := us \<rparr>) = repo_inv s"
  "repo_inv (s\<lparr> media := md \<rparr>) = repo_inv s"
  "repo_inv (s\<lparr> media_previews := mp \<rparr>) = repo_inv s"
  "repo_inv (s\<lparr> thread_read_markers := trm \<rparr>) = repo_inv s"
  "repo_inv (s\<lparr> circle_updates := cu \<rparr>) = repo_inv s"
  by (simp_all add: repo_inv_def msg_inv_def anchors_def)

section \<open>Growing maps\<close>

lemma members_inv_users_mono:
  "members_inv mbs chs us \<Longrightarrow> (\<And>u. hm_has us u \<Longrightarrow> hm_has us' u) \<Longrightarrow> members_inv mbs chs us'"
  by (auto simp: members_inv_def)

lemma circle_members_inv_mono:
  "circle_members_inv cms us \<Longrightarrow> (\<And>u. hm_has us u \<Longrightarrow> hm_has us' u) \<Longrightarrow> circle_members_inv cms us'"
  by (auto simp: circle_members_inv_def)

lemma confined_mono:
  "confined mbs chs cms \<Longrightarrow> (\<And>p. hm_has cms p \<Longrightarrow> hm_has cms' p) \<Longrightarrow> confined mbs chs cms'"
  unfolding confined_def by blast

lemma favorites_mono:
  "favorites_inv favs cms \<Longrightarrow> (\<And>p. hm_has cms p \<Longrightarrow> hm_has cms' p) \<Longrightarrow> favorites_inv favs cms'"
  unfolding favorites_inv_def by blast

lemma users_inv_insert: "users_inv us \<Longrightarrow> usr_id x = k \<Longrightarrow> users_inv (hm_insert k x us)"
  by (simp add: users_inv_def)

lemma repo_inv_users:
  assumes "repo_inv s" "usr_id x = k"
  shows "repo_inv (s\<lparr> users := hm_insert k x (users s) \<rparr>)"
  using repo_invD [OF assms(1)] assms(2)
  by (auto simp: repo_inv_def msg_inv_def anchors_def intro: users_inv_insert
      elim!: members_inv_users_mono circle_members_inv_mono)

text \<open>A membership of an existing channel and user, with any read marker within the log.\<close>

lemma repo_inv_membership:
  assumes "repo_inv s" "hm_has (channels s) c" "hm_has (users s) u"
    and "mb_channel_id m = c" "mb_user_id m = u"
    and "seq_nat (mb_last_read_sequence m) \<le> length (log_of (messages s) c)"
    and "\<And>x k. hm_get (channels s) c = Some x \<Longrightarrow> ch_circle_id x = Some k \<Longrightarrow>
      slug_str (ch_slug x) \<noteq> lit ''general'' \<Longrightarrow> hm_has (circle_memberships s) (k, u)"
  shows "repo_inv (s\<lparr> memberships := hm_insert (c, u) m (memberships s) \<rparr>)"
proof -
  note inv = repo_invD [OF assms(1)]
  have "members_inv (hm_insert (c, u) m (memberships s)) (channels s) (users s)"
    using inv(4) assms(2-5) by (auto simp: members_inv_def)
  moreover have "confined (hm_insert (c, u) m (memberships s)) (channels s) (circle_memberships s)"
    using inv(7) assms(7) unfolding confined_def hm_has_insert by (metis prod.inject)
  moreover have "reads_inv (messages s) (hm_insert (c, u) m (memberships s))"
    using reads_inv_insert [OF msg_invD(5) [OF inv(1)], of m "(c, u)"] assms(6) by simp
  ultimately show ?thesis
    using inv by (simp add: repo_inv_def msg_inv_def anchors_def)
qed

lemma repo_inv_or_membership:
  assumes "repo_inv s" "hm_has (channels s) c" "hm_has (users s) u"
    and "\<And>x k. hm_get (channels s) c = Some x \<Longrightarrow> ch_circle_id x = Some k \<Longrightarrow>
      slug_str (ch_slug x) \<noteq> lit ''general'' \<Longrightarrow> hm_has (circle_memberships s) (k, u)"
  shows "repo_inv (s\<lparr> memberships := hm_or_insert (c, u) (new_membership c u r) (memberships s) \<rparr>)"
proof (cases "hm_has (memberships s) (c, u)")
  case True
  have "s\<lparr> memberships := memberships s \<rparr> = s" by simp
  with True assms(1) show ?thesis by (simp add: hm_or_insert_def)
next
  case False
  with repo_inv_membership [OF assms(1-3) _ _ _ assms(4), of "new_membership c u r"] show ?thesis
    by (simp add: hm_or_insert_def new_membership_def)
qed

lemma repo_inv_circle_membership:
  assumes "repo_inv s" "hm_has (users s) u" "cm_circle_id m = k" "cm_user_id m = u"
  shows "repo_inv (s\<lparr> circle_memberships := hm_insert (k, u) m (circle_memberships s) \<rparr>)"
proof -
  note inv = repo_invD [OF assms(1)]
  have "circle_members_inv (hm_insert (k, u) m (circle_memberships s)) (users s)"
    using inv(6) assms(2-) by (auto simp: circle_members_inv_def)
  with inv show ?thesis
    by (auto simp: repo_inv_def msg_inv_def anchors_def elim!: confined_mono favorites_mono)
qed

lemma anchors_inv_subset: "anchors_inv A chs \<Longrightarrow> B \<subseteq> A \<Longrightarrow> anchors_inv B chs"
  by (auto simp: anchors_inv_def)

section \<open>Accounts\<close>

lemma general_channel_SomeD:
  assumes "channels_inv (channels s) slugs" "general_channel s = Some c"
  shows "\<exists>x. hm_get (channels s) c = Some x \<and> slug_str (ch_slug x) = lit ''general''"
proof -
  from assms(2) obtain x where x: "List.find (\<lambda>c. slug_str (ch_slug c) = lit ''general'') (hm_values (channels s)) = Some x"
    "c = ch_id x" by (auto simp: general_channel_def)
  from find_SomeD [OF x(1)] have "x \<in> set (hm_values (channels s))" "slug_str (ch_slug x) = lit ''general''" by auto
  with assms(1) hm_values_iff [of "channels s" x] obtain k where "hm_get (channels s) k = Some x"
    by (auto simp: channels_inv_def)
  with assms(1) x(2) \<open>slug_str (ch_slug x) = lit ''general''\<close> show ?thesis by (auto simp: channels_inv_def)
qed

lemma usr_id_keep_established [simp]: "usr_id (keep_established old x) = usr_id x"
  by (auto simp: keep_established_def Let_def split: option.split)

lemma assign_ordinal_inv: "repo_inv s \<Longrightarrow> assign_ordinal x s = Some s' \<Longrightarrow> repo_inv s' \<and> users s' = users s"
  by (auto simp: assign_ordinal_def split: if_splits option.splits)

lemma upsert_user_inv:
  assumes "repo_inv s" "upsert_user x s = Some (r, s')"
  shows "repo_inv s'"
proof -
  let ?x = "keep_established (hm_get (users s) (usr_id x)) x"
  from assms(2) obtain t where t: "assign_ordinal ?x s = Some t"
    and s': "s' = (let u = t\<lparr> users := hm_insert (usr_id ?x) ?x (users t) \<rparr> in case general_channel u of
        None \<Rightarrow> u | Some c \<Rightarrow> u\<lparr> memberships := hm_or_insert (c, usr_id ?x)
          (new_membership c (usr_id ?x) Member) (memberships u) \<rparr>)"
    by (auto simp: upsert_user_def Let_def split: option.splits)
  let ?u = "t\<lparr> users := hm_insert (usr_id ?x) ?x (users t) \<rparr>"
  have u: "repo_inv ?u" using repo_inv_users assign_ordinal_inv [OF assms(1) t] by blast
  show ?thesis
  proof (cases "general_channel ?u")
    case None
    with u s' show ?thesis by (simp add: Let_def)
  next
    case (Some c)
    with general_channel_SomeD [OF repo_invD(3) [OF u]] obtain y
      where y: "hm_get (channels ?u) c = Some y" "slug_str (ch_slug y) = lit ''general''" by blast
    have "repo_inv (?u\<lparr> memberships := hm_or_insert (c, usr_id ?x)
        (new_membership c (usr_id ?x) Member) (memberships ?u) \<rparr>)"
      using y by (intro repo_inv_or_membership [OF u]) (auto simp: hm_has_iff)
    with s' Some show ?thesis by (simp add: Let_def)
  qed
qed

lemma update_profile_inv: "repo_inv s \<Longrightarrow> repo_inv (snd (update_profile actor name s))"
  using repo_invD(2) [of s]
  by (auto simp: update_profile_def Let_def users_inv_def intro!: repo_inv_users split: option.splits prod.splits)

lemma set_user_status_inv: "repo_inv s \<Longrightarrow> repo_inv (snd (set_user_status now actor text emoji expires s))"
  by (auto simp: set_user_status_def Let_def split: option.splits)

lemma remove_saved_status_inv: "repo_inv s \<Longrightarrow> repo_inv (snd (remove_saved_status actor text emoji s))"
  by (auto simp: remove_saved_status_def split: option.splits)

lemma save_emoji_inv: "repo_inv s \<Longrightarrow> repo_inv (snd (save_emoji actor emoji saved s))"
  by (auto simp: save_emoji_def Let_def)

lemma save_personal_note_inv:
  assumes "repo_inv s" "save_personal_note owner note s = Some (r, s')"
  shows "repo_inv s'"
proof -
  from assms(2) consider "s' = s" | c n n' where "hm_get (personal_spaces s) owner = Some (c, n)"
    "s' = s\<lparr> personal_spaces := hm_insert owner (c, n') (personal_spaces s) \<rparr>"
    by (auto simp: save_personal_note_def Let_def split: option.splits if_splits prod.splits)
  then show ?thesis
  proof cases
    case 2
    have "c \<in> anchors s" using map_of_SomeD [OF 2(1)] by (force simp: anchors_def)
    then have "anchors s' \<subseteq> anchors s"
      using image_hm_insert [of "fst \<circ> snd" owner "(c, n')" "personal_spaces s"] unfolding anchors_def
      by (simp add: 2(2)) blast
    with repo_invD [OF assms(1)] anchors_inv_subset show ?thesis
      by (auto simp: repo_inv_def msg_inv_def 2(2))
  qed (use assms in simp)
qed

section \<open>New channels\<close>

definition fresh_channel :: "channel_id \<Rightarrow> repository_state \<Rightarrow> bool" where
  "fresh_channel c s \<longleftrightarrow> \<not> hm_has (channels s) c"

text \<open>A slug made from generated text is not in use.\<close>

definition fresh_slug :: "unicode \<Rightarrow> rstr \<Rightarrow> repository_state \<Rightarrow> bool" where
  "fresh_slug u text s \<longleftrightarrow>
     (case channel_slug_new u text of Inl _ \<Rightarrow> True | Inr slug \<Rightarrow> \<not> hm_has (channels_by_slug s) slug)"

lemma fresh_memberships:
  "repo_inv s \<Longrightarrow> fresh_channel c s \<Longrightarrow> hm_get (memberships s) (c, u) = None"
  using repo_invD(4) [of s] unfolding members_inv_def fresh_channel_def
  by (metis not_None_eq)

lemma new_channel_inv:
  assumes "repo_inv s" "admits ch s mbs" "fresh_channel (ch_id ch) s"
    and "\<not> hm_has (channels_by_slug s) (ch_slug ch)"
    and "channels s' = hm_insert (ch_id ch) ch (channels s)"
      "channels_by_slug s' = hm_insert (ch_slug ch) (ch_id ch) (channels_by_slug s)"
      "memberships s' = mbs"
    and "messages s' = messages s" "next_sequences s' = next_sequences s"
      "command_receipts s' = command_receipts s" "message_reactions s' = message_reactions s"
      "users s' = users s" "circles s' = circles s" "circles_by_slug s' = circles_by_slug s"
      "circle_memberships s' = circle_memberships s" "favorite_circles s' = favorite_circles s"
    and "anchors_inv (anchors s') (channels s')"
  shows "repo_inv s'"
  using new_channel_parts [OF assms(1,2) assms(3) [unfolded fresh_channel_def] assms(4)]
    repo_invD [OF assms(1)] msg_invD [OF repo_invD(1) [OF assms(1)]] assms(5-)
  by (simp add: repo_inv_def msg_inv_def)

lemma personal_channel_SomeD:
  "personal_channel u simple fresh owner = Some ch \<Longrightarrow>
     ch_id ch = fresh \<and> ch_circle_id ch = None \<and> ch_kind ch = Private \<and> ch_created_by ch = owner \<and>
     channel_slug_new u (lit ''personal-'' @ simple (channel_uuid fresh)) = Inr (ch_slug ch)"
  by (auto simp: personal_channel_def split: sum.splits)

lemma open_personal_space_inv:
  assumes "repo_inv s" "fresh_channel fresh s"
    and "fresh_slug u (lit ''personal-'' @ simple (channel_uuid fresh)) s"
    and "open_personal_space u simple fresh owner s = Some (r, s')"
  shows "repo_inv s'"
proof -
  from assms(4) consider "s' = s" | ch where "is_human s owner" "personal_channel u simple fresh owner = Some ch"
    "s' = s\<lparr> channels := hm_insert (ch_id ch) ch (channels s),
             channels_by_slug := hm_insert (ch_slug ch) (ch_id ch) (channels_by_slug s),
             memberships := hm_insert (ch_id ch, owner) (new_membership (ch_id ch) owner Member) (memberships s),
             personal_spaces := hm_insert owner (ch_id ch, personal_note_default) (personal_spaces s) \<rparr>"
    by (auto simp: open_personal_space_def split: option.splits if_splits)
  then show ?thesis
  proof cases
    case 2
    note ch = personal_channel_SomeD [OF 2(2)]
    have fresh: "fresh_channel (ch_id ch) s" using ch assms(2) by simp
    have slug: "\<not> hm_has (channels_by_slug s) (ch_slug ch)" using ch assms(3) by (simp add: fresh_slug_def)
    have "hm_has (users s) owner" using 2(1) by (auto simp: is_human_def hm_has_iff split: option.splits)
    then have adm: "admits ch s (hm_insert (ch_id ch, owner) (new_membership (ch_id ch) owner Member) (memberships s))"
      using fresh_memberships [OF assms(1) fresh] repo_invD(4) [OF assms(1)] ch
      by (auto simp: admits_def members_inv_def new_membership_def)
    have "anchors s' \<subseteq> insert (ch_id ch) (anchors s)"
      using image_hm_insert [of "fst \<circ> snd" owner "(ch_id ch, personal_note_default)" "personal_spaces s"]
      unfolding anchors_def by (simp add: 2(3)) blast
    then have anc: "anchors_inv (anchors s') (channels s')"
      using anchors_inv_insert [OF repo_invD(9) [OF assms(1)]] fresh ch
      by (simp add: 2(3) fresh_channel_def)
    show ?thesis
      by (rule new_channel_inv [OF assms(1) adm fresh slug]) (use anc in \<open>simp_all add: 2(3)\<close>)
  qed (use assms in simp)
qed

lemma push_inv:
  assumes "repo_inv s" "fresh_message (msg_id m) s" "hm_has (channels s) (msg_channel_id m)"
    and "seq_nat (msg_sequence m) = Suc (counter_of (next_sequences s) (msg_channel_id m))"
    and "msg_parent m = None" "msg_deleted_at m = None"
  shows "repo_inv (accepted_state m s)"
proof -
  note inv = repo_invD [OF assms(1)] and minv = msg_invD [OF repo_invD(1) [OF assms(1)]]
  let ?ms = "push_message (msg_channel_id m) m (messages s)"
  have "log_inv ?ms (hm_insert (msg_channel_id m) (msg_sequence m) (next_sequences s))"
    using assms(2,4) by (intro log_inv_push minv(1)) (simp_all add: fresh_message_def all_messages_log)
  moreover have "parents_inv ?ms" using assms(5) by (intro parents_inv_push minv(2)) simp
  moreover have "live_log ?ms (channels s)"
    using inv(10) assms(3) by (auto simp: live_log_def log_of_push)
  ultimately show ?thesis
    using inv minv assms(6) receipts_inv_push tombs_inv_push reads_inv_push
    by (simp add: repo_inv_def msg_inv_def accepted_state_def anchors_def)
qed

lemma open_personal_space_channel:
  assumes "repo_inv s" "open_personal_space u simple fresh owner s = Some (Inr ch, s')"
  shows "hm_get (channels s') (ch_id ch) = Some ch \<and> hm_has (users s') owner \<and> messages s' = messages s"
proof -
  have "hm_has (users s) owner"
    using assms(2) by (auto simp: open_personal_space_def is_human_def hm_has_iff split: if_splits option.splits)
  moreover have "hm_get (channels s') (ch_id ch) = Some ch \<and> users s' = users s \<and> messages s' = messages s"
    using assms(2) repo_invD(3) [OF assms(1)]
    by (auto simp: open_personal_space_def channels_inv_def split: if_splits option.splits)
  ultimately show ?thesis by simp
qed

lemma store_personal_link_inv:
  assumes "repo_inv s" "fresh_message fm s" "hm_has (channels s) c"
    and "store_personal_link hyph now fm owner source c s = Some (r, s')"
  shows "repo_inv s'"
proof -
  from assms(4) consider "s' = s" | q t user body where "next_sequence c s = (Inr q, t)"
    "s' = t\<lparr> messages := push_message c (personal_link_message fm now c user owner body q) (messages t),
             personal_saved_links := hm_insert (owner, msg_id source) fm (personal_saved_links t) \<rparr>"
    by (auto simp: store_personal_link_def Let_def dest: next_sequence_Inl
        split: if_splits option.splits prod.splits sum.splits)
  then show ?thesis
  proof cases
    case 2
    let ?m = "personal_link_message fm now c user owner body q"
    from 2(1) have q: "t = s\<lparr> next_sequences := hm_insert c q (next_sequences s) \<rparr>"
      "seq_nat q = Suc (counter_of (next_sequences s) c)" by (simp_all add: next_sequence_Inr)
    have "s' = (accepted_state ?m s)\<lparr> personal_saved_links :=
        hm_insert (owner, msg_id source) fm (personal_saved_links s) \<rparr>"
      by (simp add: 2(2) q(1) accepted_state_def personal_link_message_def)
    moreover have "repo_inv (accepted_state ?m s)"
      using assms(2,3) q(2) by (intro push_inv [OF assms(1)]) (simp_all add: personal_link_message_def)
    ultimately show ?thesis by simp
  qed (use assms in simp)
qed

lemma save_personal_link_inv:
  assumes "repo_inv s" "fresh_channel fresh s" "fresh_message fm s"
    and "fresh_slug u (lit ''personal-'' @ simple (channel_uuid fresh)) s"
    and "save_personal_link u simple hyph now fresh fm owner source s = Some (r, s')"
  shows "repo_inv s'"
proof -
  from assms(5) consider "s' = s"
    | e where "open_personal_space u simple fresh owner s = Some (Inl e, s')"
    | ch t src where "open_personal_space u simple fresh owner s = Some (Inr ch, t)"
        "store_personal_link hyph now fm owner src (ch_id ch) t = Some (r, s')"
    by (auto simp: save_personal_link_def split: option.splits prod.splits sum.splits)
  then show ?thesis
  proof cases
    case 2
    with open_personal_space_inv [where simple = simple, OF assms(1,2,4)] show ?thesis by blast
  next
    case 3
    have "repo_inv t" using 3(1) open_personal_space_inv [where simple = simple, OF assms(1,2,4)] by blast
    moreover have "fresh_message fm t" "hm_has (channels t) (ch_id ch)"
      using open_personal_space_channel [OF assms(1) 3(1)] assms(3)
      by (simp_all add: fresh_message_def all_messages_log hm_has_iff)
    ultimately show ?thesis using 3(2) store_personal_link_inv by blast
  qed (use assms in simp)
qed

end
