(* ===== verification/Directory_Circles.thy ===== *)
theory Directory_Circles
  imports Directory_Operations
begin

text \<open>
  The circle operations keep the invariant; what leaving and deleting a circle remove.
\<close>

section \<open>Creating, renaming, roles, favorites\<close>

definition fresh_circle :: "circle_id \<Rightarrow> repository_state \<Rightarrow> bool" where
  "fresh_circle k s \<longleftrightarrow> \<not> hm_has (circles s) k"

lemma repo_inv_circles:
  assumes "repo_inv s" "circles_inv crs slugs"
  shows "repo_inv (s\<lparr> circles_by_slug := slugs, circles := crs \<rparr>)"
  using repo_invD [OF assms(1)] assms(2) by (simp add: repo_inv_def msg_inv_def anchors_def)

lemma circles_inv_insert:
  assumes "circles_inv crs slugs" "\<not> hm_has crs (crc_id x)" "\<not> hm_has slugs (crc_slug x)"
  shows "circles_inv (hm_insert (crc_id x) x crs) (hm_insert (crc_slug x) (crc_id x) slugs)"
  using assms by (auto simp: circles_inv_def hm_has_iff) (metis option.distinct(1))+

lemma create_circle_inv:
  assumes "repo_inv s" "fresh_circle fresh s"
  shows "repo_inv (snd (create_circle now fresh cmd s))"
proof (cases "hm_has (users s) (ccr_actor cmd) \<and> \<not> hm_has (circles_by_slug s) (ccr_slug cmd)")
  case False
  with assms show ?thesis by (auto simp: create_circle_def)
next
  case True
  let ?c = "\<lparr> crc_id = fresh, crc_slug = ccr_slug cmd, crc_name = ccr_name cmd,
              crc_created_by = ccr_actor cmd, crc_created_at = now \<rparr>"
  let ?t = "s\<lparr> circles_by_slug := hm_insert (ccr_slug cmd) fresh (circles_by_slug s),
              circles := hm_insert fresh ?c (circles s) \<rparr>"
  have "repo_inv ?t"
    using circles_inv_insert [OF repo_invD(5) [OF assms(1)], of ?c] True assms(2)
    by (intro repo_inv_circles [OF assms(1)]) (simp add: fresh_circle_def)
  from repo_inv_circle_membership [OF this, of "ccr_actor cmd" "\<lparr> cm_circle_id = fresh,
      cm_user_id = ccr_actor cmd, cm_role = CircleOwner, cm_joined_at = now \<rparr>"] True
  show ?thesis by (simp add: create_circle_def Let_def)
qed

lemma circle_role_of_SomeD: "circle_role_of s k u = Some r \<Longrightarrow> hm_has (circle_memberships s) (k, u)"
  by (auto simp: circle_role_of_def hm_has_iff)

lemma set_circle_member_role_inv:
  assumes "repo_inv s"
  shows "repo_inv (snd (set_circle_member_role cmd s))"
proof (cases "hm_get (circle_memberships s) (scr_circle_id cmd, scr_user_id cmd)")
  case (Some m)
  with repo_invD(6) [OF assms] have "cm_circle_id m = scr_circle_id cmd" "cm_user_id m = scr_user_id cmd"
    "hm_has (users s) (scr_user_id cmd)" by (auto simp: circle_members_inv_def)
  then have "repo_inv (s\<lparr> circle_memberships := hm_insert (scr_circle_id cmd, scr_user_id cmd)
      (m\<lparr> cm_role := scr_role cmd \<rparr>) (circle_memberships s) \<rparr>)"
    by (intro repo_inv_circle_membership [OF assms]) simp_all
  with Some assms show ?thesis by (simp add: set_circle_member_role_def Let_def)
qed (use assms in \<open>simp add: set_circle_member_role_def\<close>)

lemma rename_circle_inv:
  assumes "repo_inv s"
  shows "repo_inv (snd (rename_circle cmd s))"
proof (cases "hm_get (circles s) (rnc_circle_id cmd)")
  case (Some x)
  have "circles_inv (hm_insert (rnc_circle_id cmd) (x\<lparr> crc_name := rnc_name cmd \<rparr>) (circles s)) (circles_by_slug s)"
    using repo_invD(5) [OF assms] Some by (auto simp: circles_inv_def) (metis option.inject)
  from repo_inv_circles [OF assms this] Some assms show ?thesis by (simp add: rename_circle_def Let_def)
qed (use assms in \<open>simp add: rename_circle_def\<close>)

lemma repo_inv_favorites:
  "repo_inv s \<Longrightarrow> favorites_inv favs (circle_memberships s) \<Longrightarrow> repo_inv (s\<lparr> favorite_circles := favs \<rparr>)"
  by (simp add: repo_inv_def msg_inv_def anchors_def)

lemma filter_length_le: "length (filter P (filter Q xs)) \<le> length (filter P xs)"
  by (induction xs) auto

lemma favorites_remove: "favorites_inv favs cms \<Longrightarrow> favorites_inv (filter P favs) cms"
proof -
  assume f: "favorites_inv favs cms"
  have "length (filter (\<lambda>p. snd p = u) (filter P favs)) \<le> 12" for u
    using f filter_length_le [of "\<lambda>p. snd p = u" P favs] le_trans unfolding favorites_inv_def by blast
  with f show ?thesis by (auto simp: favorites_inv_def)
qed

lemma set_circle_favorite_inv:
  assumes "repo_inv s"
  shows "repo_inv (snd (set_circle_favorite actor circle favorite s))"
proof -
  note fav = repo_invD(8) [OF assms]
  have remove: "favorites_inv (hs_remove (circle, actor) (favorite_circles s)) (circle_memberships s)"
    using favorites_remove [OF fav, of "\<lambda>x. (circle, actor) \<noteq> x"]
    by (simp add: hs_remove_def removeAll_filter_not_eq)
  have "favorites_inv (hs_insert (circle, actor) (favorite_circles s)) (circle_memberships s)"
    if "hm_has (circle_memberships s) (circle, actor)"
      "(circle, actor) \<in> set (favorite_circles s) \<or>
       length (filter (\<lambda>p. snd p = actor) (favorite_circles s)) < 12"
    using fav that by (auto simp: favorites_inv_def hs_insert_def)
  with remove show ?thesis
    by (auto simp: set_circle_favorite_def Let_def not_le intro!: repo_inv_favorites [OF assms] assms)
qed

section \<open>Invitations\<close>

lemma create_circle_invitation_inv:
  "repo_inv s \<Longrightarrow> repo_inv (snd (create_circle_invitation sha gen now fresh cmd s))"
  by (auto simp: create_circle_invitation_def Let_def split: sum.splits)

lemma accept_circle_invitation_inv:
  assumes "repo_inv s"
  shows "repo_inv (snd (accept_circle_invitation sha now joined cmd s))"
proof (cases "hm_get (circle_invitations s) (sha (aci_token cmd))")
  case (Some i)
  let ?t = "s\<lparr> circle_invitations := hm_remove (sha (aci_token cmd)) (circle_invitations s) \<rparr>"
  have "repo_inv (?t\<lparr> circle_memberships := hm_insert (inv_circle_id i, aci_actor cmd)
      \<lparr> cm_circle_id = inv_circle_id i, cm_user_id = aci_actor cmd, cm_role = CircleMember,
        cm_joined_at = joined \<rparr> (circle_memberships ?t) \<rparr>)" if "hm_has (users s) (aci_actor cmd)"
    using assms that by (intro repo_inv_circle_membership) simp_all
  with Some assms show ?thesis by (auto simp: accept_circle_invitation_def Let_def)
qed (use assms in \<open>simp add: accept_circle_invitation_def\<close>)

lemma prepare_enrollment_inv:
  "repo_inv s \<Longrightarrow> repo_inv (snd (prepare_enrollment_invitation u sha gen fresh cmd s))"
  by (auto simp: prepare_enrollment_invitation_def Let_def split: sum.splits option.splits)

lemma activate_enrollment_inv:
  "repo_inv s \<Longrightarrow> repo_inv (snd (activate_enrollment_invitation sha now cmd s))"
  by (auto simp: activate_enrollment_invitation_def Let_def split: option.splits)

lemma repo_inv_or_circle_membership:
  assumes "repo_inv s" "hm_has (users s) u" "cm_circle_id m = k" "cm_user_id m = u"
  shows "repo_inv (s\<lparr> circle_memberships := hm_or_insert (k, u) m (circle_memberships s) \<rparr>)"
proof (cases "hm_has (circle_memberships s) (k, u)")
  case True
  have "s\<lparr> circle_memberships := circle_memberships s \<rparr> = s" by simp
  with True assms(1) show ?thesis by (simp add: hm_or_insert_def)
next
  case False
  with repo_inv_circle_membership [OF assms] show ?thesis by (simp add: hm_or_insert_def)
qed

lemma accept_enrollment_inv:
  assumes "repo_inv s"
  shows "repo_inv (snd (accept_enrollment_invitation u sha now joined cmd s))"
proof (cases "hm_get (enrollment_invitations s) (enrollment_token_hash sha (acc_token cmd))")
  case (Some st)
  let ?e = "enrollment_invitations s"
  have "repo_inv (s\<lparr> enrollment_invitations := x, circle_memberships := hm_or_insert (k, acc_actor cmd)
      \<lparr> cm_circle_id = k, cm_user_id = acc_actor cmd, cm_role = CircleMember, cm_joined_at = joined \<rparr>
      (circle_memberships s) \<rparr>)" if "hm_has (users s) (acc_actor cmd)" for x k
    using repo_inv_or_circle_membership [of "s\<lparr> enrollment_invitations := x \<rparr>" "acc_actor cmd" _ k] assms that
    by simp
  with Some assms show ?thesis
    by (auto simp: accept_enrollment_invitation_def Let_def split: option.splits)
qed (use assms in \<open>simp add: accept_enrollment_invitation_def Let_def\<close>)

section \<open>Leaving\<close>

lemma circle_channel_ids_iff:
  assumes "channels_inv (channels s) slugs"
  shows "c \<in> set (circle_channel_ids k s) \<longleftrightarrow>
    (\<exists>x. hm_get (channels s) c = Some x \<and> ch_circle_id x = Some k)"
proof -
  have vals: "x \<in> set (hm_values (channels s)) \<longleftrightarrow> hm_get (channels s) (ch_id x) = Some x" for x
    using assms hm_values_iff [of "channels s" x] by (auto simp: channels_inv_def)
  have "c \<in> set (circle_channel_ids k s) \<longleftrightarrow>
      (\<exists>x. x \<in> set (hm_values (channels s)) \<and> ch_circle_id x = Some k \<and> ch_id x = c)"
    unfolding circle_channel_ids_def set_map [of ch_id] set_filter by blast
  also have "\<dots> \<longleftrightarrow> (\<exists>x. hm_get (channels s) c = Some x \<and> ch_circle_id x = Some k)"
    unfolding vals using assms by (auto simp: channels_inv_def)
  finally show ?thesis .
qed

lemma members_inv_retain: "members_inv mbs chs us \<Longrightarrow> members_inv (hm_retain P mbs) chs us"
  by (auto simp: members_inv_def hm_get_retain split: option.splits if_splits)

lemma reads_inv_retain: "hm_wf mbs \<Longrightarrow> reads_inv ms mbs \<Longrightarrow> reads_inv ms (hm_retain P mbs)"
  by (auto simp: reads_inv_def hm_get_retain split: option.splits if_splits)

lemma hm_has_retain: "hm_wf m \<Longrightarrow> hm_has (hm_retain (\<lambda>k _. P k) m) k \<longleftrightarrow> hm_has m k \<and> P k"
  by (auto simp: hm_has_iff hm_get_retain split: option.splits)

lemma leave_circle_inv:
  assumes "repo_inv s"
  shows "repo_inv (snd (leave_circle cmd s))"
proof (cases "can_leave_circle (circle_role_of s (lvc_circle_id cmd) (lvc_actor cmd))")
  case False
  with assms show ?thesis by (simp add: leave_circle_def)
next
  case True
  note inv = repo_invD [OF assms]
  let ?k = "lvc_circle_id cmd" and ?u = "lvc_actor cmd"
  let ?cms = "hm_remove (?k, ?u) (circle_memberships s)"
  let ?mbs = "hm_retain (\<lambda>p _. snd p \<noteq> ?u \<or> fst p \<notin> set (circle_channel_ids ?k s)) (memberships s)"
  have ids: "circle_channel_ids ?k (s\<lparr> circle_memberships := a, favorite_circles := b \<rparr>) =
      circle_channel_ids ?k s" for a b
    by (simp add: circle_channel_ids_def)
  have wf: "hm_wf (memberships s)" using inv(4) by (simp add: members_inv_def)
  have "circle_members_inv ?cms (users s)" using inv(6) by (auto simp: circle_members_inv_def)
  moreover have "confined ?mbs (channels s) ?cms"
    using inv(7) circle_channel_ids_iff [OF inv(3), of _ ?k]
    by (auto simp: confined_def hm_has_retain [OF wf])
  moreover have "favorites_inv (hs_remove (?k, ?u) (favorite_circles s)) ?cms"
    using favorites_remove [OF inv(8), of "\<lambda>x. (?k, ?u) \<noteq> x"]
    by (auto simp: favorites_inv_def hs_remove_def removeAll_filter_not_eq)
  moreover have "members_inv ?mbs (channels s) (users s)" using members_inv_retain [OF inv(4)] by blast
  moreover have "reads_inv (messages s) ?mbs" using reads_inv_retain [OF wf] msg_invD(5) [OF inv(1)] by blast
  ultimately show ?thesis
    using True inv msg_invD [OF inv(1)] wf
    by (simp add: leave_circle_def Let_def ids repo_inv_def msg_inv_def anchors_def)
qed

section \<open>Deleting\<close>

text \<open>What the loop over the channels of the circle keeps at every turn.\<close>

definition loop_inv :: "repository_state \<Rightarrow> bool" where
  "loop_inv s \<longleftrightarrow> log_inv (messages s) (next_sequences s) \<and> parents_inv (messages s) \<and>
     tombs_inv (messages s) (message_reactions s) \<and> reads_inv (messages s) (memberships s) \<and>
     hm_wf (memberships s) \<and> channels_inv (channels s) (channels_by_slug s)"

lemma channels_inv_remove:
  assumes "channels_inv chs slugs" "map_of chs c = Some x"
  shows "channels_inv (hm_remove c chs) (hm_remove (ch_slug x) slugs)"
  using assms by (auto simp: channels_inv_def) (metis option.inject)+

lemma drop_channel_inv: "loop_inv s \<Longrightarrow> loop_inv (drop_channel c s)"
  by (auto simp: loop_inv_def drop_channel_def Let_def log_inv_drop parents_inv_drop tombs_inv_drop
      reads_inv_drop channels_inv_remove split: option.splits)

lemma fold_drop_inv: "loop_inv s \<Longrightarrow> loop_inv (fold drop_channel cs s)"
  by (induction cs arbitrary: s) (simp_all add: drop_channel_inv)

lemma drop_channel_frame:
  "users (drop_channel c s) = users s" "circles (drop_channel c s) = circles s"
  "circles_by_slug (drop_channel c s) = circles_by_slug s"
  "circle_memberships (drop_channel c s) = circle_memberships s"
  "favorite_circles (drop_channel c s) = favorite_circles s" "personal_spaces (drop_channel c s) = personal_spaces s"
  "direct_conversations (drop_channel c s) = direct_conversations s"
  "direct_expansions (drop_channel c s) = direct_expansions s"
  "command_receipts (drop_channel c s) = command_receipts s"
  "message_reactions (drop_channel c s) = message_reactions s"
  by (simp_all add: drop_channel_def Let_def split: option.splits)

lemma fold_drop_frame:
  "users (fold drop_channel cs s) = users s" "circles (fold drop_channel cs s) = circles s"
  "circles_by_slug (fold drop_channel cs s) = circles_by_slug s"
  "circle_memberships (fold drop_channel cs s) = circle_memberships s"
  "favorite_circles (fold drop_channel cs s) = favorite_circles s" "personal_spaces (fold drop_channel cs s) = personal_spaces s"
  "direct_conversations (fold drop_channel cs s) = direct_conversations s"
  "direct_expansions (fold drop_channel cs s) = direct_expansions s"
  "command_receipts (fold drop_channel cs s) = command_receipts s"
  "message_reactions (fold drop_channel cs s) = message_reactions s"
  by (induction cs arbitrary: s) (simp_all add: drop_channel_frame)

lemma drop_channel_gone:
  assumes "hm_wf (memberships s)"
  shows "hm_get (channels (drop_channel c s)) d = (if d = c then None else hm_get (channels s) d)"
    "hm_get (memberships (drop_channel c s)) (d, u) = (if d = c then None else hm_get (memberships s) (d, u))"
    "log_of (messages (drop_channel c s)) d = (if d = c then [] else log_of (messages s) d)"
    "hm_wf (memberships (drop_channel c s))"
  using assms
  by (auto simp: drop_channel_def Let_def hm_get_retain log_of_remove split: option.splits)

lemma fold_drop_gone:
  assumes "hm_wf (memberships s)"
  shows "hm_get (channels (fold drop_channel cs s)) d = (if d \<in> set cs then None else hm_get (channels s) d)"
    "hm_get (memberships (fold drop_channel cs s)) (d, u) =
       (if d \<in> set cs then None else hm_get (memberships s) (d, u))"
    "log_of (messages (fold drop_channel cs s)) d = (if d \<in> set cs then [] else log_of (messages s) d)"
  using assms by (induction cs arbitrary: s) (simp_all add: drop_channel_gone)

lemma delete_circle_cases:
  obtains e where "delete_circle cmd s = (Inl e, s)"
  | x where "can_delete_circle (circle_role_of s (dlc_circle_id cmd) (dlc_actor cmd))"
      "hm_get (circles s) (dlc_circle_id cmd) = Some x"
      "delete_circle cmd s = (Inr (),
         (fold drop_channel (circle_channel_ids (dlc_circle_id cmd) s)
            (s\<lparr> circles := hm_remove (dlc_circle_id cmd) (circles s),
                circles_by_slug := hm_remove (crc_slug x) (circles_by_slug s),
                favorite_circles := filter (\<lambda>p. fst p \<noteq> dlc_circle_id cmd) (favorite_circles s),
                circle_memberships := hm_retain (\<lambda>p _. fst p \<noteq> dlc_circle_id cmd) (circle_memberships s),
                circle_invitations := hm_retain (\<lambda>_ i. inv_circle_id i \<noteq> dlc_circle_id cmd) (circle_invitations s) \<rparr>))
         \<lparr> command_receipts := hm_retain (\<lambda>_ i. i \<notin> set (map msg_id (concat (map (channel_messages s)
              (circle_channel_ids (dlc_circle_id cmd) s))))) (command_receipts s) \<rparr>)"
proof -
  have same: "circle_channel_ids k (s\<lparr> circles := a, circles_by_slug := b, favorite_circles := c,
      circle_memberships := d, circle_invitations := e \<rparr>) = circle_channel_ids k s"
    "channel_messages (s\<lparr> circles := a, circles_by_slug := b, favorite_circles := c,
      circle_memberships := d, circle_invitations := e \<rparr>) = channel_messages s" for k a b c d e
    by (simp_all add: circle_channel_ids_def channel_messages_def fun_eq_iff)
  show ?thesis
  proof (cases "can_delete_circle (circle_role_of s (dlc_circle_id cmd) (dlc_actor cmd))")
    case False
    then show ?thesis by (intro that(1)) (simp add: delete_circle_def)
  next
    case True
    show ?thesis
    proof (cases "hm_get (circles s) (dlc_circle_id cmd)")
      case None
      with True show ?thesis by (intro that(1)) (simp add: delete_circle_def)
    next
      case (Some x)
      with True show ?thesis
        by (intro that(2) [OF True Some]) (simp add: delete_circle_def Let_def fold_drop_frame same)
    qed
  qed
qed

text \<open>The receipts that stay point to messages that stay.\<close>

lemma receipts_after_drop:
  assumes "log_inv ms nx" "log_inv ms' nx'" "receipts_inv ms rc" "hm_wf rc"
    and gone: "\<And>d. log_of ms' d = (if d \<in> set cs then [] else log_of ms d)"
  shows "receipts_inv ms' (hm_retain (\<lambda>_ i. i \<notin> set (map msg_id (concat (map (log_of ms) cs)))) rc)"
  unfolding receipts_inv_def
proof (intro conjI allI impI hm_wf_retain assms(4))
  fix k i
  assume "hm_get (hm_retain (\<lambda>_ i. i \<notin> set (map msg_id (concat (map (log_of ms) cs)))) rc) k = Some i"
  with assms(4) have i: "hm_get rc k = Some i" "i \<notin> set (map msg_id (concat (map (log_of ms) cs)))"
    by (auto simp: hm_get_retain split: option.splits if_splits)
  with assms(3) obtain m where m: "m \<in> set (log_all ms)" "msg_id m = i" "msg_sender_id m = fst k"
    unfolding receipts_inv_def by blast
  let ?c = "msg_channel_id m"
  have mc: "m \<in> set (log_of ms ?c)" by (rule log_channel [OF assms(1) m(1)])
  with i(2) m(2) have "?c \<notin> set cs" by auto
  with gone mc have "m \<in> set (log_of ms' ?c)" by simp
  with log_of_mem m show "\<exists>m \<in> set (log_all ms'). msg_id m = i \<and> msg_sender_id m = fst k" by blast
qed

lemma delete_circle_inv:
  assumes "repo_inv s"
  shows "repo_inv (snd (delete_circle cmd s))"
proof (cases rule: delete_circle_cases [of cmd s])
  case (2 x)
  note inv = repo_invD [OF assms] and minv = msg_invD [OF repo_invD(1) [OF assms]]
  let ?k = "dlc_circle_id cmd"
  let ?cs = "circle_channel_ids ?k s"
  let ?cms = "hm_retain (\<lambda>p _. fst p \<noteq> ?k) (circle_memberships s)"
  let ?favs = "filter (\<lambda>p. fst p \<noteq> ?k) (favorite_circles s)"
  let ?t = "s\<lparr> circles := hm_remove ?k (circles s), circles_by_slug := hm_remove (crc_slug x) (circles_by_slug s),
              favorite_circles := ?favs, circle_memberships := ?cms,
              circle_invitations := hm_retain (\<lambda>_ i. inv_circle_id i \<noteq> ?k) (circle_invitations s) \<rparr>"
  let ?r = "fold drop_channel ?cs ?t"
  have loop: "loop_inv ?r" by (rule fold_drop_inv) (use minv inv(3) in \<open>simp add: loop_inv_def\<close>)
  have wf: "hm_wf (memberships ?t)" using minv(6) by simp
  note gone = fold_drop_gone [OF wf, of ?cs]
  note ids = circle_channel_ids_iff [OF inv(3), of _ ?k]
  have wfc: "hm_wf (circle_memberships s)" using inv(6) by (simp add: circle_members_inv_def)
  have "circles_inv (hm_remove ?k (circles s)) (hm_remove (crc_slug x) (circles_by_slug s))"
    using inv(5) 2(2) by (auto simp: circles_inv_def) (metis option.inject)+
  moreover have "circle_members_inv ?cms (users s)"
    using inv(6) wfc by (auto simp: circle_members_inv_def hm_get_retain split: option.splits if_splits)
  moreover have "favorites_inv ?favs ?cms"
    using favorites_remove [OF inv(8), of "\<lambda>p. fst p \<noteq> ?k"] hm_has_retain [OF wfc, of "\<lambda>p. fst p \<noteq> ?k"]
    by (auto simp: favorites_inv_def)
  moreover have "confined (memberships ?r) (channels ?r) ?cms"
    using inv(7) ids hm_has_retain [OF wfc, of "\<lambda>p. fst p \<noteq> ?k"]
    unfolding confined_def hm_has_iff gone by (auto split: if_splits)
  moreover have "members_inv (memberships ?r) (channels ?r) (users s)"
    using inv(4) loop unfolding members_inv_def hm_has_iff gone by (auto simp: loop_inv_def split: if_splits)
  moreover have "anchors_inv (anchors s) (channels ?r)"
    using inv(9) ids unfolding anchors_inv_def gone by fastforce
  moreover have "live_log (messages ?r) (channels ?r)"
    using inv(10) unfolding live_log_def hm_has_iff gone by auto
  moreover have "receipts_inv (messages ?r)
      (hm_retain (\<lambda>_ i. i \<notin> set (map msg_id (concat (map (log_of (messages s)) ?cs)))) (command_receipts s))"
    using loop gone(3) minv(1,3)
    by (intro receipts_after_drop [OF minv(1)]) (auto simp: loop_inv_def receipts_inv_def)
  moreover have "channel_messages s = log_of (messages s)" by (simp add: fun_eq_iff channel_messages_log)
  ultimately show ?thesis
    using loop inv(2) 2(3)
    by (simp add: repo_inv_def msg_inv_def loop_inv_def fold_drop_frame anchors_def)
qed (use assms in simp)

end
