(* ===== verification/Directory_Channels.thy ===== *)
theory Directory_Channels
  imports Directory_Circles
begin

text \<open>
  The channel operations and the message operations keep the invariant of the whole repository.
\<close>

section \<open>Direct conversations\<close>

lemma open_direct_channel_cases:
  obtains e where "open_direct_channel u simple fresh fslug actor other s = (e, s)"
  | slug user where "actor \<noteq> other" "hm_get (users s) other = Some user" "hm_has (users s) actor"
      "hm_get (direct_conversations s) (direct_pair actor other) = None"
      "channel_slug_new u (lit ''dm-'' @ simple fslug) = Inr slug"
      "open_direct_channel u simple fresh fslug actor other s =
         (let channel = \<lparr> ch_id = fresh, ch_slug = slug, ch_name = usr_display_name user, ch_kind = Private,
                          ch_circle_id = None, ch_created_by = actor \<rparr>
          in (Inr channel,
              s\<lparr> channels_by_slug := hm_insert slug fresh (channels_by_slug s),
                 channels := hm_insert fresh channel (channels s),
                 direct_conversations := hm_insert (direct_pair actor other) fresh (direct_conversations s),
                 memberships := hm_insert (fresh, other) (new_membership fresh other Member)
                   (hm_insert (fresh, actor) (new_membership fresh actor Owner) (memberships s)) \<rparr>))"
proof (cases "actor = other \<or> hm_get (users s) other = None \<or> \<not> hm_has (users s) actor \<or>
    hm_get (direct_conversations s) (direct_pair actor other) \<noteq> None")
  case True
  then have "snd (open_direct_channel u simple fresh fslug actor other s) = s"
    by (auto simp: open_direct_channel_def Let_def split: option.splits)
  then show ?thesis
    by (intro that(1) [of "fst (open_direct_channel u simple fresh fslug actor other s)"]) (simp add: prod_eq_iff)
next
  case False
  then obtain user where user: "hm_get (users s) other = Some user" by auto
  show ?thesis
  proof (cases "channel_slug_new u (lit ''dm-'' @ simple fslug)")
    case (Inl e)
    with False user show ?thesis by (intro that(1)) (simp add: open_direct_channel_def Let_def)
  next
    case (Inr slug)
    from False user show ?thesis
      by (intro that(2) [OF _ user _ _ Inr]) (simp_all add: open_direct_channel_def Let_def Inr)
  qed
qed

lemma open_direct_channel_inv:
  assumes "repo_inv s" "fresh_channel fresh s" "fresh_slug u (lit ''dm-'' @ simple fslug) s"
  shows "repo_inv (snd (open_direct_channel u simple fresh fslug actor other s))"
proof (cases rule: open_direct_channel_cases [of u simple fresh fslug actor other s])
  case (2 slug user)
  let ?ch = "\<lparr> ch_id = fresh, ch_slug = slug, ch_name = usr_display_name user, ch_kind = Private,
               ch_circle_id = None, ch_created_by = actor \<rparr>"
  let ?mbs = "hm_insert (fresh, other) (new_membership fresh other Member)
                   (hm_insert (fresh, actor) (new_membership fresh actor Owner) (memberships s))"
  have slug: "\<not> hm_has (channels_by_slug s) slug" using assms(3) 2(5) by (simp add: fresh_slug_def)
  have adm: "admits ?ch s ?mbs"
    using fresh_memberships [OF assms(1,2)] repo_invD(4) [OF assms(1)] 2(2,3)
    by (auto simp: admits_def members_inv_def new_membership_def hm_has_iff split: if_splits)
  let ?s' = "snd (open_direct_channel u simple fresh fslug actor other s)"
  have "anchors ?s' \<subseteq> insert fresh (anchors s)"
    using image_hm_insert [of snd "direct_pair actor other" fresh "direct_conversations s"]
    unfolding anchors_def by (simp add: 2(6) Let_def) blast
  then have "anchors_inv (anchors ?s') (channels ?s')"
    using anchors_inv_insert [OF repo_invD(9) [OF assms(1)], of fresh ?ch] assms(2)
    by (simp add: 2(6) Let_def fresh_channel_def)
  then show ?thesis
    using assms(2) slug by (intro new_channel_inv [OF assms(1) adm]) (simp_all add: 2(6) Let_def)
qed (use assms in simp)

lemma add_members_get:
  "hm_get (add_members c us ms) (d, v) =
     (if d = c \<and> v \<in> set us then Some (new_membership c v Member) else hm_get ms (d, v))"
  unfolding add_members_def by (induction us arbitrary: ms) auto

lemma add_members_wf: "hm_wf ms \<Longrightarrow> hm_wf (add_members c us ms)"
  unfolding add_members_def by (induction us arbitrary: ms) auto

lemma map_sum_Inr_iff: "map_sum f g r = Inr b \<longleftrightarrow> (\<exists>a. r = Inr a \<and> b = g a)"
  by (cases r) auto

lemma collect_results_Inr:
  "collect_results rs = Inr ys \<Longrightarrow> x \<in> set rs \<Longrightarrow> is_ok x"
  by (induction rs arbitrary: ys rule: collect_results.induct) (auto split: sum.splits)

lemma expand_direct_channel_cases:
  obtains e where "expand_direct_channel u simple fresh fslug actor source other s = (e, s)"
  | channel participants where "hm_has (users s) other" "is_direct s source" "hm_has (memberships s) (source, actor)"
      "participants = sort (map mb_user_id (filter (\<lambda>m. mb_channel_id m = source) (hm_values (memberships s))) @ [other])"
      "\<And>x. x \<in> set participants \<Longrightarrow> hm_has (users s) x"
      "ch_id channel = fresh" "ch_circle_id channel = None" "ch_created_by channel = actor"
      "channel_slug_new u (lit ''dm-group-'' @ simple fslug) = Inr (ch_slug channel)"
      "expand_direct_channel u simple fresh fslug actor source other s =
         (Inr channel, s\<lparr> channels_by_slug := hm_insert (ch_slug channel) fresh (channels_by_slug s),
            channels := hm_insert fresh channel (channels s),
            direct_group_conversations := hm_insert fresh source (direct_group_conversations s),
            direct_expansions := hm_insert (source, other) fresh (direct_expansions s),
            memberships := add_members fresh participants (memberships s) \<rparr>)"
proof -
  let ?ps = "sort (map mb_user_id (filter (\<lambda>m. mb_channel_id m = source) (hm_values (memberships s))) @ [other])"
  define made where "made = result_bind (collect_results (map (participant_name s) ?ps))
     (\<lambda>names. result_bind (map_sum storage id (channel_slug_new u (lit ''dm-group-'' @ simple fslug)))
     (\<lambda>slug. result_bind (map_sum storage id (display_name_new (group_name names)))
     (\<lambda>name. Inr \<lparr> ch_id = fresh, ch_slug = slug, ch_name = name, ch_kind = Private,
                   ch_circle_id = None, ch_created_by = actor \<rparr>)))"
  show ?thesis
  proof (cases "\<not> hm_has (users s) other \<or> other = actor \<or> \<not> hm_has (memberships s) (source, actor) \<or>
      \<not> is_direct s source \<or> hm_has (memberships s) (source, other) \<or>
      hm_get (direct_expansions s) (source, other) \<noteq> None")
    case True
    then have "snd (expand_direct_channel u simple fresh fslug actor source other s) = s"
      by (auto simp: expand_direct_channel_def split: option.splits)
    then show ?thesis
      by (intro that(1) [of "fst (expand_direct_channel u simple fresh fslug actor source other s)"])
         (simp add: prod_eq_iff)
  next
    case False
    then have eq: "expand_direct_channel u simple fresh fslug actor source other s =
        (case made of Inl e \<Rightarrow> (Inl e, s) | Inr channel \<Rightarrow> (Inr channel,
          s\<lparr> channels_by_slug := hm_insert (ch_slug channel) fresh (channels_by_slug s),
            channels := hm_insert fresh channel (channels s),
            direct_group_conversations := hm_insert fresh source (direct_group_conversations s),
            direct_expansions := hm_insert (source, other) fresh (direct_expansions s),
            memberships := add_members fresh ?ps (memberships s) \<rparr>))"
      by (simp add: expand_direct_channel_def made_def Let_def)
    show ?thesis
    proof (cases made)
      case (Inl e)
      with eq show ?thesis by (intro that(1)) simp
    next
      case (Inr channel)
      then obtain names where names: "collect_results (map (participant_name s) ?ps) = Inr names"
        and ch: "channel_slug_new u (lit ''dm-group-'' @ simple fslug) = Inr (ch_slug channel)"
          "ch_id channel = fresh" "ch_circle_id channel = None" "ch_created_by channel = actor"
        unfolding made_def by (auto simp: result_bind_Inr map_sum_Inr_iff split: sum.splits)
      have "is_ok (participant_name s x)" if "x \<in> set ?ps" for x
        using that by (intro collect_results_Inr [OF names]) (simp only: set_map, rule imageI)
      then have "hm_has (users s) x" if "x \<in> set ?ps" for x
        using that unfolding participant_name_def hm_has_def by (fastforce split: option.splits)
      from that(2) [OF _ _ _ refl this ch(2,3,4,1)] False eq Inr show ?thesis by simp
    qed
  qed
qed

lemma expand_direct_channel_inv:
  assumes "repo_inv s" "fresh_channel fresh s" "fresh_slug u (lit ''dm-group-'' @ simple fslug) s"
  shows "repo_inv (snd (expand_direct_channel u simple fresh fslug actor source other s))"
proof (cases rule: expand_direct_channel_cases [of u simple fresh fslug actor source other s])
  case (2 ch ps)
  have slug: "\<not> hm_has (channels_by_slug s) (ch_slug ch)" using assms(3) 2(9) by (simp add: fresh_slug_def)
  have adm: "admits ch s (add_members fresh ps (memberships s))"
    using fresh_memberships [OF assms(1,2)] repo_invD(4) [OF assms(1)] 2(5,6,7)
    by (auto simp: admits_def members_inv_def add_members_get add_members_wf new_membership_def split: if_splits)
  let ?s' = "snd (expand_direct_channel u simple fresh fslug actor source other s)"
  have "anchors ?s' \<subseteq> insert fresh (anchors s)"
    using image_hm_insert [of snd "(source, other)" fresh "direct_expansions s"]
    unfolding anchors_def by (simp add: 2(10)) blast
  then have "anchors_inv (anchors ?s') (channels ?s')"
    using anchors_inv_insert [OF repo_invD(9) [OF assms(1)], of fresh ch] assms(2) 2(7)
    by (simp add: 2(10) fresh_channel_def)
  then show ?thesis
    using assms(2) slug 2(6) by (intro new_channel_inv [OF assms(1) adm]) (simp_all add: 2(10))
qed (use assms in simp)

section \<open>Channels\<close>

lemma admit_member_get:
  "hm_get (admit_member c (v, r) ms) (d, w) =
     (if d = c \<and> w = v \<and> (r = Owner \<or> \<not> hm_has ms (c, v)) then Some (new_membership c v r)
      else hm_get ms (d, w))"
  by (auto simp: admit_member_def new_membership_def Let_def)

lemma admit_member_wf: "hm_wf ms \<Longrightarrow> hm_wf (admit_member c p ms)"
  by (auto simp: admit_member_def Let_def split: prod.splits)

lemma fold_admit_wf: "hm_wf ms \<Longrightarrow> hm_wf (fold (admit_member c) ps ms)"
  by (induction ps arbitrary: ms) (simp_all add: admit_member_wf)

lemma fold_admit_other: "d \<noteq> c \<Longrightarrow> hm_get (fold (admit_member c) ps ms) (d, w) = hm_get ms (d, w)"
  by (induction ps arbitrary: ms) (auto simp: admit_member_get)

lemma fold_admit_same:
  "hm_get (fold (admit_member c) ps ms) (c, w) = Some m \<Longrightarrow>
     hm_get ms (c, w) = Some m \<or> (\<exists>r. (w, r) \<in> set ps \<and> m = new_membership c w r)"
  by (induction ps arbitrary: ms) (force simp: admit_member_get split: if_splits)+

lemma fold_admit_keeps:
  "hm_has ms (c, w) \<Longrightarrow> hm_has (fold (admit_member c) ps ms) (c, w)"
  by (induction ps arbitrary: ms) (auto simp: hm_has_iff admit_member_get)

lemma fold_admit_all:
  "(w, r) \<in> set ps \<Longrightarrow> hm_has (fold (admit_member c) ps ms) (c, w)"
proof (induction ps arbitrary: ms)
  case (Cons p ps)
  show ?case
  proof (cases "p = (w, r)")
    case True
    then have "hm_has (admit_member c p ms) (c, w)" by (auto simp: hm_has_iff admit_member_get)
    then show ?thesis by (simp add: fold_admit_keeps)
  next
    case False
    with Cons show ?thesis by simp
  qed
qed simp

lemma create_channel_inv:
  assumes "repo_inv s" "fresh_channel fresh s"
  shows "repo_inv (snd (create_channel fresh cmd s))"
proof (cases "hm_has (users s) (cch_actor cmd) \<and> \<not> hm_has (channels_by_slug s) (cch_slug cmd) \<and>
    (\<forall>k. cch_circle_id cmd = Some k \<longrightarrow> can_create_channel_in_circle (circle_role_of s k (cch_actor cmd)))")
  case False
  then have "snd (create_channel fresh cmd s) = s"
    by (auto simp: create_channel_def split: option.splits)
  with assms show ?thesis by simp
next
  case True
  let ?general = "slug_str (cch_slug cmd) = lit ''general'' \<and> cch_circle_id cmd = None"
  let ?ch = "\<lparr> ch_id = fresh, ch_slug = cch_slug cmd, ch_name = cch_name cmd, ch_kind = cch_kind cmd,
               ch_circle_id = cch_circle_id cmd, ch_created_by = cch_actor cmd \<rparr>"
  let ?ps = "map (\<lambda>x. (x, Member)) (if ?general then hm_keys (users s) else []) @ [(cch_actor cmd, Owner)]"
  let ?mbs = "fold (admit_member fresh) ?ps (memberships s)"
  from True have run: "create_channel fresh cmd s = (Inr ?ch,
      s\<lparr> channels_by_slug := hm_insert (cch_slug cmd) fresh (channels_by_slug s),
         channels := hm_insert fresh ?ch (channels s), memberships := ?mbs \<rparr>)"
    by (auto simp: create_channel_def Let_def split: option.splits)
  have circ: "hm_has (circle_memberships s) (k, cch_actor cmd)" if "cch_circle_id cmd = Some k" for k
    using that True by (auto simp: can_create_channel_in_circle_def dest: circle_role_of_SomeD)
  have known: "hm_has (users s) w" if "w \<in> set (hm_keys (users s))" for w
    using that by (simp add: hm_has_dom)
  have member: "m = new_membership fresh w r \<and> hm_has (users s) w \<and>
      (\<forall>k. cch_circle_id cmd = Some k \<longrightarrow> hm_has (circle_memberships s) (k, w))"
    if "(w, r) \<in> set ?ps" "m = new_membership fresh w r" for w m r
    using that True circ known by (auto split: if_splits simp del: fold_append)
  have adm: "admits ?ch s ?mbs"
    unfolding admits_def
  proof (intro conjI allI impI)
    show "hm_wf ?mbs" using repo_invD(4) [OF assms(1)] by (intro fold_admit_wf) (simp add: members_inv_def)
  next
    fix c w assume "c \<noteq> ch_id ?ch"
    then show "hm_get ?mbs (c, w) = hm_get (memberships s) (c, w)" by (simp add: fold_admit_other del: fold_append)
  next
    fix w m assume m: "hm_get ?mbs (ch_id ?ch, w) = Some m"
    then have "hm_get ?mbs (fresh, w) = Some m" by simp
    from fold_admit_same [OF this] fresh_memberships [OF assms] obtain r
      where r: "(w, r) \<in> set ?ps" "m = new_membership fresh w r" by auto
    note w = member [OF this]
    show "mb_channel_id m = ch_id ?ch" "mb_user_id m = w" "mb_last_read_sequence m = ChannelSequence 0"
      "hm_has (users s) w" using w by (simp_all add: new_membership_def)
    fix k assume "ch_circle_id ?ch = Some k" "slug_str (ch_slug ?ch) \<noteq> lit ''general''"
    with w show "hm_has (circle_memberships s) (k, w)" by simp
  qed
  have "anchors (snd (create_channel fresh cmd s)) = anchors s" by (simp add: run anchors_def)
  then have "anchors_inv (anchors (snd (create_channel fresh cmd s))) (channels (snd (create_channel fresh cmd s)))"
    using anchors_inv_mono [OF repo_invD(9) [OF assms(1)]] assms(2) by (simp add: run fresh_channel_def)
  then show ?thesis
    using assms(2) True by (intro new_channel_inv [OF assms(1) adm]) (simp_all add: run)
qed

section \<open>Memberships\<close>

lemma resolve_channel_ref_Inr:
  "channels_inv (channels s) (channels_by_slug s) \<Longrightarrow> resolve_channel_ref s ref = Inr c \<Longrightarrow> hm_has (channels s) c"
  by (auto simp: resolve_channel_ref_def channels_inv_def hm_has_iff
      split: channel_ref.splits if_splits option.splits) metis

lemma join_channel_ok:
  assumes "join_channel cmd s = (Inr m, s')"
  obtains c x where "hm_has (users s) (jch_actor cmd)" "resolve_channel_ref s (jch_channel cmd) = Inr c"
    "hm_get (channels s) c = Some x"
    "\<forall>k. ch_circle_id x = Some k \<longrightarrow> hm_has (circle_memberships s) (k, jch_actor cmd)"
    "ch_kind x = Private \<longrightarrow> slug_str (ch_slug x) = lit ''general''"
    "m = new_membership c (jch_actor cmd) Member"
    "s' = s\<lparr> memberships := hm_insert (c, jch_actor cmd) m (memberships s) \<rparr>"
  using assms
  by (auto simp: join_channel_def Let_def split: if_splits sum.splits option.splits)

lemma join_channel_fail: "join_channel cmd s = (Inl e, s') \<Longrightarrow> s' = s"
  by (auto simp: join_channel_def Let_def split: if_splits sum.splits option.splits)

lemma join_channel_inv:
  assumes "repo_inv s"
  shows "repo_inv (snd (join_channel cmd s))"
proof (cases "join_channel cmd s")
  case (Pair r s')
  show ?thesis
  proof (cases r)
    case (Inl e)
    with Pair join_channel_fail assms show ?thesis by fastforce
  next
    case (Inr m)
    with Pair have run: "join_channel cmd s = (Inr m, s')" by simp
    from run show ?thesis
    proof (rule join_channel_ok)
      fix c x
      assume x: "hm_has (users s) (jch_actor cmd)" "hm_get (channels s) c = Some x"
        "\<forall>k. ch_circle_id x = Some k \<longrightarrow> hm_has (circle_memberships s) (k, jch_actor cmd)"
        "m = new_membership c (jch_actor cmd) Member"
        "s' = s\<lparr> memberships := hm_insert (c, jch_actor cmd) m (memberships s) \<rparr>"
      have "repo_inv s'" unfolding x(5)
        using x(1-4) by (intro repo_inv_membership [OF assms]) (auto simp: hm_has_iff new_membership_def)
      with Pair show ?thesis by simp
    qed
  qed
qed

lemma add_channel_member_inv:
  assumes "repo_inv s"
  shows "repo_inv (snd (add_channel_member cmd s))"
proof (cases "hm_get (channels s) (acm_channel_id cmd)")
  case (Some x)
  let ?c = "acm_channel_id cmd" and ?u = "acm_user_id cmd"
  have "repo_inv (s\<lparr> memberships := hm_or_insert (?c, ?u) (new_membership ?c ?u Member) (memberships s) \<rparr>)"
    if t: "case ch_circle_id x of Some k \<Rightarrow> hm_has (circle_memberships s) (k, ?u)
         | None \<Rightarrow> (ch_kind x = Public \<or> ch_kind x = Local) \<and> is_human s ?u"
  proof (rule repo_inv_or_membership [OF assms])
    show "hm_has (channels s) ?c" using Some by (simp add: hm_has_iff)
    show "hm_has (users s) ?u"
    proof (cases "ch_circle_id x")
      case None
      with t show ?thesis by (auto simp: is_human_def hm_has_iff split: option.splits)
    next
      case (Some k)
      with t repo_invD(6) [OF assms] show ?thesis by (auto simp: circle_members_inv_def hm_has_iff)
    qed
  qed (use t Some in \<open>auto split: option.splits\<close>)
  with Some assms show ?thesis by (simp add: add_channel_member_def Let_def)
qed (use assms in \<open>simp add: add_channel_member_def\<close>)

lemma leave_channel_inv:
  assumes "repo_inv s"
  shows "repo_inv (snd (leave_channel cmd s))"
proof -
  note inv = repo_invD [OF assms]
  have "repo_inv (s\<lparr> memberships := hm_remove k (memberships s) \<rparr>)" for k
  proof -
    have "members_inv (hm_remove k (memberships s)) (channels s) (users s)"
      using inv(4) by (auto simp: members_inv_def)
    moreover have "confined (hm_remove k (memberships s)) (channels s) (circle_memberships s)"
      using inv(7) by (auto simp: confined_def)
    moreover have "reads_inv (messages s) (hm_remove k (memberships s))"
      using msg_invD(5) [OF inv(1)] by (auto simp: reads_inv_def)
    ultimately show ?thesis using inv by (simp add: repo_inv_def msg_inv_def anchors_def)
  qed
  with assms show ?thesis by (auto simp: leave_channel_def Let_def split: option.splits)
qed

lemma update_channel_description_inv: "repo_inv s \<Longrightarrow> repo_inv (snd (update_channel_description cmd s))"
  by (auto simp: update_channel_description_def Let_def)

section \<open>Messages and media\<close>

lemma live_log_push: "live_log ms chs \<Longrightarrow> hm_has chs c \<Longrightarrow> live_log (push_message c m ms) chs"
  by (auto simp: live_log_def log_of_push)

lemma role_channel: "repo_inv s \<Longrightarrow> role_of s c u \<noteq> None \<Longrightarrow> hm_has (channels s) c"
  using repo_invD(4) [of s] by (auto simp: role_of_def members_inv_def)

lemma accepted_repo_inv:
  assumes "repo_inv s" "accepts fresh now cmd s m" "msg_inv (accepted_state m s)"
  shows "repo_inv (accepted_state m s)"
proof -
  have "hm_has (channels s) (msg_channel_id m)"
    using role_channel [OF assms(1), of "snd_channel_id cmd" "snd_actor cmd"] acceptsD [OF assms(2)]
    by (auto simp: can_send_to_channel_def)
  from live_log_push [OF repo_invD(10) [OF assms(1)] this] assms(3) repo_invD [OF assms(1)]
  show ?thesis by (simp add: repo_inv_def accepted_state_def anchors_def)
qed

lemma append_message_repo_inv:
  assumes "repo_inv s" "fresh_message fresh s"
  shows "repo_inv (snd (append_message fresh now cmd s))"
proof -
  obtain r s' where app: "append_message fresh now cmd s = (r, s')" by (cases "append_message fresh now cmd s")
  note mu = repo_inv_member_users [OF assms(1)]
  from append_message_result [OF mu app] app assms(1)
    append_message_inv [OF repo_invD(1) [OF assms(1)] mu assms(2), of now cmd] accepted_repo_inv
  show ?thesis by auto
qed

lemma append_idempotent_repo_inv:
  assumes "repo_inv s" "fresh_message fresh s"
  shows "repo_inv (snd (append_message_idempotent fresh now cmd request_id s))"
proof (cases "hm_get (command_receipts s) (snd_actor cmd, request_id)")
  case None
  obtain r s' where app: "append_message_idempotent fresh now cmd request_id s = (r, s')"
    by (cases "append_message_idempotent fresh now cmd request_id s")
  note mu = repo_inv_member_users [OF assms(1)] and minv = repo_invD(1) [OF assms(1)]
  from append_idempotent_result [OF mu None app] show ?thesis
  proof
    assume "\<exists>m. r = Inr m \<and> accepts fresh now cmd s m \<and> s' = (accepted_state m s)\<lparr> command_receipts :=
              hm_insert (snd_actor cmd, request_id) fresh (command_receipts s) \<rparr>"
    then obtain m where m: "accepts fresh now cmd s m" "s' = (accepted_state m s)\<lparr> command_receipts :=
              hm_insert (snd_actor cmd, request_id) fresh (command_receipts s) \<rparr>" by blast
    have "repo_inv (accepted_state m s)"
      by (rule accepted_repo_inv [OF assms(1) m(1) accepted_inv(1) [OF minv assms(2) m(1)]])
    with accepted_inv(2) [OF minv assms(2) m(1), of request_id] app m(2) show ?thesis
      by (simp add: repo_inv_def anchors_def)
  qed (use app assms(1) in auto)
next
  case (Some i)
  from append_idempotent_replay [where fresh = fresh and now = now, OF Some] assms(1) show ?thesis by simp
qed

lemma live_log_update:
  "log_inv ms nx \<Longrightarrow> live_log ms chs \<Longrightarrow> live_log (update_message i f ms) chs"
  using log_update(2) [OF log_invD(4)] by (fastforce simp: live_log_def)

lemma edit_message_repo_inv:
  assumes "repo_inv s"
  shows "repo_inv (snd (edit_message now cmd s))"
  using edit_message_inv [OF repo_invD(1) [OF assms], of now cmd] repo_invD [OF assms]
    live_log_update [OF msg_invD(1) [OF repo_invD(1) [OF assms]] repo_invD(10) [OF assms]]
  by (auto simp: edit_message_def Let_def repo_inv_def anchors_def split: option.splits)

lemma delete_message_repo_inv:
  assumes "repo_inv s"
  shows "repo_inv (snd (delete_message now cmd s))"
  using delete_message_inv [OF repo_invD(1) [OF assms], of now cmd] repo_invD [OF assms]
    live_log_update [OF msg_invD(1) [OF repo_invD(1) [OF assms]] repo_invD(10) [OF assms]]
  by (auto simp: delete_message_def repo_inv_def anchors_def split: option.splits)

lemma toggle_repo_inv:
  assumes "repo_inv s"
  shows "repo_inv (snd (toggle_message_reaction actor i emoji s))"
  using toggle_inv [OF repo_invD(1) [OF assms], of actor i emoji] repo_invD [OF assms]
  by (auto simp: toggle_message_reaction_def Let_def repo_inv_def anchors_def split: option.splits)

lemma mark_thread_read_inv: "repo_inv s \<Longrightarrow> repo_inv (snd (mark_thread_read actor root q s))"
  by (auto simp: mark_thread_read_def Let_def split: option.splits)

lemma mark_read_repo_inv:
  assumes "repo_inv s"
  shows "repo_inv (snd (mark_read cmd s))"
proof (cases "mark_read cmd s")
  case (Pair r s')
  show ?thesis
  proof (cases r)
    case (Inl e)
    with Pair mark_read_fail assms show ?thesis by fastforce
  next
    case (Inr m')
    let ?k = "(mrk_channel_id cmd, mrk_actor cmd)"
    from Pair Inr obtain m where m: "hm_get (memberships s) ?k = Some m"
      "m' = m\<lparr> mb_last_read_sequence := max (mrk_sequence cmd) (mb_last_read_sequence m) \<rparr>"
      "s' = s\<lparr> memberships := hm_insert ?k m' (memberships s) \<rparr>" by (auto elim: mark_read_ok)
    note inv = repo_invD [OF assms]
    have "members_inv (hm_insert ?k m' (memberships s)) (channels s) (users s)"
      using inv(4) m by (auto simp: members_inv_def)
    moreover have "confined (hm_insert ?k m' (memberships s)) (channels s) (circle_memberships s)"
      using inv(7) m(1) by (auto simp: confined_def hm_has_iff)
    moreover have "msg_inv s'" using mark_read_inv [OF inv(1), of cmd] Pair by simp
    ultimately show ?thesis using inv Pair m(3) by (simp add: repo_inv_def anchors_def)
  qed
qed

lemma store_media_inv: "repo_inv s \<Longrightarrow> repo_inv (snd (store_media now fresh upload sha s))"
  by (auto simp: store_media_def Let_def split: option.splits)

end
