(* ===== verification/Repository_Machine.thy ===== *)
theory Repository_Machine
  imports Directory_Channels
begin

text \<open>
  The repository as a state machine: one command per operation of the \<open>ChatRepository\<close> trait
  that changes the state, one step per command, and the states that are reachable from the
  empty repository. The mutex makes every operation one step; a command that would panic has no
  step. A command carries the identifiers that the operation generates, and the guard says that
  these are not in use.
\<close>

section \<open>Commands and steps\<close>

text \<open>The functions of other crates that the operations call.\<close>

record environment =
  env_unicode :: unicode
  env_simple :: "uuid \<Rightarrow> rstr"
  env_hyphenated :: "uuid \<Rightarrow> rstr"
  env_sha256 :: "rstr \<Rightarrow> byte list"

datatype (plugins only: size) repo_command =
    R_UpsertUser user
  | R_UpdateProfile user_id display_name
  | R_SetUserStatus instant user_id rstr rstr "instant option"
  | R_RemoveSavedStatus user_id rstr rstr
  | R_SaveEmoji user_id rstr bool
  | R_OpenPersonalSpace channel_id user_id
  | R_SavePersonalNote user_id personal_note
  | R_SavePersonalLink instant channel_id message_id user_id message_id
  | R_CreateCircle instant circle_id create_circle
  | R_SetCircleMemberRole set_circle_member_role
  | R_RenameCircle rename_circle
  | R_DeleteCircle delete_circle
  | R_LeaveCircle leave_circle
  | R_SetCircleFavorite user_id circle_id bool
  | R_CreateCircleInvitation "(rstr, rstr) result" instant invitation_id create_circle_invitation
  | R_AcceptCircleInvitation instant instant accept_circle_invitation
  | R_PrepareEnrollment "(rstr, rstr) result" uuid prepare_enrollment_invitation
  | R_ActivateEnrollment instant activate_enrollment_invitation
  | R_AcceptEnrollment instant instant accept_enrollment_invitation
  | R_OpenDirectChannel channel_id uuid user_id user_id
  | R_ExpandDirectChannel channel_id uuid user_id channel_id user_id
  | R_CreateChannel channel_id create_channel
  | R_JoinChannel join_channel
  | R_AddChannelMember add_channel_member
  | R_LeaveChannel leave_channel
  | R_UpdateChannelDescription update_channel_description
  | R_AppendMessage message_id instant send_message
  | R_AppendIdempotent message_id instant send_message rstr
  | R_EditMessage instant edit_message
  | R_DeleteMessage instant delete_message
  | R_ToggleReaction user_id message_id rstr
  | R_MarkThreadRead user_id message_id channel_sequence
  | R_MarkRead mark_read
  | R_StoreMedia instant media_id media_upload rstr

primrec repo_step :: "environment \<Rightarrow> repo_command \<Rightarrow> repository_state \<Rightarrow> repository_state option" where
  "repo_step E (R_UpsertUser x) s = map_option snd (upsert_user x s)"
| "repo_step E (R_UpdateProfile a n) s = Some (snd (update_profile a n s))"
| "repo_step E (R_SetUserStatus now a t e x) s = Some (snd (set_user_status now a t e x s))"
| "repo_step E (R_RemoveSavedStatus a t e) s = Some (snd (remove_saved_status a t e s))"
| "repo_step E (R_SaveEmoji a e b) s = Some (snd (save_emoji a e b s))"
| "repo_step E (R_OpenPersonalSpace f a) s =
     map_option snd (open_personal_space (env_unicode E) (env_simple E) f a s)"
| "repo_step E (R_SavePersonalNote a n) s = map_option snd (save_personal_note a n s)"
| "repo_step E (R_SavePersonalLink now f fm a i) s =
     map_option snd (save_personal_link (env_unicode E) (env_simple E) (env_hyphenated E) now f fm a i s)"
| "repo_step E (R_CreateCircle now f cmd) s = Some (snd (create_circle now f cmd s))"
| "repo_step E (R_SetCircleMemberRole cmd) s = Some (snd (set_circle_member_role cmd s))"
| "repo_step E (R_RenameCircle cmd) s = Some (snd (rename_circle cmd s))"
| "repo_step E (R_DeleteCircle cmd) s = Some (snd (delete_circle cmd s))"
| "repo_step E (R_LeaveCircle cmd) s = Some (snd (leave_circle cmd s))"
| "repo_step E (R_SetCircleFavorite a k b) s = Some (snd (set_circle_favorite a k b s))"
| "repo_step E (R_CreateCircleInvitation g now f cmd) s =
     Some (snd (create_circle_invitation (env_sha256 E) g now f cmd s))"
| "repo_step E (R_AcceptCircleInvitation now j cmd) s =
     Some (snd (accept_circle_invitation (env_sha256 E) now j cmd s))"
| "repo_step E (R_PrepareEnrollment g f cmd) s =
     Some (snd (prepare_enrollment_invitation (env_unicode E) (env_sha256 E) g f cmd s))"
| "repo_step E (R_ActivateEnrollment now cmd) s =
     Some (snd (activate_enrollment_invitation (env_sha256 E) now cmd s))"
| "repo_step E (R_AcceptEnrollment now j cmd) s =
     Some (snd (accept_enrollment_invitation (env_unicode E) (env_sha256 E) now j cmd s))"
| "repo_step E (R_OpenDirectChannel f fs a b) s =
     Some (snd (open_direct_channel (env_unicode E) (env_simple E) f fs a b s))"
| "repo_step E (R_ExpandDirectChannel f fs a c b) s =
     Some (snd (expand_direct_channel (env_unicode E) (env_simple E) f fs a c b s))"
| "repo_step E (R_CreateChannel f cmd) s = Some (snd (create_channel f cmd s))"
| "repo_step E (R_JoinChannel cmd) s = Some (snd (join_channel cmd s))"
| "repo_step E (R_AddChannelMember cmd) s = Some (snd (add_channel_member cmd s))"
| "repo_step E (R_LeaveChannel cmd) s = Some (snd (leave_channel cmd s))"
| "repo_step E (R_UpdateChannelDescription cmd) s = Some (snd (update_channel_description cmd s))"
| "repo_step E (R_AppendMessage f now cmd) s = Some (snd (append_message f now cmd s))"
| "repo_step E (R_AppendIdempotent f now cmd r) s = Some (snd (append_message_idempotent f now cmd r s))"
| "repo_step E (R_EditMessage now cmd) s = Some (snd (edit_message now cmd s))"
| "repo_step E (R_DeleteMessage now cmd) s = Some (snd (delete_message now cmd s))"
| "repo_step E (R_ToggleReaction a i e) s = Some (snd (toggle_message_reaction a i e s))"
| "repo_step E (R_MarkThreadRead a i q) s = Some (snd (mark_thread_read a i q s))"
| "repo_step E (R_MarkRead cmd) s = Some (snd (mark_read cmd s))"
| "repo_step E (R_StoreMedia now f up h) s = Some (snd (store_media now f up h s))"

text \<open>Generated identifiers are new, and so are the slugs made from them.\<close>

fun repo_fresh :: "environment \<Rightarrow> repo_command \<Rightarrow> repository_state \<Rightarrow> bool" where
  "repo_fresh E (R_OpenPersonalSpace f a) s \<longleftrightarrow> fresh_channel f s \<and>
     fresh_slug (env_unicode E) (lit ''personal-'' @ env_simple E (channel_uuid f)) s"
| "repo_fresh E (R_SavePersonalLink now f fm a i) s \<longleftrightarrow> fresh_channel f s \<and> fresh_message fm s \<and>
     fresh_slug (env_unicode E) (lit ''personal-'' @ env_simple E (channel_uuid f)) s"
| "repo_fresh E (R_CreateCircle now f cmd) s \<longleftrightarrow> fresh_circle f s"
| "repo_fresh E (R_OpenDirectChannel f fs a b) s \<longleftrightarrow> fresh_channel f s \<and>
     fresh_slug (env_unicode E) (lit ''dm-'' @ env_simple E fs) s"
| "repo_fresh E (R_ExpandDirectChannel f fs a c b) s \<longleftrightarrow> fresh_channel f s \<and>
     fresh_slug (env_unicode E) (lit ''dm-group-'' @ env_simple E fs) s"
| "repo_fresh E (R_CreateChannel f cmd) s \<longleftrightarrow> fresh_channel f s"
| "repo_fresh E (R_AppendMessage f now cmd) s \<longleftrightarrow> fresh_message f s"
| "repo_fresh E (R_AppendIdempotent f now cmd r) s \<longleftrightarrow> fresh_message f s"
| "repo_fresh E _ s \<longleftrightarrow> True"

definition repo_guard :: "environment \<Rightarrow> repository_state \<Rightarrow> repo_command \<Rightarrow> bool" where
  "repo_guard E s cmd \<longleftrightarrow> repo_fresh E cmd s \<and> repo_step E cmd s \<noteq> None"

definition repo_next :: "environment \<Rightarrow> repository_state \<Rightarrow> repo_command \<Rightarrow> repository_state" where
  "repo_next E s cmd = (case repo_step E cmd s of Some s' \<Rightarrow> s' | None \<Rightarrow> s)"

abbreviation repo_reachable :: "environment \<Rightarrow> repository_state \<Rightarrow> bool" where
  "repo_reachable E \<equiv> reachable repository_default (repo_guard E) (repo_next E)"

section \<open>The invariant holds in every reachable state\<close>

lemmas operation_invs = update_profile_inv set_user_status_inv remove_saved_status_inv save_emoji_inv
  create_circle_inv set_circle_member_role_inv rename_circle_inv delete_circle_inv leave_circle_inv
  set_circle_favorite_inv create_circle_invitation_inv accept_circle_invitation_inv prepare_enrollment_inv
  activate_enrollment_inv accept_enrollment_inv open_direct_channel_inv expand_direct_channel_inv
  create_channel_inv join_channel_inv add_channel_member_inv leave_channel_inv
  update_channel_description_inv append_message_repo_inv append_idempotent_repo_inv
  edit_message_repo_inv delete_message_repo_inv toggle_repo_inv mark_thread_read_inv
  mark_read_repo_inv store_media_inv

lemmas panicking_invs = upsert_user_inv open_personal_space_inv save_personal_note_inv save_personal_link_inv

lemma repo_step_inv:
  assumes "repo_inv s" "repo_fresh E cmd s" "repo_step E cmd s = Some s'"
  shows "repo_inv s'"
  using assms by (cases cmd) (auto intro: operation_invs panicking_invs)

interpretation repository: guarded_machine repository_default "repo_guard E" "repo_next E" repo_inv
  for E :: environment
proof unfold_locales
  show "repo_inv repository_default" by (rule repo_inv_default)
  fix s cmd
  assume "repo_inv s" "repo_guard E s cmd"
  then show "repo_inv (repo_next E s cmd)"
    using repo_step_inv [of s E cmd] by (auto simp: repo_guard_def repo_next_def)
qed

section \<open>Runs\<close>

text \<open>A list of commands, each of them permitted by the guard.\<close>

primrec repo_run :: "environment \<Rightarrow> repo_command list \<Rightarrow> repository_state \<Rightarrow> repository_state option" where
  "repo_run E [] s = Some s"
| "repo_run E (cmd # cmds) s =
     (if repo_fresh E cmd s then Option.bind (repo_step E cmd s) (repo_run E cmds) else None)"

lemma repo_run_reachable:
  "repo_reachable E s \<Longrightarrow> repo_run E cmds s = Some s' \<Longrightarrow> repo_reachable E s'"
proof (induction cmds arbitrary: s)
  case (Cons cmd cmds)
  then obtain t where t: "repo_fresh E cmd s" "repo_step E cmd s = Some t" "repo_run E cmds t = Some s'"
    by (auto split: if_splits bind_splits)
  then have "repo_next E s cmd = t" "repo_guard E s cmd" by (simp_all add: repo_next_def repo_guard_def)
  with Cons.prems(1) have "repo_reachable E t" by (metis reachable.step)
  with t(3) show ?case by (rule Cons.IH [rotated])
qed simp

end
