(* ===== verification/Chat_Actor.thy ===== *)
theory Chat_Actor
  imports Repository_Machine
begin

text \<open>
  The chat actor (\<open>src/chat.rs\<close>): one task owns the channel states, handles the commands of its
  mailbox one after the other, and calls the repository. The repository is a record of the
  operations of the \<open>ChatRepository\<close> trait that the actor uses, so that the actor is modelled
  for every repository; \<open>in_memory_repository\<close> is the instance of the repository model.

  A channel's broadcast sender is represented by what has been sent on it: \<open>broadcasts\<close> holds
  the events of all channels in the order of sending. A receiver gets the events that are sent
  on its channel after it subscribed, so it is the number of events sent before.
\<close>

section \<open>Errors\<close>

datatype chat_error = EngineStopped | Repository repository_error | Validation text_validation_error

fun chat_error_display :: "chat_error \<Rightarrow> rstr" where
  "chat_error_display EngineStopped = lit ''chat engine is not running''"
| "chat_error_display (Repository e) = repository_error_display e"
| "chat_error_display (Validation e) = text_error_display e"

fun chat_error_kind :: "chat_error \<Rightarrow> string" where
  "chat_error_kind EngineStopped = ''engine_stopped''"
| "chat_error_kind (Repository e) = repository_error_kind e"
| "chat_error_kind (Validation _) = ''validation''"

fun chat_error_public_message :: "chat_error \<Rightarrow> rstr" where
  "chat_error_public_message EngineStopped = lit ''chat service unavailable''"
| "chat_error_public_message (Repository e) = lit (repository_error_public_message e)"
| "chat_error_public_message (Validation e) = text_error_display e"

section \<open>The repository as the actor sees it\<close>

datatype connection_id = ConnectionId (connection_uuid: uuid)

record presence_lease =
  pl_channel_id :: channel_id
  pl_participant_id :: user_id
  pl_connection_id :: uuid

type_synonym ('r, 'a) rop = "(repository_error, 'a) result \<times> 'r"

record 'r chat_repository =
  cr_load_recent_messages :: "load_recent_messages \<Rightarrow> 'r \<Rightarrow> (repository_error, chat_message list) result"
  cr_append_message :: "message_id \<Rightarrow> instant \<Rightarrow> send_message \<Rightarrow> 'r \<Rightarrow> ('r, chat_message) rop"
  cr_append_message_idempotent :: "message_id \<Rightarrow> instant \<Rightarrow> send_message \<Rightarrow> rstr \<Rightarrow> 'r \<Rightarrow> ('r, chat_message) rop"
  cr_edit_message :: "instant \<Rightarrow> edit_message \<Rightarrow> 'r \<Rightarrow> ('r, chat_message) rop"
  cr_delete_message :: "instant \<Rightarrow> delete_message \<Rightarrow> 'r \<Rightarrow> ('r, chat_message) rop"
  cr_toggle_message_reaction :: "user_id \<Rightarrow> message_id \<Rightarrow> rstr \<Rightarrow> 'r \<Rightarrow> ('r, message_reaction_change) rop"
  cr_load_message :: "message_id \<Rightarrow> 'r \<Rightarrow> (repository_error, chat_message) result"
  cr_register_presence :: "presence_lease \<Rightarrow> 'r \<Rightarrow> ('r, unit) rop"
  cr_unregister_presence :: "presence_lease \<Rightarrow> 'r \<Rightarrow> ('r, unit) rop"
  cr_expire_presence :: "'r \<Rightarrow> ('r, unit) rop"

text \<open>The presence operations of the in-memory repository are the defaults of the trait.\<close>

definition in_memory_repository :: "repository_state chat_repository" where
  "in_memory_repository =
     \<lparr> cr_load_recent_messages = load_recent_messages, cr_append_message = append_message,
       cr_append_message_idempotent = append_message_idempotent, cr_edit_message = edit_message,
       cr_delete_message = delete_message, cr_toggle_message_reaction = toggle_message_reaction,
       cr_load_message = load_message, cr_register_presence = (\<lambda>_ r. (Inr (), r)),
       cr_unregister_presence = (\<lambda>_ r. (Inr (), r)), cr_expire_presence = (\<lambda>r. (Inr (), r)) \<rparr>"

section \<open>State\<close>

record channel_state =
  participants :: "(user_id, connection_id list) hmap"

definition channel_state_new :: channel_state where
  "channel_state_new = \<lparr> participants = [] \<rparr>"

record 'r chat_actor =
  actor_channels :: "(channel_id, channel_state) hmap"
  published_messages :: "message_id list"
  published_order :: "message_id list"
  actor_repository :: 'r
  distributed_presence :: bool
  broadcasts :: "(channel_id \<times> chat_event) list"

definition published_message_cache :: nat where
  "published_message_cache = 4096"

definition chat_actor_new :: "'r \<Rightarrow> bool \<Rightarrow> 'r chat_actor" where
  "chat_actor_new r distributed =
     \<lparr> actor_channels = [], published_messages = [], published_order = [], actor_repository = r,
       distributed_presence = distributed, broadcasts = [] \<rparr>"

definition events_of :: "'r chat_actor \<Rightarrow> channel_id \<Rightarrow> chat_event list" where
  "events_of a c = map snd (filter (\<lambda>p. fst p = c) (broadcasts a))"

section \<open>Publishing\<close>

text \<open>\<open>channel_mut\<close> makes sure that the channel has a state.\<close>

definition channel_mut :: "channel_id \<Rightarrow> 'r chat_actor \<Rightarrow> 'r chat_actor" where
  "channel_mut c a = a\<lparr> actor_channels := hm_or_insert c channel_state_new (actor_channels a) \<rparr>"

definition channel_publish :: "channel_id \<Rightarrow> chat_event \<Rightarrow> 'r chat_actor \<Rightarrow> 'r chat_actor" where
  "channel_publish c e a = a\<lparr> broadcasts := broadcasts a @ [(c, e)] \<rparr>"

definition publish_message :: "chat_message \<Rightarrow> 'r chat_actor \<Rightarrow> 'r chat_actor" where
  "publish_message m a =
     (if msg_id m \<in> set (published_messages a) then a
      else let a = a\<lparr> published_messages := hs_insert (msg_id m) (published_messages a) \<rparr>;
               a = (if length (published_order a) = published_message_cache
                    then (case published_order a of
                            expired # order \<Rightarrow>
                              a\<lparr> published_order := order,
                                 published_messages := hs_remove expired (published_messages a) \<rparr>
                          | [] \<Rightarrow> a)
                    else a);
               a = a\<lparr> published_order := published_order a @ [msg_id m] \<rparr>
           in channel_publish (msg_channel_id m) (E_MessageAccepted m) (channel_mut (msg_channel_id m) a))"

definition publish_presence :: "chat_event \<Rightarrow> 'r chat_actor \<Rightarrow> 'r chat_actor" where
  "publish_presence e a =
     (case e of
        E_ParticipantJoined c _ \<Rightarrow> channel_publish c e (channel_mut c a)
      | E_ParticipantLeft c _ \<Rightarrow> channel_publish c e (channel_mut c a)
      | _ \<Rightarrow> a)"

section \<open>Subscribing and leaving\<close>

record channel_subscription =
  sub_connection_id :: connection_id
  sub_receiver :: nat
  sub_history :: "chat_message list"

definition participants_of :: "'r chat_actor \<Rightarrow> channel_id \<Rightarrow> (user_id, connection_id list) hmap" where
  "participants_of a c = (case hm_get (actor_channels a) c of None \<Rightarrow> [] | Some st \<Rightarrow> participants st)"

definition set_participants :: "channel_id \<Rightarrow> (user_id, connection_id list) hmap \<Rightarrow> 'r chat_actor \<Rightarrow>
    'r chat_actor" where
  "set_participants c ps a =
     a\<lparr> actor_channels := hm_insert c \<lparr> participants = ps \<rparr> (actor_channels a) \<rparr>"

definition drop_connection :: "channel_id \<Rightarrow> user_id \<Rightarrow> connection_id \<Rightarrow> 'r chat_actor \<Rightarrow> 'r chat_actor" where
  "drop_connection c u conn a =
     (case hm_get (actor_channels a) c of
        None \<Rightarrow> a
      | Some st \<Rightarrow>
          (case hm_get (participants st) u of
             None \<Rightarrow> a
           | Some conns \<Rightarrow>
               let conns = hs_remove conn conns
               in set_participants c (if conns = [] then hm_remove u (participants st)
                                      else hm_insert u conns (participants st)) a))"

definition actor_subscribe :: "'r chat_repository \<Rightarrow> connection_id \<Rightarrow> channel_id \<Rightarrow> user_id \<Rightarrow> 'r chat_actor \<Rightarrow>
    (chat_error, channel_subscription) result \<times> 'r chat_actor" where
  "actor_subscribe R conn c u a =
     (case cr_load_recent_messages R (LoadRecentMessages u c (message_limit_new 50) None None) (actor_repository a) of
        Inl e \<Rightarrow> (Inl (Repository e), a)
      | Inr history \<Rightarrow>
          (let a = channel_mut c a;
               conns = hm_get_or [] (participants_of a c) u;
               is_new_participant = (conns = []);
               a = set_participants c (hm_insert u (hs_insert conn conns) (participants_of a c)) a;
               subscription = \<lparr> sub_connection_id = conn, sub_receiver = length (events_of a c),
                                sub_history = history \<rparr>
           in if distributed_presence a
              then (case cr_register_presence R \<lparr> pl_channel_id = c, pl_participant_id = u,
                           pl_connection_id = connection_uuid conn \<rparr> (actor_repository a) of
                      (Inl e, r) \<Rightarrow> (Inl (Repository e), drop_connection c u conn (a\<lparr> actor_repository := r \<rparr>))
                    | (Inr _, r) \<Rightarrow> (Inr subscription, a\<lparr> actor_repository := r \<rparr>))
              else if is_new_participant
              then (Inr subscription, channel_publish c (E_ParticipantJoined c u) (channel_mut c a))
              else (Inr subscription, a)))"

definition actor_leave :: "'r chat_repository \<Rightarrow> channel_id \<Rightarrow> user_id \<Rightarrow> connection_id \<Rightarrow> 'r chat_actor \<Rightarrow>
    'r chat_actor" where
  "actor_leave R c u conn a =
     (case hm_get (actor_channels a) c of
        None \<Rightarrow> a
      | Some st \<Rightarrow>
          (let (should_publish_left, ps) =
                 (case hm_get (participants st) u of
                    None \<Rightarrow> (False, participants st)
                  | Some conns \<Rightarrow>
                      let conns = hs_remove conn conns
                      in (conns = [], hm_insert u conns (participants st)));
               a = set_participants c ps a
           in if distributed_presence a
              then a\<lparr> actor_repository := snd (cr_unregister_presence R \<lparr> pl_channel_id = c,
                        pl_participant_id = u, pl_connection_id = connection_uuid conn \<rparr> (actor_repository a)) \<rparr>
              else if should_publish_left
              then channel_publish c (E_ParticipantLeft c u) (set_participants c (hm_remove u ps) a)
              else a))"

section \<open>Sending\<close>

definition actor_send_message :: "'r chat_repository \<Rightarrow> message_id \<Rightarrow> instant \<Rightarrow> channel_id \<Rightarrow> user_id \<Rightarrow>
    message_id option \<Rightarrow> message_body \<Rightarrow> rstr option \<Rightarrow> 'r chat_actor \<Rightarrow>
    (chat_error, chat_message) result \<times> 'r chat_actor" where
  "actor_send_message R fresh now c sender parent body request_id a =
     (let command = SendMessage sender c parent body;
          (response, r) = (case request_id of
             Some request \<Rightarrow> cr_append_message_idempotent R fresh now command request (actor_repository a)
           | None \<Rightarrow> cr_append_message R fresh now command (actor_repository a));
          a = a\<lparr> actor_repository := r \<rparr>
      in case response of
           Inl e \<Rightarrow> (Inl (Repository e), a)
         | Inr message \<Rightarrow> (Inr message, publish_message message a))"

section \<open>The mailbox\<close>

datatype (plugins only: size) actor_command =
    A_ChannelCreated channel_id channel_id user_id
  | A_Subscribe channel_id user_id
  | A_Leave channel_id user_id connection_id
  | A_SendMessage channel_id user_id "message_id option" message_body "rstr option"
  | A_ToggleReaction user_id message_id rstr
  | A_EditMessage user_id message_id message_body
  | A_DeleteMessage user_id message_id
  | A_ExternalMessage message_id
  | A_ExternalReaction chat_event
  | A_ExternalUpdate chat_event
  | A_ExternalChannel chat_event
  | A_ExternalPresence chat_event
  | A_ExpirePresence

datatype actor_reply =
    NoReply
  | SubscribeReply "(chat_error, channel_subscription) result"
  | LeaveReply
  | MessageReply "(chat_error, chat_message) result"
  | ReactionReply "(chat_error, message_reaction_change) result"

text \<open>What one turn of the loop generates: a connection, a message and the time.\<close>

record generated =
  gen_connection :: connection_id
  gen_message :: message_id
  gen_now :: instant

text \<open>A response of the repository is passed on and, when it is positive, announced.\<close>

definition announce :: "('x \<Rightarrow> channel_id) \<Rightarrow> ('x \<Rightarrow> chat_event) \<Rightarrow> ('r, 'x) rop \<Rightarrow> 'r chat_actor \<Rightarrow>
    (chat_error, 'x) result \<times> 'r chat_actor" where
  "announce channel event outcome a =
     (let a = a\<lparr> actor_repository := snd outcome \<rparr> in
      case fst outcome of
        Inl e \<Rightarrow> (Inl (Repository e), a)
      | Inr x \<Rightarrow> (Inr x, channel_publish (channel x) (event x) (channel_mut (channel x) a)))"

fun actor_step :: "'r chat_repository \<Rightarrow> generated \<Rightarrow> actor_command \<Rightarrow> 'r chat_actor \<Rightarrow> actor_reply \<times> 'r chat_actor" where
  "actor_step R g (A_ChannelCreated source c by_user) a =
     (NoReply, channel_publish source (E_ChannelCreated c by_user (Some source)) (channel_mut source a))"
| "actor_step R g (A_Subscribe c u) a = apfst SubscribeReply (actor_subscribe R (gen_connection g) c u a)"
| "actor_step R g (A_Leave c u conn) a = (LeaveReply, actor_leave R c u conn a)"
| "actor_step R g (A_SendMessage c u parent body request_id) a =
     apfst MessageReply (actor_send_message R (gen_message g) (gen_now g) c u parent body request_id a)"
| "actor_step R g (A_ToggleReaction u i emoji) a =
     apfst ReactionReply (announce rc_channel_id E_MessageReactionChanged
       (cr_toggle_message_reaction R u i emoji (actor_repository a)) a)"
| "actor_step R g (A_EditMessage u i body) a =
     apfst MessageReply (announce msg_channel_id E_MessageEdited
       (cr_edit_message R (gen_now g) (EditMessage u i body) (actor_repository a)) a)"
| "actor_step R g (A_DeleteMessage u i) a =
     apfst MessageReply (announce msg_channel_id E_MessageDeleted
       (cr_delete_message R (gen_now g) (DeleteMessage u i) (actor_repository a)) a)"
| "actor_step R g (A_ExternalMessage i) a =
     (NoReply, case cr_load_message R i (actor_repository a) of Inr m \<Rightarrow> publish_message m a | Inl _ \<Rightarrow> a)"
| "actor_step R g (A_ExternalReaction e) a =
     (NoReply, case e of
        E_MessageReactionChanged change \<Rightarrow> channel_publish (rc_channel_id change) e (channel_mut (rc_channel_id change) a)
      | _ \<Rightarrow> a)"
| "actor_step R g (A_ExternalUpdate e) a =
     (NoReply, case e of
        E_MessageEdited m \<Rightarrow> channel_publish (msg_channel_id m) e (channel_mut (msg_channel_id m) a)
      | E_MessageDeleted m \<Rightarrow> channel_publish (msg_channel_id m) e (channel_mut (msg_channel_id m) a)
      | _ \<Rightarrow> a)"
| "actor_step R g (A_ExternalChannel e) a =
     (NoReply, case e of
        E_ChannelCreated _ _ (Some source) \<Rightarrow> channel_publish source e (channel_mut source a)
      | _ \<Rightarrow> a)"
| "actor_step R g (A_ExternalPresence e) a = (NoReply, publish_presence e a)"
| "actor_step R g A_ExpirePresence a =
     (NoReply, a\<lparr> actor_repository := snd (cr_expire_presence R (actor_repository a)) \<rparr>)"

primrec actor_run :: "'r chat_repository \<Rightarrow> (generated \<times> actor_command) list \<Rightarrow> 'r chat_actor \<Rightarrow> 'r chat_actor" where
  "actor_run R [] a = a"
| "actor_run R (x # xs) a = actor_run R xs (snd (actor_step R (fst x) (snd x) a))"

end
