(* ===== verification/Chat_Engine.thy ===== *)
theory Chat_Engine
  imports Chat_Actor
begin

text \<open>
  The chat engine (\<open>src/chat.rs\<close>), the interface of the transports: requests that only concern
  the repository go to it directly, requests that concern subscribers go through the mailbox of
  the actor. Input that the engine itself validates is rejected before the repository is asked.

  A request is one step: the actor answers a command before the next one is looked at. The
  number of grapheme clusters of a text, SHA-256 in hexadecimal and the activity score are
  functions of other crates. An operation that can panic is an option.
\<close>

section \<open>State\<close>

record engine_environment = environment +
  env_graphemes :: "rstr \<Rightarrow> nat"
  env_bump :: "f64_bits \<Rightarrow> bool \<Rightarrow> int \<Rightarrow> f64_bits"
  env_sha256_hex :: "byte list \<Rightarrow> rstr"

record engine_supply = generated +
  sup_channel :: channel_id
  sup_uuid :: uuid
  sup_circle :: circle_id
  sup_invitation :: invitation_id
  sup_media :: media_id
  sup_token :: "(rstr, rstr) result"

text \<open>The mailbox is closed when the actor has stopped.\<close>

record chat_engine =
  engine_actor :: "repository_state chat_actor"
  engine_running :: bool

abbreviation engine_repository :: "chat_engine \<Rightarrow> repository_state" where
  "engine_repository e \<equiv> actor_repository (engine_actor e)"

definition set_repository :: "repository_state \<Rightarrow> chat_engine \<Rightarrow> chat_engine" where
  "set_repository s e = e\<lparr> engine_actor := (engine_actor e)\<lparr> actor_repository := s \<rparr> \<rparr>"

type_synonym 'x reply = "(chat_error, 'x) result"

section \<open>Calling the repository and the actor\<close>

text \<open>\<open>map_err(ChatError::from)\<close>.\<close>

definition chat_result :: "(repository_error, 'x) result \<Rightarrow> 'x reply" where
  "chat_result r = map_sum Repository id r"

definition engine_query :: "(repository_state \<Rightarrow> (repository_error, 'x) result) \<Rightarrow> chat_engine \<Rightarrow> 'x reply \<times> chat_engine" where
  "engine_query f e = (chat_result (f (engine_repository e)), e)"

definition engine_update :: "(repository_state \<Rightarrow> 'x op) \<Rightarrow> chat_engine \<Rightarrow> 'x reply \<times> chat_engine" where
  "engine_update f e = (let (r, s) = f (engine_repository e) in (chat_result r, set_repository s e))"

definition engine_try_update :: "(repository_state \<Rightarrow> 'x op option) \<Rightarrow> chat_engine \<Rightarrow> ('x reply \<times> chat_engine) option" where
  "engine_try_update f e =
     map_option (\<lambda>(r, s). (chat_result r, set_repository s e)) (f (engine_repository e))"

text \<open>A command that the actor answers; without an actor there is no answer.\<close>

definition engine_command :: "generated \<Rightarrow> actor_command \<Rightarrow> chat_engine \<Rightarrow> actor_reply option \<times> chat_engine" where
  "engine_command g cmd e =
     (if engine_running e
      then let (r, a) = actor_step in_memory_repository g cmd (engine_actor e) in (Some r, e\<lparr> engine_actor := a \<rparr>)
      else (None, e))"

definition message_reply :: "actor_reply option \<Rightarrow> chat_message reply" where
  "message_reply r = (case r of Some (MessageReply m) \<Rightarrow> m | _ \<Rightarrow> Inl EngineStopped)"

definition reaction_reply :: "actor_reply option \<Rightarrow> message_reaction_change reply" where
  "reaction_reply r = (case r of Some (ReactionReply m) \<Rightarrow> m | _ \<Rightarrow> Inl EngineStopped)"

definition subscribe_reply :: "actor_reply option \<Rightarrow> channel_subscription reply" where
  "subscribe_reply r = (case r of Some (SubscribeReply m) \<Rightarrow> m | _ \<Rightarrow> Inl EngineStopped)"

definition leave_reply :: "actor_reply option \<Rightarrow> unit reply" where
  "leave_reply r = (case r of Some LeaveReply \<Rightarrow> Inr () | _ \<Rightarrow> Inl EngineStopped)"

section \<open>Validated input\<close>

definition emoji_char :: "rchar \<Rightarrow> bool" where
  "emoji_char c \<longleftrightarrow>
     c \<in> {0xa9, 0xae, 0x203c, 0x2049, 0x2122, 0x2139, 0x3030, 0x303d, 0x3297, 0x3299} \<or>
     0x2190 \<le> c \<and> c \<le> 0x21ff \<or> 0x2300 \<le> c \<and> c \<le> 0x23ff \<or> 0x2460 \<le> c \<and> c \<le> 0x24ff \<or>
     0x25a0 \<le> c \<and> c \<le> 0x27bf \<or> 0x1f000 \<le> c \<and> c \<le> 0x1faff \<or> 0x1fc00 \<le> c \<and> c \<le> 0x1ffff \<or> c = 0x20e3"

definition is_reaction_emoji :: "(rstr \<Rightarrow> nat) \<Rightarrow> rstr \<Rightarrow> bool" where
  "is_reaction_emoji graphemes value =
     (let value = trim value in
      if value = [] \<or> utf8_len value > 32 \<or> graphemes value \<noteq> 1 then False
      else list_ex emoji_char value)"

definition status_too_large :: "rstr \<Rightarrow> rstr \<Rightarrow> bool" where
  "status_too_large text emoji \<longleftrightarrow>
     length text > 100 \<or> length emoji > 16 \<or> list_ex is_control text \<or> list_ex is_control emoji"

section \<open>Users and profiles\<close>

definition engine_ensure_user :: "user \<Rightarrow> chat_engine \<Rightarrow> (unit reply \<times> chat_engine) option" where
  "engine_ensure_user user e = map_option (apfst (map_sum id (\<lambda>_. ()))) (engine_try_update (upsert_user user) e)"

definition engine_signup_ordinal :: "user_id \<Rightarrow> chat_engine \<Rightarrow> u64 option reply \<times> chat_engine" where
  "engine_signup_ordinal actor e = engine_query (signup_ordinal actor) e"

definition engine_list_users :: "instant \<Rightarrow> user_id \<Rightarrow> chat_engine \<Rightarrow> user_profile list reply \<times> chat_engine" where
  "engine_list_users now actor e = engine_query (list_user_profiles now actor) e"

text \<open>The roles are looked up in a map, where the last entry of a user counts.\<close>

definition engine_list_circle_members :: "instant \<Rightarrow> user_id \<Rightarrow> circle_id \<Rightarrow> chat_engine \<Rightarrow>
    (user_profile \<times> circle_role) list reply \<times> chat_engine" where
  "engine_list_circle_members now actor circle_id e =
     engine_query (\<lambda>s. result_bind (list_circle_user_profiles now actor circle_id s)
       (\<lambda>profiles. result_bind (circle_member_roles actor circle_id s)
         (\<lambda>roles. Inr (List.map_filter (\<lambda>profile.
            map_option (\<lambda>role. (profile, role)) (map_of (rev roles) (usr_id (prof_user profile)))) profiles)))) e"

definition engine_set_circle_member_role :: "set_circle_member_role \<Rightarrow> chat_engine \<Rightarrow> circle_membership reply \<times> chat_engine" where
  "engine_set_circle_member_role cmd e = engine_update (set_circle_member_role cmd) e"

definition engine_list_circle_users :: "instant \<Rightarrow> user_id \<Rightarrow> circle_id \<Rightarrow> chat_engine \<Rightarrow> user_profile list reply \<times> chat_engine" where
  "engine_list_circle_users now actor circle_id e = engine_query (list_circle_user_profiles now actor circle_id) e"

definition engine_set_status :: "instant \<Rightarrow> user_id \<Rightarrow> rstr \<Rightarrow> rstr \<Rightarrow> instant option \<Rightarrow> chat_engine \<Rightarrow>
    user_profile reply \<times> chat_engine" where
  "engine_set_status now actor text emoji expires_at e =
     (let text = trim text; emoji = trim emoji in
      if status_too_large text emoji then (Inl (Validation (TooLarge ''status'' 100)), e)
      else engine_update (set_user_status now actor text emoji expires_at) e)"

definition engine_saved_statuses :: "user_id \<Rightarrow> chat_engine \<Rightarrow> saved_status list reply \<times> chat_engine" where
  "engine_saved_statuses actor e = engine_query (\<lambda>s. Inr (saved_statuses_of actor s)) e"

definition engine_remove_saved_status :: "user_id \<Rightarrow> rstr \<Rightarrow> rstr \<Rightarrow> chat_engine \<Rightarrow> unit reply \<times> chat_engine" where
  "engine_remove_saved_status actor text emoji e =
     (let text = trim text; emoji = trim emoji in
      if status_too_large text emoji then (Inl (Validation (TooLarge ''status'' 100)), e)
      else if text = [] \<and> emoji = [] then (Inl (Validation (Empty ''status'')), e)
      else engine_update (remove_saved_status actor text emoji) e)"

definition engine_update_profile :: "user_id \<Rightarrow> rstr \<Rightarrow> chat_engine \<Rightarrow> user_profile reply \<times> chat_engine" where
  "engine_update_profile actor name e =
     (case display_name_new name of
        Inl err \<Rightarrow> (Inl (Validation err), e)
      | Inr name \<Rightarrow> engine_update (update_profile actor name) e)"

definition engine_favorite_circles :: "(uuid \<Rightarrow> rstr) \<Rightarrow> user_id \<Rightarrow> chat_engine \<Rightarrow> circle_id list reply \<times> chat_engine" where
  "engine_favorite_circles hyphenated actor e = engine_query (\<lambda>s. Inr (favorite_circles_of hyphenated actor s)) e"

definition engine_set_circle_favorite :: "user_id \<Rightarrow> circle_id \<Rightarrow> bool \<Rightarrow> chat_engine \<Rightarrow> unit reply \<times> chat_engine" where
  "engine_set_circle_favorite actor circle favorite e = engine_update (set_circle_favorite actor circle favorite) e"

definition engine_saved_emojis :: "user_id \<Rightarrow> chat_engine \<Rightarrow> rstr list reply \<times> chat_engine" where
  "engine_saved_emojis actor e = engine_query (\<lambda>s. Inr (saved_emojis_of actor s)) e"

definition engine_save_emoji :: "(rstr \<Rightarrow> nat) \<Rightarrow> user_id \<Rightarrow> rstr \<Rightarrow> bool \<Rightarrow> chat_engine \<Rightarrow> unit reply \<times> chat_engine" where
  "engine_save_emoji graphemes actor emoji saved e =
     (let emoji = trim emoji in
      if \<not> is_reaction_emoji graphemes emoji then (Inl (Validation InvalidReaction), e)
      else engine_update (save_emoji actor emoji saved) e)"

section \<open>Media\<close>

definition engine_store_media :: "(byte list \<Rightarrow> rstr) \<Rightarrow> instant \<Rightarrow> media_id \<Rightarrow> media_upload \<Rightarrow> chat_engine \<Rightarrow>
    media_object reply \<times> chat_engine" where
  "engine_store_media sha256_hex now fresh upload e =
     (let sha256 = sha256_hex (mu_content upload) in engine_update (store_media now fresh upload sha256) e)"

definition engine_media_metadata :: "user_id \<Rightarrow> media_id \<Rightarrow> chat_engine \<Rightarrow> media_object reply \<times> chat_engine" where
  "engine_media_metadata actor i e = engine_query (media_metadata actor i) e"

definition engine_read_media_slice :: "user_id \<Rightarrow> media_id \<Rightarrow> u64 \<Rightarrow> nat \<Rightarrow> chat_engine \<Rightarrow> byte list reply \<times> chat_engine" where
  "engine_read_media_slice actor i offset len e = engine_query (read_media_slice actor i offset len) e"

definition media_preview_state :: "user_id \<Rightarrow> media_id \<Rightarrow> repository_state \<Rightarrow> (repository_error, rstr) result" where
  "media_preview_state actor i s = result_bind (media_metadata actor i s) (\<lambda>_. Inr (lit ''legacy''))"

definition engine_media_preview_state :: "user_id \<Rightarrow> media_id \<Rightarrow> chat_engine \<Rightarrow> rstr reply \<times> chat_engine" where
  "engine_media_preview_state actor i e = engine_query (media_preview_state actor i) e"

definition engine_load_media_preview :: "user_id \<Rightarrow> media_id \<Rightarrow> chat_engine \<Rightarrow> media_variant option reply \<times> chat_engine" where
  "engine_load_media_preview actor i e = engine_query (load_media_preview actor i) e"

section \<open>Direct and personal channels\<close>

definition engine_open_direct_channel :: "engine_environment \<Rightarrow> engine_supply \<Rightarrow> user_id \<Rightarrow> user_id \<Rightarrow> chat_engine \<Rightarrow>
    channel reply \<times> chat_engine" where
  "engine_open_direct_channel E g actor other e =
     engine_update (open_direct_channel (env_unicode E) (env_simple E) (sup_channel g) (sup_uuid g) actor other) e"

definition engine_expand_direct_channel :: "engine_environment \<Rightarrow> engine_supply \<Rightarrow> user_id \<Rightarrow> channel_id \<Rightarrow> user_id \<Rightarrow>
    chat_engine \<Rightarrow> channel reply \<times> chat_engine" where
  "engine_expand_direct_channel E g actor source other e =
     (let (r, e) = engine_update
            (expand_direct_channel (env_unicode E) (env_simple E) (sup_channel g) (sup_uuid g) actor source other) e
      in case r of
           Inl err \<Rightarrow> (Inl err, e)
         | Inr channel \<Rightarrow>
             (Inr channel, snd (engine_command (generated.truncate g)
                (A_ChannelCreated source (ch_id channel) (ch_created_by channel)) e)))"

definition engine_open_personal_space :: "engine_environment \<Rightarrow> engine_supply \<Rightarrow> user_id \<Rightarrow> chat_engine \<Rightarrow>
    (channel reply \<times> chat_engine) option" where
  "engine_open_personal_space E g owner e =
     engine_try_update (open_personal_space (env_unicode E) (env_simple E) (sup_channel g) owner) e"

definition engine_personal_note :: "user_id \<Rightarrow> chat_engine \<Rightarrow> personal_note reply \<times> chat_engine" where
  "engine_personal_note owner e = engine_query (personal_note_of owner) e"

definition engine_save_personal_note :: "user_id \<Rightarrow> personal_note \<Rightarrow> chat_engine \<Rightarrow> (personal_note reply \<times> chat_engine) option" where
  "engine_save_personal_note owner note e = engine_try_update (save_personal_note owner note) e"

definition engine_announce_persisted_message :: "generated \<Rightarrow> message_id \<Rightarrow> chat_engine \<Rightarrow> unit reply \<times> chat_engine" where
  "engine_announce_persisted_message g i e =
     (case engine_command g (A_ExternalMessage i) e of
        (None, e) \<Rightarrow> (Inl EngineStopped, e)
      | (Some _, e) \<Rightarrow> (Inr (), e))"

definition engine_save_personal_link :: "engine_environment \<Rightarrow> engine_supply \<Rightarrow> user_id \<Rightarrow> message_id \<Rightarrow> chat_engine \<Rightarrow>
    (bool reply \<times> chat_engine) option" where
  "engine_save_personal_link E g owner source e =
     map_option (\<lambda>(r, e). case r of
          Inl err \<Rightarrow> (Inl err, e)
        | Inr None \<Rightarrow> (Inr False, e)
        | Inr (Some i) \<Rightarrow>
            (case engine_announce_persisted_message (generated.truncate g) i e of
               (Inl err, e) \<Rightarrow> (Inl err, e)
             | (Inr _, e) \<Rightarrow> (Inr True, e)))
       (engine_try_update (save_personal_link (env_unicode E) (env_simple E) (env_hyphenated E) (gen_now g)
          (sup_channel g) (gen_message g) owner source) e)"

section \<open>Channels and circles\<close>

definition engine_create_channel :: "channel_id \<Rightarrow> user_id \<Rightarrow> channel_slug \<Rightarrow> display_name \<Rightarrow> channel_kind \<Rightarrow> circle_id option \<Rightarrow>
    chat_engine \<Rightarrow> channel reply \<times> chat_engine" where
  "engine_create_channel fresh actor slug name kind circle_id e =
     engine_update (create_channel fresh (CreateChannel actor slug name kind circle_id)) e"

definition engine_create_circle :: "instant \<Rightarrow> circle_id \<Rightarrow> user_id \<Rightarrow> channel_slug \<Rightarrow> display_name \<Rightarrow> chat_engine \<Rightarrow>
    circle reply \<times> chat_engine" where
  "engine_create_circle now fresh actor slug name e = engine_update (create_circle now fresh (CreateCircle actor slug name)) e"

definition engine_list_circles :: "user_id \<Rightarrow> chat_engine \<Rightarrow> (circle \<times> circle_role) list reply \<times> chat_engine" where
  "engine_list_circles actor e = engine_query (\<lambda>s. Inr (list_circles_for_user actor s)) e"

definition engine_rename_circle :: "user_id \<Rightarrow> circle_id \<Rightarrow> display_name \<Rightarrow> chat_engine \<Rightarrow> circle reply \<times> chat_engine" where
  "engine_rename_circle actor circle_id name e = engine_update (rename_circle (RenameCircle actor circle_id name)) e"

definition engine_delete_circle :: "user_id \<Rightarrow> circle_id \<Rightarrow> chat_engine \<Rightarrow> unit reply \<times> chat_engine" where
  "engine_delete_circle actor circle_id e = engine_update (delete_circle (DeleteCircle actor circle_id)) e"

definition engine_leave_circle :: "user_id \<Rightarrow> circle_id \<Rightarrow> chat_engine \<Rightarrow> unit reply \<times> chat_engine" where
  "engine_leave_circle actor circle_id e = engine_update (leave_circle (LeaveCircle actor circle_id)) e"

definition engine_create_circle_invitation :: "engine_environment \<Rightarrow> engine_supply \<Rightarrow> user_id \<Rightarrow> circle_id \<Rightarrow> chat_engine \<Rightarrow>
    issued_invitation reply \<times> chat_engine" where
  "engine_create_circle_invitation E g actor circle_id e =
     engine_update (create_circle_invitation (env_sha256 E) (sup_token g) (gen_now g) (sup_invitation g)
       (CreateCircleInvitation actor circle_id)) e"

definition engine_accept_circle_invitation :: "engine_environment \<Rightarrow> engine_supply \<Rightarrow> user_id \<Rightarrow> rstr \<Rightarrow> chat_engine \<Rightarrow>
    circle_membership reply \<times> chat_engine" where
  "engine_accept_circle_invitation E g actor token e =
     engine_update (accept_circle_invitation (env_sha256 E) (gen_now g) (gen_now g) (AcceptCircleInvitation actor token)) e"

definition engine_prepare_enrollment_invitation :: "engine_environment \<Rightarrow> engine_supply \<Rightarrow> user_id \<Rightarrow> circle_id option \<Rightarrow> rstr \<Rightarrow>
    instant \<Rightarrow> chat_engine \<Rightarrow> issued_enrollment_invitation reply \<times> chat_engine" where
  "engine_prepare_enrollment_invitation E g actor circle_id email expires_at e =
     engine_update (prepare_enrollment_invitation (env_unicode E) (env_sha256 E) (sup_token g) (sup_uuid g)
       (PrepareEnrollmentInvitation actor circle_id email expires_at)) e"

definition engine_activate_enrollment_invitation :: "engine_environment \<Rightarrow> engine_supply \<Rightarrow> rstr \<Rightarrow> uuid \<Rightarrow> chat_engine \<Rightarrow>
    enrollment_invitation reply \<times> chat_engine" where
  "engine_activate_enrollment_invitation E g token external e =
     engine_update (activate_enrollment_invitation (env_sha256 E) (gen_now g) (ActivateEnrollmentInvitation token external)) e"

definition engine_accept_enrollment_invitation :: "engine_environment \<Rightarrow> engine_supply \<Rightarrow> user_id \<Rightarrow> rstr \<Rightarrow> rstr \<Rightarrow> chat_engine \<Rightarrow>
    circle_membership option reply \<times> chat_engine" where
  "engine_accept_enrollment_invitation E g actor email token e =
     engine_update (accept_enrollment_invitation (env_unicode E) (env_sha256 E) (gen_now g) (gen_now g)
       (AcceptEnrollmentInvitation actor email token)) e"

text \<open>Operations that the in-memory repository leaves to the defaults of the trait.\<close>

definition engine_create_invitation :: "user_id \<Rightarrow> invitation_target \<Rightarrow> chat_engine \<Rightarrow> issued_chat_invitation reply \<times> chat_engine" where
  "engine_create_invitation actor target e = engine_query (\<lambda>_. Inl NotFound) e"

definition engine_inspect_invitation :: "user_id \<Rightarrow> rstr \<Rightarrow> chat_engine \<Rightarrow> invitation_preview reply \<times> chat_engine" where
  "engine_inspect_invitation actor token e = engine_query (\<lambda>_. Inl NotFound) e"

definition engine_decline_invitation :: "user_id \<Rightarrow> rstr \<Rightarrow> chat_engine \<Rightarrow> invitation_preview reply \<times> chat_engine" where
  "engine_decline_invitation actor token e = engine_query (\<lambda>_. Inl NotFound) e"

definition engine_accept_invitation :: "user_id \<Rightarrow> rstr \<Rightarrow> chat_engine \<Rightarrow> accepted_chat_invitation reply \<times> chat_engine" where
  "engine_accept_invitation actor token e = engine_query (\<lambda>_. Inl NotFound) e"

definition engine_list_mentions :: "user_id \<Rightarrow> chat_engine \<Rightarrow> inbox_mention list reply \<times> chat_engine" where
  "engine_list_mentions actor e = engine_query (\<lambda>_. Inr []) e"

definition engine_mark_mention_read :: "user_id \<Rightarrow> message_id \<Rightarrow> chat_engine \<Rightarrow> unit reply \<times> chat_engine" where
  "engine_mark_mention_read actor i e = engine_query (\<lambda>_. Inl NotFound) e"

definition engine_create_task :: "user_id \<Rightarrow> message_id \<Rightarrow> user_id \<Rightarrow> rstr \<Rightarrow> uuid option \<Rightarrow> chat_engine \<Rightarrow>
    user_task reply \<times> chat_engine" where
  "engine_create_task actor source assignee title process_link e =
     (if trim title = [] then (Inl (Validation (Empty ''task title'')), e)
      else if utf8_len title > 240 then (Inl (Validation (TooLarge ''task title'' 240)), e)
      else engine_query (\<lambda>_. Inl NotFound) e)"

definition engine_list_tasks :: "user_id \<Rightarrow> chat_engine \<Rightarrow> user_task list reply \<times> chat_engine" where
  "engine_list_tasks actor e = engine_query (\<lambda>_. Inr []) e"

definition engine_set_task_done :: "user_id \<Rightarrow> uuid \<Rightarrow> bool \<Rightarrow> chat_engine \<Rightarrow> user_task reply \<times> chat_engine" where
  "engine_set_task_done actor task finished e = engine_query (\<lambda>_. Inl NotFound) e"

definition engine_renew_presence :: "user_id \<Rightarrow> (channel_id \<times> connection_id) list \<Rightarrow> chat_engine \<Rightarrow> unit reply \<times> chat_engine" where
  "engine_renew_presence u subscriptions e = engine_query (\<lambda>_. Inr ()) e"

section \<open>Memberships\<close>

definition engine_join_channel :: "user_id \<Rightarrow> channel_ref \<Rightarrow> chat_engine \<Rightarrow> membership reply \<times> chat_engine" where
  "engine_join_channel actor ref e = engine_update (join_channel (JoinChannel actor ref)) e"

definition engine_leave_channel :: "user_id \<Rightarrow> channel_id \<Rightarrow> chat_engine \<Rightarrow> unit reply \<times> chat_engine" where
  "engine_leave_channel actor c e = engine_update (leave_channel (LeaveChannel actor c)) e"

definition engine_list_channels :: "engine_environment \<Rightarrow> instant \<Rightarrow> user_id \<Rightarrow> chat_engine \<Rightarrow> channel_summary list reply \<times> chat_engine" where
  "engine_list_channels E now actor e = engine_query (\<lambda>s. Inr (list_channels_for_user (env_bump E) now actor s)) e"

definition engine_list_channel_users :: "instant \<Rightarrow> user_id \<Rightarrow> channel_id \<Rightarrow> chat_engine \<Rightarrow> user_profile list reply \<times> chat_engine" where
  "engine_list_channel_users now actor c e = engine_query (list_channel_user_profiles now actor c) e"

definition engine_update_channel_description :: "user_id \<Rightarrow> channel_id \<Rightarrow> rstr \<Rightarrow> chat_engine \<Rightarrow> rstr reply \<times> chat_engine" where
  "engine_update_channel_description actor c description e =
     engine_update (update_channel_description (UpdateChannelDescription actor c description)) e"

definition engine_list_joinable_channels :: "user_id \<Rightarrow> circle_id option \<Rightarrow> chat_engine \<Rightarrow>
    discoverable_channel list reply \<times> chat_engine" where
  "engine_list_joinable_channels actor circle_id e = engine_query (list_joinable_channels actor circle_id) e"

definition channel_reference_batch_max :: nat where
  "channel_reference_batch_max = 64"

definition engine_resolve_channel_references :: "engine_environment \<Rightarrow> user_id \<Rightarrow> channel_id \<Rightarrow> channel_slug list \<Rightarrow> chat_engine \<Rightarrow>
    resolved_channel_reference list reply \<times> chat_engine" where
  "engine_resolve_channel_references E actor source slugs e =
     (if length slugs > channel_reference_batch_max then (Inl (Repository Conflict), e)
      else engine_query (resolve_channel_references (env_unicode E) (env_simple E) actor source slugs) e)"

definition engine_add_channel_member :: "user_id \<Rightarrow> channel_id \<Rightarrow> user_id \<Rightarrow> chat_engine \<Rightarrow> membership reply \<times> chat_engine" where
  "engine_add_channel_member actor c user e = engine_update (add_channel_member (AddChannelMember actor c user)) e"

section \<open>Messages\<close>

definition engine_load_messages :: "user_id \<Rightarrow> channel_id \<Rightarrow> message_limit \<Rightarrow> channel_sequence option \<Rightarrow> channel_sequence option \<Rightarrow>
    chat_engine \<Rightarrow> chat_message list reply \<times> chat_engine" where
  "engine_load_messages actor c limit after before e =
     engine_query (load_recent_messages (LoadRecentMessages actor c limit after before)) e"

definition engine_mark_read :: "user_id \<Rightarrow> channel_id \<Rightarrow> channel_sequence \<Rightarrow> chat_engine \<Rightarrow> membership reply \<times> chat_engine" where
  "engine_mark_read actor c q e = engine_update (mark_read (MarkRead actor c q)) e"

definition engine_latest_sequence :: "channel_id \<Rightarrow> chat_engine \<Rightarrow> channel_sequence reply \<times> chat_engine" where
  "engine_latest_sequence c e = engine_query (\<lambda>s. Inr (latest_sequence c s)) e"

definition engine_load_thread :: "user_id \<Rightarrow> message_id \<Rightarrow> chat_engine \<Rightarrow> chat_message list reply \<times> chat_engine" where
  "engine_load_thread actor root e = engine_query (load_thread actor root) e"

definition engine_list_thread_summaries :: "user_id \<Rightarrow> channel_id \<Rightarrow> chat_engine \<Rightarrow> thread_summary list reply \<times> chat_engine" where
  "engine_list_thread_summaries actor c e = engine_query (list_thread_summaries actor c) e"

definition engine_thread_root_previews :: "user_id \<Rightarrow> channel_id \<Rightarrow> message_id list \<Rightarrow> chat_engine \<Rightarrow>
    thread_root_preview list reply \<times> chat_engine" where
  "engine_thread_root_previews actor c roots e = engine_query (thread_root_previews actor c roots) e"

definition engine_mark_thread_read :: "user_id \<Rightarrow> message_id \<Rightarrow> channel_sequence \<Rightarrow> chat_engine \<Rightarrow> thread_summary reply \<times> chat_engine" where
  "engine_mark_thread_read actor root q e = engine_update (mark_thread_read actor root q) e"

definition engine_list_channel_reactions :: "user_id \<Rightarrow> channel_id \<Rightarrow> chat_engine \<Rightarrow> message_reaction_summary list reply \<times> chat_engine" where
  "engine_list_channel_reactions actor c e = engine_query (list_channel_reactions actor c) e"

section \<open>Through the mailbox\<close>

definition engine_subscribe :: "generated \<Rightarrow> channel_id \<Rightarrow> user_id \<Rightarrow> chat_engine \<Rightarrow> channel_subscription reply \<times> chat_engine" where
  "engine_subscribe g c u e = apfst subscribe_reply (engine_command g (A_Subscribe c u) e)"

definition engine_leave :: "generated \<Rightarrow> channel_id \<Rightarrow> user_id \<Rightarrow> connection_id \<Rightarrow> chat_engine \<Rightarrow> unit reply \<times> chat_engine" where
  "engine_leave g c u conn e = apfst leave_reply (engine_command g (A_Leave c u conn) e)"

definition engine_send_message_command :: "generated \<Rightarrow> channel_id \<Rightarrow> user_id \<Rightarrow> message_id option \<Rightarrow> message_body \<Rightarrow> rstr option \<Rightarrow>
    chat_engine \<Rightarrow> chat_message reply \<times> chat_engine" where
  "engine_send_message_command g c u parent body request_id e =
     apfst message_reply (engine_command g (A_SendMessage c u parent body request_id) e)"

definition engine_send_message_idempotent :: "generated \<Rightarrow> channel_id \<Rightarrow> user_id \<Rightarrow> message_body \<Rightarrow> rstr \<Rightarrow> chat_engine \<Rightarrow>
    chat_message reply \<times> chat_engine" where
  "engine_send_message_idempotent g c u body request_id e =
     engine_send_message_command g c u None body (Some request_id) e"

definition engine_send_thread_reply_idempotent :: "generated \<Rightarrow> channel_id \<Rightarrow> user_id \<Rightarrow> message_id \<Rightarrow> message_body \<Rightarrow> rstr \<Rightarrow>
    chat_engine \<Rightarrow> chat_message reply \<times> chat_engine" where
  "engine_send_thread_reply_idempotent g c u parent body request_id e =
     engine_send_message_command g c u (Some parent) body (Some request_id) e"

definition engine_toggle_reaction :: "(rstr \<Rightarrow> nat) \<Rightarrow> generated \<Rightarrow> user_id \<Rightarrow> message_id \<Rightarrow> rstr \<Rightarrow> chat_engine \<Rightarrow>
    message_reaction_change reply \<times> chat_engine" where
  "engine_toggle_reaction graphemes g actor i emoji e =
     (let emoji = trim emoji in
      if \<not> is_reaction_emoji graphemes emoji then (Inl (Validation InvalidReaction), e)
      else apfst reaction_reply (engine_command g (A_ToggleReaction actor i emoji) e))"

definition engine_edit_message :: "generated \<Rightarrow> user_id \<Rightarrow> message_id \<Rightarrow> message_body \<Rightarrow> chat_engine \<Rightarrow> chat_message reply \<times> chat_engine" where
  "engine_edit_message g actor i body e = apfst message_reply (engine_command g (A_EditMessage actor i body) e)"

definition engine_delete_message :: "generated \<Rightarrow> user_id \<Rightarrow> message_id \<Rightarrow> chat_engine \<Rightarrow> chat_message reply \<times> chat_engine" where
  "engine_delete_message g actor i e = apfst message_reply (engine_command g (A_DeleteMessage actor i) e)"

end
