(* ===== verification/Socket_Session.thy ===== *)
theory Socket_Session
  imports Chat_Engine
begin

text \<open>
  A web socket session (\<open>src/ws.rs\<close>): the dispatch of client commands to the chat engine, the
  subscriptions of a connection, and the loop that reacts to frames, timers and notifications.
  Decoding of the JSON text of a frame is a parameter. The task that forwards the events of a
  subscription is the function \<open>forward_event\<close> of what its receiver returns.
\<close>

section \<open>Errors\<close>

definition error_event :: "chat_error \<Rightarrow> server_event" where
  "error_event error = S_Error
     (lit (case error of
        Repository Quota \<Rightarrow> ''quota''
      | EngineStopped \<Rightarrow> ''engine_stopped''
      | Repository Conflict \<Rightarrow> ''conflict''
      | Repository NotFound \<Rightarrow> ''not_found''
      | Repository PermissionDenied \<Rightarrow> ''permission_denied''
      | Repository (Storage _) \<Rightarrow> ''storage_error''
      | Validation _ \<Rightarrow> ''validation_error''))
     (chat_error_public_message error)"

section \<open>Subscriptions\<close>

record active_subscription =
  as_connection_id :: connection_id
  as_receiver :: nat
  as_last_seen :: channel_sequence

type_synonym subscriptions = "(channel_id, active_subscription) hmap"

definition disconnect :: "generated \<Rightarrow> user_id \<Rightarrow> channel_id \<Rightarrow> subscriptions \<times> chat_engine \<Rightarrow> subscriptions \<times> chat_engine" where
  "disconnect g u c st =
     (case hm_get (fst st) c of
        None \<Rightarrow> st
      | Some active \<Rightarrow> (hm_remove c (fst st), snd (engine_leave g c u (as_connection_id active) (snd st))))"

definition disconnect_inaccessible_channels :: "engine_environment \<Rightarrow> engine_supply \<Rightarrow> user_id \<Rightarrow> subscriptions \<times> chat_engine \<Rightarrow>
    subscriptions \<times> chat_engine" where
  "disconnect_inaccessible_channels E g u st =
     (let visible = (case fst (engine_list_channels E (gen_now g) u (snd st)) of Inl _ \<Rightarrow> None | Inr xs \<Rightarrow> Some xs);
          gone = filter (\<lambda>c. case visible of None \<Rightarrow> True | Some xs \<Rightarrow> c \<notin> set (map cs_id xs)) (hm_keys (fst st))
      in fold (disconnect (generated.truncate g) u) gone st)"

definition subscribe_channel :: "generated \<Rightarrow> user_id \<Rightarrow> channel_id \<Rightarrow> subscriptions \<times> chat_engine \<Rightarrow>
    server_event reply \<times> subscriptions \<times> chat_engine" where
  "subscribe_channel g u c st =
     (let (subs, e) = disconnect g u c st in
      case engine_subscribe g c u e of
        (Inl err, e) \<Rightarrow> (Inl err, subs, e)
      | (Inr sub, e) \<Rightarrow>
          (Inr (S_SubscriptionStarted c (sub_history sub)),
           hm_insert c \<lparr> as_connection_id = sub_connection_id sub, as_receiver = sub_receiver sub,
                         as_last_seen = latest_of (sub_history sub) \<rparr> subs, e))"

section \<open>Dispatch\<close>

text \<open>Most commands are one request to the engine whose answer becomes an event.\<close>

definition respond :: "('x \<Rightarrow> server_event) \<Rightarrow> subscriptions \<Rightarrow> 'x reply \<times> chat_engine \<Rightarrow>
    server_event reply \<times> subscriptions \<times> chat_engine" where
  "respond event subs answer = (map_sum id event (fst answer), subs, snd answer)"

text \<open>Input that does not validate is refused with the validation error.\<close>

definition validated :: "(text_validation_error, 'a) result \<Rightarrow> ('a \<Rightarrow> 'x reply \<times> chat_engine) \<Rightarrow> chat_engine \<Rightarrow>
    'x reply \<times> chat_engine" where
  "validated input f e = (case input of Inl err \<Rightarrow> (Inl (Validation err), e) | Inr x \<Rightarrow> f x)"

primrec run_command :: "engine_environment \<Rightarrow> engine_supply \<Rightarrow> user_id \<Rightarrow> rstr \<Rightarrow> client_command \<Rightarrow> subscriptions \<Rightarrow> chat_engine \<Rightarrow>
    server_event reply \<times> subscriptions \<times> chat_engine" where
  "run_command E g u request C_Hello subs e = respond (S_Hello u) subs (engine_signup_ordinal u e)"
| "run_command E g u request C_ListUsers subs e = respond S_UsersListed subs (engine_list_users (gen_now g) u e)"
| "run_command E g u request (C_ListCircleMembers k) subs e =
     respond (S_CircleMembersListed k) subs (engine_list_circle_members (gen_now g) u k e)"
| "run_command E g u request (C_SetCircleMemberRole k v role) subs e =
     respond S_CircleMemberRoleChanged subs (engine_set_circle_member_role (SetCircleMemberRole u k v role) e)"
| "run_command E g u request (C_ListCircleUsers k) subs e =
     respond (S_CircleUsersListed k) subs (engine_list_circle_users (gen_now g) u k e)"
| "run_command E g u request (C_SetStatus text emoji expires) subs e =
     respond S_StatusUpdated subs (engine_set_status (gen_now g) u text emoji expires e)"
| "run_command E g u request (C_UpdateProfile name) subs e = respond S_ProfileUpdated subs (engine_update_profile u name e)"
| "run_command E g u request (C_OpenDirectChannel v) subs e =
     respond S_DirectChannelOpened subs (engine_open_direct_channel E g u v e)"
| "run_command E g u request (C_ExpandDirectChannel c v) subs e =
     respond S_DirectChannelExpanded subs (engine_expand_direct_channel E g u c v e)"
| "run_command E g u request (C_CreateChannel slug name kind k) subs e =
     respond S_ChannelCreated subs (validated (channel_slug_new (env_unicode E) slug) (\<lambda>slug.
       validated (display_name_new name) (\<lambda>name. engine_create_channel (sup_channel g) u slug name kind k e) e) e)"
| "run_command E g u request (C_JoinChannel ref) subs e = respond S_MembershipJoined subs (engine_join_channel u ref e)"
| "run_command E g u request (C_LeaveChannel c) subs e =
     (case engine_leave_channel u c e of
        (Inl err, e) \<Rightarrow> (Inl err, subs, e)
      | (Inr _, e) \<Rightarrow> (Inr (S_MembershipLeft c), disconnect (generated.truncate g) u c (subs, e)))"
| "run_command E g u request C_ListMyChannels subs e =
     respond S_ChannelsListed subs (engine_list_channels E (gen_now g) u e)"
| "run_command E g u request (C_ListChannelUsers c) subs e =
     respond (S_ChannelUsersListed c) subs (engine_list_channel_users (gen_now g) u c e)"
| "run_command E g u request (C_UpdateChannelDescription c description) subs e =
     respond (S_ChannelDescriptionUpdated c) subs (engine_update_channel_description u c description e)"
| "run_command E g u request (C_ListJoinableChannels k) subs e =
     respond S_JoinableChannelsListed subs (engine_list_joinable_channels u k e)"
| "run_command E g u request (C_AddChannelMember c v) subs e =
     respond S_ChannelMemberAdded subs (engine_add_channel_member u c v e)"
| "run_command E g u request (C_LoadRecentMessages c limit after before) subs e =
     respond (S_MessagesLoaded c) subs (engine_load_messages u c
       (message_limit_new (case limit of None \<Rightarrow> 50 | Some n \<Rightarrow> n)) after before e)"
| "run_command E g u request (C_LoadThread root) subs e = respond (S_ThreadLoaded root) subs (engine_load_thread u root e)"
| "run_command E g u request (C_ListThreadSummaries c) subs e =
     respond (S_ThreadSummariesListed c) subs (engine_list_thread_summaries u c e)"
| "run_command E g u request (C_MarkThreadRead root q) subs e =
     respond S_ThreadReadUpdated subs (engine_mark_thread_read u root q e)"
| "run_command E g u request (C_SubscribeChannel c) subs e = subscribe_channel (generated.truncate g) u c (subs, e)"
| "run_command E g u request (C_UnsubscribeChannel c) subs e =
     (Inr (S_SubscriptionEnded c), disconnect (generated.truncate g) u c (subs, e))"
| "run_command E g u request (C_SendMessage c parent body) subs e =
     respond S_MessageAccepted subs (validated (message_body_new body) (\<lambda>body.
       case parent of
         Some p \<Rightarrow> engine_send_thread_reply_idempotent (generated.truncate g) c u p body request e
       | None \<Rightarrow> engine_send_message_idempotent (generated.truncate g) c u body request e) e)"
| "run_command E g u request (C_EditMessage i body) subs e =
     respond S_MessageEdited subs (validated (message_body_new body)
       (\<lambda>body. engine_edit_message (generated.truncate g) u i body e) e)"
| "run_command E g u request (C_DeleteMessage i) subs e =
     respond S_MessageDeleted subs (engine_delete_message (generated.truncate g) u i e)"
| "run_command E g u request (C_ListChannelReactions c) subs e =
     respond (S_ChannelReactionsListed c) subs (engine_list_channel_reactions u c e)"
| "run_command E g u request (C_ToggleMessageReaction i emoji) subs e =
     respond S_MessageReactionChanged subs (engine_toggle_reaction (env_graphemes E) (generated.truncate g) u i emoji e)"
| "run_command E g u request (C_MarkRead c q) subs e = respond S_ReadMarkerUpdated subs (engine_mark_read u c q e)"
| "run_command E g u request C_ListMentions subs e = respond S_MentionsListed subs (engine_list_mentions u e)"
| "run_command E g u request (C_MarkMentionRead i) subs e =
     respond (\<lambda>_. S_MentionRead i) subs (engine_mark_mention_read u i e)"
| "run_command E g u request (C_CreateTask i assignee title link) subs e =
     respond S_TaskCreated subs (engine_create_task u i assignee title link e)"
| "run_command E g u request C_ListTasks subs e = respond S_TasksListed subs (engine_list_tasks u e)"
| "run_command E g u request (C_SetTaskDone task finished) subs e =
     respond S_TaskUpdated subs (engine_set_task_done u task finished e)"
| "run_command E g u request C_Ping subs e =
     respond (\<lambda>_. S_Pong) subs (engine_renew_presence u (map (\<lambda>(c, active). (c, as_connection_id active)) subs) e)"
| "run_command E g u request (C_CreateCircle slug name) subs e =
     respond S_CircleCreated subs (validated (channel_slug_new (env_unicode E) slug) (\<lambda>slug.
       validated (display_name_new name) (\<lambda>name. engine_create_circle (gen_now g) (sup_circle g) u slug name e) e) e)"
| "run_command E g u request (C_RenameCircle k name) subs e =
     respond S_CircleRenamed subs (validated (circle_name name) (\<lambda>name. engine_rename_circle u k name e) e)"
| "run_command E g u request C_ListMyCircles subs e = respond S_CirclesListed subs (engine_list_circles u e)"
| "run_command E g u request (C_DeleteCircle k) subs e =
     (case engine_delete_circle u k e of
        (Inl err, e) \<Rightarrow> (Inl err, subs, e)
      | (Inr _, e) \<Rightarrow> (Inr (S_CircleDeleted k), disconnect_inaccessible_channels E g u (subs, e)))"
| "run_command E g u request (C_LeaveCircle k) subs e =
     (case engine_leave_circle u k e of
        (Inl err, e) \<Rightarrow> (Inl err, subs, e)
      | (Inr _, e) \<Rightarrow> (Inr (S_CircleLeft k), disconnect_inaccessible_channels E g u (subs, e)))"
| "run_command E g u request (C_CreateCircleInvitation k) subs e =
     respond S_CircleInvitationCreated subs (engine_create_circle_invitation E g u k e)"
| "run_command E g u request (C_AcceptCircleInvitation token) subs e =
     respond S_CircleInvitationAccepted subs (engine_accept_circle_invitation E g u token e)"
| "run_command E g u request (C_CreateInvitation target) subs e =
     respond S_InvitationCreated subs (engine_create_invitation u target e)"
| "run_command E g u request (C_InspectInvitation token) subs e =
     respond (S_InvitationInspected token) subs (engine_inspect_invitation u token e)"
| "run_command E g u request (C_DeclineInvitation token) subs e =
     respond (S_InvitationDeclined token) subs (engine_decline_invitation u token e)"
| "run_command E g u request (C_AcceptInvitation token) subs e =
     respond (S_InvitationAccepted token) subs (engine_accept_invitation u token e)"

definition execute_command :: "engine_environment \<Rightarrow> engine_supply \<Rightarrow> user_id \<Rightarrow> client_command client_envelope \<Rightarrow> subscriptions \<Rightarrow>
    chat_engine \<Rightarrow> server_event server_envelope \<times> subscriptions \<times> chat_engine" where
  "execute_command E g u envelope subs e =
     (let request_id = cenv_request_id envelope;
          (result, st) = run_command E g u request_id (cenv_command envelope) subs e
      in (case result of
            Inr event \<Rightarrow> envelope_response request_id event
          | Inl error \<Rightarrow> envelope_response request_id (error_event error), st))"

text \<open>Without a transport subscription, as for commands over HTTP.\<close>

definition execute_http_command :: "engine_environment \<Rightarrow> engine_supply \<Rightarrow> user_id \<Rightarrow> client_command client_envelope \<Rightarrow> chat_engine \<Rightarrow>
    server_event server_envelope \<times> chat_engine" where
  "execute_http_command E g u envelope e =
     (let (response, _, e) = execute_command E g u envelope [] e in (response, e))"

section \<open>Frames\<close>

definition error_response :: "rstr \<Rightarrow> string \<Rightarrow> rstr \<Rightarrow> server_event server_envelope" where
  "error_response request_id code message = envelope_response request_id (S_Error (lit code) message)"

definition valid_request_id :: "rstr \<Rightarrow> bool" where
  "valid_request_id r \<longleftrightarrow> \<not> (trim r = [] \<or> utf8_len r > 128)"

text \<open>A text frame: the envelope is decoded, checked and executed.\<close>

definition handle_text :: "(rstr \<Rightarrow> client_command client_envelope option) \<Rightarrow> engine_environment \<Rightarrow> engine_supply \<Rightarrow> user_id \<Rightarrow> rstr \<Rightarrow>
    subscriptions \<Rightarrow> chat_engine \<Rightarrow> server_event server_envelope \<times> subscriptions \<times> chat_engine" where
  "handle_text decode E g u text subs e =
     (case decode text of
        None \<Rightarrow> (envelope_event (S_Error (lit ''invalid_envelope'') (lit ''invalid JSON command envelope'')), subs, e)
      | Some envelope \<Rightarrow>
          (let request_id = cenv_request_id envelope in
           if check_protocol (cenv_protocol envelope) \<noteq> Supported
           then (error_response request_id ''unsupported_protocol'' (lit ''expected '' @ protocol_id), subs, e)
           else if \<not> valid_request_id request_id
           then (error_response request_id ''invalid_request_id'' (lit ''request_id must contain 1 to 128 bytes''), subs, e)
           else execute_command E g u envelope subs e))"

text \<open>
  The same checks for a command over HTTP (\<open>src/web/stream.rs\<close>), after the request has been
  authenticated; subscriptions belong to the event stream.
\<close>

definition is_subscription :: "client_command \<Rightarrow> bool" where
  "is_subscription cmd = (case cmd of C_SubscribeChannel _ \<Rightarrow> True | C_UnsubscribeChannel _ \<Rightarrow> True | _ \<Rightarrow> False)"

definition http_command :: "engine_environment \<Rightarrow> engine_supply \<Rightarrow> user_id \<Rightarrow> client_command client_envelope \<Rightarrow> chat_engine \<Rightarrow>
    server_event server_envelope \<times> chat_engine" where
  "http_command E g u envelope e =
     (let request_id = cenv_request_id envelope in
      if check_protocol (cenv_protocol envelope) \<noteq> Supported
      then (error_response request_id ''unsupported_protocol'' (lit ''unsupported protocol''), e)
      else if \<not> valid_request_id request_id
      then (error_response request_id ''invalid_request_id'' (lit ''request_id must contain 1 to 128 bytes''), e)
      else if is_subscription (cenv_command envelope)
      then (error_response request_id ''invalid_transport_command'' (lit ''subscriptions belong to the event stream''), e)
      else execute_http_command E g u envelope e)"

section \<open>The loop\<close>

text \<open>
  What a turn of the loop can react to. A boolean is the outcome of an authentication check, of
  the wait for a circle update, or of reading the shutdown signal.
\<close>

datatype socket_input =
    In_Reauthenticate bool
  | In_IdleTimeout
  | In_Shutdown bool
  | In_CircleUpdate bool bool
  | In_Outbound "server_event server_envelope" bool
  | In_Text rstr bool bool
  | In_Close
  | In_Ping
  | In_BinaryOrPong
  | In_ReceiveError

datatype socket_output = Out_Close nat string | Out_Envelope "server_event server_envelope" | Out_Pong

record socket_session =
  ss_participant :: user_id
  ss_subscriptions :: subscriptions
  ss_circle_updates :: bool
  ss_open :: bool

text \<open>
  The beginning of a session. \<open>updating\<close> says whether there is a source of circle updates;
  there is no session when the server shuts down or the user cannot be stored. A panic of the
  repository is \<open>None\<close>.
\<close>

definition open_socket :: "user \<Rightarrow> bool \<Rightarrow> bool \<Rightarrow> chat_engine \<Rightarrow>
    (socket_output list \<times> socket_session option \<times> chat_engine) option" where
  "open_socket user shutdown updating e =
     (if shutdown then Some ([Out_Close 1001 ''server shutdown''], None, e)
      else map_option (\<lambda>(r, e). case r of
               Inl error \<Rightarrow> ([Out_Envelope (envelope_event (error_event error))], None, e)
             | Inr _ \<Rightarrow> ([], Some \<lparr> ss_participant = usr_id user, ss_subscriptions = [],
                                   ss_circle_updates = updating, ss_open = True \<rparr>, e))
             (engine_ensure_user user e))"

text \<open>
  One turn, with the outcome \<open>sent\<close> of writing to the socket. A session that is not open has left
  the loop. When an envelope does not decode, the reply is written without a further check of
  the native session.
\<close>

definition socket_turn :: "(rstr \<Rightarrow> client_command client_envelope option) \<Rightarrow> engine_environment \<Rightarrow> engine_supply \<Rightarrow>
    socket_input \<Rightarrow> bool \<Rightarrow> socket_session \<Rightarrow> chat_engine \<Rightarrow> socket_output list \<times> socket_session \<times> chat_engine" where
  "socket_turn decode E g input sent s e =
     (case input of
        In_Reauthenticate admitted \<Rightarrow>
          if admitted then ([], s, e) else ([Out_Close 1008 ''authentication expired''], s\<lparr> ss_open := False \<rparr>, e)
      | In_IdleTimeout \<Rightarrow> ([Out_Close 1001 ''idle timeout''], s\<lparr> ss_open := False \<rparr>, e)
      | In_Shutdown signal \<Rightarrow>
          if signal then ([Out_Close 1001 ''server shutdown''], s\<lparr> ss_open := False \<rparr>, e) else ([], s, e)
      | In_CircleUpdate changed admitted \<Rightarrow>
          if \<not> changed then ([], s\<lparr> ss_circle_updates := False \<rparr>, e)
          else if \<not> admitted then ([], s\<lparr> ss_open := False \<rparr>, e)
          else ([Out_Envelope (envelope_event S_CirclesChanged)], s\<lparr> ss_open := sent \<rparr>, e)
      | In_Outbound message admitted \<Rightarrow>
          if \<not> admitted then ([], s\<lparr> ss_open := False \<rparr>, e)
          else ([Out_Envelope message], s\<lparr> ss_open := sent \<rparr>, e)
      | In_Text text admitted_before admitted_after \<Rightarrow>
          if \<not> admitted_before then ([], s\<lparr> ss_open := False \<rparr>, e)
          else (let (response, subs, e) = handle_text decode E g (ss_participant s) text (ss_subscriptions s) e;
                    s = s\<lparr> ss_subscriptions := subs \<rparr>
                in if decode text \<noteq> None \<and> \<not> admitted_after then ([], s\<lparr> ss_open := False \<rparr>, e)
                   else ([Out_Envelope response], s\<lparr> ss_open := sent \<rparr>, e))
      | In_Close \<Rightarrow> ([], s\<lparr> ss_open := False \<rparr>, e)
      | In_Ping \<Rightarrow> ([Out_Pong], s\<lparr> ss_open := sent \<rparr>, e)
      | In_BinaryOrPong \<Rightarrow> ([], s, e)
      | In_ReceiveError \<Rightarrow> ([], s\<lparr> ss_open := False \<rparr>, e))"

text \<open>After the loop every subscription is given up.\<close>

definition close_session :: "generated \<Rightarrow> socket_session \<Rightarrow> chat_engine \<Rightarrow> chat_engine" where
  "close_session g s e =
     fold (\<lambda>(c, active) e. snd (engine_leave g c (ss_participant s) (as_connection_id active) e)) (ss_subscriptions s) e"

section \<open>Forwarding\<close>

text \<open>What \<open>Receiver::recv\<close> returns: an event, the number of events it missed, or the end.\<close>

datatype received = Received chat_event | Missed u64 | Ended

text \<open>One turn of the forwarding task: what it queues and the last sequence it has seen.\<close>

definition forward_event :: "channel_id \<Rightarrow> received \<Rightarrow> channel_sequence reply \<Rightarrow> channel_sequence \<Rightarrow>
    (server_event server_envelope \<times> bool) option \<times> channel_sequence" where
  "forward_event c input latest last_seen =
     (case input of
        Received event \<Rightarrow>
          (Some (envelope_event (S_Chat event), True),
           case event of E_MessageAccepted m \<Rightarrow> msg_sequence m | _ \<Rightarrow> last_seen)
      | Missed skipped \<Rightarrow>
          (case latest of
             Inr known \<Rightarrow>
               (Some (envelope_event (S_Lagged c last_seen known skipped (lit ''load_recent_messages_after'')), True), last_seen)
           | Inl error \<Rightarrow> (Some (envelope_event (error_event error), False), last_seen))
      | Ended \<Rightarrow> (None, last_seen))"

end
