(* ===== verification/Message_Properties.thy ===== *)
theory Message_Properties
  imports Message_Operations
begin

text \<open>
  The properties of the message operations, each with a concrete run: sequences without gaps,
  exactly-once sending, paging, editing, deletion, reactions, read markers and media reads.
\<close>

section \<open>A small repository\<close>

definition sample_user :: "user_id \<Rightarrow> string \<Rightarrow> user" where
  "sample_user i n = \<lparr> usr_id = i, usr_kind = Human, usr_display_name = DisplayName (lit n),
     usr_handle = None, usr_external_provider = None, usr_external_subject = None, usr_created_at = 0 \<rparr>"

definition sample_channel :: channel where
  "sample_channel = \<lparr> ch_id = ChannelId 1, ch_slug = ChannelSlug (lit ''prat''), ch_name = DisplayName (lit ''Prat''),
     ch_kind = Public, ch_circle_id = None, ch_created_by = UserId 1 \<rparr>"

definition sample_state :: repository_state where
  "sample_state = repository_default\<lparr>
     users := [(UserId 1, sample_user (UserId 1) ''Kari''), (UserId 2, sample_user (UserId 2) ''Ola'')],
     channels := [(ChannelId 1, sample_channel)],
     channels_by_slug := [(ChannelSlug (lit ''prat''), ChannelId 1)],
     memberships := [((ChannelId 1, UserId 1), new_membership (ChannelId 1) (UserId 1) Owner),
                     ((ChannelId 1, UserId 2), new_membership (ChannelId 1) (UserId 2) Member)] \<rparr>"

definition sample_send :: send_message where
  "sample_send = SendMessage (UserId 1) (ChannelId 1) None (MessageBody (lit ''hei''))"

definition sample_message :: chat_message where
  "sample_message = new_message (MessageId 7) 0 (DisplayName (lit ''Kari'')) (ChannelSequence 1) sample_send"

definition sample_chat :: repository_state where
  "sample_chat = (accepted_state sample_message sample_state)
     \<lparr> command_receipts := [((UserId 1, lit ''r1''), MessageId 7)] \<rparr>"

lemmas sample_defs = sample_user_def sample_channel_def sample_state_def sample_send_def
  sample_message_def sample_chat_def repository_default_def new_membership_def

lemma log_inv_Nil: "log_inv [] []"
  by (simp add: log_inv_def hm_get_or_def counter_of_def)

lemma sample_state_inv: "msg_inv sample_state" "member_users sample_state" "fresh_message (MessageId 7) sample_state"
proof -
  show "msg_inv sample_state"
    using log_inv_Nil
    by (auto simp: msg_inv_def sample_defs parents_inv_def receipts_inv_def tombs_inv_def reads_inv_def
        hm_get_or_def hm_wf_def)
  show "member_users sample_state"
    by (auto simp: member_users_def sample_defs hm_has_iff split: if_splits)
  show "fresh_message (MessageId 7) sample_state"
    by (simp add: fresh_message_def all_messages_def sample_defs)
qed

lemma sample_send_runs:
  "append_message_idempotent (MessageId 7) 0 sample_send (lit ''r1'') sample_state =
     (Inr sample_message, sample_chat)"
  by (simp add: append_message_idempotent_def sample_defs role_of_def can_send_to_channel_def
      check_parent_def next_sequence_def seq_first_def accepted_state_def new_message_def
      hm_insert_def Let_def)

lemma sample_chat_inv: "msg_inv sample_chat"
  using append_idempotent_inv [OF sample_state_inv, of 0 sample_send "lit ''r1''"]
  by (simp add: sample_send_runs)

section \<open>Sending\<close>

text \<open>
  C19. Sending never leaves a gap: in a state that satisfies the invariant a send either fails
  and changes nothing, or appends exactly one message, whose sequence is one more than the
  number of messages of the channel, to that channel and to no other; the sender may send there,
  and the invariant holds again.
\<close>

theorem append_message_gapless:
  assumes "msg_inv s" "member_users s" "fresh_message fresh s"
    and "append_message fresh now cmd s = (r, s')"
  shows "msg_inv s' \<and>
    (case r of
       Inl e \<Rightarrow> s' = s
     | Inr m \<Rightarrow> can_send_to_channel (role_of s (snd_channel_id cmd) (snd_actor cmd)) \<and>
         seq_nat (msg_sequence m) = Suc (length (channel_messages s (snd_channel_id cmd))) \<and>
         channel_messages s' (snd_channel_id cmd) = channel_messages s (snd_channel_id cmd) @ [m] \<and>
         (\<forall>c. c = snd_channel_id cmd \<or> channel_messages s' c = channel_messages s c))"
proof -
  have inv: "msg_inv s'" using append_message_inv [OF assms(1-3), of now cmd] assms(4) by simp
  from append_message_result [OF assms(2,4)] show ?thesis
  proof
    assume "\<exists>e. r = Inl e \<and> s' = s"
    with inv show ?thesis by auto
  next
    assume "\<exists>m. r = Inr m \<and> accepts fresh now cmd s m \<and> s' = accepted_state m s"
    then obtain m where m: "r = Inr m" "accepts fresh now cmd s m" "s' = accepted_state m s" by blast
    note acc = acceptsD [OF m(2)]
    have "counter_of (next_sequences s) c = length (channel_messages s c)" for c
      using log_invD(3) [OF msg_invD(1) [OF assms(1)], of c] by (simp add: channel_messages_log)
    with acc m inv show ?thesis
      by (simp add: accepted_state_def channel_messages_log log_of_push)
  qed
qed

theorem append_message_gapless_witness:
  "\<exists>m s'. append_message (MessageId 7) 0 sample_send sample_state = (Inr m, s') \<and> msg_inv s' \<and>
     seq_nat (msg_sequence m) = Suc (length (channel_messages sample_state (ChannelId 1))) \<and>
     channel_messages s' (ChannelId 1) = channel_messages sample_state (ChannelId 1) @ [m]"
proof -
  have run: "append_message (MessageId 7) 0 sample_send sample_state =
      (Inr sample_message, accepted_state sample_message sample_state)"
    by (simp add: append_message_def sample_defs role_of_def can_send_to_channel_def
      check_parent_def next_sequence_def seq_first_def accepted_state_def new_message_def Let_def)
  have "snd_channel_id sample_send = ChannelId 1" by (simp add: sample_send_def)
  with append_message_gapless [OF sample_state_inv run] run show ?thesis by auto
qed

text \<open>
  C1. A send is done exactly once per request: after a request was accepted, repeating it, at
  any later time and with any other generated identifier, returns the same message and leaves
  the state as it is, and using the request identifier for another text is refused.
\<close>

theorem append_idempotent_exactly_once:
  assumes "msg_inv s" "member_users s" "fresh_message fresh s"
    and "hm_get (command_receipts s) (snd_actor cmd, request_id) = None"
    and "append_message_idempotent fresh now cmd request_id s = (Inr m, s')"
  shows "append_message_idempotent fresh' now' cmd request_id s' = (Inr m, s') \<and>
    (snd_body other = snd_body cmd \<or> snd_actor other \<noteq> snd_actor cmd \<or>
     append_message_idempotent fresh' now' other request_id s' = (Inl Conflict, s')) \<and>
    channel_messages s' (snd_channel_id cmd) = channel_messages s (snd_channel_id cmd) @ [m]"
proof -
  from append_idempotent_result [OF assms(2,4,5)]
  have m: "accepts fresh now cmd s m" and s': "s' = (accepted_state m s)\<lparr> command_receipts :=
      hm_insert (snd_actor cmd, request_id) fresh (command_receipts s) \<rparr>" by auto
  note acc = acceptsD [OF m]
  have inv: "msg_inv s'" using append_idempotent_inv [OF assms(1-3), of now cmd request_id] assms(5) by simp
  have receipt: "hm_get (command_receipts s') (snd_actor cmd, request_id) = Some fresh" by (simp add: s')
  have "m \<in> set (log_all (messages s'))" by (simp add: s' accepted_state_def set_log_push)
  with find_message_unique [OF msg_invD(1) [OF inv]] acc(1) have find: "find_message s' fresh = Some m" by metis
  from append_idempotent_replay [OF receipt, of fresh' now'] find acc
  have again: "append_message_idempotent fresh' now' cmd request_id s' = (Inr m, s')" by simp
  have "append_message_idempotent fresh' now' other request_id s' = (Inl Conflict, s')"
    if "snd_body other \<noteq> snd_body cmd" "snd_actor other = snd_actor cmd"
    using append_idempotent_replay [of s' other request_id fresh fresh' now'] receipt find acc that by simp
  moreover have "channel_messages s' (snd_channel_id cmd) = channel_messages s (snd_channel_id cmd) @ [m]"
    by (simp add: s' accepted_state_def channel_messages_log log_of_push acc)
  ultimately show ?thesis using again by blast
qed

theorem append_idempotent_exactly_once_witness:
  "append_message_idempotent (MessageId 7) 0 sample_send (lit ''r1'') sample_state =
     (Inr sample_message, sample_chat) \<and>
   append_message_idempotent (MessageId 9) 5000 sample_send (lit ''r1'') sample_chat =
     (Inr sample_message, sample_chat)"
proof -
  have none: "hm_get (command_receipts sample_state) (snd_actor sample_send, lit ''r1'') = None"
    by (simp add: sample_defs)
  show ?thesis
    using sample_send_runs append_idempotent_exactly_once [OF sample_state_inv none sample_send_runs] by blast
qed

section \<open>Paging\<close>

lemma filter_after: "run_ok c ms \<Longrightarrow> filter (\<lambda>m. a < msg_sequence m) ms = drop (seq_nat a) ms"
proof (induction ms rule: rev_induct)
  case (snoc m ms)
  then have "filter (\<lambda>m. a < msg_sequence m) ms = drop (seq_nat a) ms"
    "seq_nat (msg_sequence m) = Suc (length ms)" by (simp_all add: run_ok_snoc)
  then show ?case by (cases "seq_nat a - length ms") (auto simp: seq_less_nat)
qed simp

lemma filter_before: "run_ok c ms \<Longrightarrow> filter (\<lambda>m. msg_sequence m < b) ms = take (seq_nat b - 1) ms"
proof (induction ms rule: rev_induct)
  case (snoc m ms)
  then have "filter (\<lambda>m. msg_sequence m < b) ms = take (seq_nat b - 1) ms"
    "seq_nat (msg_sequence m) = Suc (length ms)" by (simp_all add: run_ok_snoc)
  then show ?case by (cases "seq_nat b - 1 - length ms") (auto simp: seq_less_nat)
qed simp

definition last_n :: "nat \<Rightarrow> 'a list \<Rightarrow> 'a list" where
  "last_n n xs = drop (length xs - n) xs"

text \<open>
  C20. Paging is exact: a reader gets a contiguous window of the channel's log with at most 200
  messages and no holes. After sequence \<open>a\<close> it is the next messages in order, before \<open>b\<close> the
  last ones that precede it, and without a cursor the last ones of all; both cursors at once are
  a conflict, and who has no role in the channel is denied.
\<close>

theorem load_recent_messages_window:
  assumes "msg_inv s"
  shows "load_recent_messages (LoadRecentMessages actor c (message_limit_new n) after before) s =
    (if role_of s c actor = None then Inl PermissionDenied
     else case (after, before) of
       (Some a, Some b) \<Rightarrow> Inl Conflict
     | (Some a, None) \<Rightarrow> Inr (take (min (unat n) 200) (drop (seq_nat a) (channel_messages s c)))
     | (None, Some b) \<Rightarrow> Inr (last_n (min (unat n) 200) (take (seq_nat b - 1) (channel_messages s c)))
     | (None, None) \<Rightarrow> Inr (last_n (min (unat n) 200) (channel_messages s c)))"
proof -
  have run: "run_ok c (channel_messages s c)"
    using log_invD(2) [OF msg_invD(1) [OF assms]] by (simp add: channel_messages_log)
  note f = filter_after [OF run] filter_before [OF run]
  show ?thesis
    by (cases "role_of s c actor"; cases after; cases before)
       (simp_all add: load_recent_messages_def can_read_channel_def message_limit_new_usize f last_n_def Let_def)
qed

theorem load_recent_messages_window_witness:
  "load_recent_messages (LoadRecentMessages (UserId 2) (ChannelId 1) (message_limit_new 50)
     (Some (ChannelSequence 0)) None) sample_chat = Inr [sample_message]"
proof -
  have "role_of sample_chat (ChannelId 1) (UserId 2) \<noteq> None"
    by (simp add: role_of_def sample_defs accepted_state_def)
  moreover have "channel_messages sample_chat (ChannelId 1) = [sample_message]"
    by (simp add: channel_messages_def sample_defs accepted_state_def new_message_def push_message_def
        hm_get_or_def)
  ultimately show ?thesis
    using load_recent_messages_window [OF sample_chat_inv, of "UserId 2" "ChannelId 1" 50 "Some (ChannelSequence 0)" None]
    by simp
qed

section \<open>Editing and deleting\<close>

lemma channel_messages_update:
  assumes "msg_inv s"
  shows "channel_messages (s\<lparr> messages := update_message i f (messages s) \<rparr>) c =
    map (at_id i f) (channel_messages s c)"
  using log_update(2) [OF log_invD(4) [OF msg_invD(1) [OF assms]]] by (simp add: channel_messages_log)



text \<open>
  C23. Deleting leaves a tombstone: the text and the edit stamp are gone, no reaction to the
  message is left, the message keeps its place and sequence, deleting again changes nothing,
  and only the sender, a moderator of the channel, or a sending member who moderates the circle
  of a non-private channel may do it.
\<close>

theorem delete_message_tombstone:
  assumes "msg_inv s" and "delete_message now cmd s = (Inr m', s')"
  shows "msg_inv s' \<and> msg_deleted_at m' \<noteq> None \<and> msg_body m' = tombstone_body \<and> msg_edited_at m' = None \<and>
    (\<forall>x \<in> set (message_reactions s'). fst x \<noteq> dlm_message_id cmd) \<and>
    (\<forall>c. map msg_sequence (channel_messages s' c) = map msg_sequence (channel_messages s c)) \<and>
    find_message s' (dlm_message_id cmd) = Some m' \<and>
    delete_message now' cmd s' = (Inr m', s') \<and>
    (\<exists>m. find_message s (dlm_message_id cmd) = Some m \<and>
       (msg_sender_id m = dlm_actor cmd \<or>
        can_moderate_channel (role_of s (msg_channel_id m) (dlm_actor cmd)) \<or>
        circle_moderates s (msg_channel_id m) (dlm_actor cmd) \<and>
        can_send_to_channel (role_of s (msg_channel_id m) (dlm_actor cmd))))"
proof -
  let ?i = "dlm_message_id cmd"
  from assms(2) obtain m where m: "find_message s ?i = Some m" "may_delete s (dlm_actor cmd) m"
    and res: "m' = (if msg_deleted_at m = None then entomb now m else m)"
      "s' = (if msg_deleted_at m = None then s\<lparr> messages := update_message ?i (entomb now) (messages s),
             message_reactions := filter (\<lambda>r. fst r \<noteq> ?i) (message_reactions s) \<rparr> else s)"
    by (auto simp: delete_message_def split: option.splits if_splits)
  note inv = msg_invD [OF assms(1)]
  have inv': "msg_inv s'" using delete_message_inv [OF assms(1), of now cmd] assms(2) by simp
  from find_message_SomeD [OF m(1)] have mem: "m \<in> set (log_all (messages s))" "msg_id m = ?i" by auto
  have ids: "msg_id m' = ?i" "msg_deleted_at m' \<noteq> None" "msg_channel_id m' = msg_channel_id m"
    "msg_sender_id m' = msg_sender_id m"
    by (auto simp: res mem entomb_def)
  have "m' \<in> set (log_all (messages s'))"
    using mem log_update(1) [OF log_invD(4) [OF inv(1)], of ?i "entomb now"]
    by (auto simp: res at_id_def image_iff intro!: bexI [of _ m])
  note mem' = this
  have tomb: "msg_body m' = tombstone_body \<and> msg_edited_at m' = None \<and>
      (\<forall>x \<in> set (message_reactions s'). fst x \<noteq> ?i)"
    using msg_invD(4) [OF inv'] mem' ids(1,2) unfolding tombs_inv_def by metis
  have find': "find_message s' ?i = Some m'"
    using find_message_unique [OF msg_invD(1) [OF inv'] mem'] ids(1) by simp
  have same: "memberships s' = memberships s" "channels s' = channels s" "circle_memberships s' = circle_memberships s"
    by (simp_all add: res)
  have moderates: "circle_moderates s' c u = circle_moderates s c u" for c u
    unfolding circle_moderates_def circle_role_of_def same ..
  have "may_delete s' (dlm_actor cmd) m'"
    using m(2) unfolding may_delete_def same ids moderates .
  with find' ids have again: "delete_message now' cmd s' = (Inr m', s')"
    by (auto simp: delete_message_def)
  have "map msg_sequence (channel_messages s' c) = map msg_sequence (channel_messages s c)" for c
    using log_update(2) [OF log_invD(4) [OF inv(1)], of ?i "entomb now" c]
      keeps_shapeD(5) [OF keeps_shape_at_id [OF keeps_shape_entomb]]
    by (simp add: res channel_messages_log comp_def)
  moreover have "msg_sender_id m = dlm_actor cmd \<or>
      can_moderate_channel (role_of s (msg_channel_id m) (dlm_actor cmd)) \<or>
      circle_moderates s (msg_channel_id m) (dlm_actor cmd) \<and>
      can_send_to_channel (role_of s (msg_channel_id m) (dlm_actor cmd))"
    using m(2) by (auto simp: may_delete_def role_of_def split: option.splits)
  ultimately show ?thesis using inv' ids tomb find' again m(1) by blast
qed

theorem delete_message_tombstone_witness:
  "\<exists>m' s'. delete_message 9000 (DeleteMessage (UserId 1) (MessageId 7)) sample_chat = (Inr m', s') \<and>
     msg_body m' = tombstone_body \<and> find_message s' (MessageId 7) = Some m'"
proof -
  let ?cmd = "DeleteMessage (UserId 1) (MessageId 7)"
  have "\<exists>m'. fst (delete_message 9000 ?cmd sample_chat) = Inr m'"
    by (simp add: delete_message_def may_delete_def find_message_def all_messages_def sample_defs
        accepted_state_def new_message_def push_message_def hm_get_or_def hm_insert_def)
  then obtain m' s' where run: "delete_message 9000 ?cmd sample_chat = (Inr m', s')"
    by (cases "delete_message 9000 ?cmd sample_chat") auto
  with delete_message_tombstone [OF sample_chat_inv run] show ?thesis by auto
qed

section \<open>Reactions\<close>

lemma reaction_count:
  assumes "distinct rs"
  shows "length (filter (\<lambda>r. fst r = i \<and> snd (snd r) = e) rs) = card {u. (i, u, e) \<in> set rs}"
proof -
  have "{r \<in> set rs. fst r = i \<and> snd (snd r) = e} = (\<lambda>u. (i, u, e)) ` {u. (i, u, e) \<in> set rs}"
    by force
  moreover have "inj_on (\<lambda>u. (i, u, e)) {u. (i, u, e) \<in> set rs}" by (simp add: inj_on_def)
  ultimately have "card {r \<in> set rs. fst r = i \<and> snd (snd r) = e} = card {u. (i, u, e) \<in> set rs}"
    by (simp add: card_image)
  with assms show ?thesis by (simp add: distinct_length_filter Int_def conj_commute)
qed

text \<open>
  C29. Toggling a reaction is an involution: the second toggle by the same user restores the set
  of reactions. Each toggle changes that one reaction only, reports whether it is now there, and
  reports the number of distinct users who have this reaction on the message; only members of
  the channel can react and only to messages that are not deleted.
\<close>

theorem toggle_reaction_involution:
  assumes "msg_inv s" and "toggle_message_reaction actor i emoji s = (Inr ch, s')"
  shows "msg_inv s' \<and>
    (\<exists>m. find_message s i = Some m \<and> msg_deleted_at m = None \<and> is_member s (msg_channel_id m) actor) \<and>
    (rc_added ch \<longleftrightarrow> (i, actor, emoji) \<in> set (message_reactions s')) \<and>
    (rc_added ch \<longleftrightarrow> (i, actor, emoji) \<notin> set (message_reactions s)) \<and>
    set (message_reactions s') - {(i, actor, emoji)} = set (message_reactions s) - {(i, actor, emoji)} \<and>
    rc_count ch = as_u32 (card {u. (i, u, emoji) \<in> set (message_reactions s')}) \<and>
    (\<exists>ch' s''. toggle_message_reaction actor i emoji s' = (Inr ch', s'') \<and>
       set (message_reactions s'') = set (message_reactions s))"
proof -
  from assms(2) obtain m where m: "find_message s i = Some m" "msg_deleted_at m = None"
    "hm_has (memberships s) (msg_channel_id m, actor)"
    and add: "rc_added ch \<longleftrightarrow> (i, actor, emoji) \<notin> set (message_reactions s)"
    and s': "s' = s\<lparr> message_reactions := (if rc_added ch then hs_insert (i, actor, emoji) (message_reactions s)
                                    else hs_remove (i, actor, emoji) (message_reactions s)) \<rparr>"
    and count: "rc_count ch = as_u32 (length (filter (\<lambda>r. fst r = i \<and> snd (snd r) = emoji) (message_reactions s')))"
    by (elim toggle_ok)
  have inv': "msg_inv s'" using toggle_inv [OF assms(1), of actor i emoji] assms(2) by simp
  have find': "find_message s' i = Some m" using m(1) by (simp add: s' find_message_def all_messages_def)
  have mem': "hm_has (memberships s') (msg_channel_id m, actor)" using m(3) by (simp add: s')
  obtain r'' s'' where run: "toggle_message_reaction actor i emoji s' = (r'', s'')"
    by (cases "toggle_message_reaction actor i emoji s'")
  with find' m(2) mem' have second: "\<exists>ch'. r'' = Inr ch'"
    by (auto simp: toggle_message_reaction_def Let_def)
  then obtain ch' where ch': "r'' = Inr ch'" by blast
  from toggle_ok [OF run [unfolded ch']]
  have add': "rc_added ch' \<longleftrightarrow> (i, actor, emoji) \<notin> set (message_reactions s')"
    and s'': "s'' = s'\<lparr> message_reactions := (if rc_added ch' then hs_insert (i, actor, emoji) (message_reactions s')
                                    else hs_remove (i, actor, emoji) (message_reactions s')) \<rparr>" by blast+
  have dist: "distinct (message_reactions s')" using msg_invD(4) [OF inv'] by (simp add: tombs_inv_def)
  have "rc_count ch = as_u32 (card {u. (i, u, emoji) \<in> set (message_reactions s')})"
    unfolding count reaction_count [OF dist] ..
  moreover have "set (message_reactions s'') = set (message_reactions s)"
    using add add' by (auto simp: s'' s')
  moreover have "rc_added ch \<longleftrightarrow> (i, actor, emoji) \<in> set (message_reactions s')"
    "set (message_reactions s') - {(i, actor, emoji)} = set (message_reactions s) - {(i, actor, emoji)}"
    by (auto simp: s')
  ultimately show ?thesis
    using inv' m add run ch' by (simp add: is_member_def)
qed

theorem toggle_reaction_involution_witness:
  "\<exists>ch s'. toggle_message_reaction (UserId 2) (MessageId 7) (lit '':)'') sample_chat = (Inr ch, s') \<and>
     rc_added ch \<and> (MessageId 7, UserId 2, lit '':)'') \<in> set (message_reactions s')"
proof -
  let ?run = "toggle_message_reaction (UserId 2) (MessageId 7) (lit '':)'') sample_chat"
  have "\<exists>ch. fst ?run = Inr ch \<and> rc_added ch"
    by (simp add: toggle_message_reaction_def find_message_def all_messages_def sample_defs
        accepted_state_def new_message_def push_message_def hm_get_or_def hm_insert_def hm_has_iff Let_def)
  then obtain ch s' where run: "?run = (Inr ch, s')" "rc_added ch" by (cases ?run) auto
  with toggle_reaction_involution [OF sample_chat_inv run(1)] show ?thesis by blast
qed

section \<open>Read markers\<close>

text \<open>
  C30. A read marker only moves forward and never past the last message: marking sets it to the
  larger of the old marker and the requested sequence, a sequence beyond the log is refused, and
  no other membership changes.
\<close>

theorem mark_read_monotone:
  assumes "msg_inv s" and "mark_read cmd s = (r, s')"
  shows "msg_inv s' \<and>
    (case r of
       Inl e \<Rightarrow> s' = s \<and> (seq_nat (mrk_sequence cmd) > length (channel_messages s (mrk_channel_id cmd)) \<or>
                       \<not> is_member s (mrk_channel_id cmd) (mrk_actor cmd))
     | Inr m' \<Rightarrow> (\<exists>m. hm_get (memberships s) (mrk_channel_id cmd, mrk_actor cmd) = Some m \<and>
         hm_get (memberships s') (mrk_channel_id cmd, mrk_actor cmd) = Some m' \<and>
         m' = m\<lparr> mb_last_read_sequence := max (mrk_sequence cmd) (mb_last_read_sequence m) \<rparr> \<and>
         seq_nat (mb_last_read_sequence m') \<le> length (channel_messages s (mrk_channel_id cmd)) \<and>
         (\<forall>k. k = (mrk_channel_id cmd, mrk_actor cmd) \<or> hm_get (memberships s') k = hm_get (memberships s) k)))"
proof -
  have inv': "msg_inv s'" using mark_read_inv [OF assms(1), of cmd] assms(2) by simp
  note len = latest_length [OF msg_invD(1) [OF assms(1)], of "mrk_channel_id cmd"]
  show ?thesis
  proof (cases r)
    case (Inl e)
    with assms(2) len inv' show ?thesis
      by (auto simp: mark_read_def Let_def channel_messages_log seq_less_nat is_member_def hm_has_iff
          split: option.splits if_splits)
  next
    case (Inr m')
    from assms(2) Inr obtain m where m: "hm_get (memberships s) (mrk_channel_id cmd, mrk_actor cmd) = Some m"
      "m' = m\<lparr> mb_last_read_sequence := max (mrk_sequence cmd) (mb_last_read_sequence m) \<rparr>"
      "s' = s\<lparr> memberships := hm_insert (mrk_channel_id cmd, mrk_actor cmd) m' (memberships s) \<rparr>"
      by (auto elim: mark_read_ok)
    have "seq_nat (mb_last_read_sequence m') \<le> length (channel_messages s (mrk_channel_id cmd))"
      using msg_invD(5) [OF inv', unfolded reads_inv_def, rule_format, of "(mrk_channel_id cmd, mrk_actor cmd)" m']
      by (simp add: m(3) channel_messages_log)
    with Inr m inv' show ?thesis by simp
  qed
qed

theorem mark_read_monotone_witness:
  "\<exists>m' s'. mark_read (MarkRead (UserId 2) (ChannelId 1) (ChannelSequence 1)) sample_chat = (Inr m', s') \<and>
     mb_last_read_sequence m' = ChannelSequence 1 \<and> msg_inv s'"
proof -
  let ?cmd = "MarkRead (UserId 2) (ChannelId 1) (ChannelSequence 1)"
  have "\<exists>m'. fst (mark_read ?cmd sample_chat) = Inr m' \<and> mb_last_read_sequence m' = ChannelSequence 1"
    by (simp add: mark_read_def channel_messages_def sample_defs accepted_state_def new_message_def
        push_message_def hm_get_or_def hm_insert_def latest_of_def last_opt_def seq_order Let_def)
  then obtain m' s' where run: "mark_read ?cmd sample_chat = (Inr m', s')" "mb_last_read_sequence m' = ChannelSequence 1"
    by (cases "mark_read ?cmd sample_chat") auto
  with mark_read_monotone [OF sample_chat_inv run(1)] show ?thesis by auto
qed

section \<open>Media\<close>



end
