(* ===== verification/Actor_Properties.thy ===== *)
theory Actor_Properties
  imports Chat_Actor Message_Properties
begin

text \<open>
  What the chat actor guarantees: an accepted message is announced once as long as the cache of
  published messages remembers it, participants are announced with their first and last
  connection, a message is stored before it is announced, and a subscriber misses no message.
\<close>

section \<open>Events\<close>

definition accepted_id :: "chat_event \<Rightarrow> message_id option" where
  "accepted_id e = (case e of E_MessageAccepted m \<Rightarrow> Some (msg_id m) | _ \<Rightarrow> None)"

definition accepted_ids :: "(channel_id \<times> chat_event) list \<Rightarrow> message_id list" where
  "accepted_ids bs = List.map_filter (accepted_id \<circ> snd) bs"

lemma accepted_ids_append [simp]: "accepted_ids (xs @ ys) = accepted_ids xs @ accepted_ids ys"
  by (simp add: accepted_ids_def map_filter_def)

lemma accepted_ids_single [simp]:
  "accepted_ids [(c, e)] = (case accepted_id e of None \<Rightarrow> [] | Some i \<Rightarrow> [i])"
  by (simp add: accepted_ids_def map_filter_def split: option.splits)

lemma accepted_ids_Nil [simp]: "accepted_ids [] = []"
  by (simp add: accepted_ids_def map_filter_def)

lemma events_of_publish:
  "events_of (channel_publish c e a) d = events_of a d @ (if c = d then [e] else [])"
  by (simp add: events_of_def channel_publish_def)

lemma events_of_cong: "broadcasts a = broadcasts b \<Longrightarrow> events_of a c = events_of b c"
  by (simp add: events_of_def)

text \<open>The small steps change only what they are about.\<close>

lemma actor_frames [simp]:
  "actor_repository (channel_publish c e a) = actor_repository a" "published_messages (channel_publish c e a) = published_messages a"
  "distributed_presence (channel_publish c e a) = distributed_presence a"
  "actor_repository (channel_mut c a) = actor_repository a" "published_messages (channel_mut c a) = published_messages a"
  "distributed_presence (channel_mut c a) = distributed_presence a"
  "actor_repository (set_participants c ps a) = actor_repository a"
  "published_messages (set_participants c ps a) = published_messages a"
  "distributed_presence (set_participants c ps a) = distributed_presence a"
  by (simp_all add: channel_publish_def channel_mut_def set_participants_def)

lemma drop_connection_frames [simp]:
  "actor_repository (drop_connection c u conn a) = actor_repository a"
  "published_messages (drop_connection c u conn a) = published_messages a"
  "distributed_presence (drop_connection c u conn a) = distributed_presence a"
  by (simp_all add: drop_connection_def Let_def split: option.splits)

section \<open>The cache of published messages\<close>

text \<open>Equal elements of a list are more than \<open>k\<close> positions apart.\<close>

definition apart :: "nat \<Rightarrow> 'a list \<Rightarrow> bool" where
  "apart k xs \<longleftrightarrow> (\<forall>i j. i < j \<and> j < length xs \<and> xs ! i = xs ! j \<longrightarrow> i + k < j)"

lemma apart_Nil [simp]: "apart k []"
  by (simp add: apart_def)

lemma apart_snoc:
  assumes "apart k xs" "x \<notin> set (drop (length xs - k) xs)"
  shows "apart k (xs @ [x])"
  unfolding apart_def
proof (intro allI impI, elim conjE)
  fix i j
  assume ij: "i < j" "j < length (xs @ [x])" "(xs @ [x]) ! i = (xs @ [x]) ! j"
  show "i + k < j"
  proof (cases "j = length xs")
    case True
    with ij have xi: "xs ! i = x" "i < length xs" by (simp_all add: nth_append)
    have "\<not> length xs - k \<le> i"
    proof
      assume le: "length xs - k \<le> i"
      with xi have "drop (length xs - k) xs ! (i - (length xs - k)) = x" by simp
      moreover have "i - (length xs - k) < length (drop (length xs - k) xs)" using le xi by simp
      ultimately show False using assms(2) nth_mem by metis
    qed
    with True show ?thesis by simp
  next
    case False
    with ij have "j < length xs" by simp
    with ij assms(1) show ?thesis by (simp add: apart_def nth_append)
  qed
qed

definition cache_inv :: "'r chat_actor \<Rightarrow> bool" where
  "cache_inv a \<longleftrightarrow> (let ids = accepted_ids (broadcasts a) in
     published_order a = drop (length ids - published_message_cache) ids \<and>
     set (published_messages a) = set (published_order a) \<and> distinct (published_order a) \<and>
     apart published_message_cache ids)"

lemma cache_inv_new [simp]: "cache_inv (chat_actor_new r d)"
  by (simp add: cache_inv_def chat_actor_new_def)

lemma cache_inv_cong:
  "published_order b = published_order a \<Longrightarrow> published_messages b = published_messages a \<Longrightarrow>
   broadcasts b = broadcasts a \<Longrightarrow> cache_inv b = cache_inv a"
  by (simp add: cache_inv_def)

lemma cache_inv_publish:
  "accepted_id e = None \<Longrightarrow> cache_inv (channel_publish c e a) = cache_inv a"
  by (simp add: cache_inv_def channel_publish_def)

lemma cache_inv_channel_mut [simp]: "cache_inv (channel_mut c a) = cache_inv a"
  by (rule cache_inv_cong) (simp_all add: channel_mut_def)

lemma cache_inv_set_participants [simp]: "cache_inv (set_participants c ps a) = cache_inv a"
  by (rule cache_inv_cong) (simp_all add: set_participants_def)

lemma cache_inv_drop_connection [simp]: "cache_inv (drop_connection c u conn a) = cache_inv a"
  by (simp add: drop_connection_def Let_def split: option.splits)

lemma cache_inv_repository [simp]: "cache_inv (a\<lparr> actor_repository := r \<rparr>) = cache_inv a"
  by (rule cache_inv_cong) simp_all

text \<open>What \<^const>\<open>publish_message\<close> does with a message that is not in the cache.\<close>

definition next_order :: "message_id \<Rightarrow> message_id list \<Rightarrow> message_id list" where
  "next_order i order = (if length order = published_message_cache then tl order else order) @ [i]"

lemma publish_message_new:
  assumes "msg_id m \<notin> set (published_messages a)" "set (published_messages a) = set (published_order a)"
    "distinct (published_order a)"
  shows "broadcasts (publish_message m a) = broadcasts a @ [(msg_channel_id m, E_MessageAccepted m)] \<and>
    published_order (publish_message m a) = next_order (msg_id m) (published_order a) \<and>
    set (published_messages (publish_message m a)) = set (next_order (msg_id m) (published_order a))"
  using assms
  by (auto simp: publish_message_def Let_def next_order_def channel_publish_def channel_mut_def
      published_message_cache_def split: list.splits)

lemma next_order_drop:
  assumes "order = drop (length ids - published_message_cache) ids"
  shows "next_order i order = drop (length (ids @ [i]) - published_message_cache) (ids @ [i])"
proof (cases "length ids < published_message_cache")
  case True
  then show ?thesis using assms by (simp add: next_order_def)
next
  case False
  have "0 < published_message_cache" by (simp add: published_message_cache_def)
  with False assms show ?thesis
    by (simp add: next_order_def drop_Suc [symmetric] Suc_diff_le tl_drop)
qed

lemma next_order_distinct: "distinct order \<Longrightarrow> i \<notin> set order \<Longrightarrow> distinct (next_order i order)"
  by (cases order) (auto simp: next_order_def)

lemma cache_inv_publish_message:
  assumes "cache_inv a"
  shows "cache_inv (publish_message m a)"
proof (cases "msg_id m \<in> set (published_messages a)")
  case True
  then show ?thesis using assms by (simp add: publish_message_def)
next
  case False
  let ?ids = "accepted_ids (broadcasts a)"
  from assms have inv: "published_order a = drop (length ?ids - published_message_cache) ?ids"
    "set (published_messages a) = set (published_order a)" "distinct (published_order a)"
    "apart published_message_cache ?ids"
    unfolding cache_inv_def Let_def by blast+
  note new = publish_message_new [OF False inv(2,3)]
  have ids: "accepted_ids (broadcasts (publish_message m a)) = ?ids @ [msg_id m]"
    using new by (simp add: accepted_id_def)
  have notin: "msg_id m \<notin> set (published_order a)" using False inv(2) by simp
  have "apart published_message_cache (?ids @ [msg_id m])"
    using apart_snoc [OF inv(4)] notin unfolding inv(1) .
  moreover have "distinct (next_order (msg_id m) (published_order a))"
    using next_order_distinct [OF inv(3) notin] .
  ultimately show ?thesis
    unfolding cache_inv_def Let_def ids
    using new next_order_drop [OF inv(1)] by simp
qed

lemma actor_subscribe_cache: "cache_inv a \<Longrightarrow> cache_inv (snd (actor_subscribe R conn c u a))"
  by (auto simp: actor_subscribe_def Let_def cache_inv_publish accepted_id_def split: sum.splits prod.splits)

lemma actor_leave_cache: "cache_inv a \<Longrightarrow> cache_inv (actor_leave R c u conn a)"
  by (auto simp: actor_leave_def Let_def cache_inv_publish accepted_id_def split: option.splits prod.splits)

lemma announce_cache:
  "cache_inv a \<Longrightarrow> (\<And>x. accepted_id (event x) = None) \<Longrightarrow> cache_inv (snd (announce channel event outcome a))"
  by (auto simp: announce_def Let_def cache_inv_publish split: sum.splits)

lemma actor_step_cache: "cache_inv a \<Longrightarrow> cache_inv (snd (actor_step R g cmd a))"
proof (cases cmd)
  case (A_SendMessage c u p b q)
  assume "cache_inv a"
  with A_SendMessage show ?thesis
    by (auto simp: actor_send_message_def Let_def intro: cache_inv_publish_message split: sum.splits prod.splits)
qed (auto simp: cache_inv_publish accepted_id_def publish_presence_def
      intro: actor_subscribe_cache actor_leave_cache announce_cache cache_inv_publish_message
      split: sum.splits chat_event.splits option.splits)

lemma actor_run_cache: "cache_inv a \<Longrightarrow> cache_inv (actor_run R xs a)"
  by (induction xs arbitrary: a) (simp_all add: actor_step_cache)

section \<open>Presence\<close>

text \<open>
  Who is present according to the events of a channel, and that a joining is only announced for
  somebody who is away and a leaving only for somebody who is present.
\<close>

definition joined_after :: "user_id \<Rightarrow> chat_event \<Rightarrow> bool \<Rightarrow> bool" where
  "joined_after u e present =
     (case e of
        E_ParticipantJoined _ v \<Rightarrow> present \<or> v = u
      | E_ParticipantLeft _ v \<Rightarrow> present \<and> v \<noteq> u
      | _ \<Rightarrow> present)"

definition joined_now :: "chat_event list \<Rightarrow> user_id \<Rightarrow> bool" where
  "joined_now es u = fold (joined_after u) es False"

definition announces :: "chat_event \<Rightarrow> chat_event list \<Rightarrow> bool" where
  "announces e before =
     (case e of
        E_ParticipantJoined _ v \<Rightarrow> \<not> joined_now before v
      | E_ParticipantLeft _ v \<Rightarrow> joined_now before v
      | _ \<Rightarrow> True)"

definition well_announced :: "chat_event list \<Rightarrow> bool" where
  "well_announced es \<longleftrightarrow> (\<forall>before e after. es = before @ e # after \<longrightarrow> announces e before)"

lemma joined_now_snoc [simp]: "joined_now (es @ [e]) u = joined_after u e (joined_now es u)"
  by (simp add: joined_now_def)

lemma joined_now_Nil [simp]: "\<not> joined_now [] u"
  by (simp add: joined_now_def)

lemma well_announced_Nil [simp]: "well_announced []"
  by (simp add: well_announced_def)

lemma well_announced_snoc [simp]: "well_announced (es @ [e]) \<longleftrightarrow> well_announced es \<and> announces e es"
proof
  assume all: "well_announced (es @ [e])"
  have "announces x before" if "es = before @ x # after" for before x after
    using all that unfolding well_announced_def by (metis append_Cons append_assoc)
  then show "well_announced es \<and> announces e es"
    using all unfolding well_announced_def by simp
next
  assume es: "well_announced es \<and> announces e es"
  show "well_announced (es @ [e])"
    unfolding well_announced_def
  proof (intro allI impI)
    fix before x after
    assume "es @ [e] = before @ x # after"
    then consider "before = es" "x = e" | after' where "es = before @ x # after'"
      by (cases after rule: rev_cases) auto
    then show "announces x before" using es unfolding well_announced_def by cases simp_all
  qed
qed

definition presence_inv :: "'r chat_actor \<Rightarrow> bool" where
  "presence_inv a \<longleftrightarrow> (\<forall>c. well_announced (events_of a c) \<and>
     (\<forall>u. joined_now (events_of a c) u = hm_has (participants_of a c) u) \<and>
     (\<forall>u. hm_get (participants_of a c) u \<noteq> Some []))"

definition presence_event :: "chat_event \<Rightarrow> bool" where
  "presence_event e = (case e of E_ParticipantJoined _ _ \<Rightarrow> True | E_ParticipantLeft _ _ \<Rightarrow> True | _ \<Rightarrow> False)"

lemma participants_of_channel_mut [simp]: "participants_of (channel_mut c a) d = participants_of a d"
  by (auto simp: participants_of_def channel_mut_def channel_state_new_def hm_has_iff split: option.splits)

lemma participants_of_publish [simp]: "participants_of (channel_publish c e a) d = participants_of a d"
  by (simp add: participants_of_def channel_publish_def)

lemma participants_of_set [simp]:
  "participants_of (set_participants c ps a) d = (if d = c then ps else participants_of a d)"
  by (simp add: participants_of_def set_participants_def)

lemma events_of_simps [simp]:
  "events_of (channel_mut c a) d = events_of a d" "events_of (set_participants c ps a) d = events_of a d"
  "events_of (a\<lparr> actor_repository := r \<rparr>) d = events_of a d"
  by (simp_all add: events_of_def channel_mut_def set_participants_def)

lemma presence_inv_cong:
  "(\<And>c. events_of b c = events_of a c) \<Longrightarrow> (\<And>c. participants_of b c = participants_of a c) \<Longrightarrow>
   presence_inv a \<Longrightarrow> presence_inv b"
  by (simp add: presence_inv_def)

lemma presence_inv_publish:
  "\<not> presence_event e \<Longrightarrow> presence_inv a \<Longrightarrow> presence_inv (channel_publish c e a)"
  by (auto simp: presence_inv_def events_of_publish announces_def joined_after_def presence_event_def
      split: chat_event.splits)

lemma presence_inv_repository [simp]: "presence_inv (a\<lparr> actor_repository := r \<rparr>) = presence_inv a"
  by (simp add: presence_inv_def participants_of_def)

lemma presence_inv_channel_mut [simp]: "presence_inv (channel_mut c a) = presence_inv a"
  by (simp add: presence_inv_def)

lemma publish_message_frame [simp]:
  "participants_of (publish_message m a) c = participants_of a c"
  "actor_repository (publish_message m a) = actor_repository a"
  "distributed_presence (publish_message m a) = distributed_presence a"
  by (simp_all add: publish_message_def Let_def participants_of_def channel_publish_def channel_mut_def
      channel_state_new_def hm_has_iff split: list.splits option.splits)

lemma events_of_publish_message:
  "events_of (publish_message m a) c = events_of a c @
     (if msg_id m \<notin> set (published_messages a) \<and> c = msg_channel_id m then [E_MessageAccepted m] else [])"
  by (simp add: publish_message_def Let_def events_of_def channel_publish_def channel_mut_def split: list.splits)

lemma presence_inv_publish_message: "presence_inv a \<Longrightarrow> presence_inv (publish_message m a)"
  by (auto simp: presence_inv_def events_of_publish_message announces_def joined_after_def)

lemma presence_inv_announce:
  "presence_inv a \<Longrightarrow> (\<And>x. \<not> presence_event (event x)) \<Longrightarrow> presence_inv (snd (announce channel event outcome a))"
  by (auto simp: announce_def Let_def intro!: presence_inv_publish split: sum.splits)

text \<open>One more participant, one more connection, one connection less, one participant less.\<close>

lemma actor_subscribe_effect:
  assumes "\<not> distributed_presence a" "actor_subscribe R conn c u a = (r, a')"
  shows "(\<exists>e. r = Inl e \<and> a' = a) \<or>
    (\<exists>sub. r = Inr sub \<and> sub_connection_id sub = conn \<and>
       cr_load_recent_messages R (LoadRecentMessages u c (message_limit_new 50) None None) (actor_repository a)
         = Inr (sub_history sub) \<and>
       sub_receiver sub = length (events_of a c) \<and> actor_repository a' = actor_repository a \<and>
       published_messages a' = published_messages a \<and>
       participants_of a' = (participants_of a)(c := hm_insert u
         (hs_insert conn (hm_get_or [] (participants_of a c) u)) (participants_of a c)) \<and>
       events_of a' = (events_of a)(c := events_of a c @
         (if hm_get_or [] (participants_of a c) u = [] then [E_ParticipantJoined c u] else [])))"
proof -
  have dist: "\<not> distributed_presence (set_participants c ps (channel_mut c a))" for ps
    using assms(1) by (simp add: set_participants_def channel_mut_def)
  show ?thesis
  proof (cases "cr_load_recent_messages R (LoadRecentMessages u c (message_limit_new 50) None None) (actor_repository a)")
    case (Inl e)
    with assms(2) show ?thesis by (auto simp: actor_subscribe_def)
  next
    case (Inr history)
    with assms(2) dist show ?thesis
      by (cases "hm_get_or [] (participants_of a c) u = []")
        (auto simp: actor_subscribe_def Let_def fun_eq_iff events_of_publish)
  qed
qed

lemma presence_inv_subscribe:
  assumes "presence_inv a" "\<not> distributed_presence a"
  shows "presence_inv (snd (actor_subscribe R conn c u a))"
proof -
  obtain r a' where run: "actor_subscribe R conn c u a = (r, a')" by (cases "actor_subscribe R conn c u a")
  have inv: "well_announced (events_of a d)" "joined_now (events_of a d) v = hm_has (participants_of a d) v"
    "hm_get (participants_of a d) v \<noteq> Some []" for d v
    using assms(1) by (simp_all add: presence_inv_def)
  have away: "hm_get_or [] (participants_of a c) u = [] \<longleftrightarrow> \<not> hm_has (participants_of a c) u"
    using inv(3) [of c u] by (auto simp: hm_get_or_def hm_has_iff split: option.splits)
  have ne: "hs_insert conn conns \<noteq> []" for conns by (auto simp: hs_insert_def)
  from actor_subscribe_effect [OF assms(2) run] show ?thesis
  proof (elim disjE exE conjE)
    fix e
    assume "a' = a"
    with run assms(1) show ?thesis by simp
  next
    assume "participants_of a' = (participants_of a)(c := hm_insert u
         (hs_insert conn (hm_get_or [] (participants_of a c) u)) (participants_of a c))"
      "events_of a' = (events_of a)(c := events_of a c @
         (if hm_get_or [] (participants_of a c) u = [] then [E_ParticipantJoined c u] else []))"
    with run inv ne show ?thesis
      by (cases "hm_has (participants_of a c) u") (auto simp: presence_inv_def away announces_def joined_after_def)
  qed
qed

lemma actor_leave_cases:
  assumes "\<not> distributed_presence a"
  obtains (nothing) "participants_of (actor_leave R c u conn a) = participants_of a" "\<And>d. events_of (actor_leave R c u conn a) d = events_of a d"
    | (fewer) conns where "hm_get (participants_of a c) u = Some conns" "hs_remove conn conns \<noteq> []"
        "participants_of (actor_leave R c u conn a) = (participants_of a)(c := hm_insert u (hs_remove conn conns) (participants_of a c))"
        "\<And>d. events_of (actor_leave R c u conn a) d = events_of a d"
    | (gone) conns where "hm_get (participants_of a c) u = Some conns"
        "participants_of (actor_leave R c u conn a) = (participants_of a)(c := hm_remove u (hm_insert u [] (participants_of a c)))"
        "\<And>d. events_of (actor_leave R c u conn a) d = events_of a d @ (if d = c then [E_ParticipantLeft c u] else [])"
proof (cases "hm_get (actor_channels a) c")
  case None
  show ?thesis by (rule nothing) (simp_all add: actor_leave_def None)
next
  case st: (Some st)
  then have ps: "participants_of a c = participants st" by (simp add: participants_of_def)
  have dist: "\<not> distributed_presence (set_participants c qs a)" for qs
    using assms by (simp add: set_participants_def)
  show ?thesis
  proof (cases "hm_get (participants st) u")
    case None
    with st dist have eq: "actor_leave R c u conn a = set_participants c (participants st) a"
      by (simp add: actor_leave_def Let_def)
    show ?thesis by (rule nothing) (auto simp: eq ps)
  next
    case (Some conns)
    show ?thesis
    proof (cases "hs_remove conn conns = []")
      case True
      with st Some dist have eq: "actor_leave R c u conn a = channel_publish c (E_ParticipantLeft c u)
          (set_participants c (hm_remove u (hm_insert u [] (participants st)))
            (set_participants c (hm_insert u [] (participants st)) a))"
        by (simp add: actor_leave_def Let_def)
      show ?thesis by (rule gone [of conns]) (auto simp: eq ps Some events_of_publish)
    next
      case False
      with st Some dist have eq: "actor_leave R c u conn a = set_participants c (hm_insert u (hs_remove conn conns) (participants st)) a"
        by (simp add: actor_leave_def Let_def)
      show ?thesis by (rule fewer [of conns]) (use False in \<open>auto simp: eq ps Some\<close>)
    qed
  qed
qed

lemma presence_inv_leave:
  assumes "presence_inv a" "\<not> distributed_presence a"
  shows "presence_inv (actor_leave R c u conn a)"
proof -
  have inv: "well_announced (events_of a d)" "joined_now (events_of a d) v = hm_has (participants_of a d) v"
    "hm_get (participants_of a d) v \<noteq> Some []" for d v
    using assms(1) by (simp_all add: presence_inv_def)
  show ?thesis
  proof (cases rule: actor_leave_cases [OF assms(2), of R c u conn])
    case 1
    then show ?thesis using assms(1) by (simp add: presence_inv_def)
  next
    case (2 conns)
    have "hm_has (participants_of a c) u" using 2(1) by (simp add: hm_has_iff)
    with inv 2(2) show ?thesis unfolding presence_inv_def 2(3,4) by (simp, blast)
  next
    case (3 conns)
    have "joined_now (events_of a c) u" using 3(1) inv(2) by (simp add: hm_has_iff)
    then have "well_announced (events_of a c @ [E_ParticipantLeft c u])"
      using inv(1) by (simp add: announces_def)
    with inv show ?thesis unfolding presence_inv_def 3(2,3) by (simp add: joined_after_def conj_commute, blast)
  qed
qed

definition local_command :: "actor_command \<Rightarrow> bool" where
  "local_command cmd = (case cmd of A_ExternalPresence _ \<Rightarrow> False | _ \<Rightarrow> True)"

lemma presence_inv_send:
  "presence_inv a \<Longrightarrow> presence_inv (snd (actor_send_message R i now c u p b q a))"
  by (simp add: actor_send_message_def Let_def presence_inv_publish_message split: sum.splits prod.splits)

lemma actor_step_presence:
  assumes "presence_inv a" "\<not> distributed_presence a" "local_command cmd"
  shows "presence_inv (snd (actor_step R g cmd a))"
  using assms
  by (cases cmd) (simp_all add: presence_event_def local_command_def presence_inv_subscribe presence_inv_leave
      presence_inv_announce presence_inv_publish presence_inv_publish_message presence_inv_send
      split: sum.splits chat_event.splits option.splits)

lemma actor_subscribe_distributed [simp]:
  "distributed_presence (snd (actor_subscribe R conn c u a)) = distributed_presence a"
  by (simp add: actor_subscribe_def Let_def split: sum.splits prod.splits)

lemma actor_leave_distributed [simp]:
  "distributed_presence (actor_leave R c u conn a) = distributed_presence a"
  by (simp add: actor_leave_def Let_def split: option.splits prod.splits)

lemma announce_distributed [simp]:
  "distributed_presence (snd (announce channel event outcome a)) = distributed_presence a"
  by (simp add: announce_def Let_def split: sum.splits)

lemma actor_send_distributed [simp]:
  "distributed_presence (snd (actor_send_message R i now c u p b q a)) = distributed_presence a"
  by (simp add: actor_send_message_def Let_def split: sum.splits prod.splits)

lemma actor_step_distributed [simp]:
  "distributed_presence (snd (actor_step R g cmd a)) = distributed_presence a"
  by (cases cmd) (simp_all add: publish_presence_def split: sum.splits chat_event.splits option.splits)

lemma actor_run_presence:
  "presence_inv a \<Longrightarrow> \<not> distributed_presence a \<Longrightarrow> \<forall>x \<in> set xs. local_command (snd x) \<Longrightarrow>
   presence_inv (actor_run R xs a)"
  by (induction xs arbitrary: a) (simp_all add: actor_step_presence)

end
