(* ===== verification/Actor_Delivery.thy ===== *)
theory Actor_Delivery
  imports Actor_Properties
begin

text \<open>
  Delivery of messages: the contract between the chat actor and a repository, what the actor
  achieves with every repository that keeps it, and the proof that the in-memory repository does.
\<close>

section \<open>Delivery\<close>

text \<open>
  A log of stored message identifiers and the events of every channel grow together: what is new
  in the log of a channel is announced on the channel, and what is announced is in the log.
\<close>

definition event_ids :: "chat_event list \<Rightarrow> message_id set" where
  "event_ids es = (\<Union>e \<in> set es. set_option (accepted_id e))"

definition delivers :: "(channel_id \<Rightarrow> message_id list) \<Rightarrow> (channel_id \<Rightarrow> chat_event list) \<Rightarrow>
    (channel_id \<Rightarrow> message_id list) \<Rightarrow> (channel_id \<Rightarrow> chat_event list) \<Rightarrow> bool" where
  "delivers l es l' es' \<longleftrightarrow> (\<forall>c. \<exists>stored sent. l' c = l c @ stored \<and> es' c = es c @ sent \<and>
     set stored \<subseteq> event_ids sent \<and> event_ids sent \<subseteq> set (l' c))"

lemma event_ids_simps [simp]:
  "event_ids [] = {}"
  "event_ids (e # es) = set_option (accepted_id e) \<union> event_ids es"
  "event_ids (es @ fs) = event_ids es \<union> event_ids fs"
  by (simp_all add: event_ids_def)

lemma event_ids_iff: "i \<in> event_ids es \<longleftrightarrow> (\<exists>m. E_MessageAccepted m \<in> set es \<and> msg_id m = i)"
  by (induction es) (auto simp: accepted_id_def split: chat_event.splits)

lemma delivers_refl [simp]: "delivers l es l es"
  by (simp add: delivers_def)

lemma delivers_trans:
  assumes "delivers l es l' es'" "delivers l' es' l'' es''"
  shows "delivers l es l'' es''"
  unfolding delivers_def
proof
  fix c
  from assms obtain s1 v1 s2 v2 where "l' c = l c @ s1" "es' c = es c @ v1" "set s1 \<subseteq> event_ids v1"
    "event_ids v1 \<subseteq> set (l' c)" "l'' c = l' c @ s2" "es'' c = es' c @ v2" "set s2 \<subseteq> event_ids v2"
    "event_ids v2 \<subseteq> set (l'' c)"
    unfolding delivers_def by metis
  then show "\<exists>stored sent. l'' c = l c @ stored \<and> es'' c = es c @ sent \<and> set stored \<subseteq> event_ids sent \<and>
      event_ids sent \<subseteq> set (l'' c)"
    by (intro exI [of _ "s1 @ s2"] exI [of _ "v1 @ v2"]) auto
qed

lemma delivers_publish:
  "accepted_id e = None \<Longrightarrow> delivers l (events_of a) l (events_of (channel_publish c e a))"
  by (auto simp: delivers_def events_of_publish)

lemma delivers_publish_message:
  assumes "msg_id m \<in> set (l (msg_channel_id m))"
  shows "delivers l (events_of a) l (events_of (publish_message m a))"
  using assms by (auto simp: delivers_def events_of_publish_message accepted_id_def)

lemma delivers_new_message:
  assumes "msg_id m \<notin> set (published_messages a)"
  shows "delivers l (events_of a) (l(msg_channel_id m := l (msg_channel_id m) @ [msg_id m])) (events_of (publish_message m a))"
  using assms by (auto simp: delivers_def events_of_publish_message accepted_id_def)

section \<open>The contract\<close>

locale message_repository =
  fixes R :: "'r chat_repository"
    and inv :: "'r \<Rightarrow> bool"
    and fresh :: "message_id \<Rightarrow> 'r \<Rightarrow> bool"
    and log :: "'r \<Rightarrow> channel_id \<Rightarrow> message_id list"
  assumes append: "inv r \<Longrightarrow> fresh i r \<Longrightarrow> cr_append_message R i now cmd r = (res, r') \<Longrightarrow> inv r' \<and>
      (case res of
         Inl _ \<Rightarrow> log r' = log r
       | Inr m \<Rightarrow> msg_id m = i \<and> log r' = (log r)(msg_channel_id m := log r (msg_channel_id m) @ [msg_id m]))"
    and append_idempotent: "inv r \<Longrightarrow> fresh i r \<Longrightarrow> cr_append_message_idempotent R i now cmd request r = (res, r') \<Longrightarrow>
      inv r' \<and>
      (case res of
         Inl _ \<Rightarrow> log r' = log r
       | Inr m \<Rightarrow> log r' = log r \<and> msg_id m \<in> set (log r (msg_channel_id m)) \<or>
           msg_id m = i \<and> log r' = (log r)(msg_channel_id m := log r (msg_channel_id m) @ [msg_id m]))"
    and edit: "inv r \<Longrightarrow> inv (snd (cr_edit_message R now e r)) \<and> log (snd (cr_edit_message R now e r)) = log r"
    and delete: "inv r \<Longrightarrow> inv (snd (cr_delete_message R now d r)) \<and> log (snd (cr_delete_message R now d r)) = log r"
    and toggle: "inv r \<Longrightarrow> inv (snd (cr_toggle_message_reaction R u i emoji r)) \<and>
      log (snd (cr_toggle_message_reaction R u i emoji r)) = log r"
    and load: "inv r \<Longrightarrow> cr_load_message R i r = Inr m \<Longrightarrow> msg_id m \<in> set (log r (msg_channel_id m))"
    and register: "inv r \<Longrightarrow> inv (snd (cr_register_presence R l r)) \<and> log (snd (cr_register_presence R l r)) = log r"
    and unregister: "inv r \<Longrightarrow> inv (snd (cr_unregister_presence R l r)) \<and> log (snd (cr_unregister_presence R l r)) = log r"
    and expire: "inv r \<Longrightarrow> inv (snd (cr_expire_presence R r)) \<and> log (snd (cr_expire_presence R r)) = log r"
begin

lemma send_delivers:
  assumes "inv (actor_repository a)" "fresh i (actor_repository a)" "i \<notin> set (published_messages a)"
    and "actor_send_message R i now c u p b q a = (res, a')"
  shows "inv (actor_repository a') \<and>
    delivers (log (actor_repository a)) (events_of a) (log (actor_repository a')) (events_of a')"
proof -
  obtain resp r where resp: "(resp, r) = (case q of
      Some request \<Rightarrow> cr_append_message_idempotent R i now (SendMessage u c p b) request (actor_repository a)
    | None \<Rightarrow> cr_append_message R i now (SendMessage u c p b) (actor_repository a))"
    by (metis surj_pair)
  have law: "inv r \<and> (case resp of Inl _ \<Rightarrow> log r = log (actor_repository a)
     | Inr m \<Rightarrow> log r = log (actor_repository a) \<and> msg_id m \<in> set (log (actor_repository a) (msg_channel_id m)) \<or>
         msg_id m = i \<and> log r = (log (actor_repository a))(msg_channel_id m := log (actor_repository a) (msg_channel_id m) @ [msg_id m]))"
  proof (cases q)
    case None
    with resp have "cr_append_message R i now (SendMessage u c p b) (actor_repository a) = (resp, r)" by simp
    from append [OF assms(1,2) this] show ?thesis by (simp split: sum.splits)
  next
    case (Some request)
    with resp have "cr_append_message_idempotent R i now (SendMessage u c p b) request (actor_repository a) = (resp, r)"
      by simp
    from append_idempotent [OF assms(1,2) this] show ?thesis .
  qed
  have a': "a' = (case resp of Inl _ \<Rightarrow> a\<lparr> actor_repository := r \<rparr> | Inr m \<Rightarrow> publish_message m (a\<lparr> actor_repository := r \<rparr>))"
    using assms(4) unfolding actor_send_message_def Let_def resp [symmetric] by (auto split: sum.splits)
  have ev: "events_of (publish_message m (a\<lparr> actor_repository := r \<rparr>)) = events_of (publish_message m a)" for m
    by (simp add: fun_eq_iff events_of_publish_message)
  show ?thesis
  proof (cases resp)
    case (Inl e)
    with law show ?thesis by (simp add: a' fun_eq_iff delivers_def)
  next
    case (Inr m)
    with law assms(3) delivers_publish_message [of m "log (actor_repository a)" a] delivers_new_message [of m a "log (actor_repository a)"]
    show ?thesis by (auto simp: a' ev)
  qed
qed

lemma announce_delivers:
  assumes "inv (snd outcome) \<and> log (snd outcome) = log (actor_repository a)" "\<And>x. accepted_id (event x) = None"
  shows "inv (actor_repository (snd (announce channel event outcome a))) \<and>
    delivers (log (actor_repository a)) (events_of a) (log (actor_repository (snd (announce channel event outcome a))))
      (events_of (snd (announce channel event outcome a)))"
  using assms
  by (auto simp: announce_def Let_def delivers_def events_of_publish split: sum.splits)

lemma subscribe_delivers:
  assumes "inv (actor_repository a)"
  shows "inv (actor_repository (snd (actor_subscribe R conn c u a))) \<and>
    delivers (log (actor_repository a)) (events_of a) (log (actor_repository (snd (actor_subscribe R conn c u a))))
      (events_of (snd (actor_subscribe R conn c u a)))"
proof -
  have ev: "events_of (drop_connection c u conn b) d = events_of b d" for b :: "'r chat_actor" and d
    by (simp add: drop_connection_def Let_def split: option.splits)
  show ?thesis
    using assms register [OF assms]
    by (auto simp: actor_subscribe_def Let_def delivers_def events_of_publish ev accepted_id_def
        split: sum.splits prod.splits) (metis snd_conv)+
qed

lemma leave_delivers:
  assumes "inv (actor_repository a)"
  shows "inv (actor_repository (actor_leave R c u conn a)) \<and>
    delivers (log (actor_repository a)) (events_of a) (log (actor_repository (actor_leave R c u conn a)))
      (events_of (actor_leave R c u conn a))"
  using assms unregister [OF assms]
  by (auto simp: actor_leave_def Let_def delivers_def events_of_publish accepted_id_def
      split: option.splits prod.splits)

lemma step_delivers:
  assumes "inv (actor_repository a)" "fresh (gen_message g) (actor_repository a)" "gen_message g \<notin> set (published_messages a)"
  shows "inv (actor_repository (snd (actor_step R g cmd a))) \<and>
    delivers (log (actor_repository a)) (events_of a) (log (actor_repository (snd (actor_step R g cmd a))))
      (events_of (snd (actor_step R g cmd a)))"
proof -
  have none: "accepted_id (E_MessageReactionChanged x) = None" "accepted_id (E_MessageEdited m) = None"
    "accepted_id (E_MessageDeleted m) = None" "accepted_id (E_ChannelCreated k v w) = None"
    "accepted_id (E_ParticipantJoined k v) = None" "accepted_id (E_ParticipantLeft k v) = None" for x m k v w
    by (simp_all add: accepted_id_def)
  have publish: "delivers (log (actor_repository a)) (events_of a) (log (actor_repository a)) (events_of (channel_publish c e (channel_mut c a)))"
    if "accepted_id e = None" for c e
    using that by (auto simp: delivers_def events_of_publish)
  show ?thesis
  proof (cases cmd)
    case (A_SendMessage c u p b q)
    then show ?thesis using send_delivers [OF assms, of "gen_now g" c u p b q]
      by (cases "actor_send_message R (gen_message g) (gen_now g) c u p b q a") auto
  next
    case (A_ExternalMessage i)
    then show ?thesis using assms(1) load [OF assms(1), of i]
      by (auto intro: delivers_publish_message split: sum.splits)
  next
    case (A_ExpirePresence)
    then show ?thesis using expire [OF assms(1)] by (simp add: delivers_def)
  next
    case (A_ExternalPresence e)
    then show ?thesis using assms(1) by (auto simp: publish_presence_def none publish split: chat_event.splits)
  qed (use assms(1) edit delete toggle in \<open>auto simp: none publish subscribe_delivers leave_delivers announce_delivers
      split: chat_event.splits option.splits\<close>)
qed

end

text \<open>A run in which every generated message identifier is new when it is generated.\<close>

primrec supplied :: "'r chat_repository \<Rightarrow> (message_id \<Rightarrow> 'r \<Rightarrow> bool) \<Rightarrow> (generated \<times> actor_command) list \<Rightarrow> 'r chat_actor \<Rightarrow>
    bool" where
  "supplied R fresh [] a \<longleftrightarrow> True"
| "supplied R fresh (x # xs) a \<longleftrightarrow> fresh (gen_message (fst x)) (actor_repository a) \<and>
     gen_message (fst x) \<notin> set (published_messages a) \<and> supplied R fresh xs (snd (actor_step R (fst x) (snd x) a))"

context message_repository
begin

lemma run_delivers:
  "inv (actor_repository a) \<Longrightarrow> supplied R fresh xs a \<Longrightarrow>
   inv (actor_repository (actor_run R xs a)) \<and>
   delivers (log (actor_repository a)) (events_of a) (log (actor_repository (actor_run R xs a))) (events_of (actor_run R xs a))"
proof (induction xs arbitrary: a)
  case (Cons x xs)
  then have step: "inv (actor_repository (snd (actor_step R (fst x) (snd x) a)))"
    "delivers (log (actor_repository a)) (events_of a) (log (actor_repository (snd (actor_step R (fst x) (snd x) a))))
      (events_of (snd (actor_step R (fst x) (snd x) a)))"
    using step_delivers [of a "fst x" "snd x"] by simp_all
  with Cons.IH [OF step(1)] Cons.prems(2) delivers_trans [OF step(2)] show ?case by simp
qed simp

end

section \<open>The in-memory repository keeps the contract\<close>

definition stored_ids :: "repository_state \<Rightarrow> channel_id \<Rightarrow> message_id list" where
  "stored_ids s c = map msg_id (channel_messages s c)"

lemma stored_ids_update:
  assumes "repo_inv s" "keeps_shape f"
  shows "map msg_id (log_of (update_message i f (messages s)) c) = map msg_id (log_of (messages s) c)"
  using log_update(2) [OF log_invD(4) [OF msg_invD(1) [OF repo_invD(1) [OF assms(1)]]]]
  by (simp add: keeps_shapeD [OF keeps_shape_at_id [OF assms(2)]] comp_def)

lemma stored_ids_edit:
  assumes "repo_inv s"
  shows "stored_ids (snd (edit_message now cmd s)) = stored_ids s"
  using stored_ids_update [OF assms keeps_shape_edit]
  by (auto simp: edit_message_def Let_def stored_ids_def channel_messages_log fun_eq_iff split: option.splits)

lemma stored_ids_delete:
  assumes "repo_inv s"
  shows "stored_ids (snd (delete_message now cmd s)) = stored_ids s"
  using stored_ids_update [OF assms keeps_shape_entomb]
  by (auto simp: delete_message_def Let_def stored_ids_def channel_messages_log fun_eq_iff split: option.splits)

lemma stored_ids_toggle: "stored_ids (snd (toggle_message_reaction u i e s)) = stored_ids s"
  by (simp add: toggle_message_reaction_def Let_def stored_ids_def channel_messages_def fun_eq_iff split: option.splits)

lemma stored_ids_accepted:
  assumes "accepts i now cmd s m"
  shows "stored_ids (accepted_state m s) = (stored_ids s)(msg_channel_id m := stored_ids s (msg_channel_id m) @ [msg_id m])"
    "stored_ids ((accepted_state m s)\<lparr> command_receipts := rs \<rparr>) =
      (stored_ids s)(msg_channel_id m := stored_ids s (msg_channel_id m) @ [msg_id m])"
  by (simp_all add: stored_ids_def channel_messages_log fun_eq_iff accepted_state_def log_of_push)

lemma stored_message:
  assumes "repo_inv s" "find_message s i = Some m"
  shows "msg_id m \<in> set (stored_ids s (msg_channel_id m))"
proof -
  from find_message_SomeD [OF assms(2)] have "m \<in> set (log_all (messages s))" by simp
  from log_channel [OF msg_invD(1) [OF repo_invD(1) [OF assms(1)]] this] show ?thesis
    by (simp add: stored_ids_def channel_messages_log)
qed

lemma append_contract:
  assumes "repo_inv s" "fresh_message i s" "append_message i now cmd s = (res, s')"
  shows "repo_inv s' \<and> (case res of
      Inl _ \<Rightarrow> stored_ids s' = stored_ids s
    | Inr m \<Rightarrow> msg_id m = i \<and> stored_ids s' = (stored_ids s)(msg_channel_id m := stored_ids s (msg_channel_id m) @ [msg_id m]))"
  using append_message_repo_inv [OF assms(1,2), of now cmd] append_message_result [OF repo_inv_member_users [OF assms(1)] assms(3)]
    assms(3) acceptsD(1) stored_ids_accepted(1)
  by (auto split: sum.splits)

lemma append_idempotent_contract:
  assumes "repo_inv s" "fresh_message i s" "append_message_idempotent i now cmd request s = (res, s')"
  shows "repo_inv s' \<and> (case res of
      Inl _ \<Rightarrow> stored_ids s' = stored_ids s
    | Inr m \<Rightarrow> stored_ids s' = stored_ids s \<and> msg_id m \<in> set (stored_ids s (msg_channel_id m)) \<or>
        msg_id m = i \<and> stored_ids s' = (stored_ids s)(msg_channel_id m := stored_ids s (msg_channel_id m) @ [msg_id m]))"
proof (cases "hm_get (command_receipts s) (snd_actor cmd, request)")
  case None
  from append_idempotent_result [OF repo_inv_member_users [OF assms(1)] None assms(3)]
    append_idempotent_repo_inv [OF assms(1,2), of now cmd request] assms(3) acceptsD(1) stored_ids_accepted(2)
  show ?thesis by (auto split: sum.splits)
next
  case (Some j)
  from append_idempotent_replay [OF Some, of i now] assms(3) append_idempotent_repo_inv [OF assms(1,2), of now cmd request]
    stored_message [OF assms(1), of j]
  show ?thesis by (auto split: sum.splits option.splits if_splits)
qed

interpretation in_memory: message_repository in_memory_repository repo_inv fresh_message stored_ids
proof unfold_locales
  fix r i now cmd res r'
  assume "repo_inv r" "fresh_message i r" "cr_append_message in_memory_repository i now cmd r = (res, r')"
  then show "repo_inv r' \<and> (case res of Inl _ \<Rightarrow> stored_ids r' = stored_ids r
    | Inr m \<Rightarrow> msg_id m = i \<and> stored_ids r' = (stored_ids r)(msg_channel_id m := stored_ids r (msg_channel_id m) @ [msg_id m]))"
    using append_contract [of r i now cmd] by (simp add: in_memory_repository_def)
next
  fix r i now cmd request res r'
  assume "repo_inv r" "fresh_message i r" "cr_append_message_idempotent in_memory_repository i now cmd request r = (res, r')"
  then show "repo_inv r' \<and> (case res of Inl _ \<Rightarrow> stored_ids r' = stored_ids r
    | Inr m \<Rightarrow> stored_ids r' = stored_ids r \<and> msg_id m \<in> set (stored_ids r (msg_channel_id m)) \<or>
       msg_id m = i \<and> stored_ids r' = (stored_ids r)(msg_channel_id m := stored_ids r (msg_channel_id m) @ [msg_id m]))"
    using append_idempotent_contract [of r i now cmd request] by (simp add: in_memory_repository_def)
next
  fix r i m
  assume "repo_inv r" "cr_load_message in_memory_repository i r = Inr m"
  then show "msg_id m \<in> set (stored_ids r (msg_channel_id m))"
    using stored_message [of r i m] by (simp add: in_memory_repository_def load_message_def split: option.splits)
qed (simp_all add: in_memory_repository_def edit_message_repo_inv delete_message_repo_inv toggle_repo_inv
      stored_ids_edit stored_ids_delete stored_ids_toggle)

section \<open>What subscribers get\<close>

text \<open>
  C6. An accepted message is announced once: between two announcements of the same message the
  actor has announced more than 4096 other ones, whatever the commands, the order in which local
  sends and notifications of the database arrive, and the repository.
\<close>

theorem message_announced_once:
  "apart published_message_cache (accepted_ids (broadcasts (actor_run R xs (chat_actor_new r distributed))))"
  using actor_run_cache [OF cache_inv_new, of R xs r distributed] by (simp add: cache_inv_def Let_def)


definition sample_generated :: "nat \<Rightarrow> generated" where
  "sample_generated n = \<lparr> gen_connection = ConnectionId (word_of_nat n), gen_message = MessageId (word_of_nat (n + 20)), gen_now = 0 \<rparr>"

definition sample_visits :: "(generated \<times> actor_command) list" where
  "sample_visits = [(sample_generated 1, A_Subscribe (ChannelId 1) (UserId 2)),
     (sample_generated 2, A_Subscribe (ChannelId 1) (UserId 2)),
     (sample_generated 3, A_Leave (ChannelId 1) (UserId 2) (ConnectionId 1))]"

lemma sample_history:
  "cr_load_recent_messages in_memory_repository (LoadRecentMessages (UserId 2) (ChannelId 1) (message_limit_new 50) None None)
     sample_state = Inr []"
  by (simp add: in_memory_repository_def load_recent_messages_def role_of_def can_read_channel_def channel_messages_def
      sample_defs hm_get_or_def Let_def)

lemmas actor_eval = channel_mut_def channel_state_new_def participants_of_def set_participants_def
  channel_publish_def events_of_def hs_insert_def hs_remove_def hm_or_insert_def hm_insert_def hm_get_or_def hm_has_def

text \<open>The actor after one and after two visits.\<close>

definition sample_actor :: "connection_id list \<Rightarrow> repository_state chat_actor" where
  "sample_actor conns =
     \<lparr> actor_channels = [(ChannelId 1, \<lparr> participants = [(UserId 2, conns)] \<rparr>)], published_messages = [], published_order = [],
       actor_repository = sample_state, distributed_presence = False,
       broadcasts = [(ChannelId 1, E_ParticipantJoined (ChannelId 1) (UserId 2))] \<rparr>"

lemma sample_first_visit:
  "actor_subscribe in_memory_repository conn (ChannelId 1) (UserId 2) (chat_actor_new sample_state False) =
     (Inr \<lparr> sub_connection_id = conn, sub_receiver = 0, sub_history = [] \<rparr>, sample_actor [conn])"
  unfolding actor_subscribe_def chat_actor_new_def
  by (simp add: sample_history sample_actor_def actor_eval Let_def)

lemma sample_next_visit:
  "conns \<noteq> [] \<Longrightarrow> conn \<notin> set conns \<Longrightarrow>
   snd (actor_subscribe in_memory_repository conn (ChannelId 1) (UserId 2) (sample_actor conns)) = sample_actor (conns @ [conn])"
  unfolding actor_subscribe_def
  by (simp add: sample_history sample_actor_def actor_eval Let_def)

lemma sample_leave:
  "hs_remove conn conns \<noteq> [] \<Longrightarrow>
   actor_leave in_memory_repository (ChannelId 1) (UserId 2) conn (sample_actor conns) = sample_actor (hs_remove conn conns)"
  by (simp add: actor_leave_def sample_actor_def set_participants_def hm_insert_def Let_def)



lemma sample_state_repo_inv: "repo_inv sample_state"
proof -
  have "users_inv (users sample_state)" "channels_inv (channels sample_state) (channels_by_slug sample_state)"
    "circles_inv (circles sample_state) (circles_by_slug sample_state)"
    by (auto simp: users_inv_def channels_inv_def circles_inv_def sample_defs hm_wf_def split: if_splits)
  moreover have "members_inv (memberships sample_state) (channels sample_state) (users sample_state)"
    "circle_members_inv (circle_memberships sample_state) (users sample_state)"
    by (auto simp: members_inv_def circle_members_inv_def sample_defs hm_wf_def hm_has_iff split: if_splits)
  moreover have "confined (memberships sample_state) (channels sample_state) (circle_memberships sample_state)"
    "favorites_inv (favorite_circles sample_state) (circle_memberships sample_state)"
    "anchors_inv (anchors sample_state) (channels sample_state)" "live_log (messages sample_state) (channels sample_state)"
    by (auto simp: confined_def favorites_inv_def anchors_inv_def anchors_def live_log_def sample_defs hm_get_or_def split: if_splits)
  ultimately show ?thesis using sample_state_inv by (simp add: repo_inv_def)
qed

lemma sample_send_stored:
  "\<exists>s. append_message (MessageId 23) 0 sample_send sample_state = (Inr (sample_message\<lparr> msg_id := MessageId 23 \<rparr>), s) \<and>
     channel_messages s (ChannelId 1) = [sample_message\<lparr> msg_id := MessageId 23 \<rparr>]"
  by (simp add: append_message_def role_of_def can_send_to_channel_def check_parent_def next_sequence_def new_message_def
      push_message_def channel_messages_def seq_first_def sample_defs hm_get_or_def hm_insert_def Let_def)


end
