(* ===== verification/Session_Properties.thy ===== *)
theory Session_Properties
  imports Socket_Session Actor_Delivery
begin

text \<open>
  What a session guarantees: the repository stays consistent under every client command, a
  connection that ends leaves nothing behind, access that is lost ends the subscriptions, and
  errors tell the client their class only.
\<close>

section \<open>Connections of a user\<close>

definition connections :: "'r chat_actor \<Rightarrow> channel_id \<Rightarrow> user_id \<Rightarrow> connection_id set" where
  "connections a c u = set (hm_get_or [] (participants_of a c) u)"

lemma connections_leave:
  "connections (actor_leave R c u conn a) d v = connections a d v - (if d = c \<and> v = u then {conn} else {})"
proof (cases "hm_get (actor_channels a) c")
  case None
  then show ?thesis by (auto simp: actor_leave_def connections_def participants_of_def hm_get_or_def)
next
  case st: (Some st)
  have frame: "participants_of (b\<lparr> actor_repository := r \<rparr>) x = participants_of b x" for b :: "'a chat_actor" and r x
    by (simp add: participants_of_def)
  have ps: "participants_of a c = participants st" using st by (simp add: participants_of_def)
  show ?thesis
  proof (cases "hm_get (participants st) u")
    case None
    with st show ?thesis by (auto simp: actor_leave_def connections_def hm_get_or_def frame ps Let_def)
  next
    case (Some conns)
    have "x = conn" if "hs_remove conn conns = []" "x \<in> set conns" for x
    proof -
      have "set (hs_remove conn conns) = set conns - {conn}" by simp
      with that show ?thesis by auto
    qed
    with st Some show ?thesis
      by (auto simp: actor_leave_def connections_def hm_get_or_def frame ps Let_def split: if_splits)
  qed
qed

lemma connections_cong: "participants_of b = participants_of a \<Longrightarrow> connections b = connections a"
  by (simp add: connections_def fun_eq_iff)

lemma connections_subscribe:
  assumes "actor_subscribe in_memory_repository conn c u a = (r, a')"
  shows "connections a' d v = connections a d v \<union> (if is_ok r \<and> d = c \<and> v = u then {conn} else {})"
    "is_ok r \<Longrightarrow> sub_connection_id (projr r) = conn" "actor_repository a' = actor_repository a"
proof -
  have frame: "participants_of (b\<lparr> actor_repository := s \<rparr>) x = participants_of b x" for b :: "repository_state chat_actor" and s x
    by (simp add: participants_of_def)
  note defs = actor_subscribe_def in_memory_repository_def
  show "connections a' d v = connections a d v \<union> (if is_ok r \<and> d = c \<and> v = u then {conn} else {})"
    using assms by (auto simp: defs Let_def connections_def hm_get_or_def frame split: sum.splits if_splits option.splits)
  show "is_ok r \<Longrightarrow> sub_connection_id (projr r) = conn" "actor_repository a' = actor_repository a"
    using assms by (auto simp: defs Let_def split: sum.splits if_splits)
qed

lemma leave_repository [simp]: "actor_repository (actor_leave in_memory_repository c u conn a) = actor_repository a"
  by (simp add: actor_leave_def in_memory_repository_def Let_def split: option.splits prod.splits)

lemma publish_presence_repository [simp]: "actor_repository (publish_presence e a) = actor_repository a"
  by (simp add: publish_presence_def split: chat_event.splits)

section \<open>The repository of an engine follows the repository machine\<close>

definition repo_moves :: "environment \<Rightarrow> repository_state \<Rightarrow> repository_state \<Rightarrow> bool" where
  "repo_moves E s s' \<longleftrightarrow> s' = s \<or> (\<exists>cmd. repo_guard E s cmd \<and> repo_next E s cmd = s')"

definition supply_fresh :: "engine_environment \<Rightarrow> engine_supply \<Rightarrow> repository_state \<Rightarrow> bool" where
  "supply_fresh E g s \<longleftrightarrow> fresh_channel (sup_channel g) s \<and> fresh_circle (sup_circle g) s \<and> fresh_message (gen_message g) s \<and>
     fresh_slug (env_unicode E) (lit ''dm-'' @ env_simple E (sup_uuid g)) s \<and>
     fresh_slug (env_unicode E) (lit ''dm-group-'' @ env_simple E (sup_uuid g)) s"

abbreviation crates :: "engine_environment \<Rightarrow> environment" where
  "crates \<equiv> environment.truncate"

lemma crates_simps [simp]:
  "env_unicode (crates E) = env_unicode E" "env_simple (crates E) = env_simple E"
  "env_hyphenated (crates E) = env_hyphenated E" "env_sha256 (crates E) = env_sha256 E"
  by (simp_all add: environment.defs)

lemma generated_simps [simp]:
  "gen_message (generated.truncate g) = gen_message g" "gen_now (generated.truncate g) = gen_now g"
  "gen_connection (generated.truncate g) = gen_connection g"
  by (simp_all add: generated.defs)

lemma repo_moves_refl [simp, intro]: "repo_moves E s s"
  by (simp add: repo_moves_def)

lemma repo_moves_step: "repo_step E cmd s = Some s' \<Longrightarrow> repo_fresh E cmd s \<Longrightarrow> repo_moves E s s'"
  unfolding repo_moves_def repo_guard_def repo_next_def by (rule disjI2, rule exI [of _ cmd]) simp

lemma repo_moves_reachable: "repo_moves E s s' \<Longrightarrow> repo_reachable E s \<Longrightarrow> repo_reachable E s'"
  unfolding repo_moves_def by (metis reachable.step)

lemmas total_steps = repo_step.simps(2-5,9-34)

lemmas repo_moves_ops = total_steps [THEN repo_moves_step, of "crates E" for E, simplified]

lemma engine_repository_frames [simp]:
  "engine_repository (snd (engine_query q e)) = engine_repository e"
  "engine_repository (snd (engine_update f e)) = snd (f (engine_repository e))"
  "engine_running (snd (engine_query q e)) = engine_running e"
  "engine_running (snd (engine_update f e)) = engine_running e"
  "engine_running (snd (engine_command g cmd e)) = engine_running e"
  by (simp_all add: engine_query_def engine_update_def set_repository_def engine_command_def split: prod.split)

lemma send_repository:
  "actor_repository (snd (actor_send_message in_memory_repository i now c u parent body r a)) =
     snd (case r of
            None \<Rightarrow> append_message i now (SendMessage u c parent body) (actor_repository a)
          | Some request \<Rightarrow> append_message_idempotent i now (SendMessage u c parent body) request (actor_repository a))"
  by (simp add: actor_send_message_def in_memory_repository_def Let_def split: prod.split sum.split option.split)

lemma actor_step_moves:
  assumes "fresh_message (gen_message g) (actor_repository a)"
  shows "repo_moves (crates E) (actor_repository a) (actor_repository (snd (actor_step in_memory_repository g cmd a)))"
proof (cases cmd)
  case (A_Subscribe c u)
  then show ?thesis using connections_subscribe(3) [of "gen_connection g" c u a] by (metis actor_step.simps(2) apfst_conv prod.collapse repo_moves_refl snd_conv)
next
  case (A_Leave c u conn)
  then show ?thesis by simp
next
  case (A_SendMessage c u parent body r)
  then show ?thesis using assms by (cases r) (auto simp: send_repository intro!: repo_moves_ops)
qed (auto simp: announce_def in_memory_repository_def Let_def split: sum.splits chat_event.splits option.splits intro!: repo_moves_ops)

lemma engine_command_moves:
  "fresh_message (gen_message g) (engine_repository e) \<Longrightarrow>
   repo_moves (crates E) (engine_repository e) (engine_repository (snd (engine_command g cmd e)))"
  using actor_step_moves [of g "engine_actor e" E cmd] by (auto simp: engine_command_def split: prod.split)

lemma engine_leave_frames [simp]:
  "engine_repository (snd (engine_leave g c u conn e)) = engine_repository e"
  "engine_running (snd (engine_leave g c u conn e)) = engine_running e"
  by (simp_all add: engine_leave_def engine_command_def)

lemma disconnect_frames [simp]:
  "engine_repository (snd (disconnect g u c st)) = engine_repository (snd st)"
  "engine_running (snd (disconnect g u c st)) = engine_running (snd st)"
  by (simp_all add: disconnect_def split: option.split)

lemma disconnects_frames [simp]:
  "engine_repository (snd (fold (disconnect g u) cs st)) = engine_repository (snd st)"
  "engine_running (snd (fold (disconnect g u) cs st)) = engine_running (snd st)"
  by (induction cs arbitrary: st) simp_all

lemma disconnect_inaccessible_frames [simp]:
  "engine_repository (snd (disconnect_inaccessible_channels E g u st)) = engine_repository (snd st)"
  "engine_running (snd (disconnect_inaccessible_channels E g u st)) = engine_running (snd st)"
  by (simp_all add: disconnect_inaccessible_channels_def Let_def)

lemma engine_subscribe_frames [simp]:
  "engine_repository (snd (engine_subscribe g c u e)) = engine_repository e"
  "engine_running (snd (engine_subscribe g c u e)) = engine_running e"
  using connections_subscribe(3) [of "gen_connection g" c u "engine_actor e"]
  by (cases "actor_subscribe in_memory_repository (gen_connection g) c u (engine_actor e)";
      simp add: engine_subscribe_def engine_command_def)+

lemma subscribe_channel_frames [simp]:
  "engine_repository (snd (snd (subscribe_channel g u c st))) = engine_repository (snd st)"
  "engine_running (snd (snd (subscribe_channel g u c st))) = engine_running (snd st)"
proof -
  obtain subs e where d: "disconnect g u c st = (subs, e)" by fastforce
  obtain r e' where s: "engine_subscribe g c u e = (r, e')" by fastforce
  have "engine_repository e' = engine_repository e" "engine_running e' = engine_running e"
    using engine_subscribe_frames [of g c u e] s by simp_all
  moreover have "engine_repository e = engine_repository (snd st)" "engine_running e = engine_running (snd st)"
    using disconnect_frames [of g u c st] d by simp_all
  ultimately show "engine_repository (snd (snd (subscribe_channel g u c st))) = engine_repository (snd st)"
    "engine_running (snd (snd (subscribe_channel g u c st))) = engine_running (snd st)"
    by (simp_all add: subscribe_channel_def d s split: sum.split)
qed

lemma respond_snd [simp]: "snd (respond event subs answer) = (subs, snd answer)"
  by (simp add: respond_def)

lemma update_then_disconnect:
  "engine_repository (snd (snd (case engine_update f e of
      (Inl err, e) \<Rightarrow> (Inl err, subs, e) | (Inr _, e) \<Rightarrow> (Inr event, h (subs, e))))) = snd (f (engine_repository e))"
  "engine_running (snd (snd (case engine_update f e of
      (Inl err, e) \<Rightarrow> (Inl err, subs, e) | (Inr _, e) \<Rightarrow> (Inr event, h (subs, e))))) = engine_running e"
  if "\<And>st. engine_repository (snd (h st)) = engine_repository (snd st)"
    "\<And>st. engine_running (snd (h st)) = engine_running (snd st)"
  using that engine_repository_frames(2,4) [of f e] by (cases "engine_update f e"; auto split: sum.split)+

lemmas engine_updates = engine_set_circle_member_role_def engine_set_status_def engine_update_profile_def
  engine_open_direct_channel_def engine_create_channel_def engine_join_channel_def engine_update_channel_description_def
  engine_add_channel_member_def engine_mark_thread_read_def engine_mark_read_def engine_create_circle_def
  engine_rename_circle_def engine_create_circle_invitation_def engine_accept_circle_invitation_def

lemmas engine_queries = engine_signup_ordinal_def engine_list_users_def engine_list_circle_members_def
  engine_list_circle_users_def engine_list_channels_def engine_list_channel_users_def engine_list_joinable_channels_def
  engine_load_messages_def engine_load_thread_def engine_list_thread_summaries_def engine_list_channel_reactions_def
  engine_list_mentions_def engine_mark_mention_read_def engine_create_task_def engine_list_tasks_def
  engine_set_task_done_def engine_renew_presence_def engine_list_circles_def engine_create_invitation_def
  engine_inspect_invitation_def engine_decline_invitation_def engine_accept_invitation_def

lemmas engine_departures = engine_leave_channel_def engine_leave_circle_def engine_delete_circle_def

lemmas engine_mailbox = engine_send_message_idempotent_def engine_send_thread_reply_idempotent_def
  engine_send_message_command_def engine_toggle_reaction_def engine_edit_message_def engine_delete_message_def

lemma expand_direct_repository:
  "engine_repository (snd (engine_expand_direct_channel E g u c v e)) =
     snd (expand_direct_channel (env_unicode E) (env_simple E) (sup_channel g) (sup_uuid g) u c v (engine_repository e))"
  "engine_running (snd (engine_expand_direct_channel E g u c v e)) = engine_running e"
  by (auto simp: engine_expand_direct_channel_def engine_update_def engine_command_def set_repository_def Let_def
      split: prod.split sum.split)

lemma run_command_moves:
  assumes "supply_fresh E g (engine_repository e)"
  shows "repo_moves (crates E) (engine_repository e) (engine_repository (snd (snd (run_command E g u r cmd subs e))))"
  using assms
  by (cases cmd)
    (auto simp: supply_fresh_def engine_updates engine_queries engine_departures engine_mailbox expand_direct_repository
      update_then_disconnect validated_def Let_def split: sum.split option.split intro!: repo_moves_ops engine_command_moves)

end
