(* ===== verification/Server_Sessions.thy ===== *)
theory Server_Sessions
  imports Session_Properties
begin

text \<open>
  A server: one chat engine, the web socket sessions that are open on it, and commands over HTTP.
  Sessions and requests take turns in any order. The turn that ends the loop of a session also
  gives up its subscriptions.
\<close>

section \<open>The server machine\<close>

record server =
  srv_engine :: chat_engine
  srv_sessions :: "(nat, socket_session) hmap"

datatype (plugins only: size) server_input =
    Accept nat user bool bool
  | Turn nat engine_supply socket_input bool
  | Http engine_supply user_id "client_command client_envelope"

definition server_new :: "bool \<Rightarrow> server" where
  "server_new distributed =
     \<lparr> srv_engine = \<lparr> engine_actor = chat_actor_new repository_default distributed, engine_running = True \<rparr>,
       srv_sessions = [] \<rparr>"

definition end_turn :: "generated \<Rightarrow> nat \<Rightarrow> socket_session \<Rightarrow> chat_engine \<Rightarrow> server \<Rightarrow> server" where
  "end_turn g i s e sv =
     (if ss_open s then sv\<lparr> srv_engine := e, srv_sessions := hm_insert i s (srv_sessions sv) \<rparr>
      else sv\<lparr> srv_engine := close_session g s e, srv_sessions := hm_remove i (srv_sessions sv) \<rparr>)"

primrec server_step :: "(rstr \<Rightarrow> client_command client_envelope option) \<Rightarrow> engine_environment \<Rightarrow> server \<Rightarrow> server_input \<Rightarrow> server" where
  "server_step decode E sv (Accept i user shutdown updating) =
     (case open_socket user shutdown updating (srv_engine sv) of
        Some (_, Some s, e) \<Rightarrow> sv\<lparr> srv_engine := e, srv_sessions := hm_insert i s (srv_sessions sv) \<rparr>
      | Some (_, None, e) \<Rightarrow> sv\<lparr> srv_engine := e \<rparr>
      | None \<Rightarrow> sv)"
| "server_step decode E sv (Turn i g input sent) =
     (case hm_get (srv_sessions sv) i of
        None \<Rightarrow> sv
      | Some s \<Rightarrow> let (_, s, e) = socket_turn decode E g input sent s (srv_engine sv) in end_turn (generated.truncate g) i s e sv)"
| "server_step decode E sv (Http g u envelope) = sv\<lparr> srv_engine := snd (http_command E g u envelope (srv_engine sv)) \<rparr>"

text \<open>
  A socket gets an identity of its own, and generated identifiers are new. A connection is new
  when no participant of a channel has it.
\<close>

definition fresh_connection :: "connection_id \<Rightarrow> 'r chat_actor \<Rightarrow> bool" where
  "fresh_connection conn a \<longleftrightarrow> (\<forall>st \<in> set (hm_values (actor_channels a)). conn \<notin> set (concat (hm_values (participants st))))"

primrec server_guard :: "engine_environment \<Rightarrow> server \<Rightarrow> server_input \<Rightarrow> bool" where
  "server_guard E sv (Accept i user shutdown updating) \<longleftrightarrow> \<not> hm_has (srv_sessions sv) i"
| "server_guard E sv (Turn i g input sent) \<longleftrightarrow>
     supply_fresh E g (engine_repository (srv_engine sv)) \<and> fresh_connection (gen_connection g) (engine_actor (srv_engine sv))"
| "server_guard E sv (Http g u envelope) \<longleftrightarrow> supply_fresh E g (engine_repository (srv_engine sv))"

abbreviation server_reachable :: "bool \<Rightarrow> (rstr \<Rightarrow> client_command client_envelope option) \<Rightarrow> engine_environment \<Rightarrow> server \<Rightarrow> bool" where
  "server_reachable distributed decode E \<equiv> reachable (server_new distributed) (server_guard E) (server_step decode E)"

text \<open>A list of inputs, each of them permitted by the guard.\<close>

primrec server_run :: "(rstr \<Rightarrow> client_command client_envelope option) \<Rightarrow> engine_environment \<Rightarrow> server_input list \<Rightarrow> server \<Rightarrow>
    server option" where
  "server_run decode E [] sv = Some sv"
| "server_run decode E (x # xs) sv =
     (if server_guard E sv x then server_run decode E xs (server_step decode E sv x) else None)"

lemma server_run_reachable:
  "server_reachable d decode E sv \<Longrightarrow> server_run decode E xs sv = Some sv' \<Longrightarrow> server_reachable d decode E sv'"
  by (induction xs arbitrary: sv) (auto split: if_splits intro: reachable.step)

section \<open>Registered and held connections\<close>

definition registered :: "'r chat_actor \<Rightarrow> (channel_id \<times> user_id \<times> connection_id) set" where
  "registered a = {(c, u, conn). conn \<in> connections a c u}"

definition held :: "user_id \<Rightarrow> subscriptions \<Rightarrow> (channel_id \<times> user_id \<times> connection_id) set" where
  "held u subs = {(c, u, as_connection_id active) | c active. hm_get subs c = Some active}"

lemma held_Nil [simp]: "held u [] = {}"
  by (simp add: held_def)

lemma held_iff [simp]:
  "(c, v, conn) \<in> held u subs \<longleftrightarrow> v = u \<and> (\<exists>active. hm_get subs c = Some active \<and> as_connection_id active = conn)"
  by (auto simp: held_def)

lemma held_remove: "hm_get subs c = Some active \<Longrightarrow> held u (hm_remove c subs) = held u subs - {(c, u, as_connection_id active)}"
  by (auto split: if_splits)

lemma held_insert:
  "hm_get subs c = None \<Longrightarrow> held u (hm_insert c active subs) = insert (c, u, as_connection_id active) (held u subs)"
  by (auto split: if_splits)

lemma fresh_connection_registered: "fresh_connection conn a \<Longrightarrow> (c, u, conn) \<notin> registered a"
proof
  assume fresh: "fresh_connection conn a" and "(c, u, conn) \<in> registered a"
  then obtain st conns where "hm_get (actor_channels a) c = Some st" "hm_get (participants st) u = Some conns" "conn \<in> set conns"
    by (cases "hm_get (actor_channels a) c"; cases "hm_get (participants_of a c) u")
      (auto simp: registered_def connections_def participants_of_def hm_get_or_def)
  then have "st \<in> set (hm_values (actor_channels a))" "conns \<in> set (hm_values (participants st))"
    by (force dest: map_of_SomeD)+
  with fresh \<open>conn \<in> set conns\<close> show False by (auto simp: fresh_connection_def)
qed

lemma registered_leave: "registered (actor_leave R c u conn a) = registered a - {(c, u, conn)}"
  by (auto simp: registered_def connections_leave split: if_splits)

lemma registered_subscribe:
  "actor_subscribe in_memory_repository conn c u a = (r, a') \<Longrightarrow>
   registered a' = (if is_ok r then insert (c, u, conn) (registered a) else registered a)"
  using connections_subscribe(1) [of conn c u a r a'] by (auto simp: registered_def split: if_splits)

lemma registered_cong: "participants_of b = participants_of a \<Longrightarrow> registered b = registered a"
  using connections_cong [of b a] by (simp add: registered_def)

text \<open>
  What a request of a session may do: what the session held is exchanged for what it holds
  now, and only the generated connection is new.
\<close>

definition exchanges :: "user_id \<Rightarrow> connection_id \<Rightarrow> subscriptions \<times> chat_engine \<Rightarrow> subscriptions \<times> chat_engine \<Rightarrow> bool" where
  "exchanges u conn st st' \<longleftrightarrow>
     registered (engine_actor (snd st')) = registered (engine_actor (snd st)) - held u (fst st) \<union> held u (fst st') \<and>
     held u (fst st') \<subseteq> held u (fst st) \<union> {(c, u, conn) | c. True} \<and> hm_wf (fst st')"

definition sound :: "user_id \<Rightarrow> subscriptions \<times> chat_engine \<Rightarrow> bool" where
  "sound u st \<longleftrightarrow> hm_wf (fst st) \<and> engine_running (snd st) \<and> held u (fst st) \<subseteq> registered (engine_actor (snd st))"

lemma exchanges_refl: "sound u st \<Longrightarrow> exchanges u conn st st"
  by (auto simp: exchanges_def sound_def)

lemma exchanges_frame:
  assumes "sound u (subs, e)" "participants_of (engine_actor e') = participants_of (engine_actor e)"
  shows "exchanges u conn (subs, e) (subs, e')"
  using assms registered_cong [OF assms(2)] by (auto simp: exchanges_def sound_def)

lemma exchanges_before:
  assumes "participants_of (engine_actor e1) = participants_of (engine_actor e)" "exchanges u conn (subs, e1) st"
  shows "exchanges u conn (subs, e) st"
  using assms(2) registered_cong [OF assms(1)] by (simp add: exchanges_def)

lemma registered_engine_leave:
  "engine_running e \<Longrightarrow>
   registered (engine_actor (snd (engine_leave g c u conn e))) = registered (engine_actor e) - {(c, u, conn)}"
  by (simp add: engine_leave_def engine_command_def registered_leave)

lemma disconnect_registered:
  assumes "sound u st"
  shows "registered (engine_actor (snd (disconnect g u c st))) =
           registered (engine_actor (snd st)) - (held u (fst st) - held u (fst (disconnect g u c st)))"
    "held u (fst (disconnect g u c st)) \<subseteq> held u (fst st)" "sound u (disconnect g u c st)"
    "hm_get (fst (disconnect g u c st)) d = (if d = c then None else hm_get (fst st) d)"
proof -
  show reg: "registered (engine_actor (snd (disconnect g u c st))) =
      registered (engine_actor (snd st)) - (held u (fst st) - held u (fst (disconnect g u c st)))"
  proof (cases "hm_get (fst st) c")
    case (Some active)
    with assms have "(c, u, as_connection_id active) \<in> held u (fst st)" by simp
    then show ?thesis using assms Some
      by (auto simp: disconnect_def sound_def registered_engine_leave held_remove)
  qed (simp add: disconnect_def)
  show sub: "held u (fst (disconnect g u c st)) \<subseteq> held u (fst st)"
    by (auto simp: disconnect_def split: option.splits if_splits)
  have "hm_wf (fst (disconnect g u c st))" using assms by (auto simp: disconnect_def sound_def split: option.split)
  with assms reg sub show "sound u (disconnect g u c st)" by (auto simp: sound_def)
  show "hm_get (fst (disconnect g u c st)) d = (if d = c then None else hm_get (fst st) d)"
    by (auto simp: disconnect_def split: option.split)
qed

lemma disconnects_registered:
  assumes "sound u st"
  shows "registered (engine_actor (snd (fold (disconnect g u) cs st))) =
           registered (engine_actor (snd st)) - (held u (fst st) - held u (fst (fold (disconnect g u) cs st))) \<and>
         held u (fst (fold (disconnect g u) cs st)) \<subseteq> held u (fst st) \<and> sound u (fold (disconnect g u) cs st) \<and>
         hm_get (fst (fold (disconnect g u) cs st)) d = (if d \<in> set cs then None else hm_get (fst st) d)"
  using assms
proof (induction cs arbitrary: st)
  case (Cons c cs)
  note first = disconnect_registered [OF Cons.prems, of g c]
  note rest = Cons.IH [OF first(3)]
  from rest first(1,2) have "registered (engine_actor (snd (fold (disconnect g u) (c # cs) st))) =
      registered (engine_actor (snd st)) - (held u (fst st) - held u (fst (fold (disconnect g u) (c # cs) st)))"
    unfolding fold_Cons comp_apply by blast
  moreover from rest first(2) have "held u (fst (fold (disconnect g u) (c # cs) st)) \<subseteq> held u (fst st)"
    unfolding fold_Cons comp_apply by blast
  ultimately show ?case using rest first(4) by simp
qed auto

lemma disconnects_exchanges: "sound u st \<Longrightarrow> exchanges u conn st (fold (disconnect g u) cs st)"
  using disconnects_registered [of u st g cs] by (auto simp: exchanges_def sound_def)

lemma disconnect_exchanges: "sound u st \<Longrightarrow> exchanges u conn st (disconnect g u c st)"
  using disconnects_exchanges [of u st conn g "[c]"] by simp

lemma subscribe_exchanges:
  assumes sound: "sound u st" and fresh: "fresh_connection (gen_connection g) (engine_actor (snd st))"
  shows "exchanges u (gen_connection g) st (snd (subscribe_channel g u c st))"
proof -
  obtain subs e where d: "disconnect g u c st = (subs, e)" by fastforce
  note first = disconnect_registered [OF sound, of g c, unfolded d, simplified]
  obtain r a where s: "actor_subscribe in_memory_repository (gen_connection g) c u (engine_actor e) = (r, a)" by fastforce
  have running: "engine_running e" using first(3) by (simp add: sound_def)
  have reg: "registered a = (if is_ok r then insert (c, u, gen_connection g) (registered (engine_actor e)) else registered (engine_actor e))"
    by (rule registered_subscribe [OF s])
  have new: "(c, u, gen_connection g) \<notin> registered (engine_actor (snd st))" by (rule fresh_connection_registered [OF fresh])
  have wf: "hm_wf subs" using first(3) by (simp add: sound_def)
  have none: "hm_get subs c = None" using first(4) [of c] by simp
  have e: "engine_subscribe g c u e = (r, e\<lparr> engine_actor := a \<rparr>)"
    using running s by (simp add: engine_subscribe_def engine_command_def subscribe_reply_def)
  show ?thesis
  proof (cases r)
    case (Inl err)
    with reg first(1,2) wf sound show ?thesis by (auto simp: subscribe_channel_def d e exchanges_def sound_def)
  next
    case (Inr sub)
    then have "sub_connection_id sub = gen_connection g" using connections_subscribe(2) [OF s] by (simp add: is_ok_def)
    with Inr reg first(1,2) wf sound new none show ?thesis
      by (auto simp: subscribe_channel_def d e exchanges_def sound_def held_insert is_ok_def)
  qed
qed

section \<open>Every command exchanges connections\<close>

lemma participants_frames [simp]:
  "participants_of (a\<lparr> actor_repository := r \<rparr>) = participants_of a"
  "participants_of (engine_actor (snd (engine_query q e))) = participants_of (engine_actor e)"
  "participants_of (engine_actor (snd (engine_update f e))) = participants_of (engine_actor e)"
  by (simp_all add: participants_of_def engine_query_def engine_update_def set_repository_def fun_eq_iff split: prod.split)

lemma engine_command_participants:
  assumes "\<And>c u. cmd \<noteq> A_Subscribe c u" "\<And>c u conn. cmd \<noteq> A_Leave c u conn"
  shows "participants_of (engine_actor (snd (engine_command g cmd e))) = participants_of (engine_actor e)"
proof -
  have "participants_of (snd (actor_step R g cmd a)) = participants_of a" for R :: "repository_state chat_repository" and a
  proof (cases cmd)
    case (A_Subscribe c u)
    with assms(1) show ?thesis by blast
  next
    case (A_Leave c u conn)
    with assms(2) show ?thesis by blast
  qed (simp_all add: fun_eq_iff actor_send_message_def announce_def publish_presence_def Let_def
      split: prod.split sum.split option.split chat_event.split)
  then show ?thesis by (simp add: engine_command_def split: prod.split) (metis snd_conv)
qed

lemma expand_direct_participants:
  "participants_of (engine_actor (snd (engine_expand_direct_channel E g u c v e))) = participants_of (engine_actor e)"
proof -
  define f where "f = expand_direct_channel (env_unicode E) (env_simple E) (sup_channel g) (sup_uuid g) u c v"
  obtain r e1 where u: "engine_update f e = (r, e1)" by fastforce
  then have "participants_of (engine_actor e1) = participants_of (engine_actor e)" using participants_frames(3) [of f e] by simp
  then show ?thesis
    by (simp add: engine_expand_direct_channel_def f_def [symmetric] u engine_command_participants split: sum.split)
qed

lemma update_then_disconnect_exchanges:
  assumes sound: "sound u (subs, e)" and h: "\<And>st. sound u st \<Longrightarrow> exchanges u conn st (h st)"
  shows "exchanges u conn (subs, e) (snd (case engine_update f e of
      (Inl err, e) \<Rightarrow> (Inl err, subs, e) | (Inr _, e) \<Rightarrow> (Inr event, h (subs, e))))"
proof -
  obtain r e1 where up: "engine_update f e = (r, e1)" by fastforce
  then have ps: "participants_of (engine_actor e1) = participants_of (engine_actor e)"
    using participants_frames(3) [of f e] by simp
  have "engine_running e1 = engine_running e" using up engine_repository_frames(4) [of f e] by simp
  with sound registered_cong [OF ps] have "sound u (subs, e1)" by (simp add: sound_def)
  then have "exchanges u conn (subs, e) (h (subs, e1))" by (intro exchanges_before [OF ps] h)
  with up exchanges_frame [OF sound ps] show ?thesis by (simp split: sum.split)
qed

lemma disconnect_inaccessible_exchanges: "sound u st \<Longrightarrow> exchanges u conn st (disconnect_inaccessible_channels E g u st)"
  unfolding disconnect_inaccessible_channels_def Let_def by (rule disconnects_exchanges)

lemma run_command_exchanges:
  assumes sound: "sound u (subs, e)"
    and fresh: "\<And>c. cmd = C_SubscribeChannel c \<Longrightarrow> conn = gen_connection g \<and> fresh_connection conn (engine_actor e)"
  shows "exchanges u conn (subs, e) (snd (run_command E g u r cmd subs e))"
proof (cases cmd)
  case (C_LeaveChannel c)
  then show ?thesis using update_then_disconnect_exchanges [OF sound disconnect_exchanges]
    by (simp add: engine_departures)
next
  case (C_LeaveCircle k)
  then show ?thesis using update_then_disconnect_exchanges [OF sound disconnect_inaccessible_exchanges]
    by (simp add: engine_departures)
next
  case (C_DeleteCircle k)
  then show ?thesis using update_then_disconnect_exchanges [OF sound disconnect_inaccessible_exchanges]
    by (simp add: engine_departures)
next
  case (C_SubscribeChannel c)
  then show ?thesis using subscribe_exchanges [of u "(subs, e)" "generated.truncate g" c] sound fresh [of c] by auto
next
  case (C_UnsubscribeChannel c)
  then show ?thesis using disconnect_exchanges [OF sound] by simp
qed (auto simp: engine_updates engine_queries engine_mailbox expand_direct_participants engine_command_participants validated_def Let_def
    split: sum.split option.split intro!: exchanges_frame [OF sound])

lemma run_command_running: "engine_running (snd (snd (run_command E g u r cmd subs e))) = engine_running e"
  by (cases cmd) (auto simp: engine_updates engine_queries engine_departures engine_mailbox expand_direct_repository
      update_then_disconnect validated_def Let_def split: sum.split option.split)

section \<open>Turns\<close>

abbreviation session_held :: "socket_session \<Rightarrow> (channel_id \<times> user_id \<times> connection_id) set" where
  "session_held s \<equiv> held (ss_participant s) (ss_subscriptions s)"

text \<open>What every request keeps: the actor runs, and its repository moves as the machine does.\<close>

definition keeps :: "engine_environment \<Rightarrow> chat_engine \<Rightarrow> chat_engine \<Rightarrow> bool" where
  "keeps E e e' \<longleftrightarrow> engine_running e' = engine_running e \<and> repo_moves (crates E) (engine_repository e) (engine_repository e')"

lemma keeps_refl [simp]: "keeps E e e"
  by (simp add: keeps_def)

lemma execute_command_snd [simp]:
  "snd (execute_command E g u envelope subs e) = snd (run_command E g u (cenv_request_id envelope) (cenv_command envelope) subs e)"
  by (simp add: execute_command_def Let_def split: prod.split)

lemma run_command_keeps:
  "supply_fresh E g (engine_repository e) \<Longrightarrow> keeps E e (snd (snd (run_command E g u r cmd subs e)))"
  by (simp add: keeps_def run_command_running run_command_moves)

lemma handle_text_effect:
  assumes "supply_fresh E g (engine_repository e)"
  shows "keeps E e (snd (snd (handle_text decode E g u frame subs e)))"
    "sound u (subs, e) \<Longrightarrow> fresh_connection (gen_connection g) (engine_actor e) \<Longrightarrow>
     exchanges u (gen_connection g) (subs, e) (snd (handle_text decode E g u frame subs e))"
  using run_command_keeps [OF assms]
  by (auto simp: handle_text_def Let_def exchanges_refl split: option.split intro: run_command_exchanges)

lemma http_command_effect:
  assumes "supply_fresh E g (engine_repository e)"
  shows "keeps E e (snd (http_command E g u envelope e))"
    "engine_running e \<Longrightarrow> registered (engine_actor (snd (http_command E g u envelope e))) = registered (engine_actor e)"
proof -
  have http: "snd (execute_http_command E g u envelope e) =
      snd (snd (run_command E g u (cenv_request_id envelope) (cenv_command envelope) [] e))"
    by (simp add: execute_http_command_def case_prod_unfold Let_def)
  show "keeps E e (snd (http_command E g u envelope e))"
    using run_command_keeps [OF assms] http by (simp add: http_command_def Let_def)
  assume "engine_running e"
  then have sound: "sound u ([], e)" by (simp add: sound_def)
  have "registered (engine_actor (snd (snd (run_command E g u r cmd [] e)))) = registered (engine_actor e)"
    if "\<not> is_subscription cmd" for r cmd
  proof -
    have "exchanges u conn ([], e) (snd (run_command E g u r cmd [] e))" for conn
      using that by (intro run_command_exchanges [OF sound]) (simp add: is_subscription_def)
    from this [of "ConnectionId 0"] this [of "ConnectionId 1"] show ?thesis by (fastforce simp: exchanges_def)
  qed
  then show "registered (engine_actor (snd (http_command E g u envelope e))) = registered (engine_actor e)"
    using http by (simp add: http_command_def Let_def)
qed

lemma socket_turn_effect:
  assumes "supply_fresh E g (engine_repository e)" "socket_turn decode E g input sent s e = (out, s', e')"
  shows "keeps E e e'" "ss_participant s' = ss_participant s"
    "sound (ss_participant s) (ss_subscriptions s, e) \<Longrightarrow> fresh_connection (gen_connection g) (engine_actor e) \<Longrightarrow>
     exchanges (ss_participant s) (gen_connection g) (ss_subscriptions s, e) (ss_subscriptions s', e')"
proof -
  show "ss_participant s' = ss_participant s"
    using assms(2) by (auto simp: socket_turn_def Let_def split: socket_input.splits if_splits prod.splits)
  show "keeps E e e'"
    using assms(2) handle_text_effect(1) [OF assms(1), of decode "ss_participant s" _ "ss_subscriptions s"]
    by (cases input) (auto simp: socket_turn_def Let_def split: if_splits prod.splits dest: arg_cong [of _ _ "snd"], (metis snd_conv)+)
  assume sound: "sound (ss_participant s) (ss_subscriptions s, e)" and fresh: "fresh_connection (gen_connection g) (engine_actor e)"
  show "exchanges (ss_participant s) (gen_connection g) (ss_subscriptions s, e) (ss_subscriptions s', e')"
    using assms(2) handle_text_effect(2) [OF assms(1) sound fresh, of decode] exchanges_refl [OF sound]
    by (cases input) (auto simp: socket_turn_def Let_def split: if_splits prod.splits, (metis snd_conv)+)
qed

lemma close_session_frames [simp]:
  "engine_repository (close_session g s e) = engine_repository e"
  "engine_running (close_session g s e) = engine_running e"
proof -
  have "engine_repository (fold (\<lambda>(c, active) e. snd (engine_leave g c u (as_connection_id active) e)) subs e) = engine_repository e \<and>
      engine_running (fold (\<lambda>(c, active) e. snd (engine_leave g c u (as_connection_id active) e)) subs e) = engine_running e"
    for u and subs :: subscriptions
    by (induction subs arbitrary: e) (auto split: prod.split)
  then show "engine_repository (close_session g s e) = engine_repository e" "engine_running (close_session g s e) = engine_running e"
    by (simp_all add: close_session_def)
qed

lemma close_session_registered:
  assumes "engine_running e" "hm_wf (ss_subscriptions s)"
  shows "registered (engine_actor (close_session g s e)) = registered (engine_actor e) - session_held s"
proof -
  have "registered (engine_actor (fold (\<lambda>(c, active) e. snd (engine_leave g c u (as_connection_id active) e)) subs e)) =
      registered (engine_actor e) - {(c, u, as_connection_id active) | c active. (c, active) \<in> set subs}"
    if "engine_running e" for u and subs :: subscriptions
    using that by (induction subs arbitrary: e) (auto simp: registered_engine_leave)
  moreover have "session_held s = {(c, ss_participant s, as_connection_id active) | c active. (c, active) \<in> set (ss_subscriptions s)}"
    using assms(2) by (auto simp: held_def hm_entry_iff)
  ultimately show ?thesis using assms(1) by (simp add: close_session_def)
qed

section \<open>The invariant of the server\<close>

text \<open>
  The repository is reachable in its own machine, the connections of the participants are the
  ones that the sessions hold, and no two sessions hold the same.
\<close>

definition server_inv :: "engine_environment \<Rightarrow> server \<Rightarrow> bool" where
  "server_inv E sv \<longleftrightarrow> engine_running (srv_engine sv) \<and> repo_reachable (crates E) (engine_repository (srv_engine sv)) \<and>
     registered (engine_actor (srv_engine sv)) = (\<Union>s \<in> ran (hm_get (srv_sessions sv)). session_held s) \<and>
     (\<forall>s \<in> ran (hm_get (srv_sessions sv)). hm_wf (ss_subscriptions s)) \<and>
     (\<forall>i j s t. hm_get (srv_sessions sv) i = Some s \<longrightarrow> hm_get (srv_sessions sv) j = Some t \<longrightarrow> i \<noteq> j \<longrightarrow>
        session_held s \<inter> session_held t = {})"

lemma server_invD:
  assumes "server_inv E sv" "hm_get (srv_sessions sv) i = Some s"
  shows "sound (ss_participant s) (ss_subscriptions s, srv_engine sv)"
  using assms by (auto simp: server_inv_def sound_def intro: ranI)

lemma ran_without: "m i = Some s \<Longrightarrow> ran m = insert s (ran (m(i := None)))"
  unfolding ran_def by (rule set_eqI) (auto, metis option.inject)

text \<open>A session's part can be replaced when its old part is given up and the new part is its own.\<close>

lemma server_inv_replace:
  assumes inv: "server_inv E sv" and i: "hm_get (srv_sessions sv) i = Some s"
    and keeps: "keeps E (srv_engine sv) e'"
    and reg: "registered (engine_actor e') = registered (engine_actor (srv_engine sv)) - session_held s \<union> session_held s'"
    and new: "session_held s' \<subseteq> session_held s \<union> N" "N \<inter> registered (engine_actor (srv_engine sv)) = {}"
    and wf: "hm_wf (ss_subscriptions s')"
  shows "server_inv E (sv\<lparr> srv_engine := e', srv_sessions := hm_insert i s' (srv_sessions sv) \<rparr>)"
    "session_held s' = {} \<Longrightarrow> server_inv E (sv\<lparr> srv_engine := e', srv_sessions := hm_remove i (srv_sessions sv) \<rparr>)"
proof -
  let ?m = "hm_get (srv_sessions sv)"
  have old: "registered (engine_actor (srv_engine sv)) = (\<Union>t \<in> ran ?m. session_held t)"
    and disj: "\<And>j k t t'. ?m j = Some t \<Longrightarrow> ?m k = Some t' \<Longrightarrow> j \<noteq> k \<Longrightarrow> session_held t \<inter> session_held t' = {}"
    and wfs: "\<And>t. t \<in> ran ?m \<Longrightarrow> hm_wf (ss_subscriptions t)"
    using inv by (simp_all add: server_inv_def)
  have engine: "engine_running e'" "repo_reachable (crates E) (engine_repository e')"
    using inv keeps repo_moves_reachable by (auto simp: server_inv_def keeps_def)
  have split: "(\<Union>t \<in> ran ?m. session_held t) = session_held s \<union> (\<Union>t \<in> ran (?m(i := None)). session_held t)"
    using ran_without [of ?m i s] i by simp
  have "session_held s \<inter> session_held t = {}" if "t \<in> ran (?m(i := None))" for t
    using that disj [OF i] unfolding ran_def by (auto split: if_splits simp del: held_iff)
  then have "session_held s \<inter> (\<Union>t \<in> ran (?m(i := None)). session_held t) = {}"
    by blast
  then have others: "registered (engine_actor (srv_engine sv)) - session_held s = (\<Union>t \<in> ran (?m(i := None)). session_held t)"
    using old split by auto
  have apart: "session_held s' \<inter> session_held t = {}" if "?m j = Some t" "j \<noteq> i" for j t
  proof -
    have "session_held t \<subseteq> registered (engine_actor (srv_engine sv))" using that(1) old by (auto intro: ranI)
    with disj [OF i that(1)] that(2) new show ?thesis by blast
  qed
  have "ran (?m(i \<mapsto> s')) = insert s' (ran (?m(i := None)))" using ran_without [of "?m(i \<mapsto> s')" i s'] by simp
  with reg others have "registered (engine_actor e') = (\<Union>t \<in> ran (?m(i \<mapsto> s')). session_held t)" by auto
  moreover have "\<forall>t \<in> ran (?m(i \<mapsto> s')). hm_wf (ss_subscriptions t)"
    using wf wfs by (auto simp: ran_def split: if_splits)
  moreover have "session_held t \<inter> session_held t' = {}"
    if "(?m(i \<mapsto> s')) j = Some t" "(?m(i \<mapsto> s')) k = Some t'" "j \<noteq> k" for j k t t'
    using that apart disj [of j t k t'] by (auto split: if_splits)
  ultimately show "server_inv E (sv\<lparr> srv_engine := e', srv_sessions := hm_insert i s' (srv_sessions sv) \<rparr>)"
    unfolding server_inv_def using engine by simp
  assume none: "session_held s' = {}"
  have "\<forall>t \<in> ran (?m(i := None)). hm_wf (ss_subscriptions t)"
    using wfs by (auto simp: ran_def split: if_splits)
  moreover have "session_held t \<inter> session_held t' = {}"
    if "(?m(i := None)) j = Some t" "(?m(i := None)) k = Some t'" "j \<noteq> k" for j k t t'
    using that disj [of j t k t'] by (auto split: if_splits)
  ultimately show "server_inv E (sv\<lparr> srv_engine := e', srv_sessions := hm_remove i (srv_sessions sv) \<rparr>)"
    unfolding server_inv_def using engine reg none others by simp
qed

lemma server_inv_frame:
  assumes "server_inv E sv" "keeps E (srv_engine sv) e'"
    "registered (engine_actor e') = registered (engine_actor (srv_engine sv))"
  shows "server_inv E (sv\<lparr> srv_engine := e' \<rparr>)"
  using assms repo_moves_reachable [of "crates E" "engine_repository (srv_engine sv)" "engine_repository e'"]
  unfolding server_inv_def keeps_def by simp

lemma server_inv_add:
  assumes inv: "server_inv E sv" and new: "\<not> hm_has (srv_sessions sv) i" and s: "ss_subscriptions s = []"
  shows "server_inv E (sv\<lparr> srv_sessions := hm_insert i s (srv_sessions sv) \<rparr>)"
proof -
  let ?m = "hm_get (srv_sessions sv)"
  have none: "?m i = None" using new by (simp add: hm_has_iff)
  then have ran: "ran (?m(i \<mapsto> s)) = insert s (ran ?m)" by simp
  have "session_held t \<inter> session_held t' = {}"
    if "(?m(i \<mapsto> s)) j = Some t" "(?m(i \<mapsto> s)) k = Some t'" "j \<noteq> k" for j k t t'
    using that inv s unfolding server_inv_def by (cases "j = i"; cases "k = i") simp_all
  with inv ran s show ?thesis unfolding server_inv_def by simp
qed

lemma ensure_user_effect:
  assumes "engine_ensure_user user e = Some (r, e')"
  shows "keeps E e e'" "participants_of (engine_actor e') = participants_of (engine_actor e)"
proof -
  from assms obtain r' s' where s: "upsert_user user (engine_repository e) = Some (r', s')" and e': "e' = set_repository s' e"
    by (auto simp: engine_ensure_user_def engine_try_update_def)
  have "repo_step (crates E) (R_UpsertUser user) (engine_repository e) = Some s'" using s by simp
  then have "repo_moves (crates E) (engine_repository e) s'" by (rule repo_moves_step) simp
  with e' show "keeps E e e'" "participants_of (engine_actor e') = participants_of (engine_actor e)"
    by (simp_all add: keeps_def set_repository_def)
qed

lemma server_step_accept:
  assumes inv: "server_inv E sv" and guard: "server_guard E sv (Accept i user shutdown updating)"
  shows "server_inv E (server_step decode E sv (Accept i user shutdown updating))"
proof (cases "shutdown \<or> engine_ensure_user user (srv_engine sv) = None")
  case True
  with inv show ?thesis by (auto simp: open_socket_def)
next
  case False
  then obtain r e' where user: "\<not> shutdown" "engine_ensure_user user (srv_engine sv) = Some (r, e')" by auto
  note effect = ensure_user_effect [OF user(2)]
  have "server_inv E (sv\<lparr> srv_engine := e' \<rparr>)"
    by (rule server_inv_frame [OF inv effect(1) registered_cong [OF effect(2)]])
  moreover from this have "server_inv E (sv\<lparr> srv_engine := e', srv_sessions := hm_insert i s (srv_sessions sv) \<rparr>)"
    if "ss_subscriptions s = []" for s
    using server_inv_add [of E "sv\<lparr> srv_engine := e' \<rparr>" i s] that guard by simp
  ultimately show ?thesis using user by (auto simp: open_socket_def split: sum.split)
qed

lemma server_step_turn:
  assumes inv: "server_inv E sv" and guard: "server_guard E sv (Turn i g input sent)"
  shows "server_inv E (server_step decode E sv (Turn i g input sent))"
proof (cases "hm_get (srv_sessions sv) i")
  case None
  with inv show ?thesis by simp
next
  case i: (Some s)
  obtain out s' e' where turn: "socket_turn decode E g input sent s (srv_engine sv) = (out, s', e')"
    using prod_cases3 by blast
  from guard have fresh: "supply_fresh E g (engine_repository (srv_engine sv))"
    "fresh_connection (gen_connection g) (engine_actor (srv_engine sv))" by simp_all
  note effect = socket_turn_effect [OF fresh(1) turn]
  have ex: "exchanges (ss_participant s) (gen_connection g) (ss_subscriptions s, srv_engine sv) (ss_subscriptions s', e')"
    by (rule effect(3) [OF server_invD [OF inv i] fresh(2)])
  define N where "N = {(c :: channel_id, ss_participant s, gen_connection g) | c. True}"
  have N: "N \<inter> registered (engine_actor (srv_engine sv)) = {}"
    using fresh_connection_registered [OF fresh(2)] by (auto simp: N_def)
  have new: "session_held s' \<subseteq> session_held s \<union> N" and wf: "hm_wf (ss_subscriptions s')"
    and reg: "registered (engine_actor e') = registered (engine_actor (srv_engine sv)) - session_held s \<union> session_held s'"
    using ex by (simp_all add: exchanges_def effect(2) N_def)
  show ?thesis
  proof (cases "ss_open s'")
    case True
    with turn i server_inv_replace(1) [OF inv i effect(1) reg new N wf] show ?thesis by (simp add: end_turn_def)
  next
    case False
    let ?g = "generated.truncate g"
    let ?e = "close_session ?g s' e'"
    let ?s = "s'\<lparr> ss_subscriptions := [] \<rparr>"
    have running: "engine_running e'" using effect(1) inv by (simp add: keeps_def server_inv_def)
    have "session_held s' \<inter> (registered (engine_actor (srv_engine sv)) - session_held s) = {}" using new N by blast
    then have "registered (engine_actor ?e) = registered (engine_actor (srv_engine sv)) - session_held s \<union> session_held ?s"
      using close_session_registered [OF running wf, of ?g] reg by auto
    moreover have "keeps E (srv_engine sv) ?e" using effect(1) by (simp add: keeps_def)
    ultimately have "server_inv E (sv\<lparr> srv_engine := ?e, srv_sessions := hm_remove i (srv_sessions sv) \<rparr>)"
      using server_inv_replace(2) [OF inv i, of ?e ?s N] N by simp
    with False turn i show ?thesis by (simp add: end_turn_def)
  qed
qed

interpretation server: guarded_machine "server_new distributed" "server_guard E" "server_step decode E" "server_inv E"
  for distributed decode E
proof unfold_locales
  have "repo_reachable (crates E) repository_default" by (rule reachable.start)
  then show "server_inv E (server_new distributed)"
    by (auto simp: server_inv_def server_new_def registered_def connections_def participants_of_def chat_actor_new_def hm_get_or_def)
next
  fix sv input
  assume inv: "server_inv E sv" and guard: "server_guard E sv input"
  show "server_inv E (server_step decode E sv input)"
  proof (cases input)
    case (Accept i user shutdown updating)
    with inv guard server_step_accept show ?thesis by simp
  next
    case (Turn i g input sent)
    with inv guard server_step_turn show ?thesis by simp
  next
    case (Http g u envelope)
    with inv guard have "supply_fresh E g (engine_repository (srv_engine sv))" "engine_running (srv_engine sv)"
      by (simp_all add: server_inv_def)
    with inv Http show ?thesis by (simp add: server_inv_frame http_command_effect)
  qed
qed

end
