(* ===== verification/Circle_Properties.thy ===== *)
theory Circle_Properties
  imports Message_Properties Directory_Circles
begin

text \<open>
  The properties of circles and invitations, each with a concrete run: who loses access when,
  that an invitation works once, and that ownership cannot be taken away by a role change.
\<close>

section \<open>A circle\<close>

definition sample_circle :: circle where
  "sample_circle = \<lparr> crc_id = CircleId 1, crc_slug = ChannelSlug (lit ''laget''), crc_name = DisplayName (lit ''Laget''),
     crc_created_by = UserId 1, crc_created_at = 0 \<rparr>"

definition sample_circle_channel :: channel where
  "sample_circle_channel = \<lparr> ch_id = ChannelId 1, ch_slug = ChannelSlug (lit ''prat''), ch_name = DisplayName (lit ''Tur''),
     ch_kind = Local, ch_circle_id = Some (CircleId 1), ch_created_by = UserId 1 \<rparr>"

definition sample_circle_membership :: "user_id \<Rightarrow> circle_role \<Rightarrow> circle_membership" where
  "sample_circle_membership u r = \<lparr> cm_circle_id = CircleId 1, cm_user_id = u, cm_role = r, cm_joined_at = 0 \<rparr>"

definition sample_circle_state :: repository_state where
  "sample_circle_state = sample_chat\<lparr>
     channels := [(ChannelId 1, sample_circle_channel)],
     circles := [(CircleId 1, sample_circle)],
     circles_by_slug := [(ChannelSlug (lit ''laget''), CircleId 1)],
     circle_memberships := [((CircleId 1, UserId 1), sample_circle_membership (UserId 1) CircleOwner),
                            ((CircleId 1, UserId 2), sample_circle_membership (UserId 2) CircleMember)] \<rparr>"

lemmas circle_sample_defs = sample_circle_state_def sample_circle_def sample_circle_channel_def
  sample_circle_membership_def sample_defs accepted_state_def new_message_def push_message_def
  hm_get_or_def hm_insert_def

lemma sample_circle_state_inv: "repo_inv sample_circle_state"
proof -
  have "msg_inv sample_circle_state"
    using sample_chat_inv by (simp add: msg_inv_def sample_circle_state_def)
  moreover have "users_inv (users sample_circle_state)" "channels_inv (channels sample_circle_state) (channels_by_slug sample_circle_state)"
    "circles_inv (circles sample_circle_state) (circles_by_slug sample_circle_state)"
    by (auto simp: users_inv_def channels_inv_def circles_inv_def circle_sample_defs hm_wf_def split: if_splits)
  moreover have "members_inv (memberships sample_circle_state) (channels sample_circle_state) (users sample_circle_state)"
    "circle_members_inv (circle_memberships sample_circle_state) (users sample_circle_state)"
    by (auto simp: members_inv_def circle_members_inv_def circle_sample_defs hm_wf_def hm_has_iff split: if_splits)
  moreover have "confined (memberships sample_circle_state) (channels sample_circle_state) (circle_memberships sample_circle_state)"
    "favorites_inv (favorite_circles sample_circle_state) (circle_memberships sample_circle_state)"
    "anchors_inv (anchors sample_circle_state) (channels sample_circle_state)"
    "live_log (messages sample_circle_state) (channels sample_circle_state)"
    by (auto simp: confined_def favorites_inv_def anchors_inv_def anchors_def live_log_def circle_sample_defs
        hm_has_iff split: if_splits)
  ultimately show ?thesis by (simp add: repo_inv_def)
qed

section \<open>Leaving and deleting\<close>

text \<open>
  C24. Whoever leaves a circle loses every channel of it at once: no channel of the circle has a
  membership of that user any more, nor has the circle or the list of favorites; all other
  memberships stay as they are, and the owner cannot leave.
\<close>

theorem leave_circle_removes_access:
  assumes "repo_inv s" and "leave_circle (LeaveCircle actor k) s = (Inr (), s')"
  shows "repo_inv s' \<and> circle_role_of s k actor \<noteq> Some CircleOwner \<and>
    \<not> hm_has (circle_memberships s') (k, actor) \<and> (k, actor) \<notin> set (favorite_circles s') \<and>
    (\<forall>c x. hm_get (channels s') c = Some x \<longrightarrow> ch_circle_id x = Some k \<longrightarrow> \<not> is_member s' c actor) \<and>
    (\<forall>c u. u \<noteq> actor \<or> (\<exists>x. hm_get (channels s) c = Some x \<and> ch_circle_id x \<noteq> Some k) \<longrightarrow>
       hm_get (memberships s') (c, u) = hm_get (memberships s) (c, u))"
proof -
  note inv = repo_invD [OF assms(1)]
  have can: "can_leave_circle (circle_role_of s k actor)"
    using assms(2) by (auto simp: leave_circle_def Let_def split: if_splits)
  have ids: "circle_channel_ids k (s\<lparr> circle_memberships := a, favorite_circles := b \<rparr>) = circle_channel_ids k s" for a b
    by (simp add: circle_channel_ids_def)
  from assms(2) can have s': "s' = s\<lparr> circle_memberships := hm_remove (k, actor) (circle_memberships s),
      favorite_circles := hs_remove (k, actor) (favorite_circles s),
      memberships := hm_retain (\<lambda>p _. snd p \<noteq> actor \<or> fst p \<notin> set (circle_channel_ids k s)) (memberships s) \<rparr>"
    by (simp add: leave_circle_def Let_def ids)
  have wf: "hm_wf (memberships s)" using inv(4) by (simp add: members_inv_def)
  note mem = circle_channel_ids_iff [OF inv(3), of _ k]
  have "repo_inv s'" using leave_circle_inv [OF assms(1), of "LeaveCircle actor k"] assms(2) by simp
  moreover have "\<not> is_member s' c actor"
    if "hm_get (channels s') c = Some x" "ch_circle_id x = Some k" for c x
    using that mem [of c] by (simp add: is_member_def s' hm_has_retain [OF wf])
  moreover have "hm_get (memberships s') (c, u) = hm_get (memberships s) (c, u)"
    if "u \<noteq> actor \<or> (\<exists>x. hm_get (channels s) c = Some x \<and> ch_circle_id x \<noteq> Some k)" for c u
    using that mem [of c] by (auto simp: s' hm_get_retain [OF wf] split: option.splits)
  moreover have "circle_role_of s k actor \<noteq> Some CircleOwner"
    using can by (auto simp: can_leave_circle_def)
  ultimately show ?thesis by (simp add: s')
qed

theorem leave_circle_removes_access_witness:
  "\<exists>s'. leave_circle (LeaveCircle (UserId 2) (CircleId 1)) sample_circle_state = (Inr (), s') \<and> repo_inv s' \<and>
     is_member sample_circle_state (ChannelId 1) (UserId 2) \<and> \<not> is_member s' (ChannelId 1) (UserId 2)"
proof -
  let ?run = "leave_circle (LeaveCircle (UserId 2) (CircleId 1)) sample_circle_state"
  have "fst ?run = Inr ()"
    by (simp add: leave_circle_def circle_role_of_def can_leave_circle_def circle_sample_defs Let_def)
  then obtain s' where run: "?run = (Inr (), s')" by (cases ?run) auto
  have "hm_get (channels s') (ChannelId 1) = Some sample_circle_channel"
    using run by (auto simp: leave_circle_def Let_def circle_sample_defs split: if_splits)
  moreover have "is_member sample_circle_state (ChannelId 1) (UserId 2)"
    by (simp add: is_member_def hm_has_iff circle_sample_defs)
  ultimately show ?thesis
    using run leave_circle_removes_access [OF sample_circle_state_inv run]
    by (auto simp: sample_circle_channel_def)
qed



section \<open>Invitations\<close>

text \<open>
  C26. An issued circle invitation lets one registered user in, and only one: the first acceptance
  before it expires gives the circle's membership with the role of a plain member, and from then
  on the token is refused for everybody, at any time, without any change.
\<close>

theorem circle_invitation_single_use:
  assumes issue: "create_circle_invitation sha256 generated now fresh (CreateCircleInvitation inviter k) s = (Inr issued, s1)"
    and "hm_has (users s) actor" and "later \<le> now + seven_days"
  shows "\<exists>m s2. accept_circle_invitation sha256 later joined (AcceptCircleInvitation actor (issued_token issued)) s1 = (Inr m, s2) \<and>
    cm_circle_id m = k \<and> cm_user_id m = actor \<and> cm_role m = CircleMember \<and>
    hm_get (circle_memberships s2) (k, actor) = Some m \<and>
    (\<forall>p. p \<noteq> (k, actor) \<longrightarrow> hm_get (circle_memberships s2) p = hm_get (circle_memberships s) p) \<and>
    (\<forall>other at at'. \<exists>e. accept_circle_invitation sha256 at at' (AcceptCircleInvitation other (issued_token issued)) s2 = (Inl e, s2) \<and>
       e \<in> {NotFound, PermissionDenied})"
proof -
  obtain token where gen: "generated = Inr token"
    using issue by (cases generated) (auto simp: create_circle_invitation_def split: if_splits)
  have s1: "s1 = s\<lparr> circle_invitations := hm_insert (sha256 token) \<lparr> inv_id = fresh, inv_circle_id = k,
      inv_invited_by = inviter, inv_expires_at = now + seven_days \<rparr> (circle_invitations s) \<rparr>"
    and tok: "issued_token issued = token"
    using issue by (auto simp: create_circle_invitation_def gen Let_def split: if_splits)
  show ?thesis
    using assms(2,3) by (auto simp: accept_circle_invitation_def s1 tok Let_def)
qed

theorem circle_invitation_single_use_witness:
  "\<exists>m s2. accept_circle_invitation (\<lambda>_. [7]) 5 5 (AcceptCircleInvitation (UserId 2) (lit ''tok''))
      (snd (create_circle_invitation (\<lambda>_. [7]) (Inr (lit ''tok'')) 0 (InvitationId 9) (CreateCircleInvitation (UserId 1) (CircleId 1))
        sample_circle_state)) = (Inr m, s2) \<and> cm_role m = CircleMember"
proof -
  let ?run = "create_circle_invitation (\<lambda>_. [7]) (Inr (lit ''tok'')) 0 (InvitationId 9) (CreateCircleInvitation (UserId 1) (CircleId 1))
        sample_circle_state"
  have "\<exists>i. fst ?run = Inr i \<and> issued_token i = lit ''tok''"
    by (simp add: create_circle_invitation_def can_invite_to_circle_def is_human_def circle_role_of_def circle_sample_defs Let_def)
  then obtain i where i: "?run = (Inr i, snd ?run)" "issued_token i = lit ''tok''" by (metis prod.collapse)
  have "hm_has (users sample_circle_state) (UserId 2)" by (simp add: circle_sample_defs hm_has_iff)
  from circle_invitation_single_use [OF i(1) this, of 5 5] i(2) show ?thesis
    by (auto simp: seven_days_def)
qed

text \<open>
  C27. An enrollment invitation admits the invited person once: until it is activated nobody can
  use it; once active, it is refused for any e-mail address whose normalised hash differs from
  the invited one, and accepted for the invited address, which makes the actor a member of the
  invitation's circle without lowering a role the actor already has; afterwards it can neither be
  activated nor accepted again.
\<close>

theorem enrollment_invitation_lifecycle:
  assumes "prepare_enrollment_invitation u sha256 (Inr token) fresh (PrepareEnrollmentInvitation inviter circle email expires) s = (Inr issued, s1)"
    and "activate_enrollment_invitation sha256 t1 (ActivateEnrollmentInvitation token external) s1 = (Inr active, s2)"
    and "hm_has (users s) actor" and "t2 < expires" and wf: "hm_wf (circle_memberships s)"
  shows "(\<exists>e. accept_enrollment_invitation u sha256 t2 joined (AcceptEnrollmentInvitation actor email token) s1 = (Inl e, s1)) \<and>
    (\<forall>other. enrollment_email_hash u sha256 other \<noteq> enrollment_email_hash u sha256 email \<longrightarrow>
       accept_enrollment_invitation u sha256 t2 joined (AcceptEnrollmentInvitation actor other token) s2 = (Inl NotFound, s2)) \<and>
    (\<exists>m s3. accept_enrollment_invitation u sha256 t2 joined (AcceptEnrollmentInvitation actor email token) s2 = (Inr m, s3) \<and>
       (\<forall>k. circle = Some k \<longrightarrow> m = hm_get (circle_memberships s3) (k, actor) \<and> circle_role_of s3 k actor =
          (case circle_role_of s k actor of None \<Rightarrow> Some CircleMember | Some r \<Rightarrow> Some r)) \<and>
       (\<forall>p. (\<forall>k. circle = Some k \<longrightarrow> p \<noteq> (k, actor)) \<longrightarrow> hm_get (circle_memberships s3) p = hm_get (circle_memberships s) p) \<and>
       (\<forall>at at' other mail. fst (accept_enrollment_invitation u sha256 at at' (AcceptEnrollmentInvitation other mail token) s3)
          \<in> {Inl NotFound, Inl PermissionDenied}) \<and>
       (\<forall>at ext. activate_enrollment_invitation sha256 at (ActivateEnrollmentInvitation token ext) s3 = (Inl NotFound, s3)))"
proof -
  let ?h = "enrollment_token_hash sha256 token" and ?i = "\<lparr> en_id = fresh, en_circle_id = circle,
     en_invited_by = inviter, en_expires_at = expires, en_state = Inactive, en_authentik_invitation_id = None \<rparr>"
  let ?st = "\<lparr> st_invitation = ?i, st_expected_email_hash = enrollment_email_hash u sha256 email, st_consumed_by = None \<rparr>"
  have s1: "s1 = s\<lparr> enrollment_invitations := hm_insert ?h ?st (enrollment_invitations s) \<rparr>"
    using assms(1) by (auto simp: prepare_enrollment_invitation_def Let_def split: option.splits if_splits)
  let ?a = "?i\<lparr> en_state := Active, en_authentik_invitation_id := Some external \<rparr>"
  have s2: "s2 = s1\<lparr> enrollment_invitations := hm_insert ?h (?st\<lparr> st_invitation := ?a \<rparr>) (enrollment_invitations s1) \<rparr>"
    using assms(2) by (auto simp: activate_enrollment_invitation_def s1 Let_def split: if_splits)
  have has: "hm_has (users s1) actor" "hm_has (users s2) actor" using assms(3) by (simp_all add: s1 s2)
  have g1: "hm_get (enrollment_invitations s1) ?h = Some ?st" by (simp add: s1)
  have g2: "hm_get (enrollment_invitations s2) ?h = Some (?st\<lparr> st_invitation := ?a \<rparr>)" by (simp add: s2)
  have cm: "circle_memberships s2 = circle_memberships s" by (simp add: s1 s2)
  note put = hm.get_put_new [OF wf]
  show ?thesis
  proof (intro conjI allI impI)
    show "\<exists>e. accept_enrollment_invitation u sha256 t2 joined (AcceptEnrollmentInvitation actor email token) s1 = (Inl e, s1)"
      using has by (simp add: accept_enrollment_invitation_def g1 Let_def)
  next
    fix other assume "enrollment_email_hash u sha256 other \<noteq> enrollment_email_hash u sha256 email"
    then show "accept_enrollment_invitation u sha256 t2 joined (AcceptEnrollmentInvitation actor other token) s2 = (Inl NotFound, s2)"
      using has by (simp add: accept_enrollment_invitation_def g2 Let_def)
  next
    show "\<exists>m s3. accept_enrollment_invitation u sha256 t2 joined (AcceptEnrollmentInvitation actor email token) s2 = (Inr m, s3) \<and>
       (\<forall>k. circle = Some k \<longrightarrow> m = hm_get (circle_memberships s3) (k, actor) \<and> circle_role_of s3 k actor =
          (case circle_role_of s k actor of None \<Rightarrow> Some CircleMember | Some r \<Rightarrow> Some r)) \<and>
       (\<forall>p. (\<forall>k. circle = Some k \<longrightarrow> p \<noteq> (k, actor)) \<longrightarrow> hm_get (circle_memberships s3) p = hm_get (circle_memberships s) p) \<and>
       (\<forall>at at' other mail. fst (accept_enrollment_invitation u sha256 at at' (AcceptEnrollmentInvitation other mail token) s3)
          \<in> {Inl NotFound, Inl PermissionDenied}) \<and>
       (\<forall>at ext. activate_enrollment_invitation sha256 at (ActivateEnrollmentInvitation token ext) s3 = (Inl NotFound, s3))"
    proof (cases circle)
      case None
      with has assms(4) show ?thesis
        by (simp add: accept_enrollment_invitation_def activate_enrollment_invitation_def g2 cm Let_def)
    next
      case (Some k)
      with has assms(4) show ?thesis
        by (simp add: accept_enrollment_invitation_def activate_enrollment_invitation_def g2 cm put
            circle_role_of_def hm_has_iff Let_def split: option.splits)
    qed
  qed
qed

theorem enrollment_invitation_lifecycle_witness:
  "\<exists>m s3. accept_enrollment_invitation sample_unicode (\<lambda>_. [7]) 5 5
      (AcceptEnrollmentInvitation (UserId 2) (lit ''a'') (lit ''tok''))
      (snd (activate_enrollment_invitation (\<lambda>_. [7]) 4 (ActivateEnrollmentInvitation (lit ''tok'') 11)
        (snd (prepare_enrollment_invitation sample_unicode (\<lambda>_. [7]) (Inr (lit ''tok'')) 9
          (PrepareEnrollmentInvitation (UserId 1) (Some (CircleId 1)) (lit ''a'') 100) sample_circle_state)))) = (Inr m, s3) \<and>
     circle_role_of s3 (CircleId 1) (UserId 2) = Some CircleMember"
proof -
  let ?p = "prepare_enrollment_invitation sample_unicode (\<lambda>_. [7]) (Inr (lit ''tok'')) 9
          (PrepareEnrollmentInvitation (UserId 1) (Some (CircleId 1)) (lit ''a'') 100) sample_circle_state"
  let ?a = "activate_enrollment_invitation (\<lambda>_. [7]) 4 (ActivateEnrollmentInvitation (lit ''tok'') 11) (snd ?p)"
  have "\<exists>i. fst ?p = Inr i"
    by (simp add: prepare_enrollment_invitation_def can_invite_to_circle_def circle_role_of_def circle_sample_defs Let_def)
  then obtain i where p: "?p = (Inr i, snd ?p)" by (metis prod.collapse)
  have "\<exists>v. hm_get (enrollment_invitations (snd ?p)) [7] = Some v \<and> en_state (st_invitation v) = Inactive \<and>
      en_expires_at (st_invitation v) = 100"
    by (simp add: prepare_enrollment_invitation_def can_invite_to_circle_def circle_role_of_def
        circle_sample_defs enrollment_token_hash_def Let_def)
  then have "\<exists>i. fst ?a = Inr i"
    by (auto simp: activate_enrollment_invitation_def enrollment_token_hash_def Let_def)
  then obtain j where a: "?a = (Inr j, snd ?a)" by (metis prod.collapse)
  have "hm_has (users sample_circle_state) (UserId 2)" "hm_wf (circle_memberships sample_circle_state)"
    "circle_role_of sample_circle_state (CircleId 1) (UserId 2) = Some CircleMember"
    by (simp_all add: circle_sample_defs hm_has_iff hm_wf_def circle_role_of_def)
  moreover note enrollment_invitation_lifecycle [OF p a this(1) _ this(2), of 5 5]
  ultimately show ?thesis by auto
qed

section \<open>Ownership\<close>

text \<open>
  C28. A role change is the owner's alone and never touches ownership: it succeeds only for an
  owner acting on a registered human member who is not an owner, gives exactly the requested role,
  which is not that of an owner, and leaves every other membership as it is; so the owners of all
  circles are the same before and after, whatever the outcome.
\<close>

theorem set_circle_member_role_keeps_owners:
  assumes "set_circle_member_role (SetCircleMemberRole actor k user role) s = (r, s')"
  shows "(\<forall>k' u'. circle_role_of s' k' u' = Some CircleOwner \<longleftrightarrow> circle_role_of s k' u' = Some CircleOwner) \<and>
    (\<forall>k' u'. hm_has (circle_memberships s') (k', u') \<longleftrightarrow> hm_has (circle_memberships s) (k', u')) \<and>
    (case r of Inl e \<Rightarrow> e = PermissionDenied \<and> s' = s
     | Inr m \<Rightarrow> circle_role_of s k actor = Some CircleOwner \<and> actor \<noteq> user \<and> role \<noteq> CircleOwner \<and>
         cm_role m = role \<and> (\<forall>p. hm_get (circle_memberships s') p =
            (if p = (k, user) then Some m else hm_get (circle_memberships s) p)))"
  using assms
  by (auto simp: set_circle_member_role_def circle_role_of_def hm_has_iff Let_def
      split: if_splits option.splits)

theorem set_circle_member_role_keeps_owners_witness:
  "\<exists>m s'. set_circle_member_role (SetCircleMemberRole (UserId 1) (CircleId 1) (UserId 2) CircleModerator) sample_circle_state
      = (Inr m, s') \<and> cm_role m = CircleModerator \<and>
     circle_role_of s' (CircleId 1) (UserId 1) = Some CircleOwner"
proof -
  let ?run = "set_circle_member_role (SetCircleMemberRole (UserId 1) (CircleId 1) (UserId 2) CircleModerator) sample_circle_state"
  have own: "circle_role_of sample_circle_state (CircleId 1) (UserId 1) = Some CircleOwner"
    by (simp add: circle_sample_defs circle_role_of_def)
  have "\<exists>m. fst ?run = Inr m"
    by (simp add: set_circle_member_role_def is_human_def circle_role_of_def circle_sample_defs Let_def)
  then obtain m where run: "?run = (Inr m, snd ?run)" by (metis prod.collapse)
  from set_circle_member_role_keeps_owners [OF run] own show ?thesis
    by (subst run) simp
qed

end
