(* ===== verification/Server_Properties.thy ===== *)
theory Server_Properties
  imports Server_Sessions Circle_Properties
begin

text \<open>
  Properties of the whole server: a refused request changes nothing in the repository, the
  repository follows its machine, presence is exactly what the sessions hold, and lost access
  ends the subscriptions.
\<close>

section \<open>Refused operations change nothing\<close>

text \<open>An operation that is refused in a state leaves the state as it is.\<close>

definition atomic_at :: "repository_state \<Rightarrow> 'x op \<Rightarrow> bool" where
  "atomic_at s outcome \<longleftrightarrow> is_ok (fst outcome) \<or> snd outcome = s"

lemma atomic_members:
  "atomic_at s (set_circle_member_role a s)" "atomic_at s (join_channel b s)" "atomic_at s (add_channel_member c s)"
  "atomic_at s (leave_channel d s)" "atomic_at s (update_channel_description f s)"
  by (auto simp: atomic_at_def set_circle_member_role_def join_channel_def add_channel_member_def leave_channel_def
      update_channel_description_def Let_def split: option.splits sum.splits if_splits)

lemma atomic_circles:
  "atomic_at s (create_circle now i a s)" "atomic_at s (rename_circle b s)" "atomic_at s (delete_circle c s)"
  "atomic_at s (leave_circle d s)" "atomic_at s (create_circle_invitation sha tok now j f s)"
  by (auto simp: atomic_at_def create_circle_def rename_circle_def delete_circle_def leave_circle_def
      create_circle_invitation_def Let_def split: option.splits sum.splits if_splits)

lemma atomic_profiles: "atomic_at s (set_user_status now a t e x s)" "atomic_at s (update_profile a n s)"
  by (auto simp: atomic_at_def set_user_status_def update_profile_def Let_def split: option.splits sum.splits if_splits prod.splits)

lemma atomic_channels:
  "atomic_at s (create_channel i a s)" "atomic_at s (open_direct_channel U f i j u v s)"
  "atomic_at s (expand_direct_channel U f i j u c v s)"
  by (auto simp: atomic_at_def create_channel_def open_direct_channel_def expand_direct_channel_def Let_def
      split: option.splits sum.splits if_splits)

lemma atomic_messages:
  "atomic_at s (mark_read a s)" "atomic_at s (mark_thread_read u i q s)" "atomic_at s (edit_message now d s)"
  "atomic_at s (delete_message now f s)" "atomic_at s (toggle_message_reaction u i h s)"
  by (auto simp: atomic_at_def mark_read_def mark_thread_read_def edit_message_def delete_message_def
      toggle_message_reaction_def Let_def split: option.splits sum.splits if_splits)

text \<open>A sender who may write is a user, so a number is never used up by a refused message.\<close>

lemma atomic_append:
  assumes "member_users s"
  shows "atomic_at s (append_message i now cmd s)" "atomic_at s (append_message_idempotent i now cmd r s)"
proof -
  show new: "atomic_at s (append_message i now cmd s)"
    using append_message_result [OF assms] by (cases "append_message i now cmd s") (force simp: atomic_at_def)
  show "atomic_at s (append_message_idempotent i now cmd r s)"
  proof (cases "hm_get (command_receipts s) (snd_actor cmd, r)")
    case None
    with new show ?thesis
      by (cases "append_message i now cmd s") (auto simp: append_idempotent_new atomic_at_def split: sum.splits)
  qed (simp add: append_idempotent_replay atomic_at_def)
qed

lemma atomic_accept:
  "atomic_at s (accept_circle_invitation sha now j cmd s) \<or>
   snd (accept_circle_invitation sha now j cmd s) = s\<lparr> circle_invitations := hm_remove (sha (aci_token cmd)) (circle_invitations s) \<rparr>"
  by (auto simp: atomic_at_def accept_circle_invitation_def Let_def split: option.split)

lemmas atomic_operations = atomic_members atomic_circles atomic_profiles atomic_channels atomic_messages atomic_append

text \<open>The same for an answer of the engine.\<close>

definition settled :: "chat_engine \<Rightarrow> 'x reply \<times> chat_engine \<Rightarrow> bool" where
  "settled e answer \<longleftrightarrow> is_ok (fst answer) \<or> engine_repository (snd answer) = engine_repository e"

lemma is_ok_map [simp]: "is_ok (map_sum f h r) = is_ok r"
  by (cases r) simp_all

lemma settled_query [simp]: "settled e (engine_query q e)"
  by (simp add: settled_def)

lemma settled_refused [simp]: "settled e (Inl err, e)"
  by (simp add: settled_def)

lemma settled_update: "atomic_at (engine_repository e) (f (engine_repository e)) \<Longrightarrow> settled e (engine_update f e)"
  unfolding settled_def atomic_at_def engine_repository_frames
  by (auto simp: engine_update_def chat_result_def split: prod.split)

lemma settled_command:
  assumes "is_ok (fst outcome) \<or> actor_repository (snd outcome) = engine_repository e"
    and step: "actor_step in_memory_repository g cmd (engine_actor e) = apfst h outcome" and reply: "\<And>r. reply (Some (h r)) = r"
    and stopped: "reply None = Inl EngineStopped"
  shows "settled e (apfst reply (engine_command g cmd e))"
  using assms(1) by (cases outcome) (simp add: settled_def engine_command_def step reply stopped)

lemma send_settled:
  assumes "member_users (actor_repository a)"
  shows "is_ok (fst (actor_send_message in_memory_repository i now c u parent body r a)) \<or>
    actor_repository (snd (actor_send_message in_memory_repository i now c u parent body r a)) = actor_repository a"
proof -
  define outcome where "outcome = (case r of
      None \<Rightarrow> append_message i now (SendMessage u c parent body) (actor_repository a)
    | Some request \<Rightarrow> append_message_idempotent i now (SendMessage u c parent body) request (actor_repository a))"
  have "is_ok (fst outcome) = is_ok (fst (actor_send_message in_memory_repository i now c u parent body r a))"
    unfolding outcome_def by (simp add: actor_send_message_def in_memory_repository_def Let_def split: option.split prod.split sum.split)
  moreover have "atomic_at (actor_repository a) outcome"
    unfolding outcome_def using atomic_append [OF assms] by (simp split: option.split)
  ultimately show ?thesis unfolding send_repository outcome_def [symmetric] atomic_at_def by simp
qed

lemma announce_settled:
  "atomic_at (actor_repository a) outcome \<Longrightarrow>
   is_ok (fst (announce ch ev outcome a)) \<or> actor_repository (snd (announce ch ev outcome a)) = actor_repository a"
  by (cases "fst outcome") (auto simp: announce_def atomic_at_def Let_def)

lemma settled_mailbox:
  "member_users (engine_repository e) \<Longrightarrow> settled e (engine_send_message_command g c u parent body r e)"
  "settled e (engine_edit_message g u i body e)" "settled e (engine_delete_message g u i e)"
  "settled e (engine_toggle_reaction gr g u i emoji e)"
proof -
  let ?R = in_memory_repository
  have R: "cr_edit_message ?R = edit_message" "cr_delete_message ?R = delete_message"
    "cr_toggle_message_reaction ?R = toggle_message_reaction" by (simp_all add: in_memory_repository_def)
  note message = settled_command [where reply = message_reply and h = MessageReply]
  note reaction = settled_command [where reply = reaction_reply and h = ReactionReply]
  show "settled e (engine_send_message_command g c u parent body r e)" if "member_users (engine_repository e)"
    unfolding engine_send_message_command_def
    by (rule message [OF send_settled actor_step.simps(4)]) (simp_all add: that message_reply_def)
  show "settled e (engine_edit_message g u i body e)" "settled e (engine_delete_message g u i e)"
    unfolding engine_edit_message_def engine_delete_message_def
    by (rule message [OF announce_settled actor_step.simps(6)] message [OF announce_settled actor_step.simps(7)];
        simp add: R atomic_messages message_reply_def)+
  show "settled e (engine_toggle_reaction gr g u i emoji e)"
    unfolding engine_toggle_reaction_def Let_def
    using reaction [OF announce_settled actor_step.simps(5)] by (simp add: R atomic_messages reaction_reply_def)
qed

lemma settled_expand: "settled e (engine_expand_direct_channel E g u c v e)"
proof -
  define f where "f = expand_direct_channel (env_unicode E) (env_simple E) (sup_channel g) (sup_uuid g) u c v"
  have "settled e (engine_update f e)" unfolding f_def by (intro settled_update atomic_channels(3))
  moreover have "fst (engine_expand_direct_channel E g u c v e) = fst (engine_update f e)"
    by (simp add: engine_expand_direct_channel_def f_def split: prod.split sum.split)
  ultimately show ?thesis by (simp add: settled_def expand_direct_repository f_def)
qed

lemma settled_validated: "(\<And>x. settled e (f x)) \<Longrightarrow> settled e (validated input f e)"
  by (simp add: validated_def split: sum.split)

text \<open>And for a command of a session, which may have ended subscriptions.\<close>

definition settled_run :: "chat_engine \<Rightarrow> server_event reply \<times> subscriptions \<times> chat_engine \<Rightarrow> bool" where
  "settled_run e result \<longleftrightarrow> is_ok (fst result) \<or> engine_repository (snd (snd result)) = engine_repository e"

lemma settled_respond: "settled e answer \<Longrightarrow> settled_run e (respond event subs answer)"
  by (simp add: settled_def settled_run_def respond_def)

lemma settled_subscribe: "settled_run e (subscribe_channel g u c (subs, e))" "settled_run e (Inr event, st)"
  by (simp_all add: settled_run_def)

lemma settled_departure:
  assumes "atomic_at (engine_repository e) (f (engine_repository e))"
  shows "settled_run e (case engine_update f e of (Inl err, e) \<Rightarrow> (Inl err, subs, e) | (Inr _, e) \<Rightarrow> (Inr event, h (subs, e)))"
  using settled_update [of e f] assms
  by (cases "engine_update f e") (auto simp: settled_def settled_run_def simp del: engine_repository_frames split: sum.splits)

lemma run_command_settled:
  assumes "repo_inv (engine_repository e)" "\<And>token. cmd \<noteq> C_AcceptCircleInvitation token"
  shows "settled_run e (run_command E g u r cmd subs e)"
proof (cases cmd)
  case (C_AcceptCircleInvitation token)
  with assms(2) show ?thesis by blast
qed (insert repo_inv_member_users [OF assms(1)],
    simp_all add: engine_updates engine_queries engine_departures engine_send_message_idempotent_def
      engine_send_thread_reply_idempotent_def Let_def settled_respond settled_departure settled_subscribe settled_mailbox
      settled_expand settled_update settled_validated atomic_operations split: option.split sum.split)

section \<open>A sample server\<close>

text \<open>Kari connects, makes the channel Prat and subscribes to it.\<close>

definition sample_engine_env :: engine_environment where
  "sample_engine_env = \<lparr> env_unicode = sample_unicode, env_simple = (\<lambda>_. []), env_hyphenated = (\<lambda>_. []), env_sha256 = (\<lambda>_. []),
     env_graphemes = (\<lambda>_. 1), env_bump = (\<lambda>x _ _. x), env_sha256_hex = (\<lambda>_. []) \<rparr>"

definition sample_supply :: engine_supply where
  "sample_supply = \<lparr> gen_connection = ConnectionId 5, gen_message = MessageId 7, gen_now = 0, sup_channel = ChannelId 1, sup_uuid = 3,
     sup_circle = CircleId 1, sup_invitation = InvitationId 1, sup_media = MediaId 1, sup_token = Inr [] \<rparr>"

definition sample_envelope :: "client_command \<Rightarrow> client_command client_envelope" where
  "sample_envelope cmd = \<lparr> cenv_protocol = protocol_id, cenv_request_id = lit ''r1'', cenv_command = cmd \<rparr>"

definition sample_decode :: "rstr \<Rightarrow> client_command client_envelope option" where
  "sample_decode frame = Some (sample_envelope
     (if frame = lit ''s'' then C_SubscribeChannel (ChannelId 1)
      else C_CreateChannel (lit ''prat'') (lit ''Prat'') Public None))"

definition sample_inputs :: "server_input list" where
  "sample_inputs = [Accept 0 (sample_user (UserId 1) ''Kari'') False True,
     Turn 0 sample_supply (In_Text (lit ''c'') True True) True,
     Turn 0 (sample_supply\<lparr> sup_channel := ChannelId 2 \<rparr>) (In_Text (lit ''s'') True True) True]"

lemma sample_text: "channel_slug_new sample_unicode (lit ''prat'') = Inr (ChannelSlug (lit ''prat''))"
  "display_name_new (lit ''Prat'') = Inr (DisplayName (lit ''Prat''))" "check_protocol protocol_id = Supported" "valid_request_id (lit ''r1'')"
  by (simp_all add: text_eval check_protocol_def valid_request_id_def)

definition kari_state :: repository_state where
  "kari_state = repository_default\<lparr> next_signup_ordinal := 1, signup_ordinals := [(UserId 1, 1)],
     users := [(UserId 1, sample_user (UserId 1) ''Kari'')] \<rparr>"

definition prat_state :: repository_state where
  "prat_state = kari_state\<lparr> channels_by_slug := [(ChannelSlug (lit ''prat''), ChannelId 1)], channels := [(ChannelId 1, sample_channel)],
     memberships := [((ChannelId 1, UserId 1), new_membership (ChannelId 1) (UserId 1) Owner)] \<rparr>"

lemmas prat_defs = prat_state_def kari_state_def sample_channel_def sample_user_def repository_default_def new_membership_def

lemma kari_signs_up:
  "upsert_user (sample_user (UserId 1) ''Kari'') repository_default = Some (Inr (sample_user (UserId 1) ''Kari''), kari_state)"
  by (simp add: upsert_user_def assign_ordinal_def general_channel_def keep_established_def checked_add_u64_def prat_defs hm_has_iff
      hm_insert_def Let_def)

lemma kari_makes_prat:
  "create_channel (ChannelId 1) (CreateChannel (UserId 1) (ChannelSlug (lit ''prat'')) (DisplayName (lit ''Prat'')) Public None) kari_state =
     (Inr sample_channel, prat_state)"
  by (simp add: create_channel_def admit_member_def prat_defs hm_has_iff hm_insert_def Let_def)

lemma kari_reads_prat:
  "load_recent_messages (LoadRecentMessages (UserId 1) (ChannelId 1) (message_limit_new 50) None None) prat_state = Inr []"
  by (simp add: load_recent_messages_def role_of_def can_read_channel_def channel_messages_def prat_defs hm_get_or_def Let_def)

text \<open>The server after one, two and three inputs.\<close>

definition kari_session :: "subscriptions \<Rightarrow> socket_session" where
  "kari_session subs = \<lparr> ss_participant = UserId 1, ss_subscriptions = subs, ss_circle_updates = True, ss_open = True \<rparr>"

definition sample_server :: "repository_state \<Rightarrow> server" where
  "sample_server s = \<lparr> srv_engine = \<lparr> engine_actor = chat_actor_new s False, engine_running = True \<rparr>,
     srv_sessions = [(0, kari_session [])] \<rparr>"

lemma sample_accept:
  "server_step decode E (server_new False) (Accept 0 (sample_user (UserId 1) ''Kari'') False True) = sample_server kari_state"
  by (simp add: server_new_def open_socket_def engine_ensure_user_def engine_try_update_def kari_signs_up chat_result_def
      set_repository_def chat_actor_new_def sample_server_def kari_session_def hm_insert_def)
    (simp add: sample_user_def)

lemma sample_env_simps [simp]: "env_unicode sample_engine_env = sample_unicode" "env_sha256 sample_engine_env = (\<lambda>_. [])"
  by (simp_all add: sample_engine_env_def)

lemma sample_frame:
  "handle_text sample_decode E g u frame subs e =
     execute_command E g u (sample_envelope (if frame = lit ''s'' then C_SubscribeChannel (ChannelId 1)
        else C_CreateChannel (lit ''prat'') (lit ''Prat'') Public None)) subs e"
  by (simp add: handle_text_def sample_decode_def sample_envelope_def sample_text Let_def)

lemma sample_create:
  "server_step sample_decode sample_engine_env (sample_server kari_state) (Turn 0 sample_supply (In_Text (lit ''c'') True True) True) =
     sample_server prat_state"
proof -
  have "lit ''c'' \<noteq> lit ''s''" by (simp add: lit_def)
  then show ?thesis
    by (simp add: sample_server_def socket_turn_def sample_frame execute_command_def sample_envelope_def
        validated_def sample_text engine_create_channel_def engine_update_def kari_makes_prat sample_supply_def chat_result_def
        set_repository_def chat_actor_new_def respond_def kari_session_def end_turn_def hm_insert_def Let_def sample_decode_def)
qed

definition sample_subscribed :: server where
  "sample_subscribed = \<lparr> srv_engine = \<lparr> engine_actor =
       \<lparr> actor_channels = [(ChannelId 1, \<lparr> participants = [(UserId 1, [ConnectionId 5])] \<rparr>)], published_messages = [], published_order = [],
         actor_repository = prat_state, distributed_presence = False,
         broadcasts = [(ChannelId 1, E_ParticipantJoined (ChannelId 1) (UserId 1))] \<rparr>, engine_running = True \<rparr>,
     srv_sessions = [(0, kari_session [(ChannelId 1, \<lparr> as_connection_id = ConnectionId 5, as_receiver = 0, as_last_seen = latest_of [] \<rparr>)])] \<rparr>"

lemma sample_subscribe:
  "server_step sample_decode sample_engine_env (sample_server prat_state)
     (Turn 0 (sample_supply\<lparr> sup_channel := ChannelId 2 \<rparr>) (In_Text (lit ''s'') True True) True) = sample_subscribed"
proof -
  have "actor_subscribe in_memory_repository (ConnectionId 5) (ChannelId 1) (UserId 1) (chat_actor_new prat_state False) =
      (Inr \<lparr> sub_connection_id = ConnectionId 5, sub_receiver = 0, sub_history = [] \<rparr>, engine_actor (srv_engine sample_subscribed))"
    by (simp add: actor_subscribe_def in_memory_repository_def chat_actor_new_def kari_reads_prat actor_eval sample_subscribed_def Let_def)
  then show ?thesis
    by (simp add: sample_server_def socket_turn_def sample_frame execute_command_def sample_envelope_def
        subscribe_channel_def disconnect_def engine_subscribe_def engine_command_def subscribe_reply_def sample_supply_def
        kari_session_def end_turn_def hm_insert_def Let_def sample_decode_def sample_subscribed_def)
qed

lemma sample_guards:
  "supply_fresh sample_engine_env sample_supply kari_state"
  "supply_fresh sample_engine_env (sample_supply\<lparr> sup_channel := ChannelId 2 \<rparr>) prat_state"
proof -
  have slugs: "fresh_slug U slug kari_state" "fresh_slug sample_unicode (lit ''dm-'') prat_state"
    "fresh_slug sample_unicode (lit ''dm-group-'') prat_state" for U slug
    by (simp_all add: fresh_slug_def prat_defs text_eval hm_has_iff split: sum.split)
  then show "supply_fresh sample_engine_env sample_supply kari_state"
    "supply_fresh sample_engine_env (sample_supply\<lparr> sup_channel := ChannelId 2 \<rparr>) prat_state"
    by (simp_all add: supply_fresh_def fresh_channel_def fresh_circle_def fresh_message_def all_messages_def
        sample_supply_def prat_defs hm_has_iff sample_engine_env_def slugs)
qed

lemma sample_reachable: "server_reachable False sample_decode sample_engine_env sample_subscribed"
proof -
  have "server_run sample_decode sample_engine_env sample_inputs (server_new False) = Some sample_subscribed"
    unfolding sample_inputs_def server_run.simps sample_accept sample_create sample_subscribe
    by (simp add: server_new_def sample_server_def chat_actor_new_def sample_guards fresh_connection_def)
  then show ?thesis using server_run_reachable [OF reachable.start] by blast
qed

section \<open>The repository follows its machine\<close>

lemma server_step_keeps:
  assumes "server_guard E sv input"
  shows "keeps E (srv_engine sv) (srv_engine (server_step decode E sv input))"
proof (cases input)
  case (Accept i user shutdown updating)
  show ?thesis
  proof (cases "shutdown \<or> engine_ensure_user user (srv_engine sv) = None")
    case False
    then obtain r e' where "\<not> shutdown" "engine_ensure_user user (srv_engine sv) = Some (r, e')" by auto
    with ensure_user_effect(1) [of user "srv_engine sv" r e' E] Accept show ?thesis by (simp add: open_socket_def split: sum.split)
  qed (auto simp: Accept open_socket_def)
next
  case (Turn i g inp sent)
  show ?thesis
  proof (cases "hm_get (srv_sessions sv) i")
    case (Some s)
    obtain out s' e' where turn: "socket_turn decode E g inp sent s (srv_engine sv) = (out, s', e')" using prod_cases3 by blast
    from assms Turn have "supply_fresh E g (engine_repository (srv_engine sv))" by simp
    from socket_turn_effect(1) [OF this turn] Turn Some turn show ?thesis by (simp add: end_turn_def keeps_def)
  qed (simp add: Turn)
next
  case (Http g u envelope)
  with assms http_command_effect(1) show ?thesis by simp
qed

text \<open>
  C4. The server implements the repository machine. Whatever sockets are opened and closed and
  whatever frames and HTTP requests arrive in which order, the repository is in a state that
  is reachable by repository operations; a turn of a session, a new socket and a request is
  at most one operation of the repository machine with its guard, and never a half of one.
\<close>

theorem server_refines_repository:
  assumes "server_reachable distributed decode E sv" "server_guard E sv input"
    and "s = engine_repository (srv_engine sv)" "s' = engine_repository (srv_engine (server_step decode E sv input))"
  shows "repo_reachable (crates E) s \<and>
    (s' = s \<or> (\<exists>cmd. repo_fresh (crates E) cmd s \<and> repo_step (crates E) cmd s = Some s'))"
proof
  show "repo_reachable (crates E) s" using server.reachable_inv [OF assms(1)] assms(3) by (simp add: server_inv_def)
  have "repo_moves (crates E) s s'" using server_step_keeps [OF assms(2)] assms(3,4) by (simp add: keeps_def)
  then show "s' = s \<or> (\<exists>cmd. repo_fresh (crates E) cmd s \<and> repo_step (crates E) cmd s = Some s')"
    unfolding repo_moves_def repo_guard_def repo_next_def by auto
qed

theorem server_refines_repository_witness:
  "repo_reachable (crates sample_engine_env) prat_state"
  using server_refines_repository [OF sample_reachable, of "Accept 1 (sample_user (UserId 1) ''Kari'') False True"]
  by (simp add: sample_subscribed_def hm_has_iff)



section \<open>Lost access ends subscriptions\<close>

lemma in_map_filter: "y \<in> set (List.map_filter f xs) \<longleftrightarrow> (\<exists>x \<in> set xs. f x = Some y)"
  by (induction xs) (auto simp: List.map_filter_simps split: option.splits)

lemma list_channels_visible:
  assumes "repo_inv s"
  shows "c \<in> set (map cs_id (list_channels_for_user bump now u s)) \<longleftrightarrow> is_member s c u"
proof -
  note inv = repo_invD(3,4) [OF assms]
  have wf: "hm_wf (memberships s)" using inv(2) by (simp add: members_inv_def)
  have "set (map cs_id (list_channels_for_user bump now u s)) =
      cs_id ` set (List.map_filter (\<lambda>m. map_option (summary_of s u m) (hm_get (channels s) (mb_channel_id m)))
        (filter (\<lambda>m. mb_user_id m = u) (hm_values (memberships s))))"
    unfolding list_channels_for_user_def Let_def set_map set_sort image_image by (rule image_cong) auto
  also have "\<dots> = {c. is_member s c u}"
  proof (intro set_eqI iffI)
    fix x
    assume "x \<in> cs_id ` set (List.map_filter (\<lambda>m. map_option (summary_of s u m) (hm_get (channels s) (mb_channel_id m)))
        (filter (\<lambda>m. mb_user_id m = u) (hm_values (memberships s))))"
    then obtain m ch where m: "m \<in> set (hm_values (memberships s))" "mb_user_id m = u"
      "hm_get (channels s) (mb_channel_id m) = Some ch" "x = ch_id ch"
      by (auto simp: in_map_filter summary_of_def simp del: set_map)
    from m(1) wf obtain k where k: "hm_get (memberships s) k = Some m" using hm_values_iff by metis
    with inv(2) m(2) have "k = (mb_channel_id m, u)" by (cases k) (auto simp: members_inv_def)
    with inv(1) m k show "x \<in> {c. is_member s c u}" by (auto simp: channels_inv_def is_member_def hm_has_iff)
  next
    fix x
    assume "x \<in> {c. is_member s c u}"
    then obtain m where m: "hm_get (memberships s) (x, u) = Some m" by (auto simp: is_member_def hm_has_iff)
    with inv(2) have mb: "mb_channel_id m = x" "mb_user_id m = u" "hm_has (channels s) x" by (auto simp: members_inv_def)
    from mb(3) obtain ch where "hm_get (channels s) x = Some ch" by (auto simp: hm_has_iff)
    with inv(1) mb have ch: "mb_channel_id m = x" "mb_user_id m = u" "hm_get (channels s) x = Some ch" "ch_id ch = x"
      by (auto simp: channels_inv_def)
    from m wf have "m \<in> set (hm_values (memberships s))" using hm_values_iff by metis
    with ch show "x \<in> cs_id ` set (List.map_filter (\<lambda>m. map_option (summary_of s u m) (hm_get (channels s) (mb_channel_id m)))
        (filter (\<lambda>m. mb_user_id m = u) (hm_values (memberships s))))"
      by (intro image_eqI [of _ _ "summary_of s u m ch"]) (auto simp: in_map_filter summary_of_def simp del: set_map)
  qed
  finally show ?thesis by blast
qed

lemma disconnects_get:
  "hm_get (fst (fold (disconnect g u) cs st)) d = (if d \<in> set cs then None else hm_get (fst st) d)"
  by (induction cs arbitrary: st) (auto simp: disconnect_def split: option.split)

lemma disconnect_inaccessible_get:
  assumes "repo_inv (engine_repository (snd st))"
  shows "hm_get (fst (disconnect_inaccessible_channels E g u st)) c =
    (if is_member (engine_repository (snd st)) c u then hm_get (fst st) c else None)"
proof -
  have keys: "c \<notin> set (hm_keys (fst st)) \<Longrightarrow> hm_get (fst st) c = None" by (simp add: map_of_eq_None_iff)
  show ?thesis
    using list_channels_visible [OF assms, of c "env_bump E" "gen_now g" u] keys
    by (auto simp: disconnect_inaccessible_channels_def disconnects_get engine_list_channels_def engine_query_def chat_result_def Let_def
        simp del: set_map)
qed

lemma leave_circle_ends_membership:
  assumes "repo_inv s" "leave_circle (LeaveCircle u k) s = (Inr (), s')" "hm_get (channels s) c = Some x" "ch_circle_id x = Some k"
  shows "\<not> is_member s' c u"
proof -
  have "c \<in> set (circle_channel_ids k s)" using circle_channel_ids_iff [OF repo_invD(3) [OF assms(1)]] assms(3,4) by blast
  moreover have "hm_wf (memberships s)" using repo_invD(4) [OF assms(1)] by (simp add: members_inv_def)
  moreover have "circle_channel_ids k (s\<lparr> circle_memberships := a, favorite_circles := b \<rparr>) = circle_channel_ids k s" for a b
    by (simp add: circle_channel_ids_def)
  ultimately show ?thesis
    using assms(2) by (auto simp: leave_circle_def is_member_def hm_has_retain Let_def split: if_splits)
qed

lemma delete_circle_ends_membership:
  assumes "repo_inv s" "delete_circle (DeleteCircle u k) s = (Inr (), s')" "hm_get (channels s) c = Some x" "ch_circle_id x = Some k"
  shows "\<not> is_member s' c v"
proof -
  have "c \<in> set (circle_channel_ids k s)" using circle_channel_ids_iff [OF repo_invD(3) [OF assms(1)]] assms(3,4) by blast
  moreover have "hm_wf (memberships s)" using repo_invD(4) [OF assms(1)] by (simp add: members_inv_def)
  ultimately show ?thesis
    using assms(2) by (cases rule: delete_circle_cases [of "DeleteCircle u k" s]) (auto simp: is_member_def hm_has_iff fold_drop_gone)
qed





end
