(* ===== verification/Auth_Codec.thy ===== *)
theory Auth_Codec
  imports Protocol_Wire
begin

text \<open>
  Sealed text: the codec of the session cookies (\<open>CookieCodec\<close> in \<open>src/auth.rs\<close>) and the codec of
  the native sessions (\<open>src/native_sessions/codec.rs\<close>). Both encrypt JSON with AES-256-GCM under
  a primary key and read with the primary key and the previous ones, so that keys can be
  changed. Base64, AES-GCM and the JSON text of a value are functions of other crates.
\<close>

section \<open>Errors of sign-in\<close>

datatype auth_error =
    InvalidIdentity text_validation_error
  | InvalidSessionKey
  | Unauthorized
  | Auth_Unsupported rstr
  | External rstr

fun auth_error_public_message :: "auth_error \<Rightarrow> rstr" where
  "auth_error_public_message (InvalidIdentity e) = text_error_display e"
| "auth_error_public_message InvalidSessionKey = lit ''authentication configuration error''"
| "auth_error_public_message Unauthorized = lit ''authentication required''"
| "auth_error_public_message (Auth_Unsupported _) = lit ''authentication operation unsupported''"
| "auth_error_public_message (External _) = lit ''authentication service unavailable''"

fun auth_error_display :: "auth_error \<Rightarrow> rstr" where
  "auth_error_display (InvalidIdentity e) = text_error_display e"
| "auth_error_display InvalidSessionKey = lit ''SPROYT_SESSION_KEY must be URL-safe base64 for 32 bytes''"
| "auth_error_display Unauthorized = lit ''authentication required''"
| "auth_error_display (Auth_Unsupported message) = message"
| "auth_error_display (External message) = message"

section \<open>The functions of other crates\<close>

text \<open>
  URL-safe base64 without padding, and AES-256-GCM with a key, a nonce and associated data. A
  failed decoding has the text of its error.
\<close>

record crypto =
  b64_encode :: "byte list \<Rightarrow> rstr"
  b64_decode :: "rstr \<Rightarrow> (rstr, byte list) result"
  aes_encrypt :: "byte list \<Rightarrow> byte list \<Rightarrow> byte list \<Rightarrow> byte list \<Rightarrow> byte list option"
  aes_decrypt :: "byte list \<Rightarrow> byte list \<Rightarrow> byte list \<Rightarrow> byte list \<Rightarrow> byte list option"

text \<open>Writing and reading a type of values as JSON.\<close>

record 'a json_type =
  to_json :: "'a \<Rightarrow> (rstr, byte list) result"
  from_json :: "byte list \<Rightarrow> 'a option"

text \<open>
  What the code relies on: decoding inverts encoding, and an encoded text has only letters,
  digits, \<open>-\<close> and \<open>_\<close>; decryption under the same key, nonce and associated data inverts
  encryption; a cipher text is the message and a tag of 16 bytes.
\<close>

definition b64_char :: "rchar \<Rightarrow> bool" where
  "b64_char c \<longleftrightarrow> is_ascii_lower c \<or> is_ascii_upper c \<or> is_ascii_digit c \<or> c = 45 \<or> c = 95"

definition crypto_facts :: "crypto \<Rightarrow> bool" where
  "crypto_facts x \<longleftrightarrow>
     (\<forall>bs. b64_decode x (b64_encode x bs) = Inr bs \<and> list_all b64_char (b64_encode x bs)) \<and>
     (\<forall>k n a m ct. aes_encrypt x k n a m = Some ct \<longrightarrow> aes_decrypt x k n a ct = Some m \<and> length ct = length m + 16)"

definition json_facts :: "'a json_type \<Rightarrow> bool" where
  "json_facts j \<longleftrightarrow> (\<forall>v bs. to_json j v = Inr bs \<longrightarrow> from_json j bs = Some v)"

text \<open>\<open>Iterator::find_map\<close>.\<close>

primrec find_map :: "('a \<Rightarrow> 'b option) \<Rightarrow> 'a list \<Rightarrow> 'b option" where
  "find_map f [] = None"
| "find_map f (x # xs) = (case f x of None \<Rightarrow> find_map f xs | Some y \<Rightarrow> Some y)"

text \<open>\<open>collect::<Result<Vec<_>, _>>\<close>.\<close>

primrec map_results :: "('a \<Rightarrow> ('e, 'b) result) \<Rightarrow> 'a list \<Rightarrow> ('e, 'b list) result" where
  "map_results f [] = Inr []"
| "map_results f (x # xs) = result_bind (f x) (\<lambda>y. result_bind (map_results f xs) (\<lambda>ys. Inr (y # ys)))"

section \<open>The cookie codec\<close>

record cookie_codec =
  cc_primary :: "byte list"
  cc_readers :: "byte list list"

definition decode_cookie_key :: "crypto \<Rightarrow> rstr \<Rightarrow> (auth_error, byte list) result" where
  "decode_cookie_key x encoded_key =
     (case b64_decode x encoded_key of
        Inl e \<Rightarrow> Inl (External e)
      | Inr key \<Rightarrow> if length key \<noteq> 32 then Inl InvalidSessionKey else Inr key)"

definition cookie_codec_new :: "crypto \<Rightarrow> rstr \<Rightarrow> rstr list \<Rightarrow> (auth_error, cookie_codec) result" where
  "cookie_codec_new x encoded_key previous_keys =
     result_bind (decode_cookie_key x encoded_key) (\<lambda>primary.
       result_bind (map_results (decode_cookie_key x) (encoded_key # previous_keys)) (\<lambda>readers.
         Inr \<lparr> cc_primary = primary, cc_readers = readers \<rparr>))"

definition cookie_seal :: "crypto \<Rightarrow> 'a json_type \<Rightarrow> cookie_codec \<Rightarrow> byte list \<Rightarrow> 'a \<Rightarrow> (auth_error, rstr) result" where
  "cookie_seal x j codec nonce value =
     result_bind (map_sum External id (to_json j value)) (\<lambda>plaintext.
       case aes_encrypt x (cc_primary codec) nonce [] plaintext of
         None \<Rightarrow> Inl (External (lit ''session encryption failed''))
       | Some encrypted \<Rightarrow> Inr (b64_encode x (nonce @ encrypted)))"

definition cookie_open :: "crypto \<Rightarrow> 'a json_type \<Rightarrow> cookie_codec \<Rightarrow> rstr \<Rightarrow> (auth_error, 'a) result" where
  "cookie_open x j codec value =
     (case b64_decode x value of
        Inl _ \<Rightarrow> Inl Unauthorized
      | Inr data \<Rightarrow>
          if length data \<le> 12 then Inl Unauthorized
          else (case Option.bind (find_map (\<lambda>cipher. aes_decrypt x cipher (take 12 data) [] (drop 12 data)) (cc_readers codec))
                       (from_json j) of
                  None \<Rightarrow> Inl Unauthorized
                | Some v \<Rightarrow> Inr v))"

section \<open>The codec of native sessions\<close>

datatype native_error = N_Unauthorized | N_Invalid | N_Unavailable | N_Configuration

record native_codec =
  nc_primary :: "byte list"
  nc_readers :: "byte list list"
  nc_instance :: rstr

definition native_cipher :: "crypto \<Rightarrow> rstr \<Rightarrow> (native_error, byte list) result" where
  "native_cipher x key =
     (case b64_decode x key of
        Inl _ \<Rightarrow> Inl N_Configuration
      | Inr bytes \<Rightarrow> if length bytes \<noteq> 32 then Inl N_Configuration else Inr bytes)"

definition native_codec_new :: "crypto \<Rightarrow> rstr \<Rightarrow> rstr list \<Rightarrow> rstr \<Rightarrow> (native_error, native_codec) result" where
  "native_codec_new x key previous inst =
     result_bind (native_cipher x key) (\<lambda>primary.
       result_bind (map_results (native_cipher x) (key # previous)) (\<lambda>readers.
         Inr \<lparr> nc_primary = primary, nc_readers = readers, nc_instance = inst \<rparr>))"

text \<open>The bytes of a text in UTF-8, of which only the injectivity matters, are a parameter.\<close>

definition native_aad :: "(rstr \<Rightarrow> byte list) \<Rightarrow> native_codec \<Rightarrow> rstr \<Rightarrow> byte list" where
  "native_aad utf8 codec purpose = utf8 (lit ''sproyt-native-v1|'' @ nc_instance codec @ lit ''|'' @ purpose)"

definition native_seal :: "crypto \<Rightarrow> (rstr \<Rightarrow> byte list) \<Rightarrow> 'a json_type \<Rightarrow> native_codec \<Rightarrow> byte list \<Rightarrow> rstr \<Rightarrow> 'a \<Rightarrow>
    (native_error, rstr) result" where
  "native_seal x utf8 j codec nonce purpose value =
     (case to_json j value of
        Inl _ \<Rightarrow> Inl N_Unavailable
      | Inr raw \<Rightarrow>
          (case aes_encrypt x (nc_primary codec) nonce (native_aad utf8 codec purpose) raw of
             None \<Rightarrow> Inl N_Unavailable
           | Some encrypted \<Rightarrow> Inr (b64_encode x (nonce @ encrypted))))"

definition native_open :: "crypto \<Rightarrow> (rstr \<Rightarrow> byte list) \<Rightarrow> 'a json_type \<Rightarrow> native_codec \<Rightarrow> rstr \<Rightarrow> rstr \<Rightarrow> (native_error, 'a) result" where
  "native_open x utf8 j codec purpose value =
     (case b64_decode x value of
        Inl _ \<Rightarrow> Inl N_Unauthorized
      | Inr bytes \<Rightarrow>
          if length bytes \<le> 12 \<or> length bytes > 65536 then Inl N_Unauthorized
          else (case Option.bind (find_map (\<lambda>cipher. aes_decrypt x cipher (take 12 bytes) (native_aad utf8 codec purpose) (drop 12 bytes))
                         (nc_readers codec)) (from_json j) of
                  None \<Rightarrow> Inl N_Unauthorized
                | Some v \<Rightarrow> Inr v))"

section \<open>Reading back what was sealed\<close>

lemma find_map_unique:
  assumes "k \<in> set ks" "f k = Some y" "\<And>k'. k' \<in> set ks \<Longrightarrow> k' \<noteq> k \<Longrightarrow> f k' = None"
  shows "find_map f ks = Some y"
  using assms
proof (induction ks)
  case (Cons k' ks)
  then show ?case by (cases "k' = k") (auto split: option.split)
qed simp

lemma map_results_Inr: "map_results f xs = Inr ys \<Longrightarrow> set ys = {y. \<exists>x \<in> set xs. f x = Inr y}"
proof (induction xs arbitrary: ys)
  case (Cons a xs)
  then obtain b bs where "f a = Inr b" "map_results f xs = Inr bs" "ys = b # bs" by (auto simp: result_bind_Inr)
  with Cons.IH [of bs] show ?case by auto
qed simp

lemma cookie_codec_keys:
  assumes "cookie_codec_new x key previous = Inr codec"
  shows "decode_cookie_key x key = Inr (cc_primary codec)"
    "set (cc_readers codec) = {k. \<exists>e \<in> set (key # previous). decode_cookie_key x e = Inr k}"
  using assms by (auto simp: cookie_codec_new_def result_bind_Inr dest!: map_results_Inr simp del: map_results.simps)

text \<open>
  No two different keys of a ring accept the sealed text: what the tag of the cipher is for.
\<close>

definition one_reader :: "crypto \<Rightarrow> cookie_codec \<Rightarrow> rstr \<Rightarrow> bool" where
  "one_reader x codec value \<longleftrightarrow>
     (case b64_decode x value of
        Inl _ \<Rightarrow> True
      | Inr data \<Rightarrow>
          (\<forall>k \<in> set (cc_readers codec). \<forall>k' \<in> set (cc_readers codec).
             aes_decrypt x k (take 12 data) [] (drop 12 data) \<noteq> None \<longrightarrow>
             aes_decrypt x k' (take 12 data) [] (drop 12 data) \<noteq> None \<longrightarrow> k = k'))"

text \<open>
  Text sealed with one ring of keys opens with any ring that still has the primary key of the
  first, wherever it stands in it.
\<close>

lemma cookie_open_seal:
  assumes facts: "crypto_facts x" "json_facts j"
    and old: "cookie_codec_new x key previous = Inr codec" and new: "cookie_codec_new x key' previous' = Inr codec'"
    and ring: "key \<in> set (key' # previous')" and nonce: "length nonce = 12"
    and sealed: "cookie_seal x j codec nonce v = Inr s" and one: "one_reader x codec' s"
  shows "cookie_open x j codec' s = Inr v"
proof -
  obtain bs ct where js: "to_json j v = Inr bs" and ct: "aes_encrypt x (cc_primary codec) nonce [] bs = Some ct"
    and s: "s = b64_encode x (nonce @ ct)"
    using sealed by (cases "to_json j v") (auto simp: cookie_seal_def split: option.splits)
  have decoded: "b64_decode x s = Inr (nonce @ ct)" using facts(1) by (simp add: s crypto_facts_def)
  have reader: "cc_primary codec \<in> set (cc_readers codec')"
    using cookie_codec_keys(2) [OF new] cookie_codec_keys(1) [OF old] ring by auto
  have opens: "aes_decrypt x (cc_primary codec) nonce [] ct = Some bs" and tag: "length ct = length bs + 16"
    using facts(1) ct unfolding crypto_facts_def by blast+
  have "aes_decrypt x k nonce [] ct = None" if "k \<in> set (cc_readers codec')" "k \<noteq> cc_primary codec" for k
    using one that reader opens decoded nonce unfolding one_reader_def by fastforce
  with reader opens have "find_map (\<lambda>c. aes_decrypt x c nonce [] ct) (cc_readers codec') = Some bs"
    by (intro find_map_unique [of "cc_primary codec"])
  moreover have "from_json j bs = Some v" using facts(2) js by (simp add: json_facts_def)
  ultimately show ?thesis using decoded nonce tag by (simp add: cookie_open_def)
qed

end
