(* ===== verification/Auth_Sessions.thy ===== *)
theory Auth_Sessions
  imports Auth_Codec
begin

text \<open>
  Sign-in with an OpenID provider and the sessions that follow (\<open>src/auth.rs\<close>): the cookies, the
  claims that are sealed in them, the login callback, authentication of a request and renewal.
  The provider is a parameter: exchanging a code, verifying an ID token, discovering the keys
  and exchanging a refresh token. The locks around the client and the end-session address are
  taken to be free of panicked holders. Seconds are natural numbers up to the largest \<open>u64\<close>; the clock
  is an argument.
\<close>

section \<open>Cookies\<close>

fun split_char :: "rchar \<Rightarrow> rstr \<Rightarrow> rstr list" where
  "split_char c [] = [[]]"
| "split_char c (x # xs) =
     (if x = c then [] # split_char c xs
      else case split_char c xs of p # ps \<Rightarrow> (x # p) # ps | [] \<Rightarrow> [[x]])"

definition split_once :: "rchar \<Rightarrow> rstr \<Rightarrow> (rstr \<times> rstr) option" where
  "split_once c s =
     (if c \<in> set s then Some (takeWhile (\<lambda>x. x \<noteq> c) s, tl (dropWhile (\<lambda>x. x \<noteq> c) s)) else None)"

definition login_cookie :: rstr where "login_cookie = lit ''sproyt_oidc_tx''"
definition session_cookie :: rstr where "session_cookie = lit ''sproyt_session''"
definition refresh_cookie :: rstr where "refresh_cookie = lit ''sproyt_refresh''"

definition secure_cookie :: "rstr \<Rightarrow> rstr \<Rightarrow> string \<Rightarrow> nat \<Rightarrow> rstr" where
  "secure_cookie name value path max_age =
     name @ 61 # value @ lit ''; Path='' @ lit path @ lit ''; HttpOnly; Secure; SameSite=Lax; Max-Age='' @ dec_digits max_age"

definition clear_cookie :: "rstr \<Rightarrow> string \<Rightarrow> rstr" where
  "clear_cookie name path =
     name @ lit ''=; Path='' @ lit path @ lit ''; HttpOnly; Secure; SameSite=Lax; Max-Age=0''"

definition read_cookie :: "rstr option \<Rightarrow> rstr \<Rightarrow> rstr option" where
  "read_cookie header name =
     Option.bind header (\<lambda>header. find_map (\<lambda>cookie.
       case split_once 61 (trim cookie) of
         None \<Rightarrow> None
       | Some (key, value) \<Rightarrow> if key = name then Some value else None) (split_char 59 header))"

section \<open>Lifetimes\<close>

definition login_ttl_seconds :: nat where "login_ttl_seconds = 600"
definition access_session_max_ttl_seconds :: nat where "access_session_max_ttl_seconds = 8 * 60 * 60"
definition refresh_idle_ttl_seconds :: nat where "refresh_idle_ttl_seconds = 30 * 24 * 60 * 60"
definition session_refresh_lead_seconds :: nat where "session_refresh_lead_seconds = 60"

definition saturating_add :: "nat \<Rightarrow> nat \<Rightarrow> nat" where
  "saturating_add a b = min (a + b) (2 ^ 64 - 1)"

definition refresh_after_seconds :: "nat \<Rightarrow> nat" where
  "refresh_after_seconds max_age =
     (if max_age > session_refresh_lead_seconds then max_age - session_refresh_lead_seconds else max (max_age div 2) 1)"

text \<open>A \<open>Duration\<close> is a number of nanoseconds.\<close>

definition access_session_ttl :: "nat option \<Rightarrow> nat" where
  "access_session_ttl expires_in =
     max (min (case expires_in of None \<Rightarrow> 300 * 10 ^ 9 | Some d \<Rightarrow> d) (access_session_max_ttl_seconds * 10 ^ 9) div 10 ^ 9) 1"

section \<open>Principals\<close>

record authenticated_principal =
  ap_user :: user
  ap_issuer :: rstr
  ap_subject :: rstr
  ap_email :: "rstr option"

definition max_email_length :: nat where "max_email_length = 254"

definition normalized_email :: "unicode \<Rightarrow> rstr option \<Rightarrow> rstr option" where
  "normalized_email u email =
     Option.bind email (\<lambda>email. let email = trim email in
       if email \<noteq> [] \<and> utf8_len email \<le> max_email_length \<and> \<not> list_ex is_control email then Some (to_lowercase u email) else None)"

text \<open>The Unicode tables and UUIDs of version 5 are functions of other crates.\<close>

record identity_tables =
  it_unicode :: unicode
  it_url_v5 :: "rstr \<Rightarrow> uuid"

definition principal :: "identity_tables \<Rightarrow> instant \<Rightarrow> rstr \<Rightarrow> rstr \<Rightarrow> rstr \<Rightarrow> rstr option \<Rightarrow> rstr option \<Rightarrow>
    (auth_error, authenticated_principal) result" where
  "principal T created issuer subject display_name preferred_username email =
     (case display_name_new display_name of
        Inl e \<Rightarrow> Inl (InvalidIdentity e)
      | Inr name \<Rightarrow>
          Inr \<lparr> ap_user = \<lparr> usr_id = user_id_from_oidc (it_url_v5 T) issuer subject, usr_kind = Human,
                            usr_display_name = name,
                            usr_handle = map_option (from_external (it_unicode T)) preferred_username,
                            usr_external_provider = Some issuer, usr_external_subject = Some subject,
                            usr_created_at = created \<rparr>,
                ap_issuer = issuer, ap_subject = subject, ap_email = email \<rparr>)"

section \<open>Claims\<close>

record login_transaction =
  lt_state :: rstr
  lt_nonce :: rstr
  lt_pkce_verifier :: rstr
  lt_expires_at :: nat
  lt_return_to :: "rstr option"
  lt_enrollment_token :: "rstr option"

record session_claims =
  sc_issuer :: rstr
  sc_subject :: rstr
  sc_display_name :: rstr
  sc_preferred_username :: "rstr option"
  sc_email :: "rstr option"
  sc_access_token :: "rstr option"
  sc_refresh_token :: "rstr option"
  sc_expires_at :: nat
  sc_refresh_expires_at :: "nat option"

record refresh_claims =
  rfc_issuer :: rstr
  rfc_subject :: rstr
  rfc_display_name :: rstr
  rfc_preferred_username :: "rstr option"
  rfc_email :: "rstr option"
  rfc_refresh_token :: rstr
  rfc_expires_at :: nat

definition validate_session_claims :: "nat \<Rightarrow> session_claims \<Rightarrow> rstr \<Rightarrow> (auth_error, unit) result" where
  "validate_session_claims now claims issuer =
     (if sc_expires_at claims \<le> now \<or> sc_issuer claims \<noteq> issuer then Inl Unauthorized else Inr ())"

definition validate_refresh_claims :: "nat \<Rightarrow> rstr \<Rightarrow> nat \<Rightarrow> rstr \<Rightarrow> (auth_error, unit) result" where
  "validate_refresh_claims now claims_issuer refresh_expires_at issuer =
     (if refresh_expires_at \<le> now \<or> claims_issuer \<noteq> issuer then Inl Unauthorized else Inr ())"

text \<open>The JSON forms of the three kinds of sealed claims.\<close>

record auth_json =
  aj_login :: "login_transaction json_type"
  aj_session :: "session_claims json_type"
  aj_refresh :: "refresh_claims json_type"

section \<open>The provider\<close>

record id_claims =
  ic_subject :: rstr
  ic_preferred_username :: "rstr option"
  ic_name :: "rstr option"
  ic_email :: "rstr option"
  ic_email_verified :: "bool option"

record token_response =
  tr_id_token :: "rstr option"
  tr_expires_in :: "nat option"
  tr_refresh_token :: "rstr option"

text \<open>How an exchange of a refresh token can fail.\<close>

datatype refresh_failure = NotConfigured rstr | InvalidGrant | OtherFailure

record user_info =
  ui_preferred_username :: "rstr option"
  ui_name :: "rstr option"

text \<open>
  A user-info request fails with a text when the provider has no such address and with nothing
  when the request itself fails.
\<close>

record 'c oidc_provider =
  op_exchange_code :: "'c \<Rightarrow> rstr \<Rightarrow> rstr \<Rightarrow> (rstr, token_response) result"
  op_claims :: "'c \<Rightarrow> rstr \<Rightarrow> rstr \<Rightarrow> (rstr, id_claims) result"
  op_discover :: "(auth_error, 'c \<times> rstr option) result"
  op_refresh :: "'c \<Rightarrow> rstr \<Rightarrow> (refresh_failure, token_response) result"
  op_user_info :: "'c \<Rightarrow> rstr \<Rightarrow> rstr \<Rightarrow> (rstr option, user_info) result"
  op_logout_url :: "rstr \<Rightarrow> rstr \<Rightarrow> rstr option"

record 'c oidc_service =
  svc_client :: 'c
  svc_end_session :: "rstr option"
  svc_codec :: cookie_codec
  svc_issuer :: rstr
  svc_post_logout :: rstr

section \<open>Login\<close>

record login_start =
  ls_authorization_url :: rstr
  ls_set_cookie :: rstr

text \<open>
  The address at the provider and its secrets are made by the OpenID library, with or without
  the demand for a new login (\<open>prompt=login\<close>).
\<close>

record authorization =
  az_url :: rstr
  az_state :: rstr
  az_nonce :: rstr
  az_verifier :: rstr

definition service_login :: "crypto \<Rightarrow> auth_json \<Rightarrow> nat \<Rightarrow> byte list \<Rightarrow> (bool \<Rightarrow> authorization) \<Rightarrow> rstr option \<Rightarrow> rstr option \<Rightarrow> 'c oidc_service \<Rightarrow>
    (auth_error, login_start) result" where
  "service_login x J now nonce authorize_url return_to enrollment_token svc =
     (let az = authorize_url (enrollment_token \<noteq> None);
          transaction = \<lparr> lt_state = az_state az, lt_nonce = az_nonce az, lt_pkce_verifier = az_verifier az,
                          lt_expires_at = now + login_ttl_seconds, lt_return_to = return_to,
                          lt_enrollment_token = enrollment_token \<rparr>
      in result_bind (cookie_seal x (aj_login J) (svc_codec svc) nonce transaction) (\<lambda>value.
           Inr \<lparr> ls_authorization_url = az_url az,
                 ls_set_cookie = secure_cookie login_cookie value ''/auth/callback'' login_ttl_seconds \<rparr>))"

record login_complete =
  lc_principal :: authenticated_principal
  lc_set_cookie :: rstr
  lc_set_refresh_cookie :: "rstr option"
  lc_clear_transaction_cookie :: rstr
  lc_return_to :: rstr
  lc_enrollment_token :: "rstr option"

definition replace_client :: "'c \<times> rstr option \<Rightarrow> 'c oidc_service \<Rightarrow> 'c oidc_service" where
  "replace_client discovered svc = svc\<lparr> svc_client := fst discovered, svc_end_session := snd discovered \<rparr>"

text \<open>When the claims do not verify, the keys of the provider are fetched again, once.\<close>

definition verified_claims :: "'c oidc_provider \<Rightarrow> rstr \<Rightarrow> rstr \<Rightarrow> 'c oidc_service \<Rightarrow> (auth_error, id_claims) result \<times> 'c oidc_service" where
  "verified_claims P id_token nonce svc =
     (case op_claims P (svc_client svc) id_token nonce of
        Inr claims \<Rightarrow> (Inr claims, svc)
      | Inl _ \<Rightarrow>
          (case op_discover P of
             Inl e \<Rightarrow> (Inl e, svc)
           | Inr refreshed \<Rightarrow>
               (case op_claims P (fst refreshed) id_token nonce of
                  Inl e \<Rightarrow> (Inl (External e), svc)
                | Inr claims \<Rightarrow> (Inr claims, replace_client refreshed svc))))"

definition session_claims_of :: "rstr \<Rightarrow> authenticated_principal \<Rightarrow> nat \<Rightarrow> nat \<Rightarrow> session_claims" where
  "session_claims_of issuer p expires_at refresh_expires_at =
     \<lparr> sc_issuer = issuer, sc_subject = ap_subject p, sc_display_name = name_str (usr_display_name (ap_user p)),
       sc_preferred_username = map_option handle_str (usr_handle (ap_user p)), sc_email = ap_email p,
       sc_access_token = None, sc_refresh_token = None, sc_expires_at = expires_at,
       sc_refresh_expires_at = Some refresh_expires_at \<rparr>"

definition refresh_claims_of :: "rstr \<Rightarrow> authenticated_principal \<Rightarrow> rstr \<Rightarrow> nat \<Rightarrow> refresh_claims" where
  "refresh_claims_of issuer p token refresh_expires_at =
     \<lparr> rfc_issuer = issuer, rfc_subject = ap_subject p, rfc_display_name = name_str (usr_display_name (ap_user p)),
       rfc_preferred_username = map_option handle_str (usr_handle (ap_user p)), rfc_email = ap_email p,
       rfc_refresh_token = token, rfc_expires_at = refresh_expires_at \<rparr>"

text \<open>What follows the verification: the identity, and the cookies.\<close>

definition sealed_refresh_cookie :: "crypto \<Rightarrow> auth_json \<Rightarrow> byte list \<Rightarrow> authenticated_principal \<Rightarrow> nat \<Rightarrow> token_response \<Rightarrow>
    'c oidc_service \<Rightarrow> (auth_error, rstr option) result" where
  "sealed_refresh_cookie x J nonce p refresh_expires_at token svc =
     (case tr_refresh_token token of
        None \<Rightarrow> Inr None
      | Some t \<Rightarrow>
          map_sum id (\<lambda>value. Some (secure_cookie refresh_cookie value ''/'' refresh_idle_ttl_seconds))
            (cookie_seal x (aj_refresh J) (svc_codec svc) nonce (refresh_claims_of (svc_issuer svc) p t refresh_expires_at)))"

definition issue_cookies :: "crypto \<Rightarrow> auth_json \<Rightarrow> nat \<Rightarrow> byte list \<Rightarrow> byte list \<Rightarrow> login_transaction \<Rightarrow> token_response \<Rightarrow>
    'c oidc_service \<Rightarrow> authenticated_principal \<Rightarrow> (auth_error, login_complete) result" where
  "issue_cookies x J now nonce1 nonce2 transaction token svc p =
     (let access_max_age = access_session_ttl (tr_expires_in token);
          expires_at = saturating_add now access_max_age;
          refresh_expires_at = saturating_add now refresh_idle_ttl_seconds
      in result_bind (sealed_refresh_cookie x J nonce1 p refresh_expires_at token svc) (\<lambda>set_refresh_cookie.
           result_bind (cookie_seal x (aj_session J) (svc_codec svc) nonce2
               (session_claims_of (svc_issuer svc) p expires_at refresh_expires_at)) (\<lambda>value.
             Inr \<lparr> lc_principal = p, lc_set_cookie = secure_cookie session_cookie value ''/'' (expires_at - now),
                   lc_set_refresh_cookie = set_refresh_cookie,
                   lc_clear_transaction_cookie = clear_cookie login_cookie ''/auth/callback'',
                   lc_return_to = (case lt_return_to transaction of Some r \<Rightarrow> r | None \<Rightarrow> lit ''/''),
                   lc_enrollment_token = lt_enrollment_token transaction \<rparr>)))"

definition claimed_name :: "id_claims \<Rightarrow> rstr" where
  "claimed_name claims =
     (case ic_name claims of
        Some name \<Rightarrow> name
      | None \<Rightarrow> (case ic_preferred_username claims of Some name \<Rightarrow> name | None \<Rightarrow> ic_subject claims))"

definition complete_login :: "crypto \<Rightarrow> auth_json \<Rightarrow> identity_tables \<Rightarrow> nat \<Rightarrow> instant \<Rightarrow> byte list \<Rightarrow> byte list \<Rightarrow> login_transaction \<Rightarrow>
    token_response \<Rightarrow> id_claims \<Rightarrow> 'c oidc_service \<Rightarrow> (auth_error, login_complete) result" where
  "complete_login x J T now created nonce1 nonce2 transaction token claims svc =
     (let email = normalized_email (it_unicode T) (ic_email claims)
      in if lt_enrollment_token transaction \<noteq> None \<and> (ic_email_verified claims \<noteq> Some True \<or> email = None)
         then Inl Unauthorized
         else result_bind
           (principal T created (svc_issuer svc) (ic_subject claims) (claimed_name claims) (ic_preferred_username claims) email)
           (issue_cookies x J now nonce1 nonce2 transaction token svc))"

definition service_callback :: "crypto \<Rightarrow> auth_json \<Rightarrow> identity_tables \<Rightarrow> 'c oidc_provider \<Rightarrow> nat \<Rightarrow> nat \<Rightarrow> instant \<Rightarrow> byte list \<Rightarrow> byte list \<Rightarrow>
    rstr \<Rightarrow> rstr \<Rightarrow> rstr option \<Rightarrow> 'c oidc_service \<Rightarrow> (auth_error, login_complete) result \<times> 'c oidc_service" where
  "service_callback x J T P started now created nonce1 nonce2 code state cookie_header svc =
     (case read_cookie cookie_header login_cookie of
        None \<Rightarrow> (Inl Unauthorized, svc)
      | Some value \<Rightarrow>
          (case cookie_open x (aj_login J) (svc_codec svc) value of
             Inl e \<Rightarrow> (Inl e, svc)
           | Inr transaction \<Rightarrow>
               if lt_expires_at transaction < started \<or> lt_state transaction \<noteq> state then (Inl Unauthorized, svc)
               else (case op_exchange_code P (svc_client svc) code (lt_pkce_verifier transaction) of
                       Inl e \<Rightarrow> (Inl (External e), svc)
                     | Inr token \<Rightarrow>
                         (case tr_id_token token of
                            None \<Rightarrow> (Inl Unauthorized, svc)
                          | Some id_token \<Rightarrow>
                              (case verified_claims P id_token (lt_nonce transaction) svc of
                                 (Inl e, svc) \<Rightarrow> (Inl e, svc)
                               | (Inr claims, svc) \<Rightarrow>
                                   (complete_login x J T now created nonce1 nonce2 transaction token claims svc, svc))))))"

section \<open>Sessions\<close>

text \<open>The valid claims of the session cookie.\<close>

definition open_session :: "crypto \<Rightarrow> auth_json \<Rightarrow> nat \<Rightarrow> rstr option \<Rightarrow> 'c oidc_service \<Rightarrow> (auth_error, session_claims) result" where
  "open_session x J now cookie_header svc =
     (case read_cookie cookie_header session_cookie of
        None \<Rightarrow> Inl Unauthorized
      | Some value \<Rightarrow>
          result_bind (cookie_open x (aj_session J) (svc_codec svc) value) (\<lambda>claims.
            result_bind (validate_session_claims now claims (svc_issuer svc)) (\<lambda>_. Inr claims)))"

definition claims_principal :: "identity_tables \<Rightarrow> instant \<Rightarrow> session_claims \<Rightarrow> (auth_error, authenticated_principal) result" where
  "claims_principal T created claims =
     principal T created (sc_issuer claims) (sc_subject claims) (sc_display_name claims) (sc_preferred_username claims)
       (sc_email claims)"

definition service_authenticate_session :: "crypto \<Rightarrow> auth_json \<Rightarrow> identity_tables \<Rightarrow> nat \<Rightarrow> instant \<Rightarrow> rstr option \<Rightarrow> 'c oidc_service \<Rightarrow>
    (auth_error, authenticated_principal) result" where
  "service_authenticate_session x J T now created cookie_header svc =
     result_bind (open_session x J now cookie_header svc) (claims_principal T created)"

definition service_session_refresh_after :: "crypto \<Rightarrow> auth_json \<Rightarrow> nat \<Rightarrow> nat \<Rightarrow> rstr option \<Rightarrow> 'c oidc_service \<Rightarrow> (auth_error, nat) result" where
  "service_session_refresh_after x J now later cookie_header svc =
     result_bind (open_session x J now cookie_header svc) (\<lambda>claims. Inr (refresh_after_seconds (sc_expires_at claims - later)))"

definition revalidate_session :: "crypto \<Rightarrow> auth_json \<Rightarrow> identity_tables \<Rightarrow> 'c oidc_provider \<Rightarrow> nat \<Rightarrow> instant \<Rightarrow> rstr option \<Rightarrow>
    'c oidc_service \<Rightarrow> (auth_error, authenticated_principal) result" where
  "revalidate_session x J T P now created cookie_header svc =
     result_bind (open_session x J now cookie_header svc) (\<lambda>claims.
       case sc_access_token claims of
         None \<Rightarrow> claims_principal T created claims
       | Some access_token \<Rightarrow>
           (case op_user_info P (svc_client svc) access_token (sc_subject claims) of
              Inl (Some e) \<Rightarrow> Inl (External e)
            | Inl None \<Rightarrow> Inl Unauthorized
            | Inr info \<Rightarrow>
                (let preferred_username = (case ui_preferred_username info of
                       Some name \<Rightarrow> Some name | None \<Rightarrow> sc_preferred_username claims);
                     display_name = (case ui_name info of
                       Some name \<Rightarrow> name
                     | None \<Rightarrow> (case ui_preferred_username info of Some name \<Rightarrow> name | None \<Rightarrow> sc_display_name claims))
                 in principal T created (sc_issuer claims) (sc_subject claims) display_name preferred_username (sc_email claims))))"

record session_renewal =
  sr_set_cookie :: rstr
  sr_set_refresh_cookie :: rstr
  sr_refresh_after_seconds :: nat

text \<open>
  The identity and the refresh token to renew with: from the refresh cookie, or from the session
  cookie of an earlier release.
\<close>

definition renewal_claims :: "crypto \<Rightarrow> auth_json \<Rightarrow> nat \<Rightarrow> rstr option \<Rightarrow> 'c oidc_service \<Rightarrow> (auth_error, refresh_claims) result" where
  "renewal_claims x J now cookie_header svc =
     (case read_cookie cookie_header refresh_cookie of
        Some value \<Rightarrow>
          result_bind (cookie_open x (aj_refresh J) (svc_codec svc) value) (\<lambda>claims.
            result_bind (validate_refresh_claims now (rfc_issuer claims) (rfc_expires_at claims) (svc_issuer svc)) (\<lambda>_. Inr claims))
      | None \<Rightarrow>
          (case read_cookie cookie_header session_cookie of
             None \<Rightarrow> Inl Unauthorized
           | Some value \<Rightarrow>
               result_bind (cookie_open x (aj_session J) (svc_codec svc) value) (\<lambda>claims.
                 let refresh_expires_at = (case sc_refresh_expires_at claims of Some t \<Rightarrow> t | None \<Rightarrow> sc_expires_at claims)
                 in result_bind (validate_refresh_claims now (sc_issuer claims) refresh_expires_at (svc_issuer svc)) (\<lambda>_.
                      case sc_refresh_token claims of
                        None \<Rightarrow> Inl (Auth_Unsupported (lit ''session has no refresh token''))
                      | Some token \<Rightarrow> Inr \<lparr> rfc_issuer = sc_issuer claims, rfc_subject = sc_subject claims,
                                            rfc_display_name = sc_display_name claims,
                                            rfc_preferred_username = sc_preferred_username claims,
                                            rfc_email = sc_email claims, rfc_refresh_token = token,
                                            rfc_expires_at = refresh_expires_at \<rparr>))))"

definition renew_session_inner :: "crypto \<Rightarrow> auth_json \<Rightarrow> 'c oidc_provider \<Rightarrow> nat \<Rightarrow> nat \<Rightarrow> nat \<Rightarrow> byte list \<Rightarrow> byte list \<Rightarrow> rstr option \<Rightarrow> bool \<Rightarrow>
    'c oidc_service \<Rightarrow> (auth_error, session_renewal) result" where
  "renew_session_inner x J P started now later nonce1 nonce2 cookie_header preserve_uncertain svc =
     result_bind (renewal_claims x J started cookie_header svc) (\<lambda>claims.
       case op_refresh P (svc_client svc) (rfc_refresh_token claims) of
         Inl (NotConfigured e) \<Rightarrow> Inl (External e)
       | Inl failure \<Rightarrow>
           Inl (if preserve_uncertain \<and> failure \<noteq> InvalidGrant
                then External (lit ''native provider refresh outcome uncertain'') else Unauthorized)
       | Inr token \<Rightarrow>
           (let refresh_expires_at = saturating_add now refresh_idle_ttl_seconds;
                access_max_age = min (access_session_ttl (tr_expires_in token)) refresh_idle_ttl_seconds;
                renewed = \<lparr> sc_issuer = rfc_issuer claims, sc_subject = rfc_subject claims, sc_display_name = rfc_display_name claims,
                            sc_preferred_username = rfc_preferred_username claims, sc_email = rfc_email claims,
                            sc_access_token = None, sc_refresh_token = None,
                            sc_expires_at = saturating_add later access_max_age, sc_refresh_expires_at = Some refresh_expires_at \<rparr>
            in result_bind (cookie_seal x (aj_session J) (svc_codec svc) nonce1 renewed) (\<lambda>value.
                 result_bind (cookie_seal x (aj_refresh J) (svc_codec svc) nonce2
                     (claims\<lparr> rfc_refresh_token := (case tr_refresh_token token of Some t \<Rightarrow> t | None \<Rightarrow> rfc_refresh_token claims),
                              rfc_expires_at := refresh_expires_at \<rparr>)) (\<lambda>refresh_value.
                   Inr \<lparr> sr_set_cookie = secure_cookie session_cookie value ''/'' access_max_age,
                         sr_set_refresh_cookie = secure_cookie refresh_cookie refresh_value ''/'' refresh_idle_ttl_seconds,
                         sr_refresh_after_seconds = refresh_after_seconds access_max_age \<rparr>))))"

section \<open>The service\<close>

datatype 'c auth_service = Development | Oidc "'c oidc_service"

definition authenticate_development :: "identity_tables \<Rightarrow> instant \<Rightarrow> rstr option \<Rightarrow> 'c auth_service \<Rightarrow>
    (auth_error, authenticated_principal) result" where
  "authenticate_development T created requested_name auth =
     (case auth of
        Oidc _ \<Rightarrow> Inl Unauthorized
      | Development \<Rightarrow>
          (let name = (case requested_name of Some name \<Rightarrow> name | None \<Rightarrow> lit ''guest'')
           in principal T created (lit ''urn:sproyt:development'') name name (Some name) None))"

definition authenticate_session :: "crypto \<Rightarrow> auth_json \<Rightarrow> identity_tables \<Rightarrow> nat \<Rightarrow> instant \<Rightarrow> rstr option \<Rightarrow> 'c auth_service \<Rightarrow>
    (auth_error, authenticated_principal) result" where
  "authenticate_session x J T now created cookie_header auth =
     (case auth of
        Development \<Rightarrow> Inl Unauthorized
      | Oidc svc \<Rightarrow> service_authenticate_session x J T now created cookie_header svc)"

definition authenticate_request :: "crypto \<Rightarrow> auth_json \<Rightarrow> identity_tables \<Rightarrow> nat \<Rightarrow> instant \<Rightarrow> rstr option \<Rightarrow> rstr option \<Rightarrow> 'c auth_service \<Rightarrow>
    (auth_error, authenticated_principal) result" where
  "authenticate_request x J T now created requested_name cookie_header auth =
     (case auth of
        Development \<Rightarrow> authenticate_development T created requested_name auth
      | Oidc _ \<Rightarrow> authenticate_session x J T now created cookie_header auth)"

definition oidc_disabled :: auth_error where
  "oidc_disabled = Auth_Unsupported (lit ''OIDC is disabled'')"

definition login_with_enrollment :: "crypto \<Rightarrow> auth_json \<Rightarrow> nat \<Rightarrow> byte list \<Rightarrow> (bool \<Rightarrow> authorization) \<Rightarrow> rstr option \<Rightarrow> rstr option \<Rightarrow>
    'c auth_service \<Rightarrow> (auth_error, login_start) result" where
  "login_with_enrollment x J now nonce authorize_url return_to enrollment_token auth =
     (case auth of
        Development \<Rightarrow> Inl oidc_disabled
      | Oidc svc \<Rightarrow> service_login x J now nonce authorize_url return_to enrollment_token svc)"

definition callback :: "crypto \<Rightarrow> auth_json \<Rightarrow> identity_tables \<Rightarrow> 'c oidc_provider \<Rightarrow> nat \<Rightarrow> nat \<Rightarrow> instant \<Rightarrow> byte list \<Rightarrow> byte list \<Rightarrow>
    rstr \<Rightarrow> rstr \<Rightarrow> rstr option \<Rightarrow> 'c auth_service \<Rightarrow> (auth_error, login_complete) result \<times> 'c auth_service" where
  "callback x J T P started now created nonce1 nonce2 code state cookie_header auth =
     (case auth of
        Development \<Rightarrow> (Inl oidc_disabled, Development)
      | Oidc svc \<Rightarrow> map_prod id Oidc (service_callback x J T P started now created nonce1 nonce2 code state cookie_header svc))"

definition renew_session :: "crypto \<Rightarrow> auth_json \<Rightarrow> 'c oidc_provider \<Rightarrow> nat \<Rightarrow> nat \<Rightarrow> nat \<Rightarrow> byte list \<Rightarrow> byte list \<Rightarrow> rstr option \<Rightarrow>
    'c auth_service \<Rightarrow> (auth_error, session_renewal) result" where
  "renew_session x J P started now later nonce1 nonce2 cookie_header auth =
     (case auth of
        Development \<Rightarrow> Inl oidc_disabled
      | Oidc svc \<Rightarrow> renew_session_inner x J P started now later nonce1 nonce2 cookie_header False svc)"

definition renew_native_session :: "crypto \<Rightarrow> auth_json \<Rightarrow> 'c oidc_provider \<Rightarrow> nat \<Rightarrow> nat \<Rightarrow> nat \<Rightarrow> byte list \<Rightarrow> byte list \<Rightarrow> rstr option \<Rightarrow>
    'c auth_service \<Rightarrow> (auth_error, session_renewal) result" where
  "renew_native_session x J P started now later nonce1 nonce2 cookie_header auth =
     (case auth of
        Development \<Rightarrow> Inl Unauthorized
      | Oidc svc \<Rightarrow> renew_session_inner x J P started now later nonce1 nonce2 cookie_header True svc)"

definition native_session_expires_at :: "crypto \<Rightarrow> auth_json \<Rightarrow> nat \<Rightarrow> rstr \<Rightarrow> 'c auth_service \<Rightarrow> (auth_error, nat) result" where
  "native_session_expires_at x J now cookie_header auth =
     (case auth of
        Development \<Rightarrow> Inl Unauthorized
      | Oidc svc \<Rightarrow> result_bind (open_session x J now (Some cookie_header) svc) (\<lambda>claims. Inr (sc_expires_at claims)))"

definition session_refresh_after :: "crypto \<Rightarrow> auth_json \<Rightarrow> nat \<Rightarrow> nat \<Rightarrow> rstr option \<Rightarrow> 'c auth_service \<Rightarrow> (auth_error, nat) result" where
  "session_refresh_after x J now later cookie_header auth =
     (case auth of
        Development \<Rightarrow> Inr 300
      | Oidc svc \<Rightarrow> service_session_refresh_after x J now later cookie_header svc)"

record logout_response =
  lo_redirect_url :: rstr
  lo_clear_cookie :: rstr
  lo_clear_refresh_cookie :: rstr
  lo_clear_legacy_refresh_cookie :: rstr

definition logout_redirect_url :: "'c oidc_provider \<Rightarrow> 'c oidc_service \<Rightarrow> rstr" where
  "logout_redirect_url P svc =
     (case Option.bind (svc_end_session svc) (\<lambda>endpoint. op_logout_url P endpoint (svc_post_logout svc)) of
        Some url \<Rightarrow> url
      | None \<Rightarrow> svc_post_logout svc)"

definition logout :: "'c oidc_provider \<Rightarrow> 'c auth_service \<Rightarrow> logout_response" where
  "logout P auth =
     \<lparr> lo_redirect_url = (case auth of Development \<Rightarrow> lit ''/'' | Oidc svc \<Rightarrow> logout_redirect_url P svc),
       lo_clear_cookie = clear_cookie session_cookie ''/'', lo_clear_refresh_cookie = clear_cookie refresh_cookie ''/'',
       lo_clear_legacy_refresh_cookie = clear_cookie refresh_cookie ''/auth/refresh'' \<rparr>"

end
