(* ===== verification/Auth_Properties.thy ===== *)
theory Auth_Properties
  imports Auth_Sessions
begin

text \<open>
  What sign-in promises: the cookies of a login, sent back by a browser among others, name the
  principal who logged in until the session expires and not after, also when the keys were
  changed meanwhile; renewing keeps the identity.
\<close>

section \<open>Cookie headers\<close>

text \<open>The header a browser sends for a list of cookies.\<close>

fun cookie_header :: "(rstr \<times> rstr) list \<Rightarrow> rstr" where
  "cookie_header [] = []"
| "cookie_header [(n, v)] = n @ 61 # v"
| "cookie_header ((n, v) # c # cs) = n @ 61 # v @ 59 # 32 # cookie_header (c # cs)"

definition cookie_text :: "rstr \<Rightarrow> bool" where
  "cookie_text s \<longleftrightarrow> (\<forall>c \<in> set s. c \<noteq> 59 \<and> \<not> is_whitespace c)"

definition cookie_ok :: "rstr \<times> rstr \<Rightarrow> bool" where
  "cookie_ok c \<longleftrightarrow> fst c \<noteq> [] \<and> 61 \<notin> set (fst c) \<and> cookie_text (fst c) \<and> cookie_text (snd c)"

text \<open>The name and the value that a browser keeps of a \<open>Set-Cookie\<close> header.\<close>

definition set_cookie_pair :: "rstr \<Rightarrow> (rstr \<times> rstr) option" where
  "set_cookie_pair s = split_once 61 (hd (split_char 59 s))"

lemma split_char_append: "c \<notin> set p \<Longrightarrow> split_char c (p @ c # s) = p # split_char c s"
  by (induction p) auto

lemma split_char_none: "c \<notin> set p \<Longrightarrow> split_char c p = [p]"
  by (induction p) auto

lemma split_once_append: "c \<notin> set n \<Longrightarrow> split_once c (n @ c # v) = Some (n, v)"
  by (simp add: split_once_def takeWhile_append dropWhile_append)

lemma trim_pair:
  assumes "cookie_ok (n, v)"
  shows "trim (n @ 61 # v) = n @ 61 # v" "trim (32 # n @ 61 # v) = n @ 61 # v"
proof -
  have t: "trim (n @ 61 # v) = n @ 61 # v"
    using assms by (intro trim_no_whitespace) (auto simp: cookie_ok_def cookie_text_def is_whitespace_def)
  then show "trim (n @ 61 # v) = n @ 61 # v" .
  have "trim (32 # s) = trim s" for s by (simp add: trim_def is_whitespace_def)
  with t show "trim (32 # n @ 61 # v) = n @ 61 # v" by simp
qed

lemma split_cookie_header:
  assumes "list_all cookie_ok ((n, v) # cs)"
  shows "map trim (split_char 59 (cookie_header ((n, v) # cs))) = map (\<lambda>(n, v). n @ 61 # v) ((n, v) # cs)
    \<and> map trim (split_char 59 (32 # cookie_header ((n, v) # cs))) = map (\<lambda>(n, v). n @ 61 # v) ((n, v) # cs)"
  using assms
proof (induction cs arbitrary: n v)
  case Nil
  then have "59 \<notin> set (n @ 61 # v)" by (auto simp: cookie_ok_def cookie_text_def)
  moreover from this have "59 \<notin> set (32 # n @ 61 # v)" by simp
  ultimately show ?case using Nil trim_pair [of n v] by (simp add: split_char_none del: split_char.simps set_append)
next
  case (Cons c cs)
  obtain n' v' where c: "c = (n', v')" by (cases c)
  from Cons.prems have "59 \<notin> set (n @ 61 # v)" by (auto simp: cookie_ok_def cookie_text_def)
  moreover from this have "59 \<notin> set (32 # n @ 61 # v)" by simp
  ultimately show ?case
    using Cons.prems Cons.IH [of n' v'] trim_pair [of n v]
      split_char_append [of 59 "n @ 61 # v" "32 # cookie_header (c # cs)"]
      split_char_append [of 59 "32 # n @ 61 # v" "32 # cookie_header (c # cs)"]
    by (simp add: c del: split_char.simps)
qed

lemma find_map_map: "find_map f (map g xs) = find_map (f \<circ> g) xs"
  by (induction xs) (auto split: option.split)

lemma find_map_cookies:
  "list_all cookie_ok cs \<Longrightarrow>
     find_map (\<lambda>c. case split_once 61 c of None \<Rightarrow> None | Some (key, value) \<Rightarrow> if key = name then Some value else None)
       (map (\<lambda>(n, v). n @ 61 # v) cs) = map_of cs name"
proof (induction cs)
  case (Cons c cs)
  then show ?case by (cases c) (auto simp: cookie_ok_def split_once_append)
qed simp

text \<open>Reading a cookie gives the first of the cookies sent with that name.\<close>

lemma read_cookie_header:
  assumes "list_all cookie_ok cs" "cs \<noteq> []"
  shows "read_cookie (Some (cookie_header cs)) name = map_of cs name"
proof -
  obtain n v cs' where cs: "cs = (n, v) # cs'" using assms(2) by (metis list.exhaust surj_pair)
  let ?f = "\<lambda>c. case split_once 61 c of None \<Rightarrow> None | Some (key, value) \<Rightarrow> if key = name then Some value else None"
  have "read_cookie (Some (cookie_header cs)) name = find_map ?f (map trim (split_char 59 (cookie_header cs)))"
    by (simp add: read_cookie_def find_map_map comp_def)
  also have "\<dots> = find_map ?f (map (\<lambda>(n, v). n @ 61 # v) cs)"
    using split_cookie_header [of n v cs'] assms(1) by (simp add: cs)
  also have "\<dots> = map_of cs name" by (rule find_map_cookies [OF assms(1)])
  finally show ?thesis .
qed

lemma set_cookie_pair_secure:
  assumes "61 \<notin> set n" "cookie_text n" "list_all b64_char v"
  shows "set_cookie_pair (secure_cookie n v path age) = Some (n, v)"
proof -
  have "59 \<notin> set (n @ 61 # v)"
    using assms by (auto simp: cookie_text_def list_all_iff b64_char_def is_ascii_lower_def is_ascii_upper_def is_ascii_digit_def)
  from split_char_append [OF this] have "split_char 59 (secure_cookie n v path age) =
      (n @ 61 # v) # split_char 59 (lit '' Path='' @ lit path @ lit ''; HttpOnly; Secure; SameSite=Lax; Max-Age='' @ dec_digits age)"
    by (simp add: secure_cookie_def lit_def)
  then show ?thesis by (simp add: set_cookie_pair_def split_once_append assms(1))
qed

section \<open>Identities\<close>

text \<open>
  What the code relies on of the Unicode tables to read a user name back: a text of characters
  that come from lower-casing is in lower case, and no white space is alphanumeric.
\<close>

definition lower_facts :: "unicode \<Rightarrow> bool" where
  "lower_facts u \<longleftrightarrow>
     (\<forall>t. (\<forall>c \<in> set t. \<exists>s. c \<in> set (to_lowercase u s)) \<longrightarrow> to_lowercase u t = t) \<and>
     (\<forall>c. is_whitespace c \<longrightarrow> \<not> is_alphanumeric u c)"

lemma sample_lower_facts: "lower_facts sample_unicode"
proof -
  have idem: "sample_lower (sample_lower c) = sample_lower c" for c
    by (auto simp: sample_lower_def ascii_lower_def is_ascii_upper_def)
  have "to_lowercase sample_unicode t = t" if "\<forall>c \<in> set t. \<exists>s. c \<in> set (to_lowercase sample_unicode s)" for t
    using that idem by (auto simp: sample_unicode_def intro!: map_idI)
  moreover have "\<forall>c. is_whitespace c \<longrightarrow> \<not> is_alphanumeric sample_unicode c"
    by (auto simp: sample_unicode_def is_whitespace_def is_ascii_lower_def is_ascii_upper_def is_ascii_digit_def)
  ultimately show ?thesis by (simp add: lower_facts_def)
qed

lemma from_external_loop_all:
  "list_all (handle_char u) cs \<Longrightarrow> utf8_len n + utf8_len cs \<le> handle_max_bytes \<Longrightarrow> from_external_loop u n cs = n @ cs"
  by (induction u n cs rule: from_external_loop.induct) auto

lemma from_external_loop_subset: "set (from_external_loop u n cs) \<subseteq> set n \<union> set cs"
  by (induction u n cs rule: from_external_loop.induct) auto

text \<open>A canonical user name is its own canonical form.\<close>

lemma from_external_idem:
  assumes u: "unicode_facts u" "lower_facts u"
  shows "from_external u (handle_str (from_external u v)) = from_external u v"
proof -
  let ?h = "handle_str (from_external u v)"
  have user: "list_all (handle_char u) (lit ''user'')" "utf8_len (lit ''user'') \<le> handle_max_bytes"
    using unicode_factsD(2) [OF u(1)]
    by (simp_all add: lit_def handle_char_def handle_max_bytes_def len_utf8_def is_ascii_lower_def)
  have valid: "?h \<noteq> []" "list_all (handle_char u) ?h" "utf8_len ?h \<le> handle_max_bytes"
    using user from_external_loop_valid [of "[]" u "to_lowercase u (trim v)"] by (simp_all add: from_external_def Let_def)
  have "to_lowercase u (lit ''user'') = lit ''user''"
    using unicode_factsD(1) [OF u(1), of "lit ''user''"] by (simp add: lit_def ascii_lower_def is_ascii_upper_def)
  moreover have "?h = lit ''user'' \<or> set ?h \<subseteq> set (to_lowercase u (trim v))"
    using from_external_loop_subset [of u "[]" "to_lowercase u (trim v)"] by (simp add: from_external_def Let_def)
  ultimately have "\<exists>s. set ?h \<subseteq> set (to_lowercase u s)" by (metis order_refl)
  then have "\<forall>c \<in> set ?h. \<exists>s. c \<in> set (to_lowercase u s)" by blast
  then have lower: "to_lowercase u ?h = ?h" using u(2) unfolding lower_facts_def by blast
  have trim: "trim ?h = ?h"
  proof (rule trim_no_whitespace, intro ballI notI)
    fix c assume "c \<in> set ?h" "is_whitespace c"
    moreover from this have "\<not> is_alphanumeric u c" using u(2) unfolding lower_facts_def by blast
    ultimately show False using valid(2) by (auto simp: list_all_iff handle_char_def is_whitespace_def)
  qed
  have "from_external_loop u [] ?h = ?h" using from_external_loop_all [of u ?h "[]"] valid by simp
  then show ?thesis using valid(1) by (simp add: from_external_def [of u ?h] trim lower)
qed

text \<open>The identity of a principal at another time.\<close>

definition at_time :: "instant \<Rightarrow> authenticated_principal \<Rightarrow> authenticated_principal" where
  "at_time created p = p\<lparr> ap_user := (ap_user p)\<lparr> usr_created_at := created \<rparr> \<rparr>"

lemma claims_principal_of:
  assumes u: "unicode_facts (it_unicode T)" "lower_facts (it_unicode T)"
    and p: "principal T created0 issuer subject name username email = Inr p"
  shows "claims_principal T created (session_claims_of issuer p e r) = Inr (at_time created p)"
proof -
  obtain d where d: "display_name_new name = Inr d" using p by (cases "display_name_new name") (auto simp: principal_def)
  have "display_name_new (name_str d) = Inr d"
    using d by (auto simp: display_name_new_def map_sum_id_Inr bounded_non_empty_Inr)
  with p d show ?thesis
    by (auto simp: claims_principal_def principal_def session_claims_of_def at_time_def from_external_idem [OF u]
        option.map_comp comp_def)
qed

section \<open>Sealed sessions\<close>

text \<open>
  The service after a restart with other keys: the key that was primary is still one of those it
  reads with, and it serves the same issuer.
\<close>

definition reads_cookies_of :: "crypto \<Rightarrow> 'c oidc_service \<Rightarrow> 'c oidc_service \<Rightarrow> bool" where
  "reads_cookies_of x svc' svc \<longleftrightarrow> svc_issuer svc' = svc_issuer svc \<and>
     (\<exists>key previous key' previous'. cookie_codec_new x key previous = Inr (svc_codec svc) \<and>
        cookie_codec_new x key' previous' = Inr (svc_codec svc') \<and> key \<in> set (key' # previous'))"

lemma reads_cookies_open:
  assumes "crypto_facts x" "json_facts j" "reads_cookies_of x svc' svc" "length nonce = 12"
    "cookie_seal x j (svc_codec svc) nonce v = Inr s" "one_reader x (svc_codec svc') s"
  shows "cookie_open x j (svc_codec svc') s = Inr v"
  using assms(3) cookie_open_seal [OF assms(1,2) _ _ _ assms(4-6)] unfolding reads_cookies_of_def by blast

lemma cookie_seal_text: "crypto_facts x \<Longrightarrow> cookie_seal x j codec nonce v = Inr s \<Longrightarrow> list_all b64_char s"
  by (cases "to_json j v") (auto simp: cookie_seal_def crypto_facts_def split: option.splits)

lemma cookie_names:
  "61 \<notin> set session_cookie" "cookie_text session_cookie" "61 \<notin> set refresh_cookie" "cookie_text refresh_cookie"
  by (simp_all add: session_cookie_def refresh_cookie_def lit_def cookie_text_def is_whitespace_def)

lemma map_of_not_Nil: "map_of cs n = Some v \<Longrightarrow> cs \<noteq> []"
  by auto

lemma open_session_sealed:
  assumes "crypto_facts x" "json_facts (aj_session J)" "reads_cookies_of x svc' svc" "length nonce = 12"
    and sealed: "cookie_seal x (aj_session J) (svc_codec svc) nonce claims = Inr s" and one: "one_reader x (svc_codec svc') s"
    and cookies: "list_all cookie_ok cs" "map_of cs session_cookie = Some s"
    and issuer: "sc_issuer claims = svc_issuer svc"
  shows "open_session x J now (Some (cookie_header cs)) svc' = (if now < sc_expires_at claims then Inr claims else Inl Unauthorized)"
  using reads_cookies_open [OF assms(1-5) one] read_cookie_header [OF cookies(1) map_of_not_Nil [OF cookies(2)]] cookies(2) issuer assms(3)
  by (simp add: open_session_def validate_session_claims_def reads_cookies_of_def)

lemma verified_claims_service:
  assumes "verified_claims P t n svc = (r, svc')"
  shows "svc_codec svc' = svc_codec svc \<and> svc_issuer svc' = svc_issuer svc"
  using assms by (auto simp: verified_claims_def replace_client_def split: sum.splits)

lemma complete_login_Inr:
  assumes "complete_login x J T now created n1 n2 tx token claims svc = Inr done"
  shows "\<exists>subject name username email. principal T created (svc_issuer svc) subject name username email = Inr (lc_principal done)"
    "issue_cookies x J now n1 n2 tx token svc (lc_principal done) = Inr done"
proof -
  obtain name email p where p: "principal T created (svc_issuer svc) (ic_subject claims) name (ic_preferred_username claims) email = Inr p"
    and cookies: "issue_cookies x J now n1 n2 tx token svc p = Inr done"
    using assms by (auto simp: complete_login_def Let_def result_bind_Inr split: if_splits)
  have "lc_principal done = p" using cookies by (auto simp: issue_cookies_def Let_def result_bind_Inr)
  with p cookies show "\<exists>subject name username email. principal T created (svc_issuer svc) subject name username email = Inr (lc_principal done)"
    "issue_cookies x J now n1 n2 tx token svc (lc_principal done) = Inr done" by blast+
qed

lemma issue_cookies_session:
  assumes "issue_cookies x J now n1 n2 tx token svc p = Inr done"
  shows "\<exists>s age. cookie_seal x (aj_session J) (svc_codec svc) n2
        (session_claims_of (svc_issuer svc) p (saturating_add now (access_session_ttl (tr_expires_in token)))
           (saturating_add now refresh_idle_ttl_seconds)) = Inr s \<and>
      lc_set_cookie done = secure_cookie session_cookie s ''/'' age"
  using assms by (auto simp: issue_cookies_def Let_def result_bind_Inr)

lemma issue_cookies_refresh:
  assumes "issue_cookies x J now n1 n2 tx token svc p = Inr done" "lc_set_refresh_cookie done = Some c"
  shows "\<exists>t s. cookie_seal x (aj_refresh J) (svc_codec svc) n1
        (refresh_claims_of (svc_issuer svc) p t (saturating_add now refresh_idle_ttl_seconds)) = Inr s \<and>
      c = secure_cookie refresh_cookie s ''/'' refresh_idle_ttl_seconds"
  using assms by (auto simp: issue_cookies_def sealed_refresh_cookie_def Let_def result_bind_Inr map_sum_id_Inr split: option.splits)
    blast+

lemma service_callback_login:
  assumes "service_callback x J T P started now created n1 n2 code state header svc = (Inr done, svc')"
  shows "\<exists>tx token claims. complete_login x J T now created n1 n2 tx token claims svc' = Inr done"
    and "svc_codec svc' = svc_codec svc \<and> svc_issuer svc' = svc_issuer svc"
  using assms
  by (auto simp: service_callback_def split: option.splits sum.splits if_splits prod.splits dest: verified_claims_service)

lemma callback_login:
  assumes "callback x J T P started now created n1 n2 code state header (Oidc svc) = (Inr done, auth)"
  shows "\<exists>svc1. service_callback x J T P started now created n1 n2 code state header svc = (Inr done, svc1)"
  using assms
  by (cases "service_callback x J T P started now created n1 n2 code state header svc") (simp add: callback_def)

lemma access_session_ttl_bounds: "1 \<le> access_session_ttl d \<and> access_session_ttl d \<le> access_session_max_ttl_seconds"
proof -
  have "min m (n * 10 ^ 9) div 10 ^ 9 \<le> n" for m n :: nat
    by (metis div_le_mono min.cobounded2 nonzero_mult_div_cancel_right power_not_zero zero_neq_numeral)
  from this [of _ access_session_max_ttl_seconds] show ?thesis
    by (simp add: access_session_ttl_def access_session_max_ttl_seconds_def)
qed

lemma session_authenticates:
  assumes facts: "crypto_facts x" "json_facts (aj_session J)" "unicode_facts (it_unicode T)" "lower_facts (it_unicode T)"
    and rotated: "reads_cookies_of x svc' svc" and nonce: "length nonce = 12"
    and p: "principal T created (svc_issuer svc) subject name username email = Inr p"
    and sealed: "cookie_seal x (aj_session J) (svc_codec svc) nonce (session_claims_of (svc_issuer svc) p e r) = Inr s"
    and one: "one_reader x (svc_codec svc') s"
    and cookies: "list_all cookie_ok cs" "map_of cs session_cookie = Some s"
  shows "authenticate_request x J T now created' requested (Some (cookie_header cs)) (Oidc svc') =
    (if now < e then Inr (at_time created' p) else Inl Unauthorized)"
  using open_session_sealed [OF facts(1,2) rotated nonce sealed one cookies, of now] claims_principal_of [OF facts(3,4) p]
  by (simp add: authenticate_request_def authenticate_session_def service_authenticate_session_def session_claims_of_def)

lemma secure_cookie_value:
  assumes "crypto_facts x" "cookie_seal x j codec nonce v = Inr s'" "61 \<notin> set n" "cookie_text n"
    "set_cookie_pair (secure_cookie n s' path age) = Some (n, s)"
  shows "s = s'"
  using set_cookie_pair_secure [OF assms(3,4) cookie_seal_text [OF assms(1,2)]] assms(5) by simp

lemma session_expiry:
  assumes "now + access_session_max_ttl_seconds < 2 ^ 64"
  shows "now < saturating_add now (access_session_ttl d) \<and> saturating_add now (access_session_ttl d) \<le> now + 8 * 60 * 60"
  using assms access_session_ttl_bounds [of d] by (auto simp: saturating_add_def access_session_max_ttl_seconds_def)

text \<open>
  C11. The session cookie of a login, sent back by the browser among other cookies, names the
  principal who logged in as long as the session lasts, and is refused from then on. The
  session lasts at least a second and at most eight hours, and holds also when the service has
  been restarted with new keys meanwhile, as long as the old primary key is one of those it
  still reads with.
\<close>

theorem login_session_authenticates:
  assumes facts: "crypto_facts x" "json_facts (aj_session J)" "unicode_facts (it_unicode T)" "lower_facts (it_unicode T)"
    and nonce: "length nonce2 = 12" and clock: "now + access_session_max_ttl_seconds < 2 ^ 64"
    and login: "callback x J T P started now created nonce1 nonce2 code state header (Oidc svc) = (Inr done, auth)"
    and rotated: "reads_cookies_of x svc' svc"
    and cookie: "set_cookie_pair (lc_set_cookie done) = Some (session_cookie, s)" and one: "one_reader x (svc_codec svc') s"
    and sent: "list_all cookie_ok cs" "map_of cs session_cookie = Some s"
  shows "\<exists>expires. now < expires \<and> expires \<le> now + 8 * 60 * 60 \<and>
    (\<forall>at created' requested. authenticate_request x J T at created' requested (Some (cookie_header cs)) (Oidc svc') =
       (if at < expires then Inr (at_time created' (lc_principal done)) else Inl Unauthorized))"
proof -
  obtain svc1 where cb: "service_callback x J T P started now created nonce1 nonce2 code state header svc = (Inr done, svc1)"
    using callback_login [OF login] by blast
  note same = service_callback_login(2) [OF cb]
  obtain tx token claims where fin: "complete_login x J T now created nonce1 nonce2 tx token claims svc1 = Inr done"
    using service_callback_login(1) [OF cb] by blast
  let ?e = "saturating_add now (access_session_ttl (tr_expires_in token))"
  obtain s' age where sealed: "cookie_seal x (aj_session J) (svc_codec svc) nonce2
      (session_claims_of (svc_issuer svc) (lc_principal done) ?e (saturating_add now refresh_idle_ttl_seconds)) = Inr s'"
    and set: "lc_set_cookie done = secure_cookie session_cookie s' ''/'' age"
    using issue_cookies_session [OF complete_login_Inr(2) [OF fin]] same by auto
  have s: "s' = s" using secure_cookie_value [OF facts(1) sealed cookie_names(1,2) cookie [unfolded set]] by simp
  obtain subject name username email
    where p: "principal T created (svc_issuer svc) subject name username email = Inr (lc_principal done)"
    using complete_login_Inr(1) [OF fin] same by auto
  show ?thesis
    using session_expiry [OF clock] session_authenticates [OF facts rotated nonce p sealed [unfolded s] one sent] by blast
qed

section \<open>Renewal\<close>

text \<open>
  The refresh cookies that descend from a login: the one of the login itself, and the one of
  every renewal that was made with such a cookie.
\<close>

inductive refresh_chain :: "crypto \<Rightarrow> auth_json \<Rightarrow> identity_tables \<Rightarrow> 'c oidc_service \<Rightarrow> authenticated_principal \<Rightarrow> rstr \<Rightarrow> bool"
  for x J T where
  chain_login:
    "callback x J T P started now created nonce1 nonce2 code state header (Oidc svc) = (Inr done, auth) \<Longrightarrow>
     length nonce1 = 12 \<Longrightarrow> lc_set_refresh_cookie done = Some c \<Longrightarrow> refresh_chain x J T svc (lc_principal done) c"
| chain_renewal:
    "refresh_chain x J T svc p c \<Longrightarrow> set_cookie_pair c = Some (refresh_cookie, r) \<Longrightarrow> reads_cookies_of x svc' svc \<Longrightarrow>
     one_reader x (svc_codec svc') r \<Longrightarrow> list_all cookie_ok cs \<Longrightarrow> map_of cs refresh_cookie = Some r \<Longrightarrow>
     renew_session x J P started now later nonce1 nonce2 (Some (cookie_header cs)) (Oidc svc') = Inr renewal \<Longrightarrow>
     length nonce2 = 12 \<Longrightarrow> refresh_chain x J T svc' p (sr_set_refresh_cookie renewal)"

text \<open>Every cookie of the chain seals the identity of the login.\<close>

definition refresh_sealed :: "crypto \<Rightarrow> auth_json \<Rightarrow> identity_tables \<Rightarrow> 'c oidc_service \<Rightarrow> authenticated_principal \<Rightarrow> rstr \<Rightarrow> bool" where
  "refresh_sealed x J T svc p c \<longleftrightarrow>
     (\<exists>created subject name username email. principal T created (svc_issuer svc) subject name username email = Inr p) \<and>
     (\<exists>token e nonce s. length nonce = 12 \<and>
        cookie_seal x (aj_refresh J) (svc_codec svc) nonce (refresh_claims_of (svc_issuer svc) p token e) = Inr s \<and>
        c = secure_cookie refresh_cookie s ''/'' refresh_idle_ttl_seconds)"

lemma renew_session_Inr:
  assumes "renew_session_inner x J P started now later nonce1 nonce2 header preserve svc = Inr renewal"
    "renewal_claims x J started header svc = Inr (refresh_claims_of (svc_issuer svc) p t e)"
  shows "\<exists>t' s. cookie_seal x (aj_refresh J) (svc_codec svc) nonce2
        (refresh_claims_of (svc_issuer svc) p t' (saturating_add now refresh_idle_ttl_seconds)) = Inr s \<and>
      sr_set_refresh_cookie renewal = secure_cookie refresh_cookie s ''/'' refresh_idle_ttl_seconds"
    "\<exists>d s age. cookie_seal x (aj_session J) (svc_codec svc) nonce1
        (session_claims_of (svc_issuer svc) p (saturating_add later (access_session_ttl d))
           (saturating_add now refresh_idle_ttl_seconds)) = Inr s \<and>
      sr_set_cookie renewal = secure_cookie session_cookie s ''/'' age"
proof -
  have min: "min (access_session_ttl d) refresh_idle_ttl_seconds = access_session_ttl d" for d
    using access_session_ttl_bounds [of d] by (simp add: access_session_max_ttl_seconds_def refresh_idle_ttl_seconds_def)
  note simps = renew_session_inner_def result_bind_Inr Let_def min refresh_claims_of_def session_claims_of_def
  show "\<exists>t' s. cookie_seal x (aj_refresh J) (svc_codec svc) nonce2
        (refresh_claims_of (svc_issuer svc) p t' (saturating_add now refresh_idle_ttl_seconds)) = Inr s \<and>
      sr_set_refresh_cookie renewal = secure_cookie refresh_cookie s ''/'' refresh_idle_ttl_seconds"
    using assms by (auto simp: simps split: sum.splits refresh_failure.splits) blast+
  show "\<exists>d s age. cookie_seal x (aj_session J) (svc_codec svc) nonce1
        (session_claims_of (svc_issuer svc) p (saturating_add later (access_session_ttl d))
           (saturating_add now refresh_idle_ttl_seconds)) = Inr s \<and>
      sr_set_cookie renewal = secure_cookie session_cookie s ''/'' age"
    using assms by (auto simp: simps split: sum.splits refresh_failure.splits) blast+
qed

lemma renewal_claims_sealed:
  assumes facts: "crypto_facts x" "json_facts (aj_refresh J)"
    and c: "refresh_sealed x J T svc p c" "set_cookie_pair c = Some (refresh_cookie, r)"
    and rotated: "reads_cookies_of x svc' svc" and one: "one_reader x (svc_codec svc') r"
    and cookies: "list_all cookie_ok cs" "map_of cs refresh_cookie = Some r"
  shows "\<exists>token e. renewal_claims x J started (Some (cookie_header cs)) svc' =
    (if started < e then Inr (refresh_claims_of (svc_issuer svc') p token e) else Inl Unauthorized)"
proof -
  obtain token e nonce s where s: "length nonce = 12"
      "cookie_seal x (aj_refresh J) (svc_codec svc) nonce (refresh_claims_of (svc_issuer svc) p token e) = Inr s"
      "c = secure_cookie refresh_cookie s ''/'' refresh_idle_ttl_seconds"
    using c(1) by (auto simp: refresh_sealed_def)
  have "r = s" by (rule secure_cookie_value [OF facts(1) s(2) cookie_names(3,4) c(2) [unfolded s(3)]])
  with reads_cookies_open [OF facts rotated s(1,2)] one
  have "cookie_open x (aj_refresh J) (svc_codec svc') r = Inr (refresh_claims_of (svc_issuer svc) p token e)" by simp
  then show ?thesis
    using read_cookie_header [OF cookies(1) map_of_not_Nil [OF cookies(2)], of refresh_cookie] cookies(2) rotated
    by (intro exI [of _ token] exI [of _ e])
       (simp add: renewal_claims_def validate_refresh_claims_def refresh_claims_of_def reads_cookies_of_def)
qed

lemma refresh_chain_sealed:
  assumes facts: "crypto_facts x" "json_facts (aj_refresh J)"
  shows "refresh_chain x J T svc p c \<Longrightarrow> refresh_sealed x J T svc p c"
proof (induction rule: refresh_chain.induct)
  case (chain_login P started now created nonce1 nonce2 code state header svc "done" auth c)
  obtain svc1 where cb: "service_callback x J T P started now created nonce1 nonce2 code state header svc = (Inr done, svc1)"
    using callback_login [OF chain_login(1)] by blast
  obtain tx token claims where fin: "complete_login x J T now created nonce1 nonce2 tx token claims svc1 = Inr done"
    using service_callback_login(1) [OF cb] by blast
  show ?case
    using complete_login_Inr(1) [OF fin] issue_cookies_refresh [OF complete_login_Inr(2) [OF fin] chain_login(3)]
      service_callback_login(2) [OF cb] chain_login(2)
    unfolding refresh_sealed_def by metis
next
  case (chain_renewal svc p c r svc' cs P started now later nonce1 nonce2 renewal)
  obtain token e where claims: "renewal_claims x J started (Some (cookie_header cs)) svc' =
      (if started < e then Inr (refresh_claims_of (svc_issuer svc') p token e) else Inl Unauthorized)"
    using renewal_claims_sealed [OF facts chain_renewal.IH chain_renewal.hyps(2-6)] by blast
  have inner: "renew_session_inner x J P started now later nonce1 nonce2 (Some (cookie_header cs)) False svc' = Inr renewal"
    using chain_renewal.hyps(7) by (simp add: renew_session_def)
  then have "started < e" by (rule_tac ccontr) (simp add: renew_session_inner_def claims)
  with claims have "renewal_claims x J started (Some (cookie_header cs)) svc' = Inr (refresh_claims_of (svc_issuer svc') p token e)"
    by simp
  from renew_session_Inr(1) [OF inner this] show ?case
    using chain_renewal.IH chain_renewal.hyps(3,8) unfolding refresh_sealed_def reads_cookies_of_def by metis
qed

text \<open>
  C12. However often a login is renewed, and with whatever the provider answers, the identity
  stays that of the login: a session cookie that a renewal issues for a refresh cookie of the
  chain names the principal who logged in, until it expires within eight hours.
\<close>

theorem renewal_keeps_identity:
  assumes facts: "crypto_facts x" "json_facts (aj_session J)" "json_facts (aj_refresh J)"
      "unicode_facts (it_unicode T)" "lower_facts (it_unicode T)"
    and chain: "refresh_chain x J T svc p c" "set_cookie_pair c = Some (refresh_cookie, r)"
    and rotated: "reads_cookies_of x svc' svc" "one_reader x (svc_codec svc') r"
    and sent: "list_all cookie_ok cs" "map_of cs refresh_cookie = Some r"
    and renewal: "renew_session x J P started now later nonce1 nonce2 (Some (cookie_header cs)) (Oidc svc') = Inr renewal"
      "length nonce1 = 12" "later + access_session_max_ttl_seconds < 2 ^ 64"
    and cookie: "set_cookie_pair (sr_set_cookie renewal) = Some (session_cookie, s)"
    and later: "reads_cookies_of x svc'' svc'" "one_reader x (svc_codec svc'') s"
    and sent': "list_all cookie_ok cs'" "map_of cs' session_cookie = Some s"
  shows "\<exists>expires. later < expires \<and> expires \<le> later + 8 * 60 * 60 \<and>
    (\<forall>at created requested. authenticate_request x J T at created requested (Some (cookie_header cs')) (Oidc svc'') =
       (if at < expires then Inr (at_time created p) else Inl Unauthorized))"
proof -
  have c: "refresh_sealed x J T svc p c" by (rule refresh_chain_sealed [OF facts(1,3) chain(1)])
  obtain token e where claims: "renewal_claims x J started (Some (cookie_header cs)) svc' =
      (if started < e then Inr (refresh_claims_of (svc_issuer svc') p token e) else Inl Unauthorized)"
    using renewal_claims_sealed [OF facts(1,3) c chain(2) rotated sent] by blast
  have inner: "renew_session_inner x J P started now later nonce1 nonce2 (Some (cookie_header cs)) False svc' = Inr renewal"
    using renewal(1) by (simp add: renew_session_def)
  then have "started < e" by (rule_tac ccontr) (simp add: renew_session_inner_def claims)
  with claims have "renewal_claims x J started (Some (cookie_header cs)) svc' = Inr (refresh_claims_of (svc_issuer svc') p token e)"
    by simp
  from renew_session_Inr(2) [OF inner this] obtain d s' age where
    sealed: "cookie_seal x (aj_session J) (svc_codec svc') nonce1 (session_claims_of (svc_issuer svc') p
        (saturating_add later (access_session_ttl d)) (saturating_add now refresh_idle_ttl_seconds)) = Inr s'"
    and set: "sr_set_cookie renewal = secure_cookie session_cookie s' ''/'' age" by blast
  have s: "s' = s" using secure_cookie_value [OF facts(1) sealed cookie_names(1,2) cookie [unfolded set]] by simp
  obtain created subject name username email where p: "principal T created (svc_issuer svc') subject name username email = Inr p"
    using c rotated(1) by (auto simp: refresh_sealed_def reads_cookies_of_def)
  show ?thesis
    using session_expiry [OF renewal(3)]
      session_authenticates [OF facts(1,2,4,5) later(1) renewal(2) p sealed [unfolded s] later(2) sent'] by blast
qed

end
