(* ===== verification/Auth_Example.thy ===== *)
theory Auth_Example
  imports Auth_Properties
begin

text \<open>
  The sign-in of one user, through a change of the keys and a renewal: that the assumptions of
  the properties of sign-in can hold.
\<close>

section \<open>An example\<close>

text \<open>
  Functions for the other crates, for evaluation: bytes as two letters, a cipher that puts the
  beginning of the key before the message, and JSON that knows two values.
\<close>

definition sample_encode :: "byte list \<Rightarrow> rstr" where
  "sample_encode bs = concat (map (\<lambda>b. [97 + unat b div 16, 97 + unat b mod 16]) bs)"

fun sample_decode :: "rstr \<Rightarrow> (rstr, byte list) result" where
  "sample_decode [] = Inr []"
| "sample_decode [_] = Inl (lit ''odd'')"
| "sample_decode (a # b # r) = map_sum id (\<lambda>bs. of_nat ((a - 97) * 16 + (b - 97)) # bs) (sample_decode r)"

definition sample_tag :: "byte list \<Rightarrow> byte list" where
  "sample_tag k = take 16 (k @ replicate 16 0)"

definition sample_crypto :: crypto where
  "sample_crypto = \<lparr> b64_encode = sample_encode, b64_decode = sample_decode,
     aes_encrypt = (\<lambda>k n a m. Some (sample_tag k @ m)),
     aes_decrypt = (\<lambda>k n a ct. if take 16 ct = sample_tag k then Some (drop 16 ct) else None) \<rparr>"

definition sample_json :: "'a \<Rightarrow> 'a \<Rightarrow> 'a json_type" where
  "sample_json a b = \<lparr> to_json = (\<lambda>v. if v = a then Inr [0] else if v = b then Inr [1] else Inl (lit ''unknown'')),
     from_json = (\<lambda>bs. if bs = [0] then Some a else if bs = [1] then Some b else None) \<rparr>"

lemma sample_json_facts: "json_facts (sample_json a b)"
  by (auto simp: json_facts_def sample_json_def split: if_splits)

lemma sample_decode_encode: "sample_decode (sample_encode bs) = Inr bs"
proof (induction bs)
  case (Cons b bs)
  have "unat b div 16 * 16 + unat b mod 16 = unat b" by (rule div_mult_mod_eq)
  with Cons show ?case by (simp add: sample_encode_def)
qed (simp add: sample_encode_def)

lemma sample_encode_text: "list_all b64_char (sample_encode bs)"
proof (induction bs)
  case (Cons b bs)
  have "unat b div 16 < 16" using unsigned_less [of b, where ?'a = nat] by (simp add: div_less_iff_less_mult)
  moreover have "unat b mod 16 \<le> 25" using mod_less_divisor [of 16 "unat b"] by linarith
  ultimately show ?case using Cons by (simp add: sample_encode_def b64_char_def is_ascii_lower_def)
qed (simp add: sample_encode_def)

lemma sample_tag_length [simp]: "length (sample_tag k) = 16"
  by (simp add: sample_tag_def)

lemma sample_crypto_facts: "crypto_facts sample_crypto"
  by (simp add: crypto_facts_def sample_crypto_def sample_decode_encode sample_encode_text)

definition sample_key :: "nat \<Rightarrow> byte list" where
  "sample_key n = replicate 32 (of_nat n)"

definition sample_codec :: "nat \<Rightarrow> nat list \<Rightarrow> cookie_codec" where
  "sample_codec n ns = \<lparr> cc_primary = sample_key n, cc_readers = map sample_key (n # ns) \<rparr>"

lemma sample_codec_new:
  "cookie_codec_new sample_crypto (sample_encode (sample_key n)) (map (\<lambda>n. sample_encode (sample_key n)) ns) = Inr (sample_codec n ns)"
proof -
  have key: "decode_cookie_key sample_crypto (sample_encode (sample_key n)) = Inr (sample_key n)" for n
    by (simp add: decode_cookie_key_def sample_crypto_def sample_decode_encode sample_key_def)
  have "map_results (decode_cookie_key sample_crypto) (map (\<lambda>n. sample_encode (sample_key n)) ns) = Inr (map sample_key ns)" for ns
    by (induction ns) (simp_all add: key)
  then show ?thesis by (simp add: cookie_codec_new_def key sample_codec_def)
qed

definition sample_nonce :: "byte list" where
  "sample_nonce = replicate 12 9"

definition sample_sealed :: "nat \<Rightarrow> byte \<Rightarrow> rstr" where
  "sample_sealed n i = sample_encode (sample_nonce @ sample_tag (sample_key n) @ [i])"

lemma sample_seal:
  "a \<noteq> b \<Longrightarrow> cookie_seal sample_crypto (sample_json a b) (sample_codec n ns) sample_nonce a = Inr (sample_sealed n 0)"
  "a \<noteq> b \<Longrightarrow> cookie_seal sample_crypto (sample_json a b) (sample_codec n ns) sample_nonce b = Inr (sample_sealed n 1)"
  by (simp_all add: cookie_seal_def sample_json_def sample_crypto_def sample_codec_def sample_sealed_def)

lemma sample_one_reader:
  assumes "distinct (map (\<lambda>n. sample_tag (sample_key n)) (m # ms))"
  shows "one_reader sample_crypto (sample_codec m ms) (sample_sealed n i)"
proof -
  have "k = k'" if "k \<in> set (m # ms)" "k' \<in> set (m # ms)" "sample_tag (sample_key k) = sample_tag (sample_key k')" for k k'
    using assms that unfolding distinct_map by (blast dest: inj_onD)
  then show ?thesis
    by (auto simp: one_reader_def sample_crypto_def sample_sealed_def sample_decode_encode sample_codec_def sample_nonce_def
        split: if_splits)
qed

lemma sample_cookie_ok: "n \<in> {login_cookie, session_cookie, refresh_cookie} \<Longrightarrow> cookie_ok (n, sample_sealed k i)"
  using sample_encode_text [of "sample_nonce @ sample_tag (sample_key k) @ [i]"]
  by (auto simp: cookie_ok_def cookie_text_def sample_sealed_def list_all_iff b64_char_def is_ascii_lower_def is_ascii_upper_def
      is_ascii_digit_def login_cookie_def session_cookie_def refresh_cookie_def lit_def is_whitespace_def)

text \<open>
  Kari signs in at second 1000, with key 3; the service is restarted with key 4, which reads
  the cookies of key 3; she renews at second 2000.
\<close>

definition sample_issuer :: rstr where "sample_issuer = lit ''https://id.example''"

definition sample_principal :: authenticated_principal where
  "sample_principal = \<lparr> ap_user = \<lparr> usr_id = UserId 7, usr_kind = Human, usr_display_name = DisplayName (lit ''Kari''),
       usr_handle = Some (Handle (lit ''kari'')), usr_external_provider = Some sample_issuer,
       usr_external_subject = Some (lit ''42''), usr_created_at = 5 \<rparr>,
     ap_issuer = sample_issuer, ap_subject = lit ''42'', ap_email = None \<rparr>"

definition sample_transaction :: login_transaction where
  "sample_transaction = \<lparr> lt_state = lit ''st'', lt_nonce = lit ''no'', lt_pkce_verifier = lit ''ve'', lt_expires_at = 1200,
     lt_return_to = None, lt_enrollment_token = None \<rparr>"

lemma sample_transaction_simps [simp]:
  "lt_state sample_transaction = lit ''st''" "lt_expires_at sample_transaction = 1200" "lt_return_to sample_transaction = None"
  "lt_enrollment_token sample_transaction = None"
  by (simp_all add: sample_transaction_def)

definition sample_auth_json :: auth_json where
  "sample_auth_json =
     \<lparr> aj_login = sample_json sample_transaction (sample_transaction\<lparr> lt_expires_at := 0 \<rparr>),
       aj_session = sample_json (session_claims_of sample_issuer sample_principal 4600 2593000)
         (session_claims_of sample_issuer sample_principal 5600 2594000),
       aj_refresh = sample_json (refresh_claims_of sample_issuer sample_principal (lit ''rt'') 2593000)
         (refresh_claims_of sample_issuer sample_principal (lit ''rt'') 2594000) \<rparr>"

definition sample_tables :: identity_tables where
  "sample_tables = \<lparr> it_unicode = sample_unicode, it_url_v5 = (\<lambda>_. 7) \<rparr>"

definition sample_token :: "rstr option \<Rightarrow> token_response" where
  "sample_token refresh = \<lparr> tr_id_token = Some (lit ''id''), tr_expires_in = Some (3600 * 10 ^ 9), tr_refresh_token = refresh \<rparr>"

lemma sample_token_id [simp]: "tr_id_token (sample_token r) = Some (lit ''id'')"
  by (simp add: sample_token_def)

definition sample_provider :: "unit oidc_provider" where
  "sample_provider = \<lparr> op_exchange_code = (\<lambda>_ _ _. Inr (sample_token (Some (lit ''rt'')))),
     op_claims = (\<lambda>_ _ _. Inr \<lparr> ic_subject = lit ''42'', ic_preferred_username = Some (lit ''Kari''), ic_name = None, ic_email = None,
                                ic_email_verified = None \<rparr>),
     op_discover = Inl Unauthorized, op_refresh = (\<lambda>_ _. Inr (sample_token None)), op_user_info = (\<lambda>_ _ _. Inl None),
     op_logout_url = (\<lambda>_ _. None) \<rparr>"

definition sample_service :: "nat \<Rightarrow> nat list \<Rightarrow> unit oidc_service" where
  "sample_service n ns = \<lparr> svc_client = (), svc_end_session = None, svc_codec = sample_codec n ns, svc_issuer = sample_issuer,
     svc_post_logout = [] \<rparr>"

lemma sample_service_simps [simp]:
  "svc_codec (sample_service n ns) = sample_codec n ns" "svc_issuer (sample_service n ns) = sample_issuer"
  by (simp_all add: sample_service_def)

lemma sample_rotation: "n \<in> set (m # ms) \<Longrightarrow> reads_cookies_of sample_crypto (sample_service m ms) (sample_service n ns)"
  unfolding reads_cookies_of_def
  by (intro conjI exI [of _ "sample_encode (sample_key n)"] exI [of _ "map (\<lambda>n. sample_encode (sample_key n)) ns"]
      exI [of _ "sample_encode (sample_key m)"] exI [of _ "map (\<lambda>n. sample_encode (sample_key n)) ms"])
     (auto simp: sample_codec_new)

lemma sample_login_seals:
  "cookie_seal sample_crypto (aj_login sample_auth_json) (sample_codec n ns) sample_nonce sample_transaction = Inr (sample_sealed n 0)"
  "cookie_seal sample_crypto (aj_session sample_auth_json) (sample_codec n ns) sample_nonce
     (session_claims_of sample_issuer sample_principal 4600 2593000) = Inr (sample_sealed n 0)"
  "cookie_seal sample_crypto (aj_session sample_auth_json) (sample_codec n ns) sample_nonce
     (session_claims_of sample_issuer sample_principal 5600 2594000) = Inr (sample_sealed n 1)"
  "cookie_seal sample_crypto (aj_refresh sample_auth_json) (sample_codec n ns) sample_nonce
     (refresh_claims_of sample_issuer sample_principal (lit ''rt'') 2593000) = Inr (sample_sealed n 0)"
  "cookie_seal sample_crypto (aj_refresh sample_auth_json) (sample_codec n ns) sample_nonce
     (refresh_claims_of sample_issuer sample_principal (lit ''rt'') 2594000) = Inr (sample_sealed n 1)"
  by (simp_all add: sample_auth_json_def, (rule sample_seal, simp add: sample_transaction_def session_claims_of_def refresh_claims_of_def)+)

lemma sample_auth_facts:
  "json_facts (aj_login sample_auth_json)" "json_facts (aj_session sample_auth_json)" "json_facts (aj_refresh sample_auth_json)"
  "unicode_facts (it_unicode sample_tables)" "lower_facts (it_unicode sample_tables)" "length sample_nonce = 12"
  by (simp_all add: sample_auth_json_def sample_json_facts sample_tables_def sample_unicode_facts sample_lower_facts sample_nonce_def)

definition sample_done :: login_complete where
  "sample_done = \<lparr> lc_principal = sample_principal, lc_set_cookie = secure_cookie session_cookie (sample_sealed 3 0) ''/'' 3600,
     lc_set_refresh_cookie = Some (secure_cookie refresh_cookie (sample_sealed 3 0) ''/'' refresh_idle_ttl_seconds),
     lc_clear_transaction_cookie = clear_cookie login_cookie ''/auth/callback'', lc_return_to = lit ''/'', lc_enrollment_token = None \<rparr>"

lemma sample_done_principal: "lc_principal sample_done = sample_principal"
  by (simp add: sample_done_def)

lemma sample_principal_ok:
  "principal sample_tables 5 sample_issuer (lit ''42'') (lit ''Kari'') (Some (lit ''Kari'')) None = Inr sample_principal"
  by (simp add: principal_def text_eval sample_tables_def sample_principal_def user_id_from_oidc_def user_id_named_def sample_issuer_def)

lemma sample_read: "n \<in> {login_cookie, session_cookie, refresh_cookie} \<Longrightarrow>
    read_cookie (Some (cookie_header [(n, sample_sealed k i)])) n = Some (sample_sealed k i)"
  by (subst read_cookie_header) (simp_all add: sample_cookie_ok)

lemma sample_callback:
  "callback sample_crypto sample_auth_json sample_tables sample_provider 900 1000 5 sample_nonce sample_nonce (lit ''code'')
     (lit ''st'') (Some (cookie_header [(login_cookie, sample_sealed 3 0)])) (Oidc (sample_service 3 [])) =
   (Inr sample_done, Oidc (sample_service 3 []))"
proof -
  have tx: "cookie_open sample_crypto (aj_login sample_auth_json) (sample_codec 3 []) (sample_sealed 3 0) = Inr sample_transaction"
    using reads_cookies_open [OF sample_crypto_facts sample_auth_facts(1) sample_rotation [of 3 3 "[]" "[]"] sample_auth_facts(6)]
      sample_login_seals(1) sample_one_reader [of 3 "[]"] by simp
  have cookies: "issue_cookies sample_crypto sample_auth_json 1000 sample_nonce sample_nonce sample_transaction
      (sample_token (Some (lit ''rt''))) (sample_service 3 []) sample_principal = Inr sample_done"
    by (simp add: issue_cookies_def sealed_refresh_cookie_def sample_token_def saturating_add_def access_session_ttl_def
        access_session_max_ttl_seconds_def refresh_idle_ttl_seconds_def sample_login_seals sample_done_def sample_transaction_def)
  show ?thesis
    using sample_principal_ok cookies
    by (simp add: callback_def service_callback_def sample_read tx verified_claims_def sample_provider_def complete_login_def
        claimed_name_def normalized_email_def del: cookie_header.simps)
qed

lemma sample_keys: "distinct (map (\<lambda>n. sample_tag (sample_key n)) [4, 3])"
  by (simp add: sample_tag_def sample_key_def replicate_eqI take_replicate)

lemma sample_pair:
  "set_cookie_pair (secure_cookie session_cookie (sample_sealed n i) path age) = Some (session_cookie, sample_sealed n i)"
  "set_cookie_pair (secure_cookie refresh_cookie (sample_sealed n i) path age) = Some (refresh_cookie, sample_sealed n i)"
  by (rule set_cookie_pair_secure, simp_all add: cookie_names sample_sealed_def sample_encode_text)+

theorem login_session_authenticates_witness:
  "\<exists>expires. 1000 < expires \<and> expires \<le> 1000 + 8 * 60 * 60 \<and>
    (\<forall>at created requested.
       authenticate_request sample_crypto sample_auth_json sample_tables at created requested
         (Some (cookie_header [(session_cookie, sample_sealed 3 0)])) (Oidc (sample_service 4 [3])) =
       (if at < expires then Inr (at_time created sample_principal) else Inl Unauthorized))"
proof -
  have "set_cookie_pair (lc_set_cookie sample_done) = Some (session_cookie, sample_sealed 3 0)"
    by (simp add: sample_done_def sample_pair)
  from login_session_authenticates [OF sample_crypto_facts sample_auth_facts(2,4,5,6) _ sample_callback
      sample_rotation [of 3 4 "[3]"] this, of "[(session_cookie, sample_sealed 3 0)]", unfolded sample_done_principal]
  show ?thesis
    using sample_one_reader [OF sample_keys] sample_cookie_ok [of session_cookie]
    by (simp add: access_session_max_ttl_seconds_def del: cookie_header.simps split del: if_split)
qed

definition sample_renewal :: session_renewal where
  "sample_renewal = \<lparr> sr_set_cookie = secure_cookie session_cookie (sample_sealed 4 1) ''/'' 3600,
     sr_set_refresh_cookie = secure_cookie refresh_cookie (sample_sealed 4 1) ''/'' refresh_idle_ttl_seconds,
     sr_refresh_after_seconds = 3540 \<rparr>"

lemma sample_renew:
  "renew_session sample_crypto sample_auth_json sample_provider 2000 2000 2000 sample_nonce sample_nonce
     (Some (cookie_header [(refresh_cookie, sample_sealed 3 0)])) (Oidc (sample_service 4 [3])) = Inr sample_renewal"
proof -
  let ?claims = "refresh_claims_of sample_issuer sample_principal (lit ''rt'')"
  have "cookie_open sample_crypto (aj_refresh sample_auth_json) (sample_codec 4 [3]) (sample_sealed 3 0) = Inr (?claims 2593000)"
    using reads_cookies_open [OF sample_crypto_facts sample_auth_facts(3) sample_rotation [of 3 4 "[3]" "[]"] sample_auth_facts(6)]
      sample_login_seals(4) sample_one_reader [OF sample_keys] by simp
  then have claims: "renewal_claims sample_crypto sample_auth_json 2000 (Some (cookie_header [(refresh_cookie, sample_sealed 3 0)]))
      (sample_service 4 [3]) = Inr (?claims 2593000)"
    by (simp add: renewal_claims_def sample_read validate_refresh_claims_def refresh_claims_of_def del: cookie_header.simps)
  show ?thesis
    using sample_login_seals(3,5) [of 4 "[3]"]
    by (simp add: renew_session_def renew_session_inner_def claims sample_provider_def sample_token_def saturating_add_def
        access_session_ttl_def access_session_max_ttl_seconds_def refresh_idle_ttl_seconds_def sample_renewal_def
        refresh_after_seconds_def session_refresh_lead_seconds_def session_claims_of_def refresh_claims_of_def
        del: cookie_header.simps)
qed

theorem renewal_keeps_identity_witness:
  "\<exists>expires. 2000 < expires \<and> expires \<le> 2000 + 8 * 60 * 60 \<and>
    (\<forall>at created requested.
       authenticate_request sample_crypto sample_auth_json sample_tables at created requested
         (Some (cookie_header [(session_cookie, sample_sealed 4 1)])) (Oidc (sample_service 4 [3])) =
       (if at < expires then Inr (at_time created sample_principal) else Inl Unauthorized))"
proof -
  have fin: "lc_set_refresh_cookie sample_done = Some (secure_cookie refresh_cookie (sample_sealed 3 0) ''/'' refresh_idle_ttl_seconds)"
    "lc_principal sample_done = sample_principal" by (simp_all add: sample_done_def)
  have pair: "set_cookie_pair (sr_set_cookie sample_renewal) = Some (session_cookie, sample_sealed 4 1)"
    by (simp add: sample_renewal_def sample_pair)
  have one: "one_reader sample_crypto (svc_codec (sample_service 4 [3])) (sample_sealed n i)" for n i
    using sample_one_reader [OF sample_keys] by simp
  have rotated: "reads_cookies_of sample_crypto (sample_service 4 [3]) (sample_service 3 [])"
    "reads_cookies_of sample_crypto (sample_service 4 [3]) (sample_service 4 [3])" by (rule sample_rotation, simp)+
  show ?thesis
    using renewal_keeps_identity [OF sample_crypto_facts sample_auth_facts(2-5)
        chain_login [OF sample_callback sample_auth_facts(6), unfolded fin, OF refl] sample_pair(2)
        rotated(1) one _ _ sample_renew sample_auth_facts(6) _ pair rotated(2) one, of "[(session_cookie, sample_sealed 4 1)]"]
      sample_cookie_ok [of session_cookie] sample_cookie_ok [of refresh_cookie]
    by (simp add: access_session_max_ttl_seconds_def del: cookie_header.simps split del: if_split)
qed

end
