(* ===== verification/Native_Sessions.thy ===== *)
theory Native_Sessions
  imports Auth_Sessions
begin

text \<open>
  The sessions of native clients (\<open>src/native_sessions.rs\<close>): a login attempt that a browser
  completes and that is handed over to the client once, and the family of rotating tokens that
  follows. The four tables are maps; a column that is empty at first is an option, a numeric text
  column a number. A database transaction is one step and a transaction that fails leaves the
  tables unchanged; the clock is read once in a transaction. Random texts, the nonces of sealed
  texts and the sign-in service are arguments.
\<close>

section \<open>Library functions and the service\<close>

record attempt_secret =
  as_authorization_url :: rstr
  as_login_cookie :: rstr
  as_browser_cookie :: rstr
  as_confirmation_nonce :: rstr
  as_provider_cookies :: rstr
  as_provider_expires :: nat
  as_display_name :: rstr
  as_handoff_code :: rstr

record grant =
  gr_scope :: rstr
  gr_environment :: rstr
  gr_instance_id :: rstr
  gr_user_id :: rstr
  gr_family :: rstr
  gr_generation :: nat
  gr_epoch :: nat
  gr_access_token :: rstr
  gr_refresh_token :: rstr
  gr_revoke_token :: rstr
  gr_expires_at :: nat
  gr_display_name :: rstr

record exchange_result =
  er_user_id :: rstr
  er_native_session :: grant
  er_display_name :: rstr

record family_secret =
  fs_cookies :: rstr
  fs_grant :: grant

record native_lib =
  nl_crypto :: crypto
  nl_utf8 :: "rstr \<Rightarrow> byte list"
  nl_sha256 :: "byte list \<Rightarrow> byte list"
  nl_parse_uuid :: "rstr \<Rightarrow> uuid option"
  nl_uuid_text :: "uuid \<Rightarrow> rstr"
  nl_url_states :: "rstr \<Rightarrow> rstr list option"
  nl_attempt_json :: "attempt_secret json_type"
  nl_result_json :: "exchange_result json_type"
  nl_family_json :: "family_secret json_type"
  nl_grant_json :: "grant json_type"

record native_inner =
  ni_codec :: native_codec
  ni_origin :: rstr
  ni_issuer :: rstr
  ni_instance :: rstr

text \<open>What the sessions use of the sign-in service.\<close>

record auth_interface =
  ai_login :: "rstr option \<Rightarrow> (auth_error, login_start) result"
  ai_renew :: "rstr \<Rightarrow> (auth_error, session_renewal) result"
  ai_authenticate :: "rstr \<Rightarrow> (auth_error, authenticated_principal) result"
  ai_expires_at :: "rstr \<Rightarrow> (auth_error, nat) result"

definition auth_interface_of :: "crypto \<Rightarrow> auth_json \<Rightarrow> identity_tables \<Rightarrow> 'c oidc_provider \<Rightarrow> (bool \<Rightarrow> authorization) \<Rightarrow> nat \<Rightarrow> instant \<Rightarrow>
    byte list \<Rightarrow> byte list \<Rightarrow> 'c auth_service \<Rightarrow> auth_interface" where
  "auth_interface_of x J T P authorize_url now created nonce1 nonce2 auth =
     \<lparr> ai_login = (\<lambda>return_to. login_with_enrollment x J now nonce1 authorize_url return_to None auth),
       ai_renew = (\<lambda>cookies. renew_native_session x J P now now now nonce1 nonce2 (Some cookies) auth),
       ai_authenticate = (\<lambda>cookies. authenticate_session x J T now created (Some cookies) auth),
       ai_expires_at = (\<lambda>cookies. native_session_expires_at x J now cookies auth) \<rparr>"

definition native_scope :: rstr where "native_scope = lit ''sproyt_native_v1''"
definition native_environment :: rstr where "native_environment = lit ''canary''"
definition windows_loopback :: rstr where "windows_loopback = lit ''windows-loopback''"

section \<open>Checks of texts\<close>

definition native_hash :: "native_lib \<Rightarrow> rstr \<Rightarrow> rstr" where
  "native_hash L value = b64_encode (nl_crypto L) (nl_sha256 L (nl_utf8 L value))"

definition native_proof :: "native_lib \<Rightarrow> rstr \<Rightarrow> bool" where
  "native_proof L value \<longleftrightarrow> utf8_len value = 43 \<and>
     (case b64_decode (nl_crypto L) value of
        Inl _ \<Rightarrow> False
      | Inr bytes \<Rightarrow> length bytes = 32 \<and> b64_encode (nl_crypto L) bytes = value)"

definition ascii_alphanumeric :: "rchar \<Rightarrow> bool" where
  "ascii_alphanumeric c \<longleftrightarrow> is_ascii_lower c \<or> is_ascii_upper c \<or> is_ascii_digit c"

definition state_valid :: "rstr \<Rightarrow> bool" where
  "state_valid value \<longleftrightarrow> 16 \<le> utf8_len value \<and> utf8_len value \<le> 256 \<and>
     list_all (\<lambda>c. ascii_alphanumeric c \<or> c \<in> set (lit ''-_'')) value"

definition native_verifier :: "rstr \<Rightarrow> bool" where
  "native_verifier value \<longleftrightarrow> 43 \<le> utf8_len value \<and> utf8_len value \<le> 128 \<and>
     list_all (\<lambda>c. ascii_alphanumeric c \<or> c \<in> set (lit ''-._~'')) value"

definition native_operation :: "rstr \<Rightarrow> bool" where
  "native_operation value \<longleftrightarrow> utf8_len value = 32 \<and>
     list_all (\<lambda>c. is_ascii_digit c \<or> (97 \<le> c \<and> c \<le> 102) \<or> (65 \<le> c \<and> c \<le> 70)) value"

definition canonical_user :: "native_lib \<Rightarrow> rstr \<Rightarrow> bool" where
  "canonical_user L value \<longleftrightarrow>
     (case nl_parse_uuid L value of None \<Rightarrow> False | Some key \<Rightarrow> nl_uuid_text L key = value)"

text \<open>An empty column is not a number.\<close>

definition native_number :: "nat option \<Rightarrow> (native_error, nat) result" where
  "native_number column = (case column of None \<Rightarrow> Inl N_Unavailable | Some n \<Rightarrow> Inr n)"

definition strip_prefix :: "rstr \<Rightarrow> rstr \<Rightarrow> rstr option" where
  "strip_prefix p s = (if take (length p) s = p then Some (drop (length p) s) else None)"

definition cookie_pair :: "rstr \<Rightarrow> rstr \<Rightarrow> (native_error, rstr) result" where
  "cookie_pair value name =
     (let pair = hd (split_char 59 value) in
      case strip_prefix (name @ [61]) pair of
        None \<Rightarrow> Inl N_Unauthorized
      | Some rest \<Rightarrow> if rest = [] then Inl N_Unauthorized else Inr pair)"

definition cookie_value :: "native_lib \<Rightarrow> rstr option \<Rightarrow> rstr \<Rightarrow> (native_error, rstr) result" where
  "cookie_value L header name =
     (case header of
        None \<Rightarrow> Inl N_Unauthorized
      | Some header \<Rightarrow>
          (case map snd (filter (\<lambda>(key, _). key = name)
                 (List.map_filter (\<lambda>part. split_once 61 (trim part)) (split_char 59 header))) of
             [value] \<Rightarrow> if native_proof L value then Inr value else Inl N_Unauthorized
           | _ \<Rightarrow> Inl N_Unauthorized))"

definition native_auth_error :: "auth_error \<Rightarrow> native_error" where
  "native_auth_error e = (case e of Unauthorized \<Rightarrow> N_Unauthorized | _ \<Rightarrow> N_Unavailable)"

definition user_text :: "native_lib \<Rightarrow> authenticated_principal \<Rightarrow> rstr" where
  "user_text L p = nl_uuid_text L (user_uuid (usr_id (ap_user p)))"

fun native_status :: "native_error \<Rightarrow> nat" where
  "native_status N_Unauthorized = 401"
| "native_status N_Invalid = 400"
| "native_status N_Unavailable = 503"
| "native_status N_Configuration = 503"

fun native_display :: "native_error \<Rightarrow> rstr" where
  "native_display N_Unauthorized = lit ''native authentication required''"
| "native_display N_Invalid = lit ''native request rejected''"
| "native_display N_Unavailable = lit ''native service unavailable''"
| "native_display N_Configuration = lit ''native configuration invalid''"

section \<open>The tables\<close>

datatype attempt_phase = A_New | A_Authorizing | A_Verifying | A_Failed | A_Confirm | A_Ready | A_Redeemed | A_Cancelled
datatype family_phase = F_Active | F_Refreshing | F_Reauth | F_Revoked

record attempt =
  at_state_hash :: rstr
  at_challenge :: rstr
  at_expected_user_id :: rstr
  at_start_epoch :: nat
  at_epoch :: "nat option"
  at_user_id :: rstr
  at_callback_port :: u16
  at_created_at :: nat
  at_expires_at :: nat
  at_phase :: attempt_phase
  at_cookie_hash :: rstr
  at_confirm_hash :: rstr
  at_code_hash :: rstr
  at_handoff_expires :: "nat option"
  at_redemption_id :: rstr
  at_receipt_expires :: "nat option"
  at_family :: rstr
  at_secret :: rstr
  at_receipt :: rstr

record family =
  fm_user_id :: rstr
  fm_epoch :: nat
  fm_generation :: nat
  fm_phase :: family_phase
  fm_access_hash :: rstr
  fm_refresh_hash :: rstr
  fm_revoke_hash :: rstr
  fm_expires_at :: nat
  fm_secret :: rstr
  fm_lease_id :: rstr
  fm_lease_expires :: nat

record refresh_receipt =
  rr_family :: rstr
  rr_expires_at :: nat
  rr_result :: rstr

record native_db =
  nd_epochs :: "(rstr, nat \<times> nat) hmap"
  nd_attempts :: "(rstr, attempt) hmap"
  nd_families :: "(rstr, family) hmap"
  nd_receipts :: "(rstr \<times> rstr \<times> nat, refresh_receipt) hmap"

type_synonym 'r native_tx = "(native_error, 'r) result \<times> native_db"

text \<open>The question mark inside a transaction: an error rolls it back.\<close>

definition or_rollback :: "native_db \<Rightarrow> (native_error, 'a) result \<Rightarrow> ('a \<Rightarrow> 'r native_tx) \<Rightarrow> 'r native_tx" where
  "or_rollback db r f = (case r of Inl e \<Rightarrow> (Inl e, db) | Inr a \<Rightarrow> f a)"

lemma or_rollback_simps [simp]:
  "or_rollback db (Inl e) f = (Inl e, db)" "or_rollback db (Inr a) f = f a"
  by (simp_all add: or_rollback_def)

definition refuse :: "native_error \<Rightarrow> native_db \<Rightarrow> 'r native_tx" where
  "refuse e db = (Inl e, db)"

definition set_attempt :: "rstr \<Rightarrow> attempt \<Rightarrow> native_db \<Rightarrow> native_db" where
  "set_attempt key a db = db\<lparr> nd_attempts := hm_insert key a (nd_attempts db) \<rparr>"

definition set_family :: "rstr \<Rightarrow> family \<Rightarrow> native_db \<Rightarrow> native_db" where
  "set_family key f db = db\<lparr> nd_families := hm_insert key f (nd_families db) \<rparr>"

definition find_attempt :: "rstr \<Rightarrow> native_db \<Rightarrow> (native_error, attempt) result" where
  "find_attempt key db = (case hm_get (nd_attempts db) key of None \<Rightarrow> Inl N_Unauthorized | Some a \<Rightarrow> Inr a)"

definition find_family :: "rstr \<Rightarrow> native_db \<Rightarrow> (native_error, family) result" where
  "find_family key db = (case hm_get (nd_families db) key of None \<Rightarrow> Inl N_Unauthorized | Some f \<Rightarrow> Inr f)"

definition user_epoch :: "rstr \<Rightarrow> native_db \<Rightarrow> nat \<times> nat" where
  "user_epoch user db = hm_get_or (0, 0) (nd_epochs db) user"

text \<open>A family can be used while it is active or being refreshed, in the epoch of its user; a lease that ran out ends it.\<close>

definition fence :: "nat \<Rightarrow> rstr \<Rightarrow> family \<Rightarrow> native_db \<Rightarrow> unit native_tx" where
  "fence now key f db =
     (if fm_phase f \<notin> {F_Active, F_Refreshing} \<or> fst (user_epoch (fm_user_id f) db) \<noteq> fm_epoch f then refuse N_Unauthorized db
      else if fm_phase f = F_Refreshing \<and> fm_lease_expires f \<le> now then
        (Inl N_Unauthorized,
         case hm_get (nd_families db) key of
           None \<Rightarrow> db
         | Some g \<Rightarrow> if fm_phase g = F_Refreshing \<and> fm_lease_id g = fm_lease_id f
                     then set_family key (g\<lparr> fm_phase := F_Reauth, fm_secret := [] \<rparr>) db else db)
      else (Inr (), db))"

text \<open>What follows the check of the fence: an error is committed.\<close>

definition after_fence :: "unit native_tx \<Rightarrow> 'r native_tx \<Rightarrow> 'r native_tx" where
  "after_fence checked k = (case fst checked of Inl e \<Rightarrow> (Inl e, snd checked) | Inr _ \<Rightarrow> k)"

section \<open>Sealed columns\<close>

definition attempt_purpose :: "rstr \<Rightarrow> rstr" where "attempt_purpose key = lit ''attempt:'' @ key"
definition handoff_purpose :: "rstr \<Rightarrow> rstr" where "handoff_purpose key = lit ''handoff:'' @ key"
definition family_purpose :: "rstr \<Rightarrow> rstr" where "family_purpose key = lit ''family:'' @ key"

definition seal_as :: "native_lib \<Rightarrow> native_inner \<Rightarrow> 'a json_type \<Rightarrow> byte list \<Rightarrow> rstr \<Rightarrow> 'a \<Rightarrow> (native_error, rstr) result" where
  "seal_as L I j nonce purpose value = native_seal (nl_crypto L) (nl_utf8 L) j (ni_codec I) nonce purpose value"

definition open_as :: "native_lib \<Rightarrow> native_inner \<Rightarrow> 'a json_type \<Rightarrow> rstr \<Rightarrow> rstr \<Rightarrow> (native_error, 'a) result" where
  "open_as L I j purpose value = native_open (nl_crypto L) (nl_utf8 L) j (ni_codec I) purpose value"

definition family_secret_of :: "native_lib \<Rightarrow> native_inner \<Rightarrow> rstr \<Rightarrow> family \<Rightarrow> (native_error, family_secret) result" where
  "family_secret_of L I key f =
     result_bind (open_as L I (nl_family_json L) (family_purpose key) (fm_secret f)) (\<lambda>secret.
       let g = fs_grant secret in
       if gr_scope g \<noteq> native_scope \<or> gr_environment g \<noteq> native_environment \<or> gr_instance_id g \<noteq> ni_instance I \<or>
          gr_user_id g \<noteq> fm_user_id f \<or> gr_family g \<noteq> key \<or> gr_epoch g \<noteq> fm_epoch f \<or> gr_generation g \<noteq> fm_generation f \<or>
          native_hash L (gr_access_token g) \<noteq> fm_access_hash f \<or> native_hash L (gr_refresh_token g) \<noteq> fm_refresh_hash f \<or>
          native_hash L (gr_revoke_token g) \<noteq> fm_revoke_hash f \<or> gr_expires_at g \<noteq> fm_expires_at f
       then Inl N_Unauthorized else Inr secret)"

section \<open>Starting a login\<close>

record login_request =
  lr_challenge :: rstr
  lr_destination_id :: rstr
  lr_callback_port :: u16
  lr_expected_user_id :: "rstr option"

record login_started =
  lst_transaction_id :: rstr
  lst_authorization_url :: rstr

definition new_attempt :: "rstr \<Rightarrow> rstr \<Rightarrow> rstr \<Rightarrow> nat \<Rightarrow> u16 \<Rightarrow> nat \<Rightarrow> rstr \<Rightarrow> attempt" where
  "new_attempt state_hash challenge expected epoch port created secret =
     \<lparr> at_state_hash = state_hash, at_challenge = challenge, at_expected_user_id = expected, at_start_epoch = epoch, at_epoch = None,
       at_user_id = [], at_callback_port = port, at_created_at = created, at_expires_at = created + 600, at_phase = A_New,
       at_cookie_hash = [], at_confirm_hash = [], at_code_hash = [], at_handoff_expires = None, at_redemption_id = [],
       at_receipt_expires = None, at_family = [], at_secret = secret, at_receipt = [] \<rparr>"

definition native_login :: "native_lib \<Rightarrow> native_inner \<Rightarrow> auth_interface \<Rightarrow> nat \<Rightarrow> rstr \<Rightarrow> rstr \<Rightarrow> byte list \<Rightarrow> login_request \<Rightarrow> native_db \<Rightarrow>
    login_started native_tx" where
  "native_login L I A now key cookie nonce input db =
     (if \<not> native_proof L (lr_challenge input) \<or> lr_destination_id input \<noteq> windows_loopback \<or> lr_callback_port input < 1024 \<or>
         \<not> pred_option (canonical_user L) (lr_expected_user_id input)
      then refuse N_Invalid db
      else or_rollback db (map_sum native_auth_error (\<lambda>x. x) (ai_login A (Some (lit ''/auth/native/confirmed'')))) (\<lambda>login.
        case nl_url_states L (ls_authorization_url login) of
          Some [state] \<Rightarrow>
            if \<not> state_valid state then refuse N_Unavailable db
            else or_rollback db (cookie_pair (ls_set_cookie login) login_cookie) (\<lambda>login_pair.
              let payload = \<lparr> as_authorization_url = ls_authorization_url login, as_login_cookie = login_pair,
                              as_browser_cookie = cookie, as_confirmation_nonce = [], as_provider_cookies = [],
                              as_provider_expires = 0, as_display_name = [], as_handoff_code = [] \<rparr>;
                  expected = (case lr_expected_user_id input of Some user \<Rightarrow> user | None \<Rightarrow> [])
              in or_rollback db (seal_as L I (nl_attempt_json L) nonce (attempt_purpose key) payload) (\<lambda>secret.
                   if 4096 \<le> length (nd_attempts db) then refuse N_Unavailable db
                   else if hm_has (nd_attempts db) key \<or>
                           (\<exists>a \<in> set (hm_values (nd_attempts db)). at_state_hash a = native_hash L state)
                   then refuse N_Unavailable db
                   else (Inr \<lparr> lst_transaction_id = key, lst_authorization_url = ni_origin I @ lit ''/auth/native/browser/'' @ key \<rparr>,
                         set_attempt key (new_attempt (native_hash L state) (lr_challenge input) expected
                           (fst (user_epoch expected db)) (lr_callback_port input) now secret) db)))
        | _ \<Rightarrow> refuse N_Unavailable db))"

definition native_browser :: "native_lib \<Rightarrow> native_inner \<Rightarrow> nat \<Rightarrow> rstr \<Rightarrow> native_db \<Rightarrow> (rstr \<times> rstr) native_tx" where
  "native_browser L I now key db =
     (if \<not> native_proof L key then refuse N_Unauthorized db
      else or_rollback db (find_attempt key db) (\<lambda>a.
        if at_phase a \<noteq> A_New \<or> at_expires_at a \<le> now then refuse N_Unauthorized db
        else or_rollback db (open_as L I (nl_attempt_json L) (attempt_purpose key) (at_secret a)) (\<lambda>secret.
          (Inr (as_authorization_url secret,
                lit ''sproyt_native_'' @ key @ lit ''='' @ as_browser_cookie secret @
                lit ''; Path=/auth; HttpOnly; Secure; SameSite=Lax; Max-Age=600''),
           set_attempt key (a\<lparr> at_phase := A_Authorizing, at_cookie_hash := native_hash L (as_browser_cookie secret) \<rparr>) db))))"

definition owns_state :: "native_lib \<Rightarrow> rstr \<Rightarrow> native_db \<Rightarrow> bool" where
  "owns_state L state db \<longleftrightarrow> list_ex (\<lambda>(_, a). at_state_hash a = native_hash L state) (nd_attempts db)"

section \<open>The provider's callback\<close>

definition native_cookie :: "rstr \<Rightarrow> rstr" where
  "native_cookie key = lit ''sproyt_native_'' @ key"

text \<open>The attempt is claimed before the code is exchanged.\<close>

definition callback_claim :: "native_lib \<Rightarrow> native_inner \<Rightarrow> nat \<Rightarrow> rstr \<Rightarrow> rstr \<Rightarrow> rstr option \<Rightarrow> native_db \<Rightarrow>
    (rstr \<times> attempt \<times> attempt_secret) native_tx" where
  "callback_claim L I now code state header db =
     (if code = [] \<or> utf8_len code > 4096 \<or> \<not> state_valid state then refuse N_Unauthorized db
      else case List.find (\<lambda>(_, a). at_state_hash a = native_hash L state) (nd_attempts db) of
        None \<Rightarrow> refuse N_Unauthorized db
      | Some (key, _) \<Rightarrow>
          or_rollback db (find_attempt key db) (\<lambda>a.
          or_rollback db (cookie_value L header (native_cookie key)) (\<lambda>cookie.
            if at_phase a \<noteq> A_Authorizing \<or> at_expires_at a \<le> now \<or> native_hash L cookie \<noteq> at_cookie_hash a
            then refuse N_Unauthorized db
            else or_rollback db (open_as L I (nl_attempt_json L) (attempt_purpose key) (at_secret a)) (\<lambda>secret.
              (Inr (key, a, secret), set_attempt key (a\<lparr> at_phase := A_Verifying \<rparr>) db)))))"

definition callback_fail :: "rstr \<Rightarrow> native_db \<Rightarrow> native_db" where
  "callback_fail key db =
     (case hm_get (nd_attempts db) key of
        Some a \<Rightarrow> if at_phase a = A_Verifying then set_attempt key (a\<lparr> at_phase := A_Failed, at_secret := [] \<rparr>) db else db
      | None \<Rightarrow> db)"

record confirmation =
  cf_transaction_id :: rstr
  cf_callback_port :: u16
  cf_nonce :: rstr
  cf_principal :: authenticated_principal

definition provider_cookies :: "rstr \<Rightarrow> rstr \<Rightarrow> (native_error, rstr) result" where
  "provider_cookies set_session set_refresh =
     result_bind (cookie_pair set_session session_cookie) (\<lambda>session.
       result_bind (cookie_pair set_refresh refresh_cookie) (\<lambda>refresh. Inr (session @ lit ''; '' @ refresh)))"

text \<open>The rest of the callback, with the attempt as it was claimed and the answer of the sign-in service.\<close>

definition callback_finish :: "native_lib \<Rightarrow> native_inner \<Rightarrow> auth_interface \<Rightarrow> rstr \<Rightarrow> byte list \<Rightarrow> rstr \<Rightarrow> attempt \<Rightarrow> attempt_secret \<Rightarrow>
    (auth_error, login_complete) result \<Rightarrow> native_db \<Rightarrow> confirmation native_tx" where
  "callback_finish L I A confirm_nonce nonce key a secret answer db =
     (case answer of
        Inl e \<Rightarrow> (Inl (native_auth_error e), callback_fail key db)
      | Inr login \<Rightarrow>
          (let user = user_text L (lc_principal login) in
           case lc_set_refresh_cookie login of
             None \<Rightarrow> refuse N_Unauthorized db
           | Some set_refresh \<Rightarrow>
             if at_expected_user_id a \<noteq> [] \<and> at_expected_user_id a \<noteq> user then refuse N_Unauthorized db
             else or_rollback db (provider_cookies (lc_set_cookie login) set_refresh) (\<lambda>cookies.
               or_rollback db (map_sum native_auth_error (\<lambda>x. x) (ai_expires_at A cookies)) (\<lambda>provider_expires.
                 let secret = secret\<lparr> as_provider_cookies := cookies, as_provider_expires := provider_expires,
                       as_display_name := name_str (usr_display_name (ap_user (lc_principal login))),
                       as_confirmation_nonce := confirm_nonce, as_login_cookie := [], as_authorization_url := [] \<rparr>;
                     (epoch, changed_at) = user_epoch user db
                 in if (at_expected_user_id a \<noteq> [] \<and> at_start_epoch a \<noteq> epoch) \<or>
                       (at_expected_user_id a = [] \<and> changed_at \<ge> at_created_at a \<and> changed_at > 0)
                    then refuse N_Unauthorized db
                    else or_rollback db (seal_as L I (nl_attempt_json L) nonce (attempt_purpose key) secret) (\<lambda>sealed.
                      case hm_get (nd_attempts db) key of
                        Some b \<Rightarrow>
                          if at_phase b \<noteq> A_Verifying then refuse N_Unauthorized db
                          else (Inr \<lparr> cf_transaction_id = key, cf_callback_port = at_callback_port a, cf_nonce = confirm_nonce,
                                      cf_principal = lc_principal login \<rparr>,
                                set_attempt key (b\<lparr> at_phase := A_Confirm, at_user_id := user, at_epoch := Some epoch,
                                  at_confirm_hash := native_hash L confirm_nonce, at_secret := sealed \<rparr>) db)
                      | None \<Rightarrow> refuse N_Unauthorized db)))))"

definition native_confirm :: "native_lib \<Rightarrow> native_inner \<Rightarrow> nat \<Rightarrow> rstr \<Rightarrow> byte list \<Rightarrow> rstr \<Rightarrow> rstr \<Rightarrow> rstr option \<Rightarrow> native_db \<Rightarrow>
    rstr native_tx" where
  "native_confirm L I now handoff_code nonce key confirm_nonce header db =
     (if \<not> native_proof L key \<or> \<not> native_proof L confirm_nonce then refuse N_Unauthorized db
      else or_rollback db (find_attempt key db) (\<lambda>a.
        if at_phase a \<notin> {A_Confirm, A_Ready} \<or> at_expires_at a \<le> now then refuse N_Unauthorized db
        else or_rollback db (cookie_value L header (native_cookie key)) (\<lambda>cookie.
          if native_hash L cookie \<noteq> at_cookie_hash a \<or> native_hash L confirm_nonce \<noteq> at_confirm_hash a then refuse N_Unauthorized db
          else or_rollback db (native_number (at_epoch a)) (\<lambda>epoch.
            if fst (user_epoch (at_user_id a) db) \<noteq> epoch then refuse N_Unauthorized db
            else or_rollback db (open_as L I (nl_attempt_json L) (attempt_purpose key) (at_secret a)) (\<lambda>secret.
              let answer = (\<lambda>code. lit ''http://127.0.0.1:'' @ dec_digits (unat (at_callback_port a)) @
                    lit ''/return?transaction_id='' @ key @ lit ''&code='' @ code)
              in if as_provider_expires secret \<le> now then refuse N_Unauthorized db
                 else if at_phase a = A_Confirm then
                   or_rollback db (seal_as L I (nl_attempt_json L) nonce (attempt_purpose key) (secret\<lparr> as_handoff_code := handoff_code \<rparr>))
                     (\<lambda>sealed. (Inr (answer handoff_code),
                        set_attempt key (a\<lparr> at_phase := A_Ready, at_code_hash := native_hash L handoff_code,
                          at_handoff_expires := Some (min (now + 60) (at_expires_at a)), at_secret := sealed \<rparr>) db))
                 else or_rollback db (native_number (at_handoff_expires a)) (\<lambda>handoff_expires.
                   if handoff_expires \<le> now then refuse N_Unauthorized db
                   else (Inr (answer (as_handoff_code secret)), db)))))))"

section \<open>Handing the session over\<close>

record exchange_request =
  er_transaction_id :: rstr
  er_code :: rstr
  er_verifier :: rstr
  er_redemption_id :: rstr
  er_environment :: rstr
  er_destination_id :: rstr

record cancel_request =
  cr_transaction_id :: rstr
  cr_verifier :: rstr
  cr_environment :: rstr
  cr_destination_id :: rstr

text \<open>The random texts of a new family: its name and the parts of the three tokens.\<close>

record grant_texts =
  gt_family :: rstr
  gt_access :: rstr
  gt_refresh :: rstr
  gt_revoke :: rstr

definition access_token :: "rstr \<Rightarrow> rstr" where "access_token r = lit ''sproyt-access.'' @ r"
definition refresh_token :: "rstr \<Rightarrow> rstr" where "refresh_token r = lit ''sproyt-refresh.'' @ r"
definition revoke_token :: "rstr \<Rightarrow> rstr" where "revoke_token r = lit ''sproyt-revoke.'' @ r"

definition new_grant :: "native_inner \<Rightarrow> nat \<Rightarrow> grant_texts \<Rightarrow> rstr \<Rightarrow> nat \<Rightarrow> attempt_secret \<Rightarrow> grant" where
  "new_grant I now r user epoch secret =
     \<lparr> gr_scope = native_scope, gr_environment = native_environment, gr_instance_id = ni_instance I, gr_user_id = user,
       gr_family = gt_family r, gr_generation = 0, gr_epoch = epoch, gr_access_token = access_token (gt_access r),
       gr_refresh_token = refresh_token (gt_refresh r), gr_revoke_token = revoke_token (gt_revoke r),
       gr_expires_at = min (now + 300) (as_provider_expires secret), gr_display_name = as_display_name secret \<rparr>"

definition family_of :: "native_lib \<Rightarrow> grant \<Rightarrow> rstr \<Rightarrow> family" where
  "family_of L g sealed =
     \<lparr> fm_user_id = gr_user_id g, fm_epoch = gr_epoch g, fm_generation = 0, fm_phase = F_Active,
       fm_access_hash = native_hash L (gr_access_token g), fm_refresh_hash = native_hash L (gr_refresh_token g),
       fm_revoke_hash = native_hash L (gr_revoke_token g), fm_expires_at = gr_expires_at g, fm_secret = sealed,
       fm_lease_id = [], fm_lease_expires = 0 \<rparr>"

text \<open>The unique columns of the families.\<close>

definition family_conflict :: "rstr \<Rightarrow> family \<Rightarrow> native_db \<Rightarrow> bool" where
  "family_conflict key f db \<longleftrightarrow>
     (\<exists>(other, g) \<in> set (nd_families db). other \<noteq> key \<and>
        (fm_access_hash g = fm_access_hash f \<or> fm_refresh_hash g = fm_refresh_hash f \<or> fm_revoke_hash g = fm_revoke_hash f))"

text \<open>The two halves of the exchange: the replay of a handover, and the first one.\<close>

definition exchange_replay :: "native_lib \<Rightarrow> native_inner \<Rightarrow> nat \<Rightarrow> exchange_request \<Rightarrow> attempt \<Rightarrow> native_db \<Rightarrow> exchange_result native_tx" where
  "exchange_replay L I now input a db =
     (if at_redemption_id a \<noteq> er_redemption_id input then refuse N_Unauthorized db
      else or_rollback db (native_number (at_receipt_expires a)) (\<lambda>receipt_expires.
        if receipt_expires \<le> now then refuse N_Unauthorized db
        else or_rollback db (find_family (at_family a) db) (\<lambda>f.
          after_fence (fence now (at_family a) f db)
            (open_as L I (nl_result_json L) (handoff_purpose (er_transaction_id input)) (at_receipt a), db))))"

definition exchange_first :: "native_lib \<Rightarrow> native_inner \<Rightarrow> nat \<Rightarrow> grant_texts \<Rightarrow> byte list \<Rightarrow> byte list \<Rightarrow> exchange_request \<Rightarrow> attempt \<Rightarrow>
    nat \<Rightarrow> native_db \<Rightarrow> exchange_result native_tx" where
  "exchange_first L I now r nonce1 nonce2 input a epoch db =
     (let key = er_transaction_id input in
      or_rollback db (native_number (at_handoff_expires a)) (\<lambda>handoff_expires.
        if handoff_expires \<le> now then refuse N_Unauthorized db
        else or_rollback db (open_as L I (nl_attempt_json L) (attempt_purpose key) (at_secret a)) (\<lambda>secret.
          let g = new_grant I now r (at_user_id a) epoch secret;
              result = \<lparr> er_user_id = gr_user_id g, er_native_session = g, er_display_name = gr_display_name g \<rparr>
          in if gr_expires_at g \<le> now then refuse N_Unauthorized db
             else or_rollback db (seal_as L I (nl_family_json L) nonce1 (family_purpose (gr_family g))
                 \<lparr> fs_cookies = as_provider_cookies secret, fs_grant = g \<rparr>) (\<lambda>sealed.
               or_rollback db (seal_as L I (nl_result_json L) nonce2 (handoff_purpose key) result) (\<lambda>receipt.
                 let f = family_of L g sealed in
                 if hm_has (nd_families db) (gr_family g) \<or> family_conflict (gr_family g) f db then refuse N_Unavailable db
                 else (Inr result,
                       set_family (gr_family g) f (set_attempt key (a\<lparr> at_phase := A_Redeemed,
                         at_redemption_id := er_redemption_id input, at_receipt_expires := Some (now + 60),
                         at_family := gr_family g, at_secret := [], at_receipt := receipt \<rparr>) db)))))))"

definition native_exchange :: "native_lib \<Rightarrow> native_inner \<Rightarrow> nat \<Rightarrow> grant_texts \<Rightarrow> byte list \<Rightarrow> byte list \<Rightarrow> exchange_request \<Rightarrow> native_db \<Rightarrow>
    exchange_result native_tx" where
  "native_exchange L I now r nonce1 nonce2 input db =
     (if \<not> native_proof L (er_transaction_id input) \<or> \<not> native_proof L (er_code input) \<or> \<not> native_verifier (er_verifier input) \<or>
         \<not> native_operation (er_redemption_id input) \<or> er_environment input \<noteq> native_environment \<or>
         er_destination_id input \<noteq> windows_loopback
      then refuse N_Unauthorized db
      else or_rollback db (find_attempt (er_transaction_id input) db) (\<lambda>a.
        if native_hash L (er_verifier input) \<noteq> at_challenge a \<or> native_hash L (er_code input) \<noteq> at_code_hash a
        then refuse N_Unauthorized db
        else or_rollback db (native_number (at_epoch a)) (\<lambda>epoch.
          if fst (user_epoch (at_user_id a) db) \<noteq> epoch then refuse N_Unauthorized db
          else if at_phase a = A_Redeemed then exchange_replay L I now input a db
          else if at_phase a \<noteq> A_Ready then refuse N_Unauthorized db
          else exchange_first L I now r nonce1 nonce2 input a epoch db)))"

definition revoke_family :: "family \<Rightarrow> family" where
  "revoke_family f = f\<lparr> fm_phase := F_Revoked, fm_secret := [] \<rparr>"

text \<open>The attempt and the family that it was handed over with.\<close>

definition cancel_attempt :: "rstr \<Rightarrow> attempt \<Rightarrow> native_db \<Rightarrow> native_db" where
  "cancel_attempt key a db =
     (let db = set_attempt key (a\<lparr> at_phase := A_Cancelled, at_secret := [] \<rparr>) db
      in if at_family a = [] then db
         else case hm_get (nd_families db) (at_family a) of
                None \<Rightarrow> db
              | Some f \<Rightarrow> set_family (at_family a) (revoke_family f) db)"

definition cancel_login :: "native_lib \<Rightarrow> cancel_request \<Rightarrow> native_db \<Rightarrow> unit native_tx" where
  "cancel_login L input db =
     (if \<not> native_proof L (cr_transaction_id input) \<or> \<not> native_verifier (cr_verifier input) \<or>
         cr_environment input \<noteq> native_environment \<or> cr_destination_id input \<noteq> windows_loopback
      then refuse N_Unauthorized db
      else or_rollback db (find_attempt (cr_transaction_id input) db) (\<lambda>a.
        if native_hash L (cr_verifier input) \<noteq> at_challenge a then refuse N_Unauthorized db
        else (Inr (), cancel_attempt (cr_transaction_id input) a db)))"

definition native_revoke :: "native_lib \<Rightarrow> rstr \<Rightarrow> native_db \<Rightarrow> unit native_tx" where
  "native_revoke L token db =
     (if \<not> (case strip_prefix (lit ''sproyt-revoke.'') token of None \<Rightarrow> False | Some r \<Rightarrow> native_proof L r)
      then refuse N_Unauthorized db
      else let hit = (\<lambda>f. fm_revoke_hash f = native_hash L token) in
           if length (filter hit (hm_values (nd_families db))) \<noteq> 1 then refuse N_Unauthorized db
           else (Inr (), db\<lparr> nd_families := map (\<lambda>(key, f). (key, if hit f then revoke_family f else f)) (nd_families db) \<rparr>))"

section \<open>Authentication\<close>

record native_session_ref =
  sf_family :: rstr
  sf_access_hash :: rstr
  sf_generation :: nat
  sf_epoch :: nat

definition referenced :: "native_lib \<Rightarrow> native_inner \<Rightarrow> nat \<Rightarrow> native_session_ref \<Rightarrow> native_db \<Rightarrow> family_secret native_tx" where
  "referenced L I now reference db =
     or_rollback db (find_family (sf_family reference) db) (\<lambda>f.
       after_fence (fence now (sf_family reference) f db)
         (if fm_access_hash f \<noteq> sf_access_hash reference \<or> fm_generation f \<noteq> sf_generation reference \<or>
             fm_epoch f \<noteq> sf_epoch reference \<or> fm_expires_at f \<le> now
          then refuse N_Unauthorized db
          else (family_secret_of L I (sf_family reference) f, db)))"

text \<open>
  The reference of an access token, and the two checks of the family around the authentication of
  its cookies; other steps may come between them.
\<close>

definition token_ref :: "native_lib \<Rightarrow> rstr \<Rightarrow> native_db \<Rightarrow> (native_error, native_session_ref) result" where
  "token_ref L token db =
     (if \<not> (case strip_prefix (lit ''sproyt-access.'') token of None \<Rightarrow> False | Some r \<Rightarrow> native_proof L r) then Inl N_Unauthorized
      else case List.find (\<lambda>(_, f). fm_access_hash f = native_hash L token) (nd_families db) of
             None \<Rightarrow> Inl N_Unauthorized
           | Some (key, f) \<Rightarrow> Inr \<lparr> sf_family = key, sf_access_hash = native_hash L token, sf_generation = fm_generation f,
                                  sf_epoch = fm_epoch f \<rparr>)"

definition recheck_principal :: "native_lib \<Rightarrow> auth_interface \<Rightarrow> family_secret \<Rightarrow> (native_error, authenticated_principal) result" where
  "recheck_principal L A secret =
     result_bind (map_sum native_auth_error (\<lambda>x. x) (ai_authenticate A (fs_cookies secret))) (\<lambda>p.
       if user_text L p \<noteq> gr_user_id (fs_grant secret) then Inl N_Unauthorized else Inr p)"

definition recheck :: "native_lib \<Rightarrow> native_inner \<Rightarrow> auth_interface \<Rightarrow> nat \<Rightarrow> nat \<Rightarrow> native_session_ref \<Rightarrow> native_db \<Rightarrow>
    authenticated_principal native_tx" where
  "recheck L I A now later reference db =
     (case referenced L I now reference db of
        (Inl e, db) \<Rightarrow> (Inl e, db)
      | (Inr secret, db) \<Rightarrow>
          (case recheck_principal L A secret of
             Inl e \<Rightarrow> (Inl e, db)
           | Inr p \<Rightarrow>
               (case referenced L I later reference db of
                  (Inl e, db) \<Rightarrow> (Inl e, db)
                | (Inr _, db) \<Rightarrow> (Inr p, db))))"

definition authenticate_ref :: "native_lib \<Rightarrow> native_inner \<Rightarrow> auth_interface \<Rightarrow> nat \<Rightarrow> nat \<Rightarrow> rstr \<Rightarrow> native_db \<Rightarrow>
    (authenticated_principal \<times> native_session_ref) native_tx" where
  "authenticate_ref L I A now later token db =
     or_rollback db (token_ref L token db) (\<lambda>reference.
       apfst (map_sum (\<lambda>x. x) (\<lambda>p. (p, reference))) (recheck L I A now later reference db))"

record session_info =
  si_user_id :: rstr
  si_family :: rstr
  si_generation :: nat
  si_epoch :: nat
  si_display_name :: rstr

definition native_session :: "native_lib \<Rightarrow> native_inner \<Rightarrow> auth_interface \<Rightarrow> nat \<Rightarrow> nat \<Rightarrow> rstr \<Rightarrow> native_db \<Rightarrow> session_info native_tx" where
  "native_session L I A now later token db =
     apfst (map_sum (\<lambda>x. x) (\<lambda>(p, reference).
         \<lparr> si_user_id = user_text L p, si_family = sf_family reference, si_generation = sf_generation reference,
           si_epoch = sf_epoch reference, si_display_name = name_str (usr_display_name (ap_user p)) \<rparr>))
       (authenticate_ref L I A now later token db)"

section \<open>Refreshing\<close>

record refresh_request =
  rq_operation_id :: rstr
  rq_generation :: nat

text \<open>What a refresh remembers while the sign-in service renews the grant.\<close>

record pending_refresh =
  pr_family :: rstr
  pr_user :: rstr
  pr_secret :: family_secret
  pr_lease :: rstr
  pr_old_hash :: rstr
  pr_request :: refresh_request

definition refresh_purpose :: "rstr \<Rightarrow> refresh_request \<Rightarrow> rstr" where
  "refresh_purpose old_hash input =
     lit ''refresh:'' @ old_hash @ lit '':'' @ rq_operation_id input @ lit '':'' @ dec_digits (rq_generation input)"

text \<open>A refresh answers from its receipt, or takes the lease of its family.\<close>

definition refresh_replay :: "native_lib \<Rightarrow> native_inner \<Rightarrow> nat \<Rightarrow> rstr \<Rightarrow> refresh_receipt \<Rightarrow> native_db \<Rightarrow> grant native_tx" where
  "refresh_replay L I now purpose row db =
     or_rollback db (find_family (rr_family row) db) (\<lambda>f.
       after_fence (fence now (rr_family row) f db)
         (if rr_expires_at row \<le> now then refuse N_Unauthorized db
          else (open_as L I (nl_grant_json L) purpose (rr_result row), db)))"

definition take_lease :: "native_lib \<Rightarrow> native_inner \<Rightarrow> nat \<Rightarrow> rstr \<Rightarrow> rstr \<Rightarrow> refresh_request \<Rightarrow> rstr \<Rightarrow> family \<Rightarrow> native_db \<Rightarrow>
    pending_refresh native_tx" where
  "take_lease L I now lease old_hash input key f db =
     after_fence (fence now key f db)
       (if fm_generation f \<noteq> rq_generation input then refuse N_Unauthorized db
        else if fm_phase f = F_Refreshing then refuse N_Unavailable db
        else or_rollback db (family_secret_of L I key f) (\<lambda>secret.
          (Inr \<lparr> pr_family = key, pr_user = fm_user_id f, pr_secret = secret, pr_lease = lease, pr_old_hash = old_hash,
                 pr_request = input \<rparr>,
           set_family key (f\<lparr> fm_phase := F_Refreshing, fm_lease_id := lease, fm_lease_expires := now + 30 \<rparr>) db)))"

definition refresh_begin :: "native_lib \<Rightarrow> native_inner \<Rightarrow> nat \<Rightarrow> rstr \<Rightarrow> rstr \<Rightarrow> refresh_request \<Rightarrow> native_db \<Rightarrow> (grant + pending_refresh) native_tx" where
  "refresh_begin L I now lease token input db =
     (if \<not> (case strip_prefix (lit ''sproyt-refresh.'') token of None \<Rightarrow> False | Some r \<Rightarrow> native_proof L r) \<or>
         \<not> native_operation (rq_operation_id input) \<or> rq_generation input = 2 ^ 64 - 1
      then refuse N_Unauthorized db
      else let old_hash = native_hash L token in
        case hm_get (nd_receipts db) (old_hash, rq_operation_id input, rq_generation input) of
          Some row \<Rightarrow> apfst (map_sum (\<lambda>x. x) Inl) (refresh_replay L I now (refresh_purpose old_hash input) row db)
        | None \<Rightarrow>
            (case List.find (\<lambda>(_, f). fm_refresh_hash f = old_hash) (nd_families db) of
               None \<Rightarrow> refuse N_Unauthorized db
             | Some (key, f) \<Rightarrow> apfst (map_sum (\<lambda>x. x) Inr) (take_lease L I now lease old_hash input key f db)))"

definition require_reauthentication :: "rstr \<Rightarrow> rstr \<Rightarrow> native_db \<Rightarrow> native_db" where
  "require_reauthentication key lease db =
     (case hm_get (nd_families db) key of
        None \<Rightarrow> db
      | Some f \<Rightarrow> if fm_phase f = F_Refreshing \<and> fm_lease_id f = lease
                  then set_family key (f\<lparr> fm_phase := F_Reauth, fm_secret := [] \<rparr>) db else db)"

text \<open>The grant of the next generation.\<close>

definition rotated_grant :: "nat \<Rightarrow> rstr \<Rightarrow> rstr \<Rightarrow> nat \<Rightarrow> authenticated_principal \<Rightarrow> grant \<Rightarrow> grant" where
  "rotated_grant now access refresh provider_expires p g =
     g\<lparr> gr_generation := gr_generation g + 1, gr_access_token := access_token access, gr_refresh_token := refresh_token refresh,
        gr_expires_at := min (now + 300) provider_expires, gr_display_name := name_str (usr_display_name (ap_user p)) \<rparr>"

text \<open>The last transaction of a refresh: the holder of the lease puts the new grant in place.\<close>

definition refresh_commit :: "native_lib \<Rightarrow> nat \<Rightarrow> pending_refresh \<Rightarrow> grant \<Rightarrow> rstr \<Rightarrow> rstr \<Rightarrow> native_db \<Rightarrow> grant native_tx" where
  "refresh_commit L now p g sealed receipt db =
     or_rollback db (find_family (pr_family p) db) (\<lambda>current.
       after_fence (fence now (pr_family p) current db)
         (if fm_lease_id current \<noteq> pr_lease p \<or> fm_phase current \<noteq> F_Refreshing then refuse N_Unauthorized db
          else let f = current\<lparr> fm_phase := F_Active, fm_generation := gr_generation g,
                     fm_access_hash := native_hash L (gr_access_token g), fm_refresh_hash := native_hash L (gr_refresh_token g),
                     fm_expires_at := gr_expires_at g, fm_secret := sealed, fm_lease_id := [], fm_lease_expires := 0 \<rparr>;
                   entry = (pr_old_hash p, rq_operation_id (pr_request p), rq_generation (pr_request p))
               in if family_conflict (pr_family p) f db \<or> hm_has (nd_receipts db) entry then refuse N_Unavailable db
                  else (Inr g, (set_family (pr_family p) f db)\<lparr> nd_receipts := hm_insert entry
                         \<lparr> rr_family = pr_family p, rr_expires_at = now + 60, rr_result = receipt \<rparr> (nd_receipts db) \<rparr>)))"

definition refresh_finish :: "native_lib \<Rightarrow> native_inner \<Rightarrow> auth_interface \<Rightarrow> nat \<Rightarrow> rstr \<Rightarrow> rstr \<Rightarrow> byte list \<Rightarrow> byte list \<Rightarrow> pending_refresh \<Rightarrow>
    native_db \<Rightarrow> grant native_tx" where
  "refresh_finish L I A now access refresh nonce1 nonce2 p db =
     (case ai_renew A (fs_cookies (pr_secret p)) of
        Inl e \<Rightarrow> (Inl (native_auth_error e), require_reauthentication (pr_family p) (pr_lease p) db)
      | Inr renewal \<Rightarrow>
          or_rollback db (provider_cookies (sr_set_cookie renewal) (sr_set_refresh_cookie renewal)) (\<lambda>cookies.
          or_rollback db (map_sum native_auth_error (\<lambda>x. x) (ai_authenticate A cookies)) (\<lambda>principal.
            if user_text L principal \<noteq> pr_user p
            then (Inl N_Unauthorized, require_reauthentication (pr_family p) (pr_lease p) db)
            else or_rollback db (map_sum native_auth_error (\<lambda>x. x) (ai_expires_at A cookies)) (\<lambda>provider_expires.
              let g = rotated_grant now access refresh provider_expires principal (fs_grant (pr_secret p)) in
              or_rollback db (seal_as L I (nl_family_json L) nonce1 (family_purpose (pr_family p))
                  \<lparr> fs_cookies = cookies, fs_grant = g \<rparr>) (\<lambda>sealed.
              or_rollback db (seal_as L I (nl_grant_json L) nonce2 (refresh_purpose (pr_old_hash p) (pr_request p)) g) (\<lambda>receipt.
                refresh_commit L now p g sealed receipt db))))))"

end
