(* ===== verification/Native_Machine.thy ===== *)
theory Native_Machine
  imports Native_Sessions
begin

text \<open>
  The native sessions as a machine: every transaction is a step, in any order, and what a
  callback or a refresh remembers between its transactions is part of the state. A step that
  makes tokens makes new ones.
\<close>

record native_state =
  nv_db :: native_db
  nv_callbacks :: "(rstr \<times> attempt \<times> attempt_secret) list"
  nv_refreshes :: "pending_refresh list"

definition native_new :: "(rstr, nat \<times> nat) hmap \<Rightarrow> native_state" where
  "native_new epochs = \<lparr> nv_db = \<lparr> nd_epochs = epochs, nd_attempts = [], nd_families = [], nd_receipts = [] \<rparr>,
     nv_callbacks = [], nv_refreshes = [] \<rparr>"

text \<open>A refresh token whose hash no family has and no refresh ever consumed.\<close>

definition fresh_token :: "native_lib \<Rightarrow> rstr \<Rightarrow> native_db \<Rightarrow> bool" where
  "fresh_token L r db \<longleftrightarrow>
     (\<forall>f \<in> set (hm_values (nd_families db)). fm_refresh_hash f \<noteq> native_hash L (refresh_token r)) \<and>
     (\<forall>k \<in> set (hm_keys (nd_receipts db)). fst k \<noteq> native_hash L (refresh_token r))"

definition fresh_lease :: "rstr \<Rightarrow> native_state \<Rightarrow> bool" where
  "fresh_lease lease s \<longleftrightarrow> lease \<noteq> [] \<and> (\<forall>p \<in> set (nv_refreshes s). pr_lease p \<noteq> lease) \<and>
     (\<forall>f \<in> set (hm_values (nd_families (nv_db s))). fm_lease_id f \<noteq> lease)"

inductive native_step :: "native_lib \<Rightarrow> native_inner \<Rightarrow> native_state \<Rightarrow> native_state \<Rightarrow> bool" for L I where
  step_login:
    "native_login L I A now key cookie nonce input (nv_db s) = (res, db) \<Longrightarrow> native_step L I s (s\<lparr> nv_db := db \<rparr>)"
| step_browser:
    "native_browser L I now key (nv_db s) = (res, db) \<Longrightarrow> native_step L I s (s\<lparr> nv_db := db \<rparr>)"
| step_claim:
    "callback_claim L I now code state header (nv_db s) = (Inr claimed, db) \<Longrightarrow>
     native_step L I s (s\<lparr> nv_db := db, nv_callbacks := claimed # nv_callbacks s \<rparr>)"
| step_callback:
    "(key, a, secret) \<in> set (nv_callbacks s) \<Longrightarrow>
     callback_finish L I A confirm_nonce nonce key a secret answer (nv_db s) = (res, db) \<Longrightarrow>
     native_step L I s (s\<lparr> nv_db := db, nv_callbacks := remove1 (key, a, secret) (nv_callbacks s) \<rparr>)"
| step_confirm:
    "native_confirm L I now code nonce key confirm_nonce header (nv_db s) = (res, db) \<Longrightarrow> native_step L I s (s\<lparr> nv_db := db \<rparr>)"
| step_exchange:
    "native_exchange L I now r nonce1 nonce2 input (nv_db s) = (res, db) \<Longrightarrow> fresh_token L (gt_refresh r) (nv_db s) \<Longrightarrow>
     gt_family r \<noteq> [] \<Longrightarrow> native_step L I s (s\<lparr> nv_db := db \<rparr>)"
| step_cancel:
    "cancel_login L input (nv_db s) = (res, db) \<Longrightarrow> native_step L I s (s\<lparr> nv_db := db \<rparr>)"
| step_revoke:
    "native_revoke L token (nv_db s) = (res, db) \<Longrightarrow> native_step L I s (s\<lparr> nv_db := db \<rparr>)"
| step_referenced:
    "referenced L I now reference (nv_db s) = (res, db) \<Longrightarrow> native_step L I s (s\<lparr> nv_db := db \<rparr>)"
| step_refresh:
    "refresh_begin L I now lease token input (nv_db s) = (res, db) \<Longrightarrow> fresh_lease lease s \<Longrightarrow>
     native_step L I s (s\<lparr> nv_db := db,
       nv_refreshes := (case res of Inr (Inr p) \<Rightarrow> p # nv_refreshes s | _ \<Rightarrow> nv_refreshes s) \<rparr>)"
| step_refreshed:
    "p \<in> set (nv_refreshes s) \<Longrightarrow> refresh_finish L I A now access refresh nonce1 nonce2 p (nv_db s) = (res, db) \<Longrightarrow>
     fresh_token L refresh (nv_db s) \<Longrightarrow>
     native_step L I s (s\<lparr> nv_db := db, nv_refreshes := remove1 p (nv_refreshes s) \<rparr>)"
| step_lost:
    "set callbacks \<subseteq> set (nv_callbacks s) \<Longrightarrow> set refreshes \<subseteq> set (nv_refreshes s) \<Longrightarrow>
     native_step L I s (s\<lparr> nv_callbacks := callbacks, nv_refreshes := refreshes \<rparr>)"
| step_epoch:
    "native_step L I s (s\<lparr> nv_db := (nv_db s)\<lparr> nd_epochs := epochs \<rparr> \<rparr>)"

abbreviation native_run :: "native_lib \<Rightarrow> native_inner \<Rightarrow> native_state \<Rightarrow> native_state \<Rightarrow> bool" where
  "native_run L I \<equiv> (native_step L I)\<^sup>*\<^sup>*"

section \<open>How a transaction changes an attempt\<close>

lemma or_rollback_split:
  "P (or_rollback db r f) \<longleftrightarrow> (\<forall>e. r = Inl e \<longrightarrow> P (Inl e, db)) \<and> (\<forall>a. r = Inr a \<longrightarrow> P (f a))"
  by (cases r) auto

lemma after_fence_split:
  "P (after_fence c k) \<longleftrightarrow> (\<forall>e. fst c = Inl e \<longrightarrow> P (Inl e, snd c)) \<and> (\<forall>u. fst c = Inr u \<longrightarrow> P k)"
  by (cases "fst c") (auto simp: after_fence_def)

lemma find_attempt_Inr: "find_attempt key db = Inr a \<longleftrightarrow> hm_get (nd_attempts db) key = Some a"
  by (auto simp: find_attempt_def split: option.splits)

lemma find_family_Inr: "find_family key db = Inr f \<longleftrightarrow> hm_get (nd_families db) key = Some f"
  by (auto simp: find_family_def split: option.splits)

lemma set_attempt_simps [simp]:
  "nd_families (set_attempt key a db) = nd_families db" "nd_receipts (set_attempt key a db) = nd_receipts db"
  "nd_epochs (set_attempt key a db) = nd_epochs db" "map_of (nd_attempts (set_attempt key a db)) = (map_of (nd_attempts db))(key \<mapsto> a)"
  by (simp_all add: set_attempt_def)

lemma set_family_simps [simp]:
  "nd_attempts (set_family key f db) = nd_attempts db" "nd_receipts (set_family key f db) = nd_receipts db"
  "nd_epochs (set_family key f db) = nd_epochs db" "map_of (nd_families (set_family key f db)) = (map_of (nd_families db))(key \<mapsto> f)"
  by (simp_all add: set_family_def)

lemma refuse_simps [simp]: "fst (refuse e db) = Inl e" "snd (refuse e db) = db" "refuse e db = (r, db') \<longleftrightarrow> r = Inl e \<and> db' = db"
  by (auto simp: refuse_def)

text \<open>The transactions of a login leave the families and the receipts alone.\<close>

definition same_sessions :: "native_db \<Rightarrow> native_db \<Rightarrow> bool" where
  "same_sessions db db' \<longleftrightarrow> nd_families db' = nd_families db \<and> nd_receipts db' = nd_receipts db \<and> nd_epochs db' = nd_epochs db"

text \<open>An attempt that was handed over keeps what it was handed over with; it can only be cancelled.\<close>

definition handed_over :: "attempt \<Rightarrow> attempt \<Rightarrow> bool" where
  "handed_over a b \<longleftrightarrow> b = a \<or> b = a\<lparr> at_phase := A_Cancelled, at_secret := [] \<rparr>"

definition keeps_handover :: "native_db \<Rightarrow> native_db \<Rightarrow> bool" where
  "keeps_handover db db' \<longleftrightarrow>
     (\<forall>key a. map_of (nd_attempts db) key = Some a \<longrightarrow> at_phase a \<in> {A_Redeemed, A_Cancelled} \<longrightarrow>
        (\<exists>b. map_of (nd_attempts db') key = Some b \<and> at_phase b \<in> {A_Redeemed, A_Cancelled} \<and> handed_over a b))"

lemma keeps_handover_same: "nd_attempts db' = nd_attempts db \<Longrightarrow> keeps_handover db db'"
  by (auto simp: keeps_handover_def handed_over_def)

lemma keeps_handover_set:
  assumes "\<And>a. map_of (nd_attempts db) key = Some a \<Longrightarrow> at_phase a \<in> {A_Redeemed, A_Cancelled} \<Longrightarrow>
    handed_over a b \<and> at_phase b \<in> {A_Redeemed, A_Cancelled}"
  shows "keeps_handover db (set_attempt key b db)"
  using assms by (auto simp: keeps_handover_def handed_over_def)

lemma native_login_effect:
  assumes "native_login L I A now key cookie nonce input db = (res, db')"
  shows "same_sessions db db' \<and> keeps_handover db db'"
proof -
  have "db' = db \<or> (\<exists>a. db' = set_attempt key a db \<and> \<not> hm_has (nd_attempts db) key)"
    using assms by (auto simp: native_login_def Let_def or_rollback_def split: if_splits sum.splits option.splits list.splits)
  then show ?thesis
    by (auto simp: same_sessions_def hm_has_iff intro: keeps_handover_same keeps_handover_set)
qed

lemma native_browser_effect:
  assumes "native_browser L I now key db = (res, db')"
  shows "same_sessions db db' \<and> keeps_handover db db'"
proof -
  have "db' = db \<or> (\<exists>a b. db' = set_attempt key b db \<and> map_of (nd_attempts db) key = Some a \<and> at_phase a = A_New)"
    using assms by (auto simp: native_browser_def or_rollback_def find_attempt_def split: if_splits sum.splits option.splits)
  then show ?thesis
    by (auto simp: same_sessions_def intro: keeps_handover_same intro!: keeps_handover_set)
qed

lemma callback_claim_effect:
  assumes "callback_claim L I now code state header db = (res, db')"
  shows "same_sessions db db' \<and> keeps_handover db db'"
proof -
  have "db' = db \<or> (\<exists>key a b. db' = set_attempt key b db \<and> map_of (nd_attempts db) key = Some a \<and> at_phase a = A_Authorizing)"
    using assms by (auto simp: callback_claim_def or_rollback_def find_attempt_def split: if_splits sum.splits option.splits prod.splits)
  then show ?thesis
    by (auto simp: same_sessions_def intro: keeps_handover_same intro!: keeps_handover_set)
qed

lemma callback_finish_effect:
  assumes "callback_finish L I A confirm_nonce nonce key a secret answer db = (res, db')"
  shows "same_sessions db db' \<and> keeps_handover db db'"
proof -
  have "db' = db \<or> (\<exists>a b. db' = set_attempt key b db \<and> map_of (nd_attempts db) key = Some a \<and> at_phase a = A_Verifying)"
    using assms
    by (auto simp: callback_finish_def callback_fail_def or_rollback_def Let_def split: if_splits sum.splits option.splits prod.splits)
  then show ?thesis
    by (auto simp: same_sessions_def intro: keeps_handover_same intro!: keeps_handover_set)
qed

lemma native_confirm_effect:
  assumes "native_confirm L I now code nonce key confirm_nonce header db = (res, db')"
  shows "same_sessions db db' \<and> keeps_handover db db'"
proof -
  have "db' = db \<or> (\<exists>a b. db' = set_attempt key b db \<and> map_of (nd_attempts db) key = Some a \<and> at_phase a = A_Confirm)"
    using assms
    by (auto simp: native_confirm_def or_rollback_def find_attempt_def Let_def split: if_splits sum.splits option.splits)
  then show ?thesis
    by (auto simp: same_sessions_def intro: keeps_handover_same intro!: keeps_handover_set)
qed

section \<open>How a transaction changes a family\<close>

text \<open>
  What can become of a family in one transaction: nothing, the end of it, the lease, or the next
  generation for the holder of the lease.
\<close>

definition family_ended :: "family \<Rightarrow> bool" where
  "family_ended f \<longleftrightarrow> fm_phase f \<in> {F_Reauth, F_Revoked}"

definition family_unleased :: "family \<Rightarrow> family \<Rightarrow> bool" where
  "family_unleased f g \<longleftrightarrow> g = f \<or>
     (\<exists>phase secret. g = f\<lparr> fm_phase := phase, fm_secret := secret \<rparr> \<and>
        (phase = F_Revoked \<or> fm_phase f = F_Refreshing \<and> phase = F_Reauth))"

definition sessions_end :: "native_db \<Rightarrow> native_db \<Rightarrow> bool" where
  "sessions_end db db' \<longleftrightarrow> nd_receipts db' = nd_receipts db \<and>
     (\<forall>key. rel_option family_unleased (map_of (nd_families db) key) (map_of (nd_families db') key)) \<and>
     hm_keys (nd_families db') = hm_keys (nd_families db)"

lemma family_unleased_refl [simp]: "family_unleased f f"
  by (simp add: family_unleased_def)

lemma family_unleasedD:
  assumes "family_unleased f g"
  shows "fm_refresh_hash g = fm_refresh_hash f" "fm_generation g = fm_generation f" "fm_lease_id g = fm_lease_id f"
    "fm_phase g = F_Refreshing \<Longrightarrow> g = f" "family_ended f \<Longrightarrow> family_ended g" "fm_user_id g = fm_user_id f" "fm_revoke_hash g = fm_revoke_hash f"
  using assms by (auto simp: family_unleased_def family_ended_def)

lemma sessions_end_same: "nd_families db' = nd_families db \<Longrightarrow> nd_receipts db' = nd_receipts db \<Longrightarrow> sessions_end db db'"
  by (simp add: sessions_end_def option.rel_refl)

lemma hm_keys_update [simp]: "map_of m key = Some f \<Longrightarrow> hm_keys (hm_insert key g m) = hm_keys m"
  by (simp add: hm_insert_def AList.update_keys) (metis domI dom_map_of_conv_image_fst)

lemma sessions_end_set:
  assumes "map_of (nd_families db) key = Some f" "family_unleased f g"
  shows "sessions_end db (set_family key g db)"
proof -
  have "hm_keys (nd_families (set_family key g db)) = hm_keys (nd_families db)" using assms(1) by (simp add: set_family_def)
  with assms show ?thesis by (auto simp: sessions_end_def option.rel_refl)
qed

lemma unleased_reauth: "fm_phase f = F_Refreshing \<Longrightarrow> family_unleased f (f\<lparr> fm_phase := F_Reauth, fm_secret := [] \<rparr>)"
  by (auto simp: family_unleased_def)

lemma unleased_revoke: "family_unleased f (revoke_family f)"
  by (auto simp: family_unleased_def revoke_family_def)

lemma fence_effect:
  assumes "fence now key f db = (res, db')"
  shows "sessions_end db db' \<and> nd_attempts db' = nd_attempts db"
  using assms
  by (auto simp: fence_def intro: sessions_end_same sessions_end_set unleased_reauth split: if_splits option.splits)

lemma fence_Inr:
  assumes "fst (fence now key f db) = Inr u"
  shows "snd (fence now key f db) = db" "\<not> family_ended f"
  using assms by (auto simp: fence_def family_ended_def split: if_splits)

lemma require_reauthentication_effect:
  "sessions_end db (require_reauthentication key lease db) \<and> nd_attempts (require_reauthentication key lease db) = nd_attempts db"
  by (auto simp: require_reauthentication_def intro: sessions_end_same sessions_end_set unleased_reauth split: option.splits)

lemma cancel_attempt_effect:
  assumes "map_of (nd_attempts db) key = Some a"
  shows "sessions_end db (cancel_attempt key a db) \<and> keeps_handover db (cancel_attempt key a db)"
proof -
  let ?db = "set_attempt key (a\<lparr> at_phase := A_Cancelled, at_secret := [] \<rparr>) db"
  have keeps: "keeps_handover db ?db" using assms by (intro keeps_handover_set) (auto simp: handed_over_def)
  have fam: "sessions_end db ?db" by (simp add: sessions_end_same)
  show ?thesis
  proof (cases "at_family a = [] \<or> map_of (nd_families db) (at_family a) = None")
    case True
    then have "cancel_attempt key a db = ?db" by (auto simp: cancel_attempt_def Let_def)
    with keeps fam show ?thesis by simp
  next
    case False
    then obtain f where f: "map_of (nd_families db) (at_family a) = Some f" by auto
    then have eq: "cancel_attempt key a db = set_family (at_family a) (revoke_family f) ?db"
      using False by (simp add: cancel_attempt_def Let_def)
    have "sessions_end ?db (set_family (at_family a) (revoke_family f) ?db)"
      using f by (intro sessions_end_set [OF _ unleased_revoke]) simp
    with keeps show ?thesis unfolding eq by (simp add: sessions_end_def keeps_handover_def)
  qed
qed

lemma cancel_login_effect:
  assumes "cancel_login L input db = (res, db')"
  shows "sessions_end db db' \<and> keeps_handover db db'"
  using assms cancel_attempt_effect [of db "cr_transaction_id input"]
  by (auto simp: cancel_login_def or_rollback_def find_attempt_def sessions_end_same keeps_handover_same
      split: if_splits sum.splits option.splits)

lemma map_of_map_values: "map_of (map (\<lambda>(key, f). (key, h f)) m) key = map_option h (map_of m key)"
  by (induction m) auto

definition revoke_where :: "(family \<Rightarrow> bool) \<Rightarrow> native_db \<Rightarrow> native_db" where
  "revoke_where hit db = db\<lparr> nd_families := map (\<lambda>(key, f). (key, if hit f then revoke_family f else f)) (nd_families db) \<rparr>"

lemma revoke_where_effect: "sessions_end db (revoke_where hit db) \<and> nd_attempts (revoke_where hit db) = nd_attempts db"
proof -
  have "rel_option family_unleased v (map_option (\<lambda>f. if hit f then revoke_family f else f) v)" for v
    by (cases v) (auto simp: unleased_revoke)
  moreover have "hm_keys (map (\<lambda>(key, f). (key, if hit f then revoke_family f else f)) m) = hm_keys m" for m :: "(rstr, family) hmap"
    by (induction m) auto
  ultimately show ?thesis by (simp add: sessions_end_def revoke_where_def map_of_map_values)
qed

lemma native_revoke_effect:
  assumes "native_revoke L token db = (res, db')"
  shows "sessions_end db db' \<and> nd_attempts db' = nd_attempts db"
  using assms revoke_where_effect [of db "\<lambda>f. fm_revoke_hash f = native_hash L token"]
  by (auto simp: native_revoke_def Let_def revoke_where_def sessions_end_same split: if_splits)

lemma after_fence_effect:
  assumes "after_fence (fence now key f db) k = (res, db')" "snd k = db"
  shows "sessions_end db db' \<and> nd_attempts db' = nd_attempts db"
  using assms fence_effect [of now key f db, OF prod.collapse [symmetric]]
  by (cases "fst (fence now key f db)") (auto simp: after_fence_def sessions_end_same)

lemma referenced_effect:
  assumes "referenced L I now reference db = (res, db')"
  shows "sessions_end db db' \<and> nd_attempts db' = nd_attempts db"
proof (cases "find_family (sf_family reference) db")
  case (Inl e)
  with assms show ?thesis by (simp add: referenced_def sessions_end_same)
next
  case (Inr f)
  with assms show ?thesis unfolding referenced_def by (auto intro!: after_fence_effect)
qed

lemma exchange_replay_effect:
  assumes "exchange_replay L I now input a db = (res, db')"
  shows "sessions_end db db' \<and> nd_attempts db' = nd_attempts db"
proof -
  have "db' = db \<or> (\<exists>f. after_fence (fence now (at_family a) f db)
      (open_as L I (nl_result_json L) (handoff_purpose (er_transaction_id input)) (at_receipt a), db) = (res, db'))"
    using assms by (auto simp: exchange_replay_def or_rollback_def split: if_splits sum.splits)
  then show ?thesis by (auto simp: sessions_end_same dest: after_fence_effect)
qed

text \<open>The first exchange of an attempt: the family is new and the receipt holds the answer.\<close>

definition first_handover :: "native_lib \<Rightarrow> native_inner \<Rightarrow> grant_texts \<Rightarrow> byte list \<Rightarrow> exchange_request \<Rightarrow> exchange_result \<Rightarrow> native_db \<Rightarrow>
    native_db \<Rightarrow> bool" where
  "first_handover L I r nonce input result db db' \<longleftrightarrow>
     (\<exists>a f receipt expires. map_of (nd_attempts db) (er_transaction_id input) = Some a \<and> at_phase a = A_Ready \<and>
        \<not> hm_has (nd_families db) (gt_family r) \<and> \<not> family_conflict (gt_family r) f db \<and>
        fm_phase f = F_Active \<and> fm_generation f = 0 \<and> fm_lease_id f = [] \<and>
        fm_refresh_hash f = native_hash L (refresh_token (gt_refresh r)) \<and>
        seal_as L I (nl_result_json L) nonce (handoff_purpose (er_transaction_id input)) result = Inr receipt \<and>
        db' = set_family (gt_family r) f (set_attempt (er_transaction_id input) (a\<lparr> at_phase := A_Redeemed,
          at_redemption_id := er_redemption_id input, at_receipt_expires := expires, at_family := gt_family r, at_secret := [],
          at_receipt := receipt \<rparr>) db))"

lemma exchange_first_effect:
  assumes "exchange_first L I now r nonce1 nonce2 input a epoch db = (res, db')"
    "map_of (nd_attempts db) (er_transaction_id input) = Some a" "at_phase a = A_Ready"
  shows "db' = db \<and> (\<forall>x. res \<noteq> Inr x) \<or> (\<exists>x. res = Inr x \<and> first_handover L I r nonce2 input x db db')"
proof (cases res)
  case (Inl e)
  with assms(1) have "db' = db"
    by (auto simp: exchange_first_def Let_def or_rollback_def split: if_splits sum.splits)
  with Inl show ?thesis by simp
next
  case (Inr x)
  have "first_handover L I r nonce2 input x db db'"
    using assms unfolding exchange_first_def Let_def first_handover_def Inr
    by (auto simp: or_rollback_def new_grant_def family_of_def split: if_splits sum.splits)
  with Inr show ?thesis by simp
qed

lemma native_exchange_effect:
  assumes "native_exchange L I now r nonce1 nonce2 input db = (res, db')"
  shows "sessions_end db db' \<and> nd_attempts db' = nd_attempts db \<or> (\<exists>x. res = Inr x \<and> first_handover L I r nonce2 input x db db')"
proof -
  consider "db' = db"
    | a where "exchange_replay L I now input a db = (res, db')"
    | a epoch where "exchange_first L I now r nonce1 nonce2 input a epoch db = (res, db')"
        "map_of (nd_attempts db) (er_transaction_id input) = Some a" "at_phase a = A_Ready"
    using assms by (auto simp: native_exchange_def or_rollback_def find_attempt_def split: if_splits sum.splits option.splits)
  then show ?thesis
    by cases (auto simp: sessions_end_same dest: exchange_replay_effect exchange_first_effect)
qed

text \<open>Taking the lease of a family.\<close>

definition lease_taken :: "native_lib \<Rightarrow> nat \<Rightarrow> rstr \<Rightarrow> rstr \<Rightarrow> refresh_request \<Rightarrow> pending_refresh \<Rightarrow> native_db \<Rightarrow> native_db \<Rightarrow> bool" where
  "lease_taken L now lease token input p db db' \<longleftrightarrow>
     (\<exists>f. (pr_family p, f) \<in> set (nd_families db) \<and> fm_phase f = F_Active \<and> fm_generation f = rq_generation input \<and>
        rq_generation input \<noteq> 2 ^ 64 - 1 \<and> fm_refresh_hash f = native_hash L token \<and>
        pr_lease p = lease \<and> pr_old_hash p = native_hash L token \<and> pr_request p = input \<and>
        gr_generation (fs_grant (pr_secret p)) = fm_generation f \<and> gr_family (fs_grant (pr_secret p)) = pr_family p \<and>
        db' = set_family (pr_family p) (f\<lparr> fm_phase := F_Refreshing, fm_lease_id := lease, fm_lease_expires := now + 30 \<rparr>) db)"

lemma family_secret_Inr:
  assumes "family_secret_of L I key f = Inr secret"
  shows "gr_generation (fs_grant secret) = fm_generation f" "gr_family (fs_grant secret) = key"
  using assms by (auto simp: family_secret_of_def result_bind_Inr Let_def split: if_splits)

lemma refresh_replay_effect:
  assumes "refresh_replay L I now purpose row db = (res, db')"
  shows "sessions_end db db' \<and> nd_attempts db' = nd_attempts db"
proof (cases "find_family (rr_family row) db")
  case (Inl e)
  with assms show ?thesis by (simp add: refresh_replay_def sessions_end_same)
next
  case (Inr f)
  with assms show ?thesis unfolding refresh_replay_def by (auto intro!: after_fence_effect)
qed

lemma take_lease_effect:
  assumes "take_lease L I now lease (native_hash L token) input key f db = (res, db')"
    and f: "(key, f) \<in> set (nd_families db)" "fm_refresh_hash f = native_hash L token" "rq_generation input \<noteq> 2 ^ 64 - 1"
  shows "sessions_end db db' \<and> nd_attempts db' = nd_attempts db \<and> (\<forall>p. res \<noteq> Inr p) \<or>
    (\<exists>p. res = Inr p \<and> lease_taken L now lease token input p db db')"
proof (cases "fst (fence now key f db)")
  case (Inl e)
  then have "(res, db') = (Inl e, snd (fence now key f db))" using assms(1) by (simp add: take_lease_def after_fence_def)
  then show ?thesis using fence_effect [of now key f db, OF prod.collapse [symmetric]] by simp
next
  case (Inr u)
  then have phase: "fm_phase f \<noteq> F_Refreshing \<Longrightarrow> fm_phase f = F_Active"
    using fence_Inr(2) [OF Inr] by (cases "fm_phase f") (auto simp: family_ended_def)
  from Inr assms(1) consider "db' = db" "\<forall>p. res \<noteq> Inr p"
    | secret where "fm_generation f = rq_generation input" "fm_phase f \<noteq> F_Refreshing" "family_secret_of L I key f = Inr secret"
      "res = Inr \<lparr> pr_family = key, pr_user = fm_user_id f, pr_secret = secret, pr_lease = lease,
                     pr_old_hash = native_hash L token, pr_request = input \<rparr>"
      "db' = set_family key (f\<lparr> fm_phase := F_Refreshing, fm_lease_id := lease, fm_lease_expires := now + 30 \<rparr>) db"
    by (auto simp: take_lease_def after_fence_def or_rollback_def split: if_splits sum.splits)
  then show ?thesis
  proof cases
    case 1
    then show ?thesis by (simp add: sessions_end_same)
  next
    case 2
    with family_secret_Inr [OF 2(3)] phase f show ?thesis by (auto simp: lease_taken_def)
  qed
qed

lemma refresh_begin_cases:
  assumes "refresh_begin L I now lease token input db = (res, db')"
  obtains e where "res = Inl e" "db' = db"
  | row r where "map_of (nd_receipts db) (native_hash L token, rq_operation_id input, rq_generation input) = Some row"
      "refresh_replay L I now (refresh_purpose (native_hash L token) input) row db = (r, db')" "res = map_sum (\<lambda>x. x) Inl r"
  | key f r where "map_of (nd_receipts db) (native_hash L token, rq_operation_id input, rq_generation input) = None"
      "(key, f) \<in> set (nd_families db)" "fm_refresh_hash f = native_hash L token" "rq_generation input \<noteq> 2 ^ 64 - 1"
      "take_lease L I now lease (native_hash L token) input key f db = (r, db')" "res = map_sum (\<lambda>x. x) Inr r"
proof -
  let ?ok = "(case strip_prefix (lit ''sproyt-refresh.'') token of None \<Rightarrow> False | Some r \<Rightarrow> native_proof L r) \<and>
    native_operation (rq_operation_id input) \<and> rq_generation input \<noteq> 2 ^ 64 - 1"
  let ?row = "map_of (nd_receipts db) (native_hash L token, rq_operation_id input, rq_generation input)"
  let ?hit = "List.find (\<lambda>(_, f). fm_refresh_hash f = native_hash L token) (nd_families db)"
  have eq: "refresh_begin L I now lease token input db =
      (if \<not> ?ok then refuse N_Unauthorized db
       else case ?row of
         Some row \<Rightarrow> apfst (map_sum (\<lambda>x. x) Inl) (refresh_replay L I now (refresh_purpose (native_hash L token) input) row db)
       | None \<Rightarrow> (case ?hit of
           None \<Rightarrow> refuse N_Unauthorized db
         | Some (key, f) \<Rightarrow> apfst (map_sum (\<lambda>x. x) Inr) (take_lease L I now lease (native_hash L token) input key f db)))"
    unfolding refresh_begin_def Let_def by simp
  show thesis
  proof (cases ?ok)
    case False
    then have "refresh_begin L I now lease token input db = refuse N_Unauthorized db" unfolding eq by (rule if_P)
    with assms that(1) show thesis by simp
  next
    case ok: True
    show thesis
    proof (cases ?row)
      case (Some row)
      obtain r db1 where r: "refresh_replay L I now (refresh_purpose (native_hash L token) input) row db = (r, db1)" by fastforce
      have "refresh_begin L I now lease token input db = (map_sum (\<lambda>x. x) Inl r, db1)"
        unfolding eq using ok by (simp only: Some r not_True_eq_False if_False simp_thms option.case apfst_conv)
      with assms r Some that(2) show thesis by simp
    next
      case row: None
      show thesis
      proof (cases ?hit)
        case None
        have "refresh_begin L I now lease token input db = refuse N_Unauthorized db"
          unfolding eq using ok by (simp only: row None not_True_eq_False if_False simp_thms option.case)
        with assms that(1) show thesis by simp
      next
        case (Some kf)
        obtain key f where kf: "kf = (key, f)" by (cases kf)
        obtain r db1 where r: "take_lease L I now lease (native_hash L token) input key f db = (r, db1)" by fastforce
        have "refresh_begin L I now lease token input db = (map_sum (\<lambda>x. x) Inr r, db1)"
          unfolding eq using ok by (simp only: row Some kf r not_True_eq_False if_False simp_thms option.case prod.case apfst_conv)
        moreover have "(key, f) \<in> set (nd_families db)" "fm_refresh_hash f = native_hash L token"
          using find_SomeD [OF Some] kf by auto
        ultimately show thesis using assms r row ok that(3) by simp
      qed
    qed
  qed
qed

lemma refresh_begin_effect:
  assumes "refresh_begin L I now lease token input db = (res, db')"
  shows "sessions_end db db' \<and> nd_attempts db' = nd_attempts db \<and> (\<forall>p. res \<noteq> Inr (Inr p)) \<or>
    (\<exists>p. res = Inr (Inr p) \<and> lease_taken L now lease token input p db db')"
  using assms
proof (cases rule: refresh_begin_cases)
  case (2 row r)
  then show ?thesis using refresh_replay_effect [OF 2(2)] by (cases r) auto
next
  case (3 key f r)
  then show ?thesis using take_lease_effect [OF 3(5) 3(2,3,4)] by (cases r) auto
qed (simp add: sessions_end_same)

text \<open>The holder of the lease puts the next generation in place.\<close>

definition family_rotated :: "native_lib \<Rightarrow> native_inner \<Rightarrow> rstr \<Rightarrow> byte list \<Rightarrow> pending_refresh \<Rightarrow> grant \<Rightarrow> native_db \<Rightarrow> native_db \<Rightarrow> bool" where
  "family_rotated L I refresh nonce p g db db' \<longleftrightarrow>
     (\<exists>f sealed receipt expires. map_of (nd_families db) (pr_family p) = Some f \<and> fm_phase f = F_Refreshing \<and> fm_lease_id f = pr_lease p \<and>
        gr_generation g = gr_generation (fs_grant (pr_secret p)) + 1 \<and> gr_refresh_token g = refresh_token refresh \<and>
        gr_family g = gr_family (fs_grant (pr_secret p)) \<and>
        seal_as L I (nl_grant_json L) nonce (refresh_purpose (pr_old_hash p) (pr_request p)) g = Inr receipt \<and>
        db' = (set_family (pr_family p) (f\<lparr> fm_phase := F_Active, fm_generation := gr_generation g,
                 fm_access_hash := native_hash L (gr_access_token g), fm_refresh_hash := native_hash L (gr_refresh_token g),
                 fm_expires_at := gr_expires_at g, fm_secret := sealed, fm_lease_id := [], fm_lease_expires := 0 \<rparr>) db)
              \<lparr> nd_receipts := hm_insert (pr_old_hash p, rq_operation_id (pr_request p), rq_generation (pr_request p))
                 \<lparr> rr_family = pr_family p, rr_expires_at = expires, rr_result = receipt \<rparr> (nd_receipts db) \<rparr>)"

lemma refresh_commit_effect:
  assumes "refresh_commit L now p g sealed receipt db = (res, db')"
    and g: "gr_generation g = gr_generation (fs_grant (pr_secret p)) + 1" "gr_refresh_token g = refresh_token refresh"
      "gr_family g = gr_family (fs_grant (pr_secret p))"
      "seal_as L I (nl_grant_json L) nonce (refresh_purpose (pr_old_hash p) (pr_request p)) g = Inr receipt"
  shows "sessions_end db db' \<and> nd_attempts db' = nd_attempts db \<and> (\<forall>h. res \<noteq> Inr h) \<or>
    res = Inr g \<and> family_rotated L I refresh nonce p g db db'"
proof (cases "find_family (pr_family p) db")
  case (Inl e)
  with assms(1) show ?thesis by (auto simp: refresh_commit_def sessions_end_same)
next
  case found: (Inr f)
  show ?thesis
  proof (cases "fst (fence now (pr_family p) f db)")
    case (Inl e)
    with found assms(1) have "(res, db') = (Inl e, snd (fence now (pr_family p) f db))" by (simp add: refresh_commit_def after_fence_def)
    then show ?thesis using fence_effect [of now "pr_family p" f db, OF prod.collapse [symmetric]] by auto
  next
    case (Inr u)
    let ?f = "f\<lparr> fm_phase := F_Active, fm_generation := gr_generation g, fm_access_hash := native_hash L (gr_access_token g),
      fm_refresh_hash := native_hash L (gr_refresh_token g), fm_expires_at := gr_expires_at g, fm_secret := sealed,
      fm_lease_id := [], fm_lease_expires := 0 \<rparr>"
    let ?db = "(set_family (pr_family p) ?f db)\<lparr> nd_receipts :=
      hm_insert (pr_old_hash p, rq_operation_id (pr_request p), rq_generation (pr_request p))
        \<lparr> rr_family = pr_family p, rr_expires_at = now + 60, rr_result = receipt \<rparr> (nd_receipts db) \<rparr>"
    have "db' = db \<and> (\<forall>h. res \<noteq> Inr h) \<or> fm_lease_id f = pr_lease p \<and> fm_phase f = F_Refreshing \<and> res = Inr g \<and> db' = ?db"
      using found Inr assms(1) by (auto simp: refresh_commit_def after_fence_def Let_def split: if_splits)
    moreover have "map_of (nd_families db) (pr_family p) = Some f" using found by (simp add: find_family_Inr)
    ultimately show ?thesis
      using g unfolding family_rotated_def by (auto simp only: sessions_end_same)
  qed
qed

lemma refresh_finish_effect:
  assumes "refresh_finish L I A now access refresh nonce1 nonce2 p db = (res, db')"
  shows "sessions_end db db' \<and> nd_attempts db' = nd_attempts db \<and> (\<forall>h. res \<noteq> Inr h) \<or>
    (\<exists>g. res = Inr g \<and> family_rotated L I refresh nonce2 p g db db')"
proof -
  consider "db' = db" "\<forall>h. res \<noteq> Inr h" | "db' = require_reauthentication (pr_family p) (pr_lease p) db" "\<forall>h. res \<noteq> Inr h"
    | principal e sealed receipt g where "g = rotated_grant now access refresh e principal (fs_grant (pr_secret p))"
      "seal_as L I (nl_grant_json L) nonce2 (refresh_purpose (pr_old_hash p) (pr_request p)) g = Inr receipt"
      "refresh_commit L now p g sealed receipt db = (res, db')"
    using assms by (auto simp: refresh_finish_def or_rollback_def Let_def split: sum.splits if_splits)
  then show ?thesis
  proof cases
    case 3
    then show ?thesis using refresh_commit_effect [OF 3(3) _ _ _ 3(2)] by (auto simp: rotated_grant_def)
  qed (auto simp: sessions_end_same require_reauthentication_effect)
qed

end
