(* ===== verification/Native_Properties.thy ===== *)
theory Native_Properties
  imports Native_Machine
begin

text \<open>
  What the native sessions promise in every interleaving of their transactions: an attempt is
  handed over once, a refresh token is used once, and a family that was ended stays ended.
\<close>

section \<open>Kinds of steps\<close>

lemma keeps_handover_first:
  assumes "first_handover L I r nonce input x db db'"
  shows "keeps_handover db db'"
  using assms by (auto simp: first_handover_def keeps_handover_def handed_over_def)

lemma same_sessions_end: "same_sessions db db' \<Longrightarrow> sessions_end db db'"
  by (simp add: same_sessions_def sessions_end_same)

lemma lease_taken_attempts: "lease_taken L now lease token input p db db' \<Longrightarrow> nd_attempts db' = nd_attempts db"
  by (auto simp: lease_taken_def)

lemma family_rotated_attempts: "family_rotated L I refresh nonce p g db db' \<Longrightarrow> nd_attempts db' = nd_attempts db"
  by (auto simp: family_rotated_def)

lemma native_step_kind:
  assumes "native_step L I s s'"
  shows "keeps_handover (nv_db s) (nv_db s') \<and>
    (sessions_end (nv_db s) (nv_db s') \<and> set (nv_refreshes s') \<subseteq> set (nv_refreshes s) \<or>
     (\<exists>r nonce input x. first_handover L I r nonce input x (nv_db s) (nv_db s') \<and> fresh_token L (gt_refresh r) (nv_db s) \<and>
        nv_refreshes s' = nv_refreshes s) \<or>
     (\<exists>now lease token input p. lease_taken L now lease token input p (nv_db s) (nv_db s') \<and> fresh_lease lease s \<and>
        nv_refreshes s' = p # nv_refreshes s) \<or>
     (\<exists>refresh nonce p g. family_rotated L I refresh nonce p g (nv_db s) (nv_db s') \<and> p \<in> set (nv_refreshes s) \<and>
        fresh_token L refresh (nv_db s) \<and> set (nv_refreshes s') \<subseteq> set (nv_refreshes s)))"
  using assms
proof cases
  case (step_login A now key cookie nonce input res db)
  then show ?thesis using native_login_effect same_sessions_end by fastforce
next
  case (step_browser now key res db)
  then show ?thesis using native_browser_effect same_sessions_end by fastforce
next
  case (step_claim now code state header claimed db)
  then show ?thesis using callback_claim_effect same_sessions_end by fastforce
next
  case (step_callback key a secret A confirm_nonce nonce answer res db)
  then show ?thesis using callback_finish_effect same_sessions_end by fastforce
next
  case (step_confirm now code nonce key confirm_nonce header res db)
  then show ?thesis using native_confirm_effect same_sessions_end by fastforce
next
  case (step_exchange now r nonce1 nonce2 input res db)
  then show ?thesis using native_exchange_effect [OF step_exchange(2)] keeps_handover_first keeps_handover_same by fastforce
next
  case (step_cancel input res db)
  then show ?thesis using cancel_login_effect by fastforce
next
  case (step_revoke token res db)
  then show ?thesis using native_revoke_effect keeps_handover_same by fastforce
next
  case (step_referenced now reference res db)
  then show ?thesis using referenced_effect keeps_handover_same by fastforce
next
  case (step_refresh now lease token input res db)
  then show ?thesis
    using refresh_begin_effect [OF step_refresh(2)] keeps_handover_same lease_taken_attempts
    by (fastforce split: sum.splits)
next
  case (step_refreshed p A now access refresh nonce1 nonce2 res db)
  then show ?thesis
    using refresh_finish_effect [OF step_refreshed(3)] keeps_handover_same family_rotated_attempts set_remove1_subset [of p "nv_refreshes s"]
    by fastforce
next
  case (step_lost callbacks refreshes)
  then show ?thesis by (simp add: sessions_end_same keeps_handover_same)
next
  case (step_epoch epochs)
  then show ?thesis by (simp add: sessions_end_same keeps_handover_same)
qed

section \<open>The invariant of the tokens\<close>

text \<open>What a pending refresh knows of the family whose lease it holds.\<close>

definition lease_for :: "pending_refresh \<Rightarrow> family \<Rightarrow> bool" where
  "lease_for p f \<longleftrightarrow> fm_refresh_hash f = pr_old_hash p \<and> fm_generation f = rq_generation (pr_request p) \<and>
     gr_generation (fs_grant (pr_secret p)) = fm_generation f \<and> fm_generation f \<noteq> 2 ^ 64 - 1"

text \<open>
  No two families have the same refresh token, no family has one that a refresh consumed, a lease
  is for the generation that it was taken in, and generations stay within 64 bits.
\<close>

definition native_inv :: "native_db \<Rightarrow> pending_refresh set \<Rightarrow> bool" where
  "native_inv db P \<longleftrightarrow> hm_wf (nd_families db) \<and>
     (\<forall>k k' f f'. map_of (nd_families db) k = Some f \<longrightarrow> map_of (nd_families db) k' = Some f' \<longrightarrow>
        fm_refresh_hash f = fm_refresh_hash f' \<longrightarrow> k = k') \<and>
     (\<forall>e k f. e \<in> dom (map_of (nd_receipts db)) \<longrightarrow> map_of (nd_families db) k = Some f \<longrightarrow> fm_refresh_hash f \<noteq> fst e) \<and>
     (\<forall>p f. p \<in> P \<longrightarrow> map_of (nd_families db) (pr_family p) = Some f \<longrightarrow> fm_phase f = F_Refreshing \<longrightarrow> fm_lease_id f = pr_lease p \<longrightarrow>
        lease_for p f) \<and>
     (\<forall>k f. map_of (nd_families db) k = Some f \<longrightarrow> fm_generation f < 2 ^ 64)"

lemma native_invD:
  assumes "native_inv db P"
  shows "hm_wf (nd_families db)"
    and "map_of (nd_families db) k = Some f \<Longrightarrow> map_of (nd_families db) k' = Some f' \<Longrightarrow> fm_refresh_hash f = fm_refresh_hash f' \<Longrightarrow> k = k'"
    and "map_of (nd_receipts db) e = Some v \<Longrightarrow> map_of (nd_families db) k = Some f \<Longrightarrow> fm_refresh_hash f \<noteq> fst e"
    and "p \<in> P \<Longrightarrow> map_of (nd_families db) (pr_family p) = Some f \<Longrightarrow> fm_phase f = F_Refreshing \<Longrightarrow> fm_lease_id f = pr_lease p \<Longrightarrow> lease_for p f"
    and "map_of (nd_families db) k = Some f \<Longrightarrow> fm_generation f < 2 ^ 64"
  using assms unfolding native_inv_def by blast+

lemma sessions_endE:
  assumes "sessions_end db db'" "map_of (nd_families db') k = Some g"
  obtains f where "map_of (nd_families db) k = Some f" "family_unleased f g"
  using assms unfolding sessions_end_def by (metis option_rel_Some2)

lemma native_inv_end:
  assumes "native_inv db P" "sessions_end db db'" "Q \<subseteq> P"
  shows "native_inv db' Q"
  unfolding native_inv_def
proof (intro conjI allI impI)
  show "hm_wf (nd_families db')" using native_invD(1) [OF assms(1)] assms(2) by (simp add: hm_wf_def sessions_end_def)
next
  fix k k' g g'
  assume g: "map_of (nd_families db') k = Some g" "map_of (nd_families db') k' = Some g'" "fm_refresh_hash g = fm_refresh_hash g'"
  obtain f where f: "map_of (nd_families db) k = Some f" "family_unleased f g" by (rule sessions_endE [OF assms(2) g(1)])
  obtain f' where f': "map_of (nd_families db) k' = Some f'" "family_unleased f' g'" by (rule sessions_endE [OF assms(2) g(2)])
  show "k = k'"
    using g(3) family_unleasedD(1) [OF f(2)] family_unleasedD(1) [OF f'(2)] by (intro native_invD(2) [OF assms(1) f(1) f'(1)]) simp
next
  fix e k g
  assume e: "e \<in> dom (map_of (nd_receipts db'))" and g: "map_of (nd_families db') k = Some g"
  obtain f where f: "map_of (nd_families db) k = Some f" "family_unleased f g" by (rule sessions_endE [OF assms(2) g])
  have "nd_receipts db' = nd_receipts db" using assms(2) by (simp add: sessions_end_def)
  with e f family_unleasedD(1) [OF f(2)] native_invD(3) [OF assms(1) _ f(1), of e] show "fm_refresh_hash g \<noteq> fst e" by auto
next
  fix p g
  assume p: "p \<in> Q" and g: "map_of (nd_families db') (pr_family p) = Some g" "fm_phase g = F_Refreshing" "fm_lease_id g = pr_lease p"
  obtain f where f: "map_of (nd_families db) (pr_family p) = Some f" "family_unleased f g" by (rule sessions_endE [OF assms(2) g(1)])
  have "g = f" by (rule family_unleasedD(4) [OF f(2) g(2)])
  with native_invD(4) [OF assms(1) _ f(1)] p g assms(3) show "lease_for p g" by blast
next
  fix k g
  assume g: "map_of (nd_families db') k = Some g"
  obtain f where f: "map_of (nd_families db) k = Some f" "family_unleased f g" by (rule sessions_endE [OF assms(2) g])
  with native_invD(5) [OF assms(1) f(1)] family_unleasedD(2) [OF f(2)] show "fm_generation g < 2 ^ 64" by simp
qed

text \<open>One family is replaced or added.\<close>

lemma native_inv_set:
  assumes inv: "native_inv db P"
    and fams: "nd_families db' = hm_insert key g (nd_families db)"
    and unique: "\<And>k f. map_of (nd_families db) k = Some f \<Longrightarrow> k \<noteq> key \<Longrightarrow> fm_refresh_hash f \<noteq> fm_refresh_hash g"
    and receipts: "\<And>e k f. e \<in> dom (map_of (nd_receipts db')) \<Longrightarrow> e \<notin> dom (map_of (nd_receipts db)) \<Longrightarrow>
      map_of (nd_families db) k = Some f \<Longrightarrow> k \<noteq> key \<Longrightarrow> fm_refresh_hash f \<noteq> fst e"
    and fresh: "\<And>e. e \<in> dom (map_of (nd_receipts db')) \<Longrightarrow> fm_refresh_hash g \<noteq> fst e"
    and leases: "\<And>p. p \<in> Q \<Longrightarrow> pr_family p = key \<Longrightarrow> fm_phase g = F_Refreshing \<Longrightarrow> fm_lease_id g = pr_lease p \<Longrightarrow> lease_for p g"
    and pending: "\<And>p. p \<in> Q \<Longrightarrow> p \<in> P \<or> pr_family p = key" and bound: "fm_generation g < 2 ^ 64"
  shows "native_inv db' Q"
  unfolding native_inv_def
proof (intro conjI allI impI)
  show "hm_wf (nd_families db')" using native_invD(1) [OF inv] by (simp add: fams)
next
  fix k k' f f'
  assume "map_of (nd_families db') k = Some f" "map_of (nd_families db') k' = Some f'" "fm_refresh_hash f = fm_refresh_hash f'"
  then show "k = k'" using unique native_invD(2) [OF inv, of k f k' f'] by (cases "k = key"; cases "k' = key") (auto simp: fams)
next
  fix e k f
  assume "e \<in> dom (map_of (nd_receipts db'))" "map_of (nd_families db') k = Some f"
  then show "fm_refresh_hash f \<noteq> fst e"
    using fresh [of e] receipts [of e k f] native_invD(3) [OF inv, of e _ k f] by (cases "k = key") (auto simp: fams)
next
  fix p f
  assume "p \<in> Q" "map_of (nd_families db') (pr_family p) = Some f" "fm_phase f = F_Refreshing" "fm_lease_id f = pr_lease p"
  then show "lease_for p f"
    using leases [of p] pending [of p] native_invD(4) [OF inv, of p f] by (cases "pr_family p = key") (auto simp: fams)
next
  fix k f
  assume "map_of (nd_families db') k = Some f"
  then show "fm_generation f < 2 ^ 64" using bound native_invD(5) [OF inv] by (auto simp: fams split: if_splits)
qed

lemma fresh_tokenD:
  assumes "fresh_token L r db" "hm_wf (nd_families db)"
  shows "map_of (nd_families db) k = Some f \<Longrightarrow> fm_refresh_hash f \<noteq> native_hash L (refresh_token r)"
    "e \<in> dom (map_of (nd_receipts db)) \<Longrightarrow> native_hash L (refresh_token r) \<noteq> fst e"
proof -
  show "map_of (nd_families db) k = Some f \<Longrightarrow> fm_refresh_hash f \<noteq> native_hash L (refresh_token r)"
    using assms(1) by (force simp: fresh_token_def dest: map_of_SomeD)
  show "e \<in> dom (map_of (nd_receipts db)) \<Longrightarrow> native_hash L (refresh_token r) \<noteq> fst e"
    using assms(1) by (force simp: fresh_token_def dest: map_of_SomeD)
qed

lemma native_inv_first:
  assumes inv: "native_inv db P" and first: "first_handover L I r nonce input x db db'" and fresh: "fresh_token L (gt_refresh r) db"
  shows "native_inv db' P"
proof -
  note new = fresh_tokenD [OF fresh native_invD(1) [OF inv]]
  obtain f where f: "\<not> hm_has (nd_families db) (gt_family r)" "nd_families db' = hm_insert (gt_family r) f (nd_families db)"
    "nd_receipts db' = nd_receipts db" "fm_phase f = F_Active" "fm_generation f = 0"
    "fm_refresh_hash f = native_hash L (refresh_token (gt_refresh r))"
    using first by (auto simp: first_handover_def set_family_def set_attempt_def)
  show ?thesis
    by (rule native_inv_set [OF inv f(2)]) (use f new in \<open>auto\<close>)
qed

lemma native_inv_lease:
  assumes inv: "native_inv db P" and taken: "lease_taken L now lease token input p db db'"
    and fresh: "\<And>q. q \<in> P \<Longrightarrow> pr_lease q \<noteq> lease"
  shows "native_inv db' (insert p P)"
proof -
  obtain f where f: "map_of (nd_families db) (pr_family p) = Some f"
    "fm_generation f = rq_generation input" "rq_generation input \<noteq> 2 ^ 64 - 1" "fm_refresh_hash f = native_hash L token"
    "pr_lease p = lease" "pr_old_hash p = native_hash L token" "pr_request p = input"
    "gr_generation (fs_grant (pr_secret p)) = fm_generation f"
    "db' = set_family (pr_family p) (f\<lparr> fm_phase := F_Refreshing, fm_lease_id := lease, fm_lease_expires := now + 30 \<rparr>) db"
    using taken native_invD(1) [OF inv] unfolding lease_taken_def by (metis hm_entry_iff)
  let ?g = "f\<lparr> fm_phase := F_Refreshing, fm_lease_id := lease, fm_lease_expires := now + 30 \<rparr>"
  show ?thesis
  proof (rule native_inv_set [OF inv])
    show "nd_families db' = hm_insert (pr_family p) ?g (nd_families db)" by (simp add: f(9) set_family_def)
    show "fm_refresh_hash f' \<noteq> fm_refresh_hash ?g" if "map_of (nd_families db) k = Some f'" "k \<noteq> pr_family p" for k f'
      using native_invD(2) [OF inv that(1) f(1)] that(2) by auto
    show "fm_refresh_hash ?g \<noteq> fst e" if "e \<in> dom (map_of (nd_receipts db'))" for e
      using that native_invD(3) [OF inv _ f(1), of e] by (auto simp: f(9))
    show "lease_for q ?g" if "q \<in> insert p P" "fm_lease_id ?g = pr_lease q" for q
      using that fresh [of q] f by (auto simp: lease_for_def)
    show "fm_generation ?g < 2 ^ 64" using native_invD(5) [OF inv f(1)] by simp
  qed (auto simp: f(9))
qed

text \<open>A rotation replaces the consumed token by a new one and keeps a receipt for it.\<close>

lemma family_rotatedD:
  assumes inv: "native_inv db P" and rot: "family_rotated L I refresh nonce p g db db'" and p: "p \<in> P"
  obtains f receipt h row where "map_of (nd_families db) (pr_family p) = Some f" "fm_refresh_hash f = pr_old_hash p"
    "gr_generation g = rq_generation (pr_request p) + 1" "gr_generation g < 2 ^ 64"
    "nd_families db' = hm_insert (pr_family p) h (nd_families db)" "fm_phase h = F_Active" "fm_generation h = gr_generation g"
    "fm_refresh_hash h = native_hash L (refresh_token refresh)"
    "nd_receipts db' = hm_insert (pr_old_hash p, rq_operation_id (pr_request p), rq_generation (pr_request p)) row (nd_receipts db)"
    "rr_result row = receipt" "rr_family row = pr_family p"
    "seal_as L I (nl_grant_json L) nonce (refresh_purpose (pr_old_hash p) (pr_request p)) g = Inr receipt"
proof -
  obtain f sealed receipt expires where f: "map_of (nd_families db) (pr_family p) = Some f" "fm_phase f = F_Refreshing"
      "fm_lease_id f = pr_lease p" "gr_generation g = gr_generation (fs_grant (pr_secret p)) + 1"
      "gr_refresh_token g = refresh_token refresh"
      "seal_as L I (nl_grant_json L) nonce (refresh_purpose (pr_old_hash p) (pr_request p)) g = Inr receipt"
      "db' = (set_family (pr_family p) (f\<lparr> fm_phase := F_Active, fm_generation := gr_generation g,
                 fm_access_hash := native_hash L (gr_access_token g), fm_refresh_hash := native_hash L (gr_refresh_token g),
                 fm_expires_at := gr_expires_at g, fm_secret := sealed, fm_lease_id := [], fm_lease_expires := 0 \<rparr>) db)
              \<lparr> nd_receipts := hm_insert (pr_old_hash p, rq_operation_id (pr_request p), rq_generation (pr_request p))
                 \<lparr> rr_family = pr_family p, rr_expires_at = expires, rr_result = receipt \<rparr> (nd_receipts db) \<rparr>"
    using rot unfolding family_rotated_def by (elim exE conjE)
  have lease: "lease_for p f" by (rule native_invD(4) [OF inv p f(1-3)])
  have "fm_generation f < 2 ^ 64" by (rule native_invD(5) [OF inv f(1)])
  then have "gr_generation g < 2 ^ 64" using lease f(4) by (simp add: lease_for_def)
  moreover have "fm_refresh_hash f = pr_old_hash p" "gr_generation g = rq_generation (pr_request p) + 1"
    using lease f(4) by (simp_all add: lease_for_def)
  ultimately show thesis
    by (rule_tac that [of f "f\<lparr> fm_phase := F_Active, fm_generation := gr_generation g,
          fm_access_hash := native_hash L (gr_access_token g), fm_refresh_hash := native_hash L (gr_refresh_token g),
          fm_expires_at := gr_expires_at g, fm_secret := sealed, fm_lease_id := [], fm_lease_expires := 0 \<rparr>"
        "\<lparr> rr_family = pr_family p, rr_expires_at = expires, rr_result = receipt \<rparr>" receipt])
       (simp_all add: f(1,5,6,7) set_family_def)
qed

lemma native_inv_rotate:
  assumes inv: "native_inv db P" and rot: "family_rotated L I refresh nonce p g db db'" and p: "p \<in> P"
    and fresh: "fresh_token L refresh db"
  shows "native_inv db' P"
proof -
  note new = fresh_tokenD [OF fresh native_invD(1) [OF inv]]
  obtain f receipt h row where f: "map_of (nd_families db) (pr_family p) = Some f" "fm_refresh_hash f = pr_old_hash p"
    "gr_generation g < 2 ^ 64"
    "nd_families db' = hm_insert (pr_family p) h (nd_families db)" "fm_phase h = F_Active" "fm_generation h = gr_generation g"
    "fm_refresh_hash h = native_hash L (refresh_token refresh)"
    "nd_receipts db' = hm_insert (pr_old_hash p, rq_operation_id (pr_request p), rq_generation (pr_request p)) row (nd_receipts db)"
    by (rule family_rotatedD [OF inv rot p])
  show ?thesis
  proof (rule native_inv_set [OF inv f(4)])
    show "fm_refresh_hash f' \<noteq> fm_refresh_hash h" if "map_of (nd_families db) k = Some f'" for k f'
      using new(1) [OF that] by (simp add: f(7))
    show "fm_refresh_hash f' \<noteq> fst e"
      if "e \<in> dom (map_of (nd_receipts db'))" "e \<notin> dom (map_of (nd_receipts db))" "map_of (nd_families db) k = Some f'" "k \<noteq> pr_family p" for e k f'
      using that(1,2) native_invD(2) [OF inv that(3) f(1)] that(4) f(2) by (auto simp: f(8))
    show "fm_refresh_hash h \<noteq> fst e" if "e \<in> dom (map_of (nd_receipts db'))" for e
      using that new(2) [of e] new(1) [OF f(1)] f(2) by (auto simp: f(7,8))
  qed (use f in auto)
qed

lemma native_step_inv:
  assumes "native_step L I s s'" "native_inv (nv_db s) (set (nv_refreshes s))"
  shows "native_inv (nv_db s') (set (nv_refreshes s'))"
proof -
  consider "sessions_end (nv_db s) (nv_db s')" "set (nv_refreshes s') \<subseteq> set (nv_refreshes s)"
    | r nonce input x where "first_handover L I r nonce input x (nv_db s) (nv_db s')" "fresh_token L (gt_refresh r) (nv_db s)"
        "nv_refreshes s' = nv_refreshes s"
    | now lease token input p where "lease_taken L now lease token input p (nv_db s) (nv_db s')" "fresh_lease lease s"
        "nv_refreshes s' = p # nv_refreshes s"
    | refresh nonce p g where "family_rotated L I refresh nonce p g (nv_db s) (nv_db s')" "p \<in> set (nv_refreshes s)"
        "fresh_token L refresh (nv_db s)" "set (nv_refreshes s') \<subseteq> set (nv_refreshes s)"
    using native_step_kind [OF assms(1)] by blast
  then show ?thesis
  proof cases
    case 1
    then show ?thesis by (rule native_inv_end [OF assms(2)])
  next
    case 2
    then show ?thesis using native_inv_first [OF assms(2)] by simp
  next
    case 3
    then show ?thesis using native_inv_lease [OF assms(2) 3(1)] by (simp add: fresh_lease_def)
  next
    case 4
    from native_inv_rotate [OF assms(2) 4(1-3)] sessions_end_same [OF refl refl] 4(4) show ?thesis by (rule native_inv_end)
  qed
qed

lemma native_run_inv:
  assumes "native_run L I (native_new epochs) s"
  shows "native_inv (nv_db s) (set (nv_refreshes s))"
  using assms
proof induction
  case base
  show ?case by (simp add: native_inv_def native_new_def)
next
  case (step s s')
  then show ?case using native_step_inv by blast
qed

section \<open>Sealed answers\<close>

text \<open>
  What the code relies on: the functions of the other crates, and that no key of the ring opens
  what the primary key sealed as something else.
\<close>

definition native_facts :: "native_lib \<Rightarrow> native_inner \<Rightarrow> bool" where
  "native_facts L I \<longleftrightarrow> crypto_facts (nl_crypto L) \<and> json_facts (nl_attempt_json L) \<and> json_facts (nl_result_json L) \<and>
     json_facts (nl_family_json L) \<and> json_facts (nl_grant_json L) \<and>
     (\<forall>k \<in> set (nc_readers (ni_codec I)). \<forall>n a m ct. aes_encrypt (nl_crypto L) (nc_primary (ni_codec I)) n a m = Some ct \<longrightarrow>
        aes_decrypt (nl_crypto L) k n a ct \<in> {None, Some m})"

lemma find_map_only:
  assumes "\<And>k. k \<in> set ks \<Longrightarrow> f k \<in> {None, Some m}"
  shows "find_map f ks \<in> {None, Some m}"
  using assms
proof (induction ks)
  case (Cons k ks)
  then have "f k \<in> {None, Some m}" "find_map f ks \<in> {None, Some m}" by simp_all
  then show ?case by auto
qed simp

lemma open_as_seal:
  assumes facts: "native_facts L I" "json_facts j" and nonce: "length nonce = 12"
    and sealed: "seal_as L I j nonce purpose v = Inr s" and opened: "open_as L I j purpose s = Inr w"
  shows "w = v"
proof -
  let ?x = "nl_crypto L" and ?a = "native_aad (nl_utf8 L) (ni_codec I) purpose"
  obtain bs ct where js: "to_json j v = Inr bs" and ct: "aes_encrypt ?x (nc_primary (ni_codec I)) nonce ?a bs = Some ct"
    and s: "s = b64_encode ?x (nonce @ ct)"
    using sealed by (auto simp: seal_as_def native_seal_def split: sum.splits option.splits)
  have "b64_decode ?x s = Inr (nonce @ ct)" using facts(1) by (simp add: s native_facts_def crypto_facts_def)
  then have "Option.bind (find_map (\<lambda>c. aes_decrypt ?x c nonce ?a ct) (nc_readers (ni_codec I))) (from_json j) = Some w"
    using opened nonce by (auto simp: open_as_def native_open_def split: if_splits option.splits)
  moreover have "find_map (\<lambda>c. aes_decrypt ?x c nonce ?a ct) (nc_readers (ni_codec I)) \<in> {None, Some bs}"
    using facts(1) ct unfolding native_facts_def by (intro find_map_only) blast
  moreover have "from_json j bs = Some v" using facts(2) js by (simp add: json_facts_def)
  ultimately show ?thesis by auto
qed

section \<open>A handover happens once\<close>

lemma keeps_handover_run:
  assumes "native_run L I s s'" "map_of (nd_attempts (nv_db s)) key = Some a" "at_phase a \<in> {A_Redeemed, A_Cancelled}"
  shows "\<exists>b. map_of (nd_attempts (nv_db s')) key = Some b \<and> at_phase b \<in> {A_Redeemed, A_Cancelled} \<and>
    at_receipt b = at_receipt a \<and> at_redemption_id b = at_redemption_id a"
  using assms(1)
proof induction
  case base
  with assms(2,3) show ?case by blast
next
  case (step s' s'')
  then obtain b where b: "map_of (nd_attempts (nv_db s')) key = Some b" "at_phase b \<in> {A_Redeemed, A_Cancelled}"
    "at_receipt b = at_receipt a" "at_redemption_id b = at_redemption_id a" by blast
  have "keeps_handover (nv_db s') (nv_db s'')" using native_step_kind [OF step(2)] by blast
  then obtain c where "map_of (nd_attempts (nv_db s'')) key = Some c" "at_phase c \<in> {A_Redeemed, A_Cancelled}" "handed_over b c"
    using b(1,2) unfolding keeps_handover_def by blast
  with b show ?case by (auto simp: handed_over_def)
qed

lemma exchange_Inr:
  assumes "native_exchange L I now r nonce1 nonce2 input db = (Inr x, db')"
  obtains a where "map_of (nd_attempts db) (er_transaction_id input) = Some a" "at_phase a = A_Redeemed"
      "at_redemption_id a = er_redemption_id input"
      "open_as L I (nl_result_json L) (handoff_purpose (er_transaction_id input)) (at_receipt a) = Inr x" "db' = db"
  | a epoch where "map_of (nd_attempts db) (er_transaction_id input) = Some a" "at_phase a = A_Ready"
      "exchange_first L I now r nonce1 nonce2 input a epoch db = (Inr x, db')"
proof -
  obtain a epoch where a: "map_of (nd_attempts db) (er_transaction_id input) = Some a"
    and run: "(if at_phase a = A_Redeemed then exchange_replay L I now input a db
          else if at_phase a \<noteq> A_Ready then refuse N_Unauthorized db
          else exchange_first L I now r nonce1 nonce2 input a epoch db) = (Inr x, db')"
    using assms by (auto simp: native_exchange_def or_rollback_def find_attempt_def split: if_splits sum.splits option.splits)
  show thesis
  proof (cases "at_phase a = A_Redeemed")
    case True
    then have "exchange_replay L I now input a db = (Inr x, db')" using run by simp
    then have "at_redemption_id a = er_redemption_id input"
      "open_as L I (nl_result_json L) (handoff_purpose (er_transaction_id input)) (at_receipt a) = Inr x" "db' = db"
      by (auto simp: exchange_replay_def or_rollback_def after_fence_def split: if_splits sum.splits)
    with a True that(1) show thesis by blast
  next
    case False
    with run a that(2) show thesis by (cases "at_phase a = A_Ready") auto
  qed
qed

text \<open>
  C13. A login attempt is handed over once: whatever happens between two successful exchanges of
  the same attempt, the second has the redemption id of the first and gives the same answer, with
  the same tokens.
\<close>

theorem handover_once:
  assumes facts: "native_facts L I" and nonce: "length nonce2 = 12"
    and first: "native_exchange L I now r nonce1 nonce2 input (nv_db s) = (Inr x, db)"
    and run: "native_run L I (s\<lparr> nv_db := db \<rparr>) s'"
    and again: "native_exchange L I now' r' nonce1' nonce2' input' (nv_db s') = (Inr x', db')"
      "er_transaction_id input' = er_transaction_id input"
  shows "x' = x \<and> er_redemption_id input' = er_redemption_id input"
proof -
  let ?open = "open_as L I (nl_result_json L) (handoff_purpose (er_transaction_id input))"
  have json: "json_facts (nl_result_json L)" using facts by (simp add: native_facts_def)
  obtain a where a: "map_of (nd_attempts db) (er_transaction_id input) = Some a" "at_phase a = A_Redeemed"
    "at_redemption_id a = er_redemption_id input" "\<And>w. ?open (at_receipt a) = Inr w \<Longrightarrow> w = x"
    using first
  proof (cases rule: exchange_Inr)
    case (1 a)
    then show ?thesis by (intro that [of a]) auto
  next
    case (2 a epoch)
    have "first_handover L I r nonce2 input x (nv_db s) db" using exchange_first_effect [OF 2(3,1,2)] by blast
    then obtain receipt expires where sealed: "seal_as L I (nl_result_json L) nonce2 (handoff_purpose (er_transaction_id input)) x = Inr receipt"
      and redeemed: "map_of (nd_attempts db) (er_transaction_id input) = Some (a\<lparr> at_phase := A_Redeemed,
          at_redemption_id := er_redemption_id input, at_receipt_expires := expires, at_family := gt_family r, at_secret := [],
          at_receipt := receipt \<rparr>)"
      using 2(1) by (auto simp: first_handover_def)
    show ?thesis by (rule that [OF redeemed]) (auto dest: open_as_seal [OF facts json nonce sealed])
  qed
  obtain b where b: "map_of (nd_attempts (nv_db s')) (er_transaction_id input) = Some b" "at_phase b \<in> {A_Redeemed, A_Cancelled}"
    "at_receipt b = at_receipt a" "at_redemption_id b = at_redemption_id a"
    using keeps_handover_run [OF run, of _ a] a(1,2) by auto
  from again(1) show ?thesis
  proof (cases rule: exchange_Inr)
    case (1 c)
    then show ?thesis using a(3,4) b again(2) by auto
  next
    case (2 c epoch)
    then show ?thesis using b again(2) by auto
  qed
qed

section \<open>A refresh token is used once\<close>

text \<open>A consumed token: no family has it, and there is one receipt for it.\<close>

definition token_spent :: "rstr \<Rightarrow> rstr \<times> rstr \<times> nat \<Rightarrow> rstr \<Rightarrow> native_db \<Rightarrow> bool" where
  "token_spent h entry receipt db \<longleftrightarrow>
     (\<forall>k f. map_of (nd_families db) k = Some f \<longrightarrow> fm_refresh_hash f \<noteq> h) \<and>
     (\<forall>e v. map_of (nd_receipts db) e = Some v \<longrightarrow> fst e = h \<longrightarrow> e = entry) \<and> fst entry = h \<and>
     (\<exists>row. map_of (nd_receipts db) entry = Some row \<and> rr_result row = receipt)"

lemma token_spent_set:
  assumes "token_spent h entry receipt db" "nd_families db' = hm_insert k g (nd_families db)" "fm_refresh_hash g \<noteq> h"
    "nd_receipts db' = nd_receipts db \<or> (\<exists>e row. fst e \<noteq> h \<and> nd_receipts db' = hm_insert e row (nd_receipts db))"
  shows "token_spent h entry receipt db'"
proof -
  obtain row where row: "\<And>k f. map_of (nd_families db) k = Some f \<Longrightarrow> fm_refresh_hash f \<noteq> h"
    "\<And>e v. map_of (nd_receipts db) e = Some v \<Longrightarrow> fst e = h \<Longrightarrow> e = entry" "fst entry = h"
    "map_of (nd_receipts db) entry = Some row" "rr_result row = receipt"
    using assms(1) unfolding token_spent_def by blast
  have same: "map_of (nd_receipts db') e = map_of (nd_receipts db) e" if "fst e = h" for e using assms(4) that by auto
  show ?thesis
    unfolding token_spent_def
  proof (intro conjI allI impI)
    show "fm_refresh_hash f \<noteq> h" if "map_of (nd_families db') k = Some f" for k f
      using that row(1) assms(2,3) by (auto split: if_splits)
    show "e = entry" if "map_of (nd_receipts db') e = Some v" "fst e = h" for e v
      using that by (intro row(2) [of e v]) (simp_all add: same)
    show "\<exists>row. map_of (nd_receipts db') entry = Some row \<and> rr_result row = receipt" using row(3-5) same by simp
  qed (rule row(3))
qed

lemma token_spent_step:
  assumes step: "native_step L I s s'" and inv: "native_inv (nv_db s) (set (nv_refreshes s))"
    and spent: "token_spent h entry receipt (nv_db s)"
  shows "token_spent h entry receipt (nv_db s')"
proof -
  have none: "fm_refresh_hash f \<noteq> h" if "map_of (nd_families (nv_db s)) k = Some f" for k f
    using spent that unfolding token_spent_def by blast
  have new: "native_hash L (refresh_token r) \<noteq> h" if "fresh_token L r (nv_db s)" for r
    using fresh_tokenD(2) [OF that native_invD(1) [OF inv], of entry] spent by (auto simp: token_spent_def)
  consider "sessions_end (nv_db s) (nv_db s')"
    | r nonce input x where "first_handover L I r nonce input x (nv_db s) (nv_db s')" "fresh_token L (gt_refresh r) (nv_db s)"
    | now lease token input p where "lease_taken L now lease token input p (nv_db s) (nv_db s')"
    | refresh nonce p g where "family_rotated L I refresh nonce p g (nv_db s) (nv_db s')" "p \<in> set (nv_refreshes s)"
        "fresh_token L refresh (nv_db s)"
    using native_step_kind [OF step] by blast
  then show ?thesis
  proof cases
    case 1
    have "fm_refresh_hash g \<noteq> h" if "map_of (nd_families (nv_db s')) k = Some g" for k g
      by (rule sessions_endE [OF 1 that]) (use none family_unleasedD(1) in metis)
    then show ?thesis using spent 1 by (auto simp: token_spent_def sessions_end_def)
  next
    case 2
    then obtain f where "nd_families (nv_db s') = hm_insert (gt_family r) f (nd_families (nv_db s))"
      "nd_receipts (nv_db s') = nd_receipts (nv_db s)" "fm_refresh_hash f = native_hash L (refresh_token (gt_refresh r))"
      by (auto simp: first_handover_def set_family_def set_attempt_def)
    then show ?thesis using new [OF 2(2)] by (intro token_spent_set [OF spent]) auto
  next
    case 3
    then obtain f where f: "map_of (nd_families (nv_db s)) (pr_family p) = Some f"
      "nv_db s' = set_family (pr_family p) (f\<lparr> fm_phase := F_Refreshing, fm_lease_id := lease, fm_lease_expires := now + 30 \<rparr>) (nv_db s)"
      using native_invD(1) [OF inv] unfolding lease_taken_def by (metis hm_entry_iff)
    show ?thesis
      by (rule token_spent_set [OF spent, where k = "pr_family p"
            and g = "f\<lparr> fm_phase := F_Refreshing, fm_lease_id := lease, fm_lease_expires := now + 30 \<rparr>"])
         (use none [OF f(1)] in \<open>simp_all add: f(2) set_family_def\<close>)
  next
    case 4
    obtain f receipt' h' row where f: "map_of (nd_families (nv_db s)) (pr_family p) = Some f" "fm_refresh_hash f = pr_old_hash p"
      "nd_families (nv_db s') = hm_insert (pr_family p) h' (nd_families (nv_db s))"
      "fm_refresh_hash h' = native_hash L (refresh_token refresh)"
      "nd_receipts (nv_db s') = hm_insert (pr_old_hash p, rq_operation_id (pr_request p), rq_generation (pr_request p)) row
         (nd_receipts (nv_db s))"
      by (rule family_rotatedD [OF inv 4(1,2)])
    show ?thesis
      by (rule token_spent_set [OF spent f(3)]) (use new [OF 4(3)] none [OF f(1)] f in auto)
  qed
qed

lemma token_spent_run:
  assumes "native_run L I s s'" "native_inv (nv_db s) (set (nv_refreshes s))" "token_spent h entry receipt (nv_db s)"
  shows "token_spent h entry receipt (nv_db s')"
proof -
  from assms(1) have "native_inv (nv_db s') (set (nv_refreshes s')) \<and> token_spent h entry receipt (nv_db s')"
  proof induction
    case base
    with assms(2,3) show ?case by simp
  next
    case (step s' s'')
    then show ?case using native_step_inv token_spent_step by blast
  qed
  then show ?thesis ..
qed

lemma rotation_spends:
  assumes inv: "native_inv db P" and rot: "family_rotated L I refresh nonce p g db db'" and p: "p \<in> P"
    and fresh: "fresh_token L refresh db"
  shows "\<exists>receipt. token_spent (pr_old_hash p) (pr_old_hash p, rq_operation_id (pr_request p), rq_generation (pr_request p)) receipt db' \<and>
    seal_as L I (nl_grant_json L) nonce (refresh_purpose (pr_old_hash p) (pr_request p)) g = Inr receipt"
    "gr_generation g = rq_generation (pr_request p) + 1 \<and> gr_generation g < 2 ^ 64"
proof -
  note new = fresh_tokenD [OF fresh native_invD(1) [OF inv]]
  obtain f receipt h row where f: "map_of (nd_families db) (pr_family p) = Some f" "fm_refresh_hash f = pr_old_hash p"
    "gr_generation g = rq_generation (pr_request p) + 1" "gr_generation g < 2 ^ 64"
    "nd_families db' = hm_insert (pr_family p) h (nd_families db)"
    "fm_refresh_hash h = native_hash L (refresh_token refresh)"
    "nd_receipts db' = hm_insert (pr_old_hash p, rq_operation_id (pr_request p), rq_generation (pr_request p)) row (nd_receipts db)"
    "rr_result row = receipt"
    "seal_as L I (nl_grant_json L) nonce (refresh_purpose (pr_old_hash p) (pr_request p)) g = Inr receipt"
    by (rule family_rotatedD [OF inv rot p])
  have none: "fm_refresh_hash f' \<noteq> pr_old_hash p" if "map_of (nd_families db') k = Some f'" for k f'
    using that native_invD(2) [OF inv _ f(1), of k f'] new(1) [OF f(1)] f(2,6) by (auto simp: f(5) split: if_splits)
  have one: "e = (pr_old_hash p, rq_operation_id (pr_request p), rq_generation (pr_request p))"
    if "map_of (nd_receipts db') e = Some v" "fst e = pr_old_hash p" for e v
    using that native_invD(3) [OF inv _ f(1), of e] f(2) by (auto simp: f(7) split: if_splits)
  have "token_spent (pr_old_hash p) (pr_old_hash p, rq_operation_id (pr_request p), rq_generation (pr_request p)) receipt db'"
    unfolding token_spent_def by (intro conjI allI impI none one, assumption+) (simp_all add: f(7,8))
  with f(9) show "\<exists>receipt. token_spent (pr_old_hash p) (pr_old_hash p, rq_operation_id (pr_request p), rq_generation (pr_request p)) receipt db' \<and>
    seal_as L I (nl_grant_json L) nonce (refresh_purpose (pr_old_hash p) (pr_request p)) g = Inr receipt" by blast
  show "gr_generation g = rq_generation (pr_request p) + 1 \<and> gr_generation g < 2 ^ 64" using f(3,4) by blast
qed

text \<open>
  C14. A refresh token is used once: after a refresh with it has succeeded, whatever happens next,
  the same token is answered only by the same grant again, and only for the operation and the
  generation of that refresh; it never starts another refresh. The grant is of the next
  generation, which stays within 64 bits.
\<close>

theorem refresh_token_used_once:
  assumes facts: "native_facts L I" and nonce: "length nonce2 = 12"
    and reach: "native_run L I (native_new epochs) s"
    and first: "p \<in> set (nv_refreshes s)" "refresh_finish L I A now access refresh nonce1 nonce2 p (nv_db s) = (Inr g, db)"
      "fresh_token L refresh (nv_db s)"
    and run: "native_run L I (s\<lparr> nv_db := db, nv_refreshes := remove1 p (nv_refreshes s) \<rparr>) s'"
    and again: "native_hash L token = pr_old_hash p" "fst (refresh_begin L I now' lease token input (nv_db s')) = Inr answer"
  shows "answer = Inl g \<and> input = pr_request p \<and> gr_generation g = rq_generation input + 1 \<and> gr_generation g < 2 ^ 64"
proof -
  let ?s = "s\<lparr> nv_db := db, nv_refreshes := remove1 p (nv_refreshes s) \<rparr>"
  have json: "json_facts (nl_grant_json L)" using facts by (simp add: native_facts_def)
  have inv: "native_inv (nv_db s) (set (nv_refreshes s))" by (rule native_run_inv [OF reach])
  have rot: "family_rotated L I refresh nonce2 p g (nv_db s) db" using refresh_finish_effect [OF first(2)] by blast
  obtain receipt where spent: "token_spent (pr_old_hash p)
      (pr_old_hash p, rq_operation_id (pr_request p), rq_generation (pr_request p)) receipt db"
    and sealed: "seal_as L I (nl_grant_json L) nonce2 (refresh_purpose (pr_old_hash p) (pr_request p)) g = Inr receipt"
    using rotation_spends(1) [OF inv rot first(1,3)] by blast
  note generation = rotation_spends(2) [OF inv rot first(1,3)]
  have "native_inv (nv_db ?s) (set (nv_refreshes ?s))"
    by (rule native_step_inv [OF step_refreshed [OF first] inv])
  then have later: "token_spent (pr_old_hash p)
      (pr_old_hash p, rq_operation_id (pr_request p), rq_generation (pr_request p)) receipt (nv_db s')"
    using spent by (intro token_spent_run [OF run]) simp_all
  obtain res db' where begun: "refresh_begin L I now' lease token input (nv_db s') = (res, db')" by fastforce
  then have res: "res = Inr answer" using again(2) by simp
  from begun show ?thesis
  proof (cases rule: refresh_begin_cases)
    case (1 e)
    with res show ?thesis by simp
  next
    case (2 row r)
    have "(pr_old_hash p, rq_operation_id input, rq_generation input) =
        (pr_old_hash p, rq_operation_id (pr_request p), rq_generation (pr_request p))"
      using later 2(1) again(1) unfolding token_spent_def by (metis fst_conv)
    then have same: "input = pr_request p" by (simp add: refresh_request.equality)
    have "rr_result row = receipt" using later 2(1) again(1) same unfolding token_spent_def by auto
    then obtain h where h: "r = Inr h" "answer = Inl h" using 2(3) res by (cases r) auto
    then have "open_as L I (nl_grant_json L) (refresh_purpose (pr_old_hash p) (pr_request p)) receipt = Inr h"
      using 2(2) \<open>rr_result row = receipt\<close> same again(1)
      by (auto simp: refresh_replay_def or_rollback_def after_fence_def split: if_splits sum.splits)
    with open_as_seal [OF facts json nonce sealed] h same generation show ?thesis by blast
  next
    case (3 key f r)
    have "native_run L I (native_new epochs) s'"
      by (rule rtranclp_trans [OF rtranclp.rtrancl_into_rtrancl [OF reach step_refreshed [OF first]] run])
    then have "hm_wf (nd_families (nv_db s'))" by (rule native_invD(1) [OF native_run_inv])
    then have "map_of (nd_families (nv_db s')) key = Some f" using 3(2) by (simp add: hm_entry_iff)
    then have "fm_refresh_hash f \<noteq> pr_old_hash p" using later unfolding token_spent_def by blast
    with 3(3) again(1) show ?thesis by simp
  qed
qed

section \<open>What was ended stays ended\<close>

lemma ended_step:
  assumes "native_step L I s s'" "map_of (nd_families (nv_db s)) k = Some f" "family_ended f" "hm_wf (nd_families (nv_db s))"
  shows "\<exists>g. map_of (nd_families (nv_db s')) k = Some g \<and> family_ended g"
proof -
  consider "sessions_end (nv_db s) (nv_db s')"
    | r nonce input x where "first_handover L I r nonce input x (nv_db s) (nv_db s')"
    | now lease token input p where "lease_taken L now lease token input p (nv_db s) (nv_db s')"
    | refresh nonce p g where "family_rotated L I refresh nonce p g (nv_db s) (nv_db s')"
    using native_step_kind [OF assms(1)] by blast
  then show ?thesis
  proof cases
    case 1
    then have "rel_option family_unleased (map_of (nd_families (nv_db s)) k) (map_of (nd_families (nv_db s')) k)"
      by (simp add: sessions_end_def)
    then show ?thesis using assms(2,3) family_unleasedD(5) by (auto simp: option_rel_Some1)
  next
    case 2
    then show ?thesis using assms(2,3) by (auto simp: first_handover_def hm_has_iff)
  next
    case 3
    then show ?thesis using assms(2-4) by (auto simp: lease_taken_def family_ended_def hm_entry_iff)
  next
    case 4
    then show ?thesis using assms(2,3) by (auto simp: family_rotated_def family_ended_def)
  qed
qed

lemma fence_ended: "family_ended f \<Longrightarrow> fence now key f db = (Inl N_Unauthorized, db)"
  by (auto simp: fence_def family_ended_def refuse_def)

lemma ended_run:
  assumes "native_run L I s s'" "native_inv (nv_db s) (set (nv_refreshes s))" "map_of (nd_families (nv_db s)) k = Some f" "family_ended f"
  shows "native_inv (nv_db s') (set (nv_refreshes s')) \<and> (\<exists>g. map_of (nd_families (nv_db s')) k = Some g \<and> family_ended g)"
  using assms(1)
proof induction
  case base
  with assms show ?case by blast
next
  case (step s' s'')
  then obtain g where inv: "native_inv (nv_db s') (set (nv_refreshes s'))" and g: "map_of (nd_families (nv_db s')) k = Some g" "family_ended g"
    by blast
  from ended_step [OF step(2) g native_invD(1) [OF inv]] native_step_inv [OF step(2) inv] show ?case by blast
qed

text \<open>An ended family is refused everywhere.\<close>

lemma ended_referenced:
  assumes "map_of (nd_families db) k = Some f" "family_ended f" "sf_family reference = k"
  shows "referenced L I now reference db = (Inl N_Unauthorized, db)"
  using assms by (simp add: referenced_def find_family_def fence_ended after_fence_def)

lemma ended_authenticate:
  assumes "map_of (nd_families db) k = Some f" "family_ended f" "fst (authenticate_ref L I A now later token db) = Inr (q, reference)"
  shows "sf_family reference \<noteq> k"
proof
  assume k: "sf_family reference = k"
  obtain reference' where "token_ref L token db = Inr reference'" using assms(3) by (cases "token_ref L token db") (auto simp: authenticate_ref_def)
  with assms(3) have "reference' = reference" "\<exists>q. fst (recheck L I A now later reference db) = Inr q"
    by (auto simp: authenticate_ref_def map_sum_def split: sum.splits)
  with ended_referenced [OF assms(1,2) k] show False by (auto simp: recheck_def)
qed

lemma ended_refresh_begin:
  assumes "map_of (nd_families db) k = Some f" "family_ended f" "hm_wf (nd_families db)"
    "fst (refresh_begin L I now lease token input db) = Inr (Inr p)"
  shows "pr_family p \<noteq> k"
proof
  assume k: "pr_family p = k"
  obtain res db' where begun: "refresh_begin L I now lease token input db = (res, db')" by fastforce
  then have "lease_taken L now lease token input p db db'" using refresh_begin_effect [OF begun] assms(4) by auto
  with assms k show False by (auto simp: lease_taken_def family_ended_def hm_entry_iff)
qed

lemma ended_refresh_finish:
  assumes "map_of (nd_families db) k = Some f" "family_ended f" "fst (refresh_finish L I A now access refresh nonce1 nonce2 p db) = Inr g"
  shows "pr_family p \<noteq> k"
proof
  assume k: "pr_family p = k"
  obtain res db' where fin: "refresh_finish L I A now access refresh nonce1 nonce2 p db = (res, db')" by fastforce
  then have "family_rotated L I refresh nonce2 p g db db'" using refresh_finish_effect [OF fin] assms(3) by auto
  with assms k show False by (auto simp: family_rotated_def family_ended_def)
qed

text \<open>Ending a family: with its revocation token, or by cancelling the login that it came from.\<close>

definition ends_family :: "native_lib \<Rightarrow> rstr \<Rightarrow> native_db \<Rightarrow> native_db \<Rightarrow> bool" where
  "ends_family L k db db' \<longleftrightarrow>
     (\<exists>token f. native_revoke L token db = (Inr (), db') \<and> map_of (nd_families db) k = Some f \<and> fm_revoke_hash f = native_hash L token) \<or>
     (\<exists>input a. cancel_login L input db = (Inr (), db') \<and> map_of (nd_attempts db) (cr_transaction_id input) = Some a \<and>
        at_family a = k \<and> k \<noteq> [] \<and> k \<in> dom (map_of (nd_families db)))"

lemma ends_family_ended:
  assumes "ends_family L k db db'"
  shows "\<exists>f. map_of (nd_families db') k = Some f \<and> family_ended f"
  using assms unfolding ends_family_def
proof (elim disjE exE conjE)
  fix token f
  assume "native_revoke L token db = (Inr (), db')" "map_of (nd_families db) k = Some f" "fm_revoke_hash f = native_hash L token"
  then show ?thesis
    by (auto simp: native_revoke_def Let_def map_of_map_values revoke_family_def family_ended_def split: if_splits)
next
  fix input a
  assume "cancel_login L input db = (Inr (), db')" and a: "map_of (nd_attempts db) (cr_transaction_id input) = Some a"
    "at_family a = k" "k \<noteq> []" "k \<in> dom (map_of (nd_families db))"
  then have "db' = cancel_attempt (cr_transaction_id input) a db"
    by (auto simp: cancel_login_def find_attempt_def split: if_splits)
  with a show ?thesis by (auto simp: cancel_attempt_def Let_def revoke_family_def family_ended_def)
qed


end
