(* ===== verification/Native_Example.thy ===== *)
theory Native_Example
  imports Native_Properties Auth_Properties
begin

text \<open>
  One native login from its start to a refresh, with URL-safe base64 written out and simple
  functions for the other crates: that the assumptions of the properties of native sessions can
  hold.
\<close>

section \<open>Base64\<close>

definition b64_digit :: "nat \<Rightarrow> rchar" where
  "b64_digit n = (if n < 26 then 65 + n else if n < 52 then 71 + n else if n < 62 then n - 4 else if n = 62 then 45 else 95)"

definition b64_value :: "rchar \<Rightarrow> nat" where
  "b64_value c = (if 65 \<le> c \<and> c \<le> 90 then c - 65 else if 97 \<le> c \<and> c \<le> 122 then c - 71 else if 48 \<le> c \<and> c \<le> 57 then c + 4
     else if c = 45 then 62 else 63)"

lemma b64_value_digit [simp]: "n < 64 \<Longrightarrow> b64_value (b64_digit n) = n"
  by (auto simp: b64_value_def b64_digit_def)

lemma b64_digit_char [simp]: "n < 64 \<Longrightarrow> b64_char (b64_digit n)"
  by (auto simp: b64_char_def b64_digit_def is_ascii_lower_def is_ascii_upper_def is_ascii_digit_def)

fun base64 :: "byte list \<Rightarrow> rstr" where
  "base64 [] = []"
| "base64 [a] = [b64_digit (unat a div 4), b64_digit (unat a mod 4 * 16)]"
| "base64 [a, b] = (let x = unat a * 256 + unat b in
     [b64_digit (x div 1024), b64_digit (x div 16 mod 64), b64_digit (x mod 16 * 4)])"
| "base64 (a # b # c # r) = (let x = unat a * 65536 + unat b * 256 + unat c in
     b64_digit (x div 262144) # b64_digit (x div 4096 mod 64) # b64_digit (x div 64 mod 64) # b64_digit (x mod 64) # base64 r)"

fun unbase64 :: "rstr \<Rightarrow> byte list" where
  "unbase64 (p # q # r # s # t) = (let y = b64_value p * 262144 + b64_value q * 4096 + b64_value r * 64 + b64_value s in
     of_nat (y div 65536) # of_nat (y div 256 mod 256) # of_nat (y mod 256) # unbase64 t)"
| "unbase64 [p, q, r] = (let y = b64_value p * 1024 + b64_value q * 16 + b64_value r div 4 in
     [of_nat (y div 256), of_nat (y mod 256)])"
| "unbase64 [p, q] = [of_nat (b64_value p * 4 + b64_value q div 16)]"
| "unbase64 _ = []"

lemma byte_bound: "unat (b :: byte) < 256"
  using unsigned_less [of b, where ?'a = nat] by simp

lemma byte_of_unat: "of_nat (unat (b :: byte)) = b"
  by simp

lemma digits_64: "x div 262144 * 262144 + x div 4096 mod 64 * 4096 + x div 64 mod 64 * 64 + x mod 64 = (x :: nat)"
proof -
  have "x div 64 div 64 = x div 4096" "x div 4096 div 64 = x div 262144" by (simp_all flip: div_mult2_eq)
  then show ?thesis
    using div_mult_mod_eq [of x 64] div_mult_mod_eq [of "x div 64" 64] div_mult_mod_eq [of "x div 4096" 64] by linarith
qed

lemma bytes_256:
  assumes "b < 256" "c < 256"
  shows "(a * 65536 + b * 256 + c) div 65536 = (a :: nat)" "(a * 65536 + b * 256 + c) div 256 mod 256 = b"
    "(a * 65536 + b * 256 + c) mod 256 = c"
proof -
  have split: "(q * 256 + r) div 256 = q" "(q * 256 + r) mod 256 = r" if "r < 256" for q r :: nat using that by simp_all
  have x: "a * 65536 + b * 256 + c = (a * 256 + b) * 256 + c" by simp
  have "x div 65536 = x div 256 div 256" for x :: nat by (simp flip: div_mult2_eq)
  then show "(a * 65536 + b * 256 + c) div 65536 = a" unfolding x by (simp only: split [OF assms(1)] split [OF assms(2)])
  show "(a * 65536 + b * 256 + c) div 256 mod 256 = b" "(a * 65536 + b * 256 + c) mod 256 = c"
    unfolding x by (simp_all only: split [OF assms(1)] split [OF assms(2)])
qed

lemma unbase64_base64: "unbase64 (base64 bs) = bs"
proof (induction bs rule: base64.induct)
  case (2 a)
  have "unat a div 4 < 64" using byte_bound [of a] by (simp add: div_less_iff_less_mult)
  moreover have "unat a mod 4 * 16 < 64" by simp
  ultimately have "unbase64 (base64 [a]) = [of_nat (unat a div 4 * 4 + unat a mod 4)]" by (simp add: mult.commute)
  then show ?case by (simp only: div_mult_mod_eq byte_of_unat)
next
  case (3 a b)
  let ?x = "unat a * 256 + unat b"
  have x: "?x < 65536" using byte_bound [of a] byte_bound [of b] by simp
  then have "?x div 1024 < 64" by (simp add: div_less_iff_less_mult)
  moreover have "?x mod 16 * 4 < 64" by simp
  moreover have "?x div 1024 * 1024 + ?x div 16 mod 64 * 16 + ?x mod 16 = ?x"
  proof -
    have "?x div 16 div 64 = ?x div 1024" by (simp flip: div_mult2_eq)
    then show ?thesis using div_mult_mod_eq [of ?x 16] div_mult_mod_eq [of "?x div 16" 64] by linarith
  qed
  ultimately have "unbase64 (base64 [a, b]) = [of_nat (?x div 256), of_nat (?x mod 256)]" by (simp add: Let_def)
  moreover have "?x div 256 = unat a" "?x mod 256 = unat b" using byte_bound [of b] by simp_all
  ultimately show ?case by (simp only: byte_of_unat)
next
  case (4 a b c r)
  let ?x = "unat a * 65536 + unat b * 256 + unat c"
  have "?x < 16777216" using byte_bound [of a] byte_bound [of b] byte_bound [of c] by simp
  then have "?x div 262144 < 64" by (simp add: div_less_iff_less_mult)
  then have "unbase64 (base64 (a # b # c # r)) = of_nat (?x div 65536) # of_nat (?x div 256 mod 256) # of_nat (?x mod 256) # r"
    using 4 digits_64 [of ?x] by (simp add: Let_def)
  then show ?case by (simp only: bytes_256 [OF byte_bound byte_bound] byte_of_unat)
qed simp

lemma base64_chars: "list_all b64_char (base64 bs)"
proof (induction bs rule: base64.induct)
  case (2 a)
  have "unat a div 4 < 64" using byte_bound [of a] by (simp add: div_less_iff_less_mult)
  moreover have "unat a mod 4 * 16 < 64" by simp
  ultimately show ?case by simp
next
  case (3 a b)
  have "(unat a * 256 + unat b) div 1024 < 64" using byte_bound [of a] byte_bound [of b] by (simp add: div_less_iff_less_mult)
  moreover have "(unat a * 256 + unat b) mod 16 * 4 < 64" by simp
  ultimately show ?case by (simp add: Let_def)
next
  case (4 a b c r)
  have "(unat a * 65536 + unat b * 256 + unat c) div 262144 < 64"
    using byte_bound [of a] byte_bound [of b] byte_bound [of c] by (simp add: div_less_iff_less_mult)
  with 4 show ?case by (simp add: Let_def)
qed simp

lemma base64_length: "length (base64 bs) = (length bs * 4 + 2) div 3"
  by (induction bs rule: base64.induct) (auto simp: Let_def)

section \<open>A service\<close>

text \<open>JSON that knows a list of values, and a cipher that puts the beginning of the key before the message.\<close>

definition table_json :: "'a list \<Rightarrow> 'a json_type" where
  "table_json vs =
     \<lparr> to_json = (\<lambda>v. case List.find (\<lambda>i. vs ! i = v) [0..<length vs] of
                       Some i \<Rightarrow> if i < 256 then Inr [of_nat i] else Inl (lit ''unknown'')
                     | None \<Rightarrow> Inl (lit ''unknown'')),
       from_json = (\<lambda>bs. case bs of [b] \<Rightarrow> if unat b < length vs then Some (vs ! unat b) else None | _ \<Rightarrow> None) \<rparr>"

lemma table_json_facts: "json_facts (table_json vs)"
  unfolding json_facts_def table_json_def
  by (auto simp: find_Some_iff unat_of_nat split: option.splits if_splits)

lemma table_json_to:
  assumes "distinct vs" "i < length vs" "i < 256"
  shows "to_json (table_json vs) (vs ! i) = Inr [of_nat i]"
proof -
  have "List.find (\<lambda>j. vs ! j = vs ! i) [0..<length vs] = Some i"
    using assms by (auto simp: find_Some_iff nth_eq_iff_index_eq intro!: exI [of _ i])
  then show ?thesis using assms(3) by (simp add: table_json_def)
qed

definition demo_tag :: "byte list \<Rightarrow> byte list" where
  "demo_tag k = take 16 (k @ replicate 16 0)"

definition demo_crypto :: crypto where
  "demo_crypto = \<lparr> b64_encode = base64, b64_decode = (\<lambda>s. Inr (unbase64 s)),
     aes_encrypt = (\<lambda>k n a m. Some (demo_tag k @ m)),
     aes_decrypt = (\<lambda>k n a ct. if take 16 ct = demo_tag k then Some (drop 16 ct) else None) \<rparr>"

lemma demo_tag_length [simp]: "length (demo_tag k) = 16"
  by (simp add: demo_tag_def)

lemma demo_crypto_facts: "crypto_facts demo_crypto"
  by (simp add: crypto_facts_def demo_crypto_def unbase64_base64 base64_chars)

definition demo_text :: "byte \<Rightarrow> rstr" where
  "demo_text n = base64 (replicate 32 n)"

definition demo_user :: rstr where "demo_user = lit ''user-1''"

definition demo_codec :: native_codec where
  "demo_codec = \<lparr> nc_primary = replicate 32 1, nc_readers = [replicate 32 1], nc_instance = lit ''instance'' \<rparr>"

definition demo_inner :: native_inner where
  "demo_inner = \<lparr> ni_codec = demo_codec, ni_origin = lit ''https://sproyt.example'', ni_issuer = lit ''issuer'', ni_instance = lit ''instance'' \<rparr>"

text \<open>The secrets of the attempt: at its start, after the callback, and with the handoff code.\<close>

definition demo_secret :: attempt_secret where
  "demo_secret = \<lparr> as_authorization_url = lit ''url'', as_login_cookie = login_cookie @ lit ''=c'', as_browser_cookie = demo_text 2,
     as_confirmation_nonce = [], as_provider_cookies = [], as_provider_expires = 0, as_display_name = [], as_handoff_code = [] \<rparr>"

definition demo_cookies :: rstr where
  "demo_cookies = session_cookie @ lit ''=s; '' @ refresh_cookie @ lit ''=r''"

definition demo_confirmed :: attempt_secret where
  "demo_confirmed = demo_secret\<lparr> as_provider_cookies := demo_cookies, as_provider_expires := 1000, as_display_name := lit ''Kari'',
     as_confirmation_nonce := demo_text 5, as_login_cookie := [], as_authorization_url := [] \<rparr>"

definition demo_ready :: attempt_secret where
  "demo_ready = demo_confirmed\<lparr> as_handoff_code := demo_text 6 \<rparr>"

definition demo_texts :: grant_texts where
  "demo_texts = \<lparr> gt_family = demo_text 7, gt_access = demo_text 8, gt_refresh = demo_text 9, gt_revoke = demo_text 10 \<rparr>"

definition demo_grant :: grant where
  "demo_grant = new_grant demo_inner 140 demo_texts demo_user 0 demo_ready"

definition demo_result :: exchange_result where
  "demo_result = \<lparr> er_user_id = demo_user, er_native_session = demo_grant, er_display_name = lit ''Kari'' \<rparr>"

definition demo_principal :: authenticated_principal where
  "demo_principal = \<lparr> ap_user = \<lparr> usr_id = UserId 1, usr_kind = Human, usr_display_name = DisplayName (lit ''Kari''), usr_handle = None,
       usr_external_provider = None, usr_external_subject = None, usr_created_at = 0 \<rparr>,
     ap_issuer = lit ''issuer'', ap_subject = lit ''1'', ap_email = None \<rparr>"

definition demo_rotated :: grant where
  "demo_rotated = rotated_grant 210 (demo_text 12) (demo_text 13) 1000 demo_principal demo_grant"

definition demo_family_secret :: family_secret where
  "demo_family_secret = \<lparr> fs_cookies = demo_cookies, fs_grant = demo_grant \<rparr>"

definition demo_lib :: native_lib where
  "demo_lib = \<lparr> nl_crypto = demo_crypto, nl_utf8 = map of_nat, nl_sha256 = (\<lambda>bs. take 32 (rev bs @ replicate 32 0)),
     nl_parse_uuid = (\<lambda>_. None), nl_uuid_text = (\<lambda>_. demo_user), nl_url_states = (\<lambda>_. Some [demo_text 3]),
     nl_attempt_json = table_json [demo_secret, demo_confirmed, demo_ready], nl_result_json = table_json [demo_result],
     nl_family_json = table_json [demo_family_secret, \<lparr> fs_cookies = demo_cookies, fs_grant = demo_rotated \<rparr>],
     nl_grant_json = table_json [demo_rotated] \<rparr>"

lemma demo_facts: "native_facts demo_lib demo_inner"
  by (simp add: native_facts_def demo_lib_def demo_crypto_facts table_json_facts demo_inner_def demo_codec_def)
     (simp add: demo_crypto_def)

section \<open>Texts\<close>

lemma b64_char_ascii: "b64_char c \<Longrightarrow> c < 128 \<and> \<not> is_whitespace c \<and> c \<noteq> 59 \<and> c \<noteq> 61 \<and> ascii_alphanumeric c \<or> c = 45 \<or> c = 95"
  by (auto simp: b64_char_def is_ascii_lower_def is_ascii_upper_def is_ascii_digit_def is_whitespace_def ascii_alphanumeric_def)

lemma utf8_len_base64: "utf8_len (base64 bs) = (length bs * 4 + 2) div 3"
  using base64_chars [of bs] utf8_len_ascii [of "base64 bs"] base64_length [of bs] b64_char_ascii by (fastforce simp: list_all_iff)

lemma base64_proof: "length bs = 32 \<Longrightarrow> native_proof demo_lib (base64 bs)"
  by (simp add: native_proof_def utf8_len_base64 demo_lib_def demo_crypto_def unbase64_base64)

lemma demo_text_proof [simp]: "native_proof demo_lib (demo_text n)"
  by (simp add: demo_text_def base64_proof)

lemma demo_hash: "native_hash demo_lib s = base64 (take 32 (rev (map of_nat s) @ replicate 32 0))"
  by (simp add: native_hash_def demo_lib_def demo_crypto_def)

lemma demo_hash_proof [simp]: "native_proof demo_lib (native_hash demo_lib s)"
  unfolding demo_hash by (rule base64_proof) simp

lemma demo_text_state [simp]: "state_valid (demo_text n)"
  using base64_chars [of "replicate 32 n"]
  by (auto simp: state_valid_def demo_text_def utf8_len_base64 lit_def list_all_iff dest: b64_char_ascii)

lemma demo_text_verifier [simp]: "native_verifier (demo_text n)"
  using base64_chars [of "replicate 32 n"]
  by (auto simp: native_verifier_def demo_text_def utf8_len_base64 lit_def list_all_iff dest: b64_char_ascii)

lemma demo_text_inj: "demo_text m = demo_text n \<longleftrightarrow> m = n"
  by (auto simp: demo_text_def dest!: arg_cong [of _ _ unbase64] simp: unbase64_base64)

lemma demo_text_nonempty [simp]: "demo_text n \<noteq> []"
  using utf8_len_base64 [of "replicate 32 n"] by (auto simp: demo_text_def)

lemma demo_text_chars: "c \<in> set (demo_text n) \<Longrightarrow> c < 128 \<and> \<not> is_whitespace c \<and> c \<noteq> 59 \<and> c \<noteq> 61"
  using base64_chars [of "replicate 32 n"]
  by (auto simp: demo_text_def list_all_iff b64_char_def is_ascii_lower_def is_ascii_upper_def is_ascii_digit_def is_whitespace_def)

lemma demo_lib_simps [simp]:
  "nl_url_states demo_lib u = Some [demo_text 3]" "nl_uuid_text demo_lib i = demo_user"
  "nl_attempt_json demo_lib = table_json [demo_secret, demo_confirmed, demo_ready]" "nl_result_json demo_lib = table_json [demo_result]"
  "nl_family_json demo_lib = table_json [demo_family_secret, \<lparr> fs_cookies = demo_cookies, fs_grant = demo_rotated \<rparr>]"
  "nl_grant_json demo_lib = table_json [demo_rotated]"
  by (simp_all add: demo_lib_def)

section \<open>Sealed texts\<close>

definition demo_nonce :: "byte list" where "demo_nonce = replicate 12 9"

definition demo_sealed :: "byte \<Rightarrow> rstr" where
  "demo_sealed b = base64 (demo_nonce @ demo_tag (replicate 32 1) @ [b])"

lemma demo_seal:
  assumes "distinct vs" "i < length vs" "i < 256" "vs ! i = v"
  shows "seal_as demo_lib demo_inner (table_json vs) demo_nonce purpose v = Inr (demo_sealed (of_nat i))"
  using table_json_to [OF assms(1-3)] assms(4)
  by (simp add: seal_as_def native_seal_def demo_lib_def demo_crypto_def demo_inner_def demo_codec_def demo_sealed_def)

lemma demo_open:
  assumes "i < length vs" "i < 256"
  shows "open_as demo_lib demo_inner (table_json vs) purpose (demo_sealed (of_nat i)) = Inr (vs ! i)"
  using assms
  by (simp add: open_as_def native_open_def demo_lib_def demo_crypto_def demo_inner_def demo_codec_def demo_sealed_def demo_nonce_def
      unbase64_base64 table_json_def unat_of_nat)

lemma demo_secrets: "distinct [demo_secret, demo_confirmed, demo_ready]"
  by (simp add: demo_secret_def demo_confirmed_def demo_ready_def demo_text_nonempty [symmetric])

lemma demo_family_secrets: "distinct [demo_family_secret, \<lparr> fs_cookies = demo_cookies, fs_grant = demo_rotated \<rparr>]"
proof -
  have "gr_generation demo_rotated \<noteq> gr_generation demo_grant" by (simp add: demo_rotated_def rotated_grant_def)
  then have "demo_grant \<noteq> demo_rotated" by auto
  then show ?thesis by (simp add: demo_family_secret_def)
qed

lemmas demo_seals =
  demo_seal [OF demo_secrets, of 0, simplified] demo_seal [OF demo_secrets, of 1, simplified] demo_seal [OF demo_secrets, of 2, simplified]

lemmas demo_opens =
  demo_open [of 0 "[demo_secret, demo_confirmed, demo_ready]", simplified]
  demo_open [of 1 "[demo_secret, demo_confirmed, demo_ready]", simplified]
  demo_open [of 2 "[demo_secret, demo_confirmed, demo_ready]", simplified]

section \<open>The login\<close>

definition demo_auth :: auth_interface where
  "demo_auth = \<lparr> ai_login = (\<lambda>_. Inr \<lparr> ls_authorization_url = lit ''url'', ls_set_cookie = login_cookie @ lit ''=c; Path=/'' \<rparr>),
     ai_renew = (\<lambda>_. Inr \<lparr> sr_set_cookie = session_cookie @ lit ''=s; Path=/'', sr_set_refresh_cookie = refresh_cookie @ lit ''=r; Path=/'',
                           sr_refresh_after_seconds = 240 \<rparr>),
     ai_authenticate = (\<lambda>_. Inr demo_principal), ai_expires_at = (\<lambda>_. Inr 1000) \<rparr>"

definition demo_db :: "attempt \<Rightarrow> (rstr, family) hmap \<Rightarrow> (rstr \<times> rstr \<times> nat, refresh_receipt) hmap \<Rightarrow> native_db" where
  "demo_db a families receipts = \<lparr> nd_epochs = [], nd_attempts = [(demo_text 1, a)], nd_families = families, nd_receipts = receipts \<rparr>"

lemma demo_db_simps [simp]:
  "nd_epochs (demo_db a F R) = []" "nd_attempts (demo_db a F R) = [(demo_text 1, a)]" "nd_families (demo_db a F R) = F"
  "nd_receipts (demo_db a F R) = R" "set_attempt (demo_text 1) b (demo_db a F R) = demo_db b F R"
  "find_attempt (demo_text 1) (demo_db a F R) = Inr a" "user_epoch u (demo_db a F R) = (0, 0)"
  "set_family k f (demo_db a F R) = demo_db a (hm_insert k f F) R"
  by (simp_all add: demo_db_def set_attempt_def set_family_def find_attempt_def user_epoch_def hm_get_or_def hm_insert_def)

definition demo_new :: attempt where
  "demo_new = new_attempt (native_hash demo_lib (demo_text 3)) (native_hash demo_lib (demo_text 4)) [] 0 50000 100 (demo_sealed 0)"

definition demo_request :: login_request where
  "demo_request = \<lparr> lr_challenge = native_hash demo_lib (demo_text 4), lr_destination_id = windows_loopback, lr_callback_port = 50000,
     lr_expected_user_id = None \<rparr>"

lemma demo_login_pair: "cookie_pair (login_cookie @ lit ''=c; Path=/'') login_cookie = Inr (login_cookie @ lit ''=c'')"
  by (simp add: cookie_pair_def login_cookie_def lit_def strip_prefix_def)

lemma demo_provider_cookies:
  "provider_cookies (session_cookie @ lit ''=s; Path=/'') (refresh_cookie @ lit ''=r; Path=/'') = Inr demo_cookies"
  by (simp add: provider_cookies_def cookie_pair_def session_cookie_def refresh_cookie_def lit_def strip_prefix_def demo_cookies_def)

lemma demo_login:
  "native_login demo_lib demo_inner demo_auth 100 (demo_text 1) (demo_text 2) demo_nonce demo_request (nv_db (native_new [])) =
   (Inr \<lparr> lst_transaction_id = demo_text 1, lst_authorization_url = ni_origin demo_inner @ lit ''/auth/native/browser/'' @ demo_text 1 \<rparr>,
    demo_db demo_new [] [])"
proof -
  have "seal_as demo_lib demo_inner (table_json [demo_secret, demo_confirmed, demo_ready]) demo_nonce purpose
     \<lparr> as_authorization_url = lit ''url'', as_login_cookie = login_cookie @ lit ''=c'', as_browser_cookie = demo_text 2,
       as_confirmation_nonce = [], as_provider_cookies = [], as_provider_expires = 0, as_display_name = [], as_handoff_code = [] \<rparr> =
     Inr (demo_sealed 0)" for purpose
    unfolding demo_secret_def [symmetric] by (rule demo_seals(1) [OF refl])
  then show ?thesis
    by (simp add: native_login_def demo_request_def demo_auth_def demo_login_pair native_new_def set_attempt_def hm_insert_def
        user_epoch_def hm_get_or_def demo_new_def demo_db_def)
qed

lemma demo_new_simps [simp]:
  "at_phase demo_new = A_New" "at_expires_at demo_new = 700" "at_secret demo_new = demo_sealed 0"
  "at_state_hash demo_new = native_hash demo_lib (demo_text 3)" "at_challenge demo_new = native_hash demo_lib (demo_text 4)"
  "at_expected_user_id demo_new = []" "at_created_at demo_new = 100" "at_callback_port demo_new = 50000" "at_family demo_new = []"
  by (simp_all add: demo_new_def new_attempt_def)

definition demo_authorizing :: attempt where
  "demo_authorizing = demo_new\<lparr> at_phase := A_Authorizing, at_cookie_hash := native_hash demo_lib (demo_text 2) \<rparr>"

lemma demo_browser: "\<exists>res. native_browser demo_lib demo_inner 110 (demo_text 1) (demo_db demo_new [] []) = (res, demo_db demo_authorizing [] [])"
  by (simp add: native_browser_def demo_opens demo_authorizing_def) (simp add: demo_secret_def)

definition demo_header :: rstr where
  "demo_header = native_cookie (demo_text 1) @ 61 # demo_text 2"

lemma demo_cookie_value: "cookie_value demo_lib (Some demo_header) (native_cookie (demo_text 1)) = Inr (demo_text 2)"
proof -
  have name: "c < 128 \<and> \<not> is_whitespace c \<and> c \<noteq> 59 \<and> c \<noteq> 61" if "c \<in> set (native_cookie (demo_text 1))" for c
    using that demo_text_chars by (auto simp: native_cookie_def lit_def is_whitespace_def)
  have "59 \<notin> set demo_header" using name demo_text_chars by (auto simp: demo_header_def)
  then have "split_char 59 demo_header = [demo_header]" by (rule split_char_none)
  moreover have "trim demo_header = demo_header"
    using name demo_text_chars by (intro trim_no_whitespace) (auto simp: demo_header_def is_whitespace_def)
  moreover have "split_once 61 demo_header = Some (native_cookie (demo_text 1), demo_text 2)"
    unfolding demo_header_def using name by (intro split_once_append) auto
  ultimately show ?thesis by (simp add: cookie_value_def map_filter_simps)
qed

definition demo_verifying :: attempt where
  "demo_verifying = demo_authorizing\<lparr> at_phase := A_Verifying \<rparr>"

lemma demo_claim:
  "callback_claim demo_lib demo_inner 120 (lit ''code'') (demo_text 3) (Some demo_header) (demo_db demo_authorizing [] []) =
   (Inr (demo_text 1, demo_authorizing, demo_secret), demo_db demo_verifying [] [])"
  by (simp add: callback_claim_def demo_cookie_value demo_authorizing_def demo_opens demo_verifying_def)
     (simp add: lit_def len_utf8_def)

definition demo_answer :: login_complete where
  "demo_answer = \<lparr> lc_principal = demo_principal, lc_set_cookie = session_cookie @ lit ''=s; Path=/'',
     lc_set_refresh_cookie = Some (refresh_cookie @ lit ''=r; Path=/''), lc_clear_transaction_cookie = [], lc_return_to = [],
     lc_enrollment_token = None \<rparr>"

definition demo_confirming :: attempt where
  "demo_confirming = demo_verifying\<lparr> at_phase := A_Confirm, at_user_id := demo_user, at_epoch := Some 0,
     at_confirm_hash := native_hash demo_lib (demo_text 5), at_secret := demo_sealed 1 \<rparr>"

lemma demo_callback:
  "\<exists>res. callback_finish demo_lib demo_inner demo_auth (demo_text 5) demo_nonce (demo_text 1) demo_authorizing demo_secret
     (Inr demo_answer) (demo_db demo_verifying [] []) = (res, demo_db demo_confirming [] [])"
proof -
  have "seal_as demo_lib demo_inner (table_json [demo_secret, demo_confirmed, demo_ready]) demo_nonce purpose
     (demo_secret\<lparr> as_provider_cookies := demo_cookies, as_provider_expires := 1000, as_display_name := lit ''Kari'',
       as_confirmation_nonce := demo_text 5, as_login_cookie := [], as_authorization_url := [] \<rparr>) = Inr (demo_sealed 1)" for purpose
    unfolding demo_confirmed_def [symmetric] by (rule demo_seals(2) [OF refl])
  then show ?thesis
    by (simp add: callback_finish_def demo_answer_def demo_auth_def demo_provider_cookies user_text_def demo_principal_def
        demo_authorizing_def demo_verifying_def demo_confirming_def)
qed

definition demo_attempt :: attempt where
  "demo_attempt = demo_confirming\<lparr> at_phase := A_Ready, at_code_hash := native_hash demo_lib (demo_text 6),
     at_handoff_expires := Some 190, at_secret := demo_sealed 2 \<rparr>"

lemma demo_confirm:
  "\<exists>res. native_confirm demo_lib demo_inner 130 (demo_text 6) demo_nonce (demo_text 1) (demo_text 5) (Some demo_header)
     (demo_db demo_confirming [] []) = (res, demo_db demo_attempt [] [])"
proof -
  have "seal_as demo_lib demo_inner (table_json [demo_secret, demo_confirmed, demo_ready]) demo_nonce purpose
     (demo_confirmed\<lparr> as_handoff_code := demo_text 6 \<rparr>) = Inr (demo_sealed 2)" for purpose
    unfolding demo_ready_def [symmetric] by (rule demo_seals(3) [OF refl])
  moreover have "as_provider_expires demo_confirmed = 1000" by (simp add: demo_confirmed_def)
  ultimately show ?thesis
    by (simp add: native_confirm_def demo_cookie_value demo_opens native_number_def demo_attempt_def demo_confirming_def
        demo_verifying_def demo_authorizing_def)
qed

section \<open>The handover\<close>

definition demo_operation :: rstr where "demo_operation = replicate 32 48"

lemma demo_operation_ok [simp]: "native_operation demo_operation"
  by (simp add: demo_operation_def native_operation_def is_ascii_digit_def utf8_len_def map_replicate sum_list_replicate len_utf8_def
      list_all_iff)

definition demo_exchange_request :: exchange_request where
  "demo_exchange_request = \<lparr> er_transaction_id = demo_text 1, er_code = demo_text 6, er_verifier = demo_text 4,
     er_redemption_id = demo_operation, er_environment = native_environment, er_destination_id = windows_loopback \<rparr>"

definition demo_redeemed :: attempt where
  "demo_redeemed = demo_attempt\<lparr> at_phase := A_Redeemed, at_redemption_id := demo_operation, at_receipt_expires := Some 200,
     at_family := demo_text 7, at_secret := [], at_receipt := demo_sealed 0 \<rparr>"

definition demo_family :: family where
  "demo_family = family_of demo_lib demo_grant (demo_sealed 0)"

lemma demo_grant_simps [simp]:
  "gr_user_id demo_grant = demo_user" "gr_family demo_grant = demo_text 7" "gr_epoch demo_grant = 0" "gr_generation demo_grant = 0"
  "gr_expires_at demo_grant = 440" "gr_display_name demo_grant = lit ''Kari''" "gr_scope demo_grant = native_scope"
  "gr_environment demo_grant = native_environment" "gr_instance_id demo_grant = ni_instance demo_inner"
  "gr_access_token demo_grant = access_token (demo_text 8)" "gr_refresh_token demo_grant = refresh_token (demo_text 9)"
  "gr_revoke_token demo_grant = revoke_token (demo_text 10)"
  by (simp_all add: demo_grant_def new_grant_def demo_texts_def demo_ready_def demo_confirmed_def)

lemma demo_attempt_simps [simp]:
  "at_phase demo_attempt = A_Ready" "at_challenge demo_attempt = native_hash demo_lib (demo_text 4)"
  "at_code_hash demo_attempt = native_hash demo_lib (demo_text 6)" "at_epoch demo_attempt = Some 0" "at_user_id demo_attempt = demo_user"
  "at_handoff_expires demo_attempt = Some 190" "at_secret demo_attempt = demo_sealed 2"
  by (simp_all add: demo_attempt_def demo_confirming_def demo_verifying_def demo_authorizing_def)

lemma demo_exchange:
  "native_exchange demo_lib demo_inner 140 demo_texts demo_nonce demo_nonce demo_exchange_request (demo_db demo_attempt [] []) =
   (Inr demo_result, demo_db demo_redeemed [(demo_text 7, demo_family)] [])"
proof -
  have "seal_as demo_lib demo_inner (table_json [demo_family_secret, \<lparr> fs_cookies = demo_cookies, fs_grant = demo_rotated \<rparr>]) demo_nonce
      purpose \<lparr> fs_cookies = demo_cookies, fs_grant = demo_grant \<rparr> = Inr (demo_sealed 0)" for purpose
    using demo_seal [OF demo_family_secrets, of 0] by (simp add: demo_family_secret_def)
  moreover have "seal_as demo_lib demo_inner (table_json [demo_result]) demo_nonce purpose
      \<lparr> er_user_id = demo_user, er_native_session = demo_grant, er_display_name = lit ''Kari'' \<rparr> = Inr (demo_sealed 0)" for purpose
    using demo_seal [of "[demo_result]" 0] by (simp add: demo_result_def)
  moreover have "as_provider_cookies demo_ready = demo_cookies" by (simp add: demo_ready_def demo_confirmed_def)
  ultimately show ?thesis
    by (simp add: native_exchange_def exchange_first_def demo_exchange_request_def native_number_def demo_opens
        family_conflict_def hm_insert_def demo_redeemed_def demo_family_def demo_result_def flip: demo_grant_def)
qed

definition demo_state :: "native_db \<Rightarrow> pending_refresh list \<Rightarrow> native_state" where
  "demo_state db ps = \<lparr> nv_db = db, nv_callbacks = [], nv_refreshes = ps \<rparr>"

lemma demo_state_simps [simp]:
  "nv_db (demo_state db ps) = db" "nv_refreshes (demo_state db ps) = ps" "(demo_state db ps)\<lparr> nv_db := db' \<rparr> = demo_state db' ps"
  "(demo_state db ps)\<lparr> nv_refreshes := qs \<rparr> = demo_state db qs"
  by (simp_all add: demo_state_def)

lemma demo_ready_reachable: "native_run demo_lib demo_inner (native_new []) (demo_state (demo_db demo_attempt [] []) [])"
proof -
  let ?run = "native_run demo_lib demo_inner (native_new [])"
  have "native_new [] = demo_state (nv_db (native_new [])) []" by (simp add: native_new_def demo_state_def)
  then have "native_step demo_lib demo_inner (native_new []) (demo_state (demo_db demo_new [] []) [])"
    using step_login [OF demo_login] by (metis demo_state_simps(3))
  then have 1: "?run (demo_state (demo_db demo_new [] []) [])" by blast
  obtain res where "native_browser demo_lib demo_inner 110 (demo_text 1) (nv_db (demo_state (demo_db demo_new [] []) [])) =
    (res, demo_db demo_authorizing [] [])" using demo_browser by auto
  from rtranclp.rtrancl_into_rtrancl [OF 1 step_browser [OF this]] have 2: "?run (demo_state (demo_db demo_authorizing [] []) [])" by simp
  have claim: "callback_claim demo_lib demo_inner 120 (lit ''code'') (demo_text 3) (Some demo_header)
      (nv_db (demo_state (demo_db demo_authorizing [] []) [])) = (Inr (demo_text 1, demo_authorizing, demo_secret), demo_db demo_verifying [] [])"
    using demo_claim by simp
  let ?s = "\<lparr> nv_db = demo_db demo_verifying [] [], nv_callbacks = [(demo_text 1, demo_authorizing, demo_secret)], nv_refreshes = [] \<rparr>"
  from rtranclp.rtrancl_into_rtrancl [OF 2 step_claim [OF claim]] have 3: "?run ?s" by (simp add: demo_state_def)
  obtain res where "callback_finish demo_lib demo_inner demo_auth (demo_text 5) demo_nonce (demo_text 1) demo_authorizing demo_secret
      (Inr demo_answer) (nv_db ?s) = (res, demo_db demo_confirming [] [])" using demo_callback by auto
  from rtranclp.rtrancl_into_rtrancl [OF 3 step_callback [OF _ this]] have 4: "?run (demo_state (demo_db demo_confirming [] []) [])"
    by (simp add: demo_state_def)
  obtain res where "native_confirm demo_lib demo_inner 130 (demo_text 6) demo_nonce (demo_text 1) (demo_text 5) (Some demo_header)
      (nv_db (demo_state (demo_db demo_confirming [] []) [])) = (res, demo_db demo_attempt [] [])" using demo_confirm by auto
  from rtranclp.rtrancl_into_rtrancl [OF 4 step_confirm [OF this]] show ?thesis by simp
qed

lemma demo_fresh: "fresh_token demo_lib r (demo_db a [] [])"
  by (simp add: fresh_token_def)

lemma demo_handed_over: "native_run demo_lib demo_inner (native_new []) (demo_state (demo_db demo_redeemed [(demo_text 7, demo_family)] []) [])"
proof -
  have "native_exchange demo_lib demo_inner 140 demo_texts demo_nonce demo_nonce demo_exchange_request
      (nv_db (demo_state (demo_db demo_attempt [] []) [])) = (Inr demo_result, demo_db demo_redeemed [(demo_text 7, demo_family)] [])"
    using demo_exchange by simp
  from rtranclp.rtrancl_into_rtrancl [OF demo_ready_reachable step_exchange [OF this]]
  show ?thesis by (simp add: demo_fresh demo_texts_def)
qed

lemma demo_family_simps [simp]:
  "fm_user_id demo_family = demo_user" "fm_epoch demo_family = 0" "fm_generation demo_family = 0" "fm_phase demo_family = F_Active"
  "fm_access_hash demo_family = native_hash demo_lib (access_token (demo_text 8))"
  "fm_refresh_hash demo_family = native_hash demo_lib (refresh_token (demo_text 9))"
  "fm_revoke_hash demo_family = native_hash demo_lib (revoke_token (demo_text 10))" "fm_expires_at demo_family = 440"
  "fm_secret demo_family = demo_sealed 0" "fm_lease_id demo_family = []"
  by (simp_all add: demo_family_def family_of_def)

lemma demo_replay:
  "native_exchange demo_lib demo_inner 150 demo_texts demo_nonce demo_nonce demo_exchange_request
     (demo_db demo_redeemed [(demo_text 7, demo_family)] []) = (Inr demo_result, demo_db demo_redeemed [(demo_text 7, demo_family)] [])"
proof -
  have "fence 150 (demo_text 7) demo_family (demo_db demo_redeemed [(demo_text 7, demo_family)] []) =
    (Inr (), demo_db demo_redeemed [(demo_text 7, demo_family)] [])" by (simp add: fence_def)
  moreover have "open_as demo_lib demo_inner (table_json [demo_result]) purpose (demo_sealed 0) = Inr demo_result" for purpose
    using demo_open [of 0 "[demo_result]"] by simp
  ultimately show ?thesis
    by (simp add: native_exchange_def exchange_replay_def demo_exchange_request_def native_number_def demo_redeemed_def find_family_def
        after_fence_def)
qed

theorem handover_once_witness:
  "native_exchange demo_lib demo_inner 140 demo_texts demo_nonce demo_nonce demo_exchange_request (demo_db demo_attempt [] []) =
     (Inr demo_result, demo_db demo_redeemed [(demo_text 7, demo_family)] []) \<and>
   (\<exists>x db. native_exchange demo_lib demo_inner 150 demo_texts demo_nonce demo_nonce demo_exchange_request
      (demo_db demo_redeemed [(demo_text 7, demo_family)] []) = (Inr x, db) \<and> x = demo_result)"
proof -
  let ?s = "demo_state (demo_db demo_attempt [] []) []" and ?db = "demo_db demo_redeemed [(demo_text 7, demo_family)] []"
  have first: "native_exchange demo_lib demo_inner 140 demo_texts demo_nonce demo_nonce demo_exchange_request (nv_db ?s) = (Inr demo_result, ?db)"
    using demo_exchange by simp
  have nonce: "length demo_nonce = 12" by (simp add: demo_nonce_def)
  obtain x db where again: "native_exchange demo_lib demo_inner 150 demo_texts demo_nonce demo_nonce demo_exchange_request (nv_db (?s\<lparr> nv_db := ?db \<rparr>)) =
    (Inr x, db)" using demo_replay by simp
  from handover_once [OF demo_facts nonce first rtranclp.rtrancl_refl again refl] again demo_exchange show ?thesis by auto
qed

section \<open>The end of a session\<close>

definition demo_over :: native_db where
  "demo_over = demo_db demo_redeemed [(demo_text 7, revoke_family demo_family)] []"

lemma strip_own_prefix [simp]: "strip_prefix p (p @ s) = Some s"
  by (simp add: strip_prefix_def)

lemma demo_revoke:
  "native_revoke demo_lib (revoke_token (demo_text 10)) (demo_db demo_redeemed [(demo_text 7, demo_family)] []) = (Inr (), demo_over)"
  by (simp add: native_revoke_def revoke_token_def demo_over_def demo_db_def)


section \<open>A refresh\<close>

definition demo_refresh_request :: refresh_request where
  "demo_refresh_request = \<lparr> rq_operation_id = demo_operation, rq_generation = 0 \<rparr>"

definition demo_pending :: pending_refresh where
  "demo_pending = \<lparr> pr_family = demo_text 7, pr_user = demo_user, pr_secret = demo_family_secret, pr_lease = demo_text 11,
     pr_old_hash = native_hash demo_lib (refresh_token (demo_text 9)), pr_request = demo_refresh_request \<rparr>"

definition demo_leased :: family where
  "demo_leased = demo_family\<lparr> fm_phase := F_Refreshing, fm_lease_id := demo_text 11, fm_lease_expires := 230 \<rparr>"

lemma demo_family_secret_ok: "family_secret_of demo_lib demo_inner (demo_text 7) demo_family = Inr demo_family_secret"
proof -
  have "open_as demo_lib demo_inner (table_json [demo_family_secret, \<lparr> fs_cookies = demo_cookies, fs_grant = demo_rotated \<rparr>]) purpose
      (demo_sealed 0) = Inr demo_family_secret" for purpose
    using demo_open [of 0 "[demo_family_secret, \<lparr> fs_cookies = demo_cookies, fs_grant = demo_rotated \<rparr>]"] by simp
  then show ?thesis by (simp add: family_secret_of_def) (simp add: demo_family_secret_def)
qed

lemma demo_begin:
  "refresh_begin demo_lib demo_inner 200 (demo_text 11) (refresh_token (demo_text 9)) demo_refresh_request
     (demo_db demo_redeemed [(demo_text 7, demo_family)] []) =
   (Inr (Inr demo_pending), demo_db demo_redeemed [(demo_text 7, demo_leased)] [])"
proof -
  have "strip_prefix (lit ''sproyt-refresh.'') (refresh_token (demo_text 9)) = Some (demo_text 9)" by (simp add: refresh_token_def)
  moreover have "fence 200 (demo_text 7) demo_family (demo_db demo_redeemed [(demo_text 7, demo_family)] []) =
    (Inr (), demo_db demo_redeemed [(demo_text 7, demo_family)] [])" by (simp add: fence_def)
  ultimately show ?thesis
    by (simp add: refresh_begin_def take_lease_def demo_refresh_request_def after_fence_def demo_family_secret_ok demo_pending_def
        demo_leased_def hm_insert_def)
qed

definition demo_next :: family where
  "demo_next = demo_leased\<lparr> fm_phase := F_Active, fm_generation := 1, fm_access_hash := native_hash demo_lib (access_token (demo_text 12)),
     fm_refresh_hash := native_hash demo_lib (refresh_token (demo_text 13)), fm_expires_at := 510, fm_secret := demo_sealed 1,
     fm_lease_id := [], fm_lease_expires := 0 \<rparr>"

definition demo_receipt :: refresh_receipt where
  "demo_receipt = \<lparr> rr_family = demo_text 7, rr_expires_at = 270, rr_result = demo_sealed 0 \<rparr>"

definition demo_refreshed :: native_db where
  "demo_refreshed = demo_db demo_redeemed [(demo_text 7, demo_next)]
     [((native_hash demo_lib (refresh_token (demo_text 9)), demo_operation, 0), demo_receipt)]"

lemma demo_rotated_simps [simp]:
  "gr_generation demo_rotated = 1" "gr_access_token demo_rotated = access_token (demo_text 12)"
  "gr_refresh_token demo_rotated = refresh_token (demo_text 13)" "gr_expires_at demo_rotated = 510"
  by (simp_all add: demo_rotated_def rotated_grant_def)

lemma demo_finish:
  "refresh_finish demo_lib demo_inner demo_auth 210 (demo_text 12) (demo_text 13) demo_nonce demo_nonce demo_pending
     (demo_db demo_redeemed [(demo_text 7, demo_leased)] []) = (Inr demo_rotated, demo_refreshed)"
proof -
  have "seal_as demo_lib demo_inner (table_json [demo_family_secret, \<lparr> fs_cookies = demo_cookies, fs_grant = demo_rotated \<rparr>]) demo_nonce
      purpose \<lparr> fs_cookies = demo_cookies, fs_grant = demo_rotated \<rparr> = Inr (demo_sealed 1)" for purpose
    using demo_seal [OF demo_family_secrets, of 1] by simp
  moreover have "seal_as demo_lib demo_inner (table_json [demo_rotated]) demo_nonce purpose demo_rotated = Inr (demo_sealed 0)" for purpose
    using demo_seal [of "[demo_rotated]" 0] by simp
  moreover have "fence 210 (demo_text 7) demo_leased (demo_db demo_redeemed [(demo_text 7, demo_leased)] []) =
    (Inr (), demo_db demo_redeemed [(demo_text 7, demo_leased)] [])" by (simp add: fence_def demo_leased_def)
  moreover have "rotated_grant 210 (demo_text 12) (demo_text 13) 1000 demo_principal (fs_grant demo_family_secret) = demo_rotated"
    by (simp add: demo_rotated_def demo_family_secret_def)
  ultimately show ?thesis
    by (simp add: refresh_finish_def demo_auth_def demo_pending_def demo_provider_cookies user_text_def refresh_commit_def find_family_def
        after_fence_def family_conflict_def demo_refreshed_def demo_next_def demo_receipt_def demo_refresh_request_def hm_insert_def)
       (simp add: demo_leased_def demo_db_def)
qed

lemma base64_append: "length bs mod 3 = 0 \<Longrightarrow> base64 (bs @ cs) = base64 bs @ base64 cs"
proof (induction bs rule: base64.induct)
  case (4 a b c r)
  then have "length r mod 3 = 0" by (simp add: mod_Suc split: if_splits)
  with 4 show ?case by (simp add: Let_def)
qed simp_all

lemma last_demo_text: "last (demo_text n) = b64_digit ((unat n * 256 + unat n) mod 16 * 4)"
proof -
  have "replicate 32 n = replicate 30 n @ [n, n]" by (simp add: replicate_append_same numeral_eq_Suc)
  then have "demo_text n = base64 (replicate 30 n) @ base64 [n, n]"
    unfolding demo_text_def using base64_append [of "replicate 30 n" "[n, n]"] by simp
  then show ?thesis by (simp add: Let_def)
qed

lemma demo_tokens_differ: "native_hash demo_lib (refresh_token (demo_text 13)) \<noteq> native_hash demo_lib (refresh_token (demo_text 9))"
proof
  have start: "hd (take 32 (rev (map of_nat s) @ replicate 32 0)) = of_nat (last s)" if "s \<noteq> []" for s
    using that by (cases s rule: rev_cases) simp_all
  have token: "last (refresh_token (demo_text n)) = last (demo_text n)" "refresh_token (demo_text n) \<noteq> []" for n
    by (simp_all add: refresh_token_def)
  assume "native_hash demo_lib (refresh_token (demo_text 13)) = native_hash demo_lib (refresh_token (demo_text 9))"
  then have "hd (unbase64 (native_hash demo_lib (refresh_token (demo_text 13)))) = hd (unbase64 (native_hash demo_lib (refresh_token (demo_text 9))))"
    by simp
  then show False unfolding demo_hash unbase64_base64 start [OF token(2)] token(1) last_demo_text by (simp add: b64_digit_def)
qed

lemma demo_reply:
  "refresh_begin demo_lib demo_inner 220 (demo_text 11) (refresh_token (demo_text 9)) demo_refresh_request demo_refreshed =
     (Inr (Inl demo_rotated), demo_refreshed)"
proof -
  have "strip_prefix (lit ''sproyt-refresh.'') (refresh_token (demo_text 9)) = Some (demo_text 9)" by (simp add: refresh_token_def)
  moreover have "fence 220 (demo_text 7) demo_next demo_refreshed = (Inr (), demo_refreshed)"
    by (simp add: fence_def demo_next_def demo_leased_def demo_refreshed_def)
  moreover have "open_as demo_lib demo_inner (table_json [demo_rotated]) purpose (demo_sealed 0) = Inr demo_rotated" for purpose
    using demo_open [of 0 "[demo_rotated]"] by simp
  moreover have "map_of (nd_receipts demo_refreshed) (native_hash demo_lib (refresh_token (demo_text 9)), demo_operation, 0) = Some demo_receipt"
    "find_family (demo_text 7) demo_refreshed = Inr demo_next"
    by (simp_all add: demo_refreshed_def find_family_def)
  ultimately show ?thesis
    by (simp add: refresh_begin_def refresh_replay_def demo_refresh_request_def after_fence_def demo_receipt_def)
qed

theorem refresh_token_used_once_witness:
  "\<exists>s g answer. native_run demo_lib demo_inner (native_new []) s \<and> demo_pending \<in> set (nv_refreshes s) \<and>
     refresh_finish demo_lib demo_inner demo_auth 210 (demo_text 12) (demo_text 13) demo_nonce demo_nonce demo_pending (nv_db s) =
       (Inr g, demo_refreshed) \<and>
     fst (refresh_begin demo_lib demo_inner 220 (demo_text 11) (refresh_token (demo_text 9)) demo_refresh_request demo_refreshed) =
       Inr answer \<and> answer = Inl g \<and> gr_generation g = 1"
proof -
  let ?F = "demo_state (demo_db demo_redeemed [(demo_text 7, demo_family)] []) []"
  let ?s = "demo_state (demo_db demo_redeemed [(demo_text 7, demo_leased)] []) [demo_pending]"
  have begun: "refresh_begin demo_lib demo_inner 200 (demo_text 11) (refresh_token (demo_text 9)) demo_refresh_request (nv_db ?F) =
     (Inr (Inr demo_pending), demo_db demo_redeemed [(demo_text 7, demo_leased)] [])" using demo_begin by simp
  have "fresh_lease (demo_text 11) ?F" by (simp add: fresh_lease_def demo_text_nonempty [symmetric])
  from rtranclp.rtrancl_into_rtrancl [OF demo_handed_over step_refresh [OF begun this]]
  have reach: "native_run demo_lib demo_inner (native_new []) ?s" by simp
  have fin: "refresh_finish demo_lib demo_inner demo_auth 210 (demo_text 12) (demo_text 13) demo_nonce demo_nonce demo_pending (nv_db ?s) =
      (Inr demo_rotated, demo_refreshed)" using demo_finish by simp
  have p: "demo_pending \<in> set (nv_refreshes ?s)" by simp
  have fresh: "fresh_token demo_lib (demo_text 13) (nv_db ?s)"
    using demo_tokens_differ by (simp add: fresh_token_def demo_leased_def)
  have nonce: "length demo_nonce = 12" by (simp add: demo_nonce_def)
  have hash: "native_hash demo_lib (refresh_token (demo_text 9)) = pr_old_hash demo_pending" by (simp add: demo_pending_def)
  have again: "fst (refresh_begin demo_lib demo_inner 220 (demo_text 11) (refresh_token (demo_text 9)) demo_refresh_request
      (nv_db (?s\<lparr> nv_db := demo_refreshed, nv_refreshes := remove1 demo_pending (nv_refreshes ?s) \<rparr>))) = Inr (Inl demo_rotated)"
    using demo_reply by simp
  have "Inl demo_rotated = Inl demo_rotated \<and> gr_generation demo_rotated = rq_generation demo_refresh_request + 1"
    using refresh_token_used_once [OF demo_facts nonce reach p fin fresh rtranclp.rtrancl_refl hash again] by blast
  then show ?thesis using reach p fin demo_reply
    by (intro exI [of _ ?s] exI [of _ demo_rotated] exI [of _ "Inl demo_rotated"]) simp
qed

end
