(* ===== verification/Process_Gateway.thy ===== *)
theory Process_Gateway
  imports Repository_State Auth_Codec
begin

text \<open>
  The gateway to the process engine Heart (\<open>src/process.rs\<close>): the data that is exchanged, the
  errors and which of them are worth a retry, and the loop that sends a request until there is a
  conclusive answer. Heart and the network are a parameter with a state of its own, the world; a
  request maps the world to an outcome and the next world. The lengths of the pauses and the
  observations for the metrics are recorded. An unreachable end of the loop is the value
  \<open>None\<close>.
\<close>

section \<open>Data\<close>

datatype process_link_id = ProcessLinkId (link_uuid: uuid)
datatype outbox_id = OutboxId (outbox_uuid: uuid)

text \<open>A JSON value is kept as its text.\<close>

type_synonym json = rstr

record start_process =
  sp_namespace :: rstr
  sp_definition_name :: rstr
  sp_version :: "rstr option"
  sp_metadata :: json

record started_process =
  st_instance_id :: uuid

record process_instance =
  pi_id :: uuid
  pi_definition_id :: uuid
  pi_namespace :: rstr
  pi_status :: rstr
  pi_current_node :: "rstr option"
  pi_metadata :: json

record correlate_message =
  cm_namespace :: rstr
  cm_correlation_key :: rstr
  cm_correlation_value :: rstr
  cm_payload :: json

record correlated_message =
  cd_matched_instances :: nat
  cd_instance_ids :: "uuid list"

section \<open>Errors\<close>

datatype process_error_kind = PE_InvalidRequest | PE_Unauthorized | PE_NotFound | PE_Conflict
  | PE_RateLimited | PE_Unavailable | PE_Timeout | PE_InvalidResponse

fun process_error_kind_as_str :: "process_error_kind \<Rightarrow> string" where
  "process_error_kind_as_str PE_InvalidRequest = ''invalid_request''"
| "process_error_kind_as_str PE_Unauthorized = ''unauthorized''"
| "process_error_kind_as_str PE_NotFound = ''not_found''"
| "process_error_kind_as_str PE_Conflict = ''conflict''"
| "process_error_kind_as_str PE_RateLimited = ''rate_limited''"
| "process_error_kind_as_str PE_Unavailable = ''unavailable''"
| "process_error_kind_as_str PE_Timeout = ''timeout''"
| "process_error_kind_as_str PE_InvalidResponse = ''invalid_response''"

record process_error =
  pe_kind :: process_error_kind
  pe_message :: rstr
  pe_retryable :: bool

definition new_process_error :: "process_error_kind \<Rightarrow> string \<Rightarrow> bool \<Rightarrow> process_error" where
  "new_process_error kind message retryable = \<lparr> pe_kind = kind, pe_message = lit message, pe_retryable = retryable \<rparr>"

definition is_success :: "nat \<Rightarrow> bool" where "is_success status \<longleftrightarrow> 200 \<le> status \<and> status < 300"
definition is_client_error :: "nat \<Rightarrow> bool" where "is_client_error status \<longleftrightarrow> 400 \<le> status \<and> status < 500"
definition is_server_error :: "nat \<Rightarrow> bool" where "is_server_error status \<longleftrightarrow> 500 \<le> status \<and> status < 600"

definition error_status :: "nat \<Rightarrow> process_error" where
  "error_status status =
     (if status = 400 \<or> status = 422 then new_process_error PE_InvalidRequest ''Heart rejected request'' False
      else if status = 401 \<or> status = 403 then new_process_error PE_Unauthorized ''Heart authorization failed'' False
      else if status = 404 then new_process_error PE_NotFound ''Heart resource not found'' False
      else if status = 409 then new_process_error PE_Conflict ''Heart conflict'' False
      else if status = 429 then new_process_error PE_RateLimited ''Heart rate limited'' True
      else if is_server_error status then new_process_error PE_Unavailable ''Heart unavailable'' True
      else new_process_error PE_InvalidResponse ''Heart returned an invalid response'' False)"

definition error_unavailable :: "string \<Rightarrow> process_error" where
  "error_unavailable message = new_process_error PE_Unavailable message True"

definition error_timeout :: process_error where
  "error_timeout = new_process_error PE_Timeout ''request timed out; external outcome is uncertain'' True"

text \<open>Milliseconds; the multiplication saturates at the width of \<open>u64\<close>.\<close>

definition backoff :: "nat \<Rightarrow> nat" where
  "backoff attempt = min (2 ^ 64 - 1) (100 * 2 ^ min attempt 4)"

section \<open>Heart and the network\<close>

datatype heart_method = HM_Get | HM_Post | HM_Other

datatype heart_result = HR_Success | HR_Timeout | HR_Transport | HR_Http4xx | HR_Http5xx | HR_HttpOther
  | HR_InvalidResponse | HR_Cancelled

text \<open>
  The four requests, each with the URL of the service: start an instance under an idempotency
  key, look up what a start under a key has led to, inspect an instance, and correlate a message.
  The last argument of each is the correlation header.
\<close>

datatype heart_request =
  PostInstance rstr start_process uuid
| GetInstanceStart rstr rstr uuid
| GetInstance rstr uuid uuid
| PostMessage rstr correlate_message uuid

text \<open>An answer has a status and a body, which may fail to arrive.\<close>

datatype send_outcome = Elapsed | Transport_failed | Answered nat "byte list option"

record url_parts =
  url_scheme :: rstr
  url_username :: rstr
  url_password :: "rstr option"
  url_query :: "rstr option"
  url_fragment :: "rstr option"
  url_has_segments :: bool

record 'w heart =
  ht_send :: "heart_request \<Rightarrow> 'w \<Rightarrow> send_outcome \<times> 'w"
  ht_parse_url :: "rstr \<Rightarrow> url_parts option"
  ht_started :: "byte list \<Rightarrow> started_process option"
  ht_instance :: "byte list \<Rightarrow> process_instance option"
  ht_correlated :: "byte list \<Rightarrow> correlated_message option"

record heart_gateway =
  hg_base_url :: rstr
  hg_timeout :: nat
  hg_retries :: nat

record 'w heart_run =
  hr_world :: 'w
  hr_slept :: "nat list"
  hr_observed :: "(heart_method \<times> heart_result) list"

type_synonym ('w, 'a) gateway_result = "(process_error, 'a) result option \<times> 'w heart_run"

definition trim_end_matches :: "rchar \<Rightarrow> rstr \<Rightarrow> rstr" where
  "trim_end_matches c s = rev (dropWhile (\<lambda>x. x = c) (rev s))"

definition heart_gateway_new :: "'w heart \<Rightarrow> rstr \<Rightarrow> nat \<Rightarrow> nat \<Rightarrow> (process_error, heart_gateway) result" where
  "heart_gateway_new H url timeout retries =
     (let base_url = trim_end_matches 47 url
      in case ht_parse_url H base_url of
           None \<Rightarrow> Inl (new_process_error PE_InvalidRequest ''Heart base URL must be an absolute http or https URL'' False)
         | Some parsed \<Rightarrow>
             if url_scheme parsed \<notin> {lit ''http'', lit ''https''} \<or> url_username parsed \<noteq> [] \<or>
                url_password parsed \<noteq> None \<or> url_query parsed \<noteq> None \<or> url_fragment parsed \<noteq> None
             then Inl (new_process_error PE_InvalidRequest ''Heart base URL must not contain credentials, query, or fragment'' False)
             else Inr \<lparr> hg_base_url = base_url, hg_timeout = timeout, hg_retries = retries \<rparr>)"

definition observe :: "heart_method \<Rightarrow> heart_result \<Rightarrow> 'w heart_run \<Rightarrow> 'w heart_run" where
  "observe method result r = r\<lparr> hr_observed := hr_observed r @ [(method, result)] \<rparr>"

definition pause :: "nat \<Rightarrow> 'w heart_run \<Rightarrow> 'w heart_run" where
  "pause attempt r = r\<lparr> hr_slept := hr_slept r @ [backoff attempt] \<rparr>"

section \<open>Sending a request\<close>

primrec execute_from :: "'w heart \<Rightarrow> heart_gateway \<Rightarrow> heart_method \<Rightarrow> heart_request \<Rightarrow> (byte list \<Rightarrow> 'a option) \<Rightarrow> nat list \<Rightarrow>
    'w heart_run \<Rightarrow> ('w, 'a) gateway_result" where
  "execute_from H G method request decode [] r = (None, r)"
| "execute_from H G method request decode (attempt # rest) r =
     (let (outcome, w) = ht_send H request (hr_world r); r = r\<lparr> hr_world := w \<rparr>
      in case outcome of
           Elapsed \<Rightarrow>
             let r = observe method HR_Timeout r
             in if attempt < hg_retries G then execute_from H G method request decode rest (pause attempt r)
                else (Some (Inl error_timeout), r)
         | Transport_failed \<Rightarrow>
             let r = observe method HR_Transport r
             in if attempt < hg_retries G then execute_from H G method request decode rest (pause attempt r)
                else (Some (Inl (error_unavailable ''Heart transport failure'')), r)
         | Answered status body \<Rightarrow>
             if \<not> is_success status
             then let r = observe method (if is_client_error status then HR_Http4xx
                                          else if is_server_error status then HR_Http5xx else HR_HttpOther) r;
                      error = error_status status
                  in if pe_retryable error \<and> attempt < hg_retries G
                     then execute_from H G method request decode rest (pause attempt r)
                     else (Some (Inl error), r)
             else (case Option.bind body decode of
                     None \<Rightarrow> (Some (Inl (new_process_error PE_InvalidResponse ''Heart returned invalid JSON'' False)),
                              observe method HR_InvalidResponse r)
                   | Some value \<Rightarrow> (Some (Inr value), observe method HR_Success r)))"

definition execute :: "'w heart \<Rightarrow> heart_gateway \<Rightarrow> heart_method \<Rightarrow> heart_request \<Rightarrow> (byte list \<Rightarrow> 'a option) \<Rightarrow>
    'w heart_run \<Rightarrow> ('w, 'a) gateway_result" where
  "execute H G method request decode r = execute_from H G method request decode [0..<Suc (hg_retries G)] r"

definition resolve_start :: "'w heart \<Rightarrow> heart_gateway \<Rightarrow> rstr \<Rightarrow> uuid \<Rightarrow> 'w heart_run \<Rightarrow> ('w, started_process) gateway_result" where
  "resolve_start H G namespace key r =
     (case ht_parse_url H (hg_base_url G @ lit ''/api/v1/instance-starts/'') of
        None \<Rightarrow> (Some (Inl (new_process_error PE_InvalidRequest ''Heart reconciliation URL is invalid'' False)), r)
      | Some url \<Rightarrow>
          if \<not> url_has_segments url
          then (Some (Inl (new_process_error PE_InvalidRequest ''Heart reconciliation URL cannot be extended'' False)), r)
          else execute H G HM_Get (GetInstanceStart (hg_base_url G) namespace key) (ht_started H) r)"

definition gateway_start :: "'w heart \<Rightarrow> heart_gateway \<Rightarrow> start_process \<Rightarrow> uuid \<Rightarrow> 'w heart_run \<Rightarrow> ('w, started_process) gateway_result" where
  "gateway_start H G cmd key r =
     (case execute H G HM_Post (PostInstance (hg_base_url G) cmd key) (ht_started H) r of
        (Some (Inl start_error), r') \<Rightarrow>
          if pe_retryable start_error
          then (case resolve_start H G (sp_namespace cmd) key r' of
                  (Some (Inl _), r'') \<Rightarrow> (Some (Inl start_error), r'')
                | res \<Rightarrow> res)
          else (Some (Inl start_error), r')
      | res \<Rightarrow> res)"

definition gateway_inspect :: "'w heart \<Rightarrow> heart_gateway \<Rightarrow> uuid \<Rightarrow> uuid \<Rightarrow> 'w heart_run \<Rightarrow> ('w, process_instance) gateway_result" where
  "gateway_inspect H G instance_id key r =
     execute H G HM_Get (GetInstance (hg_base_url G) instance_id key) (ht_instance H) r"

definition gateway_correlate :: "'w heart \<Rightarrow> heart_gateway \<Rightarrow> correlate_message \<Rightarrow> uuid \<Rightarrow> 'w heart_run \<Rightarrow>
    ('w, correlated_message) gateway_result" where
  "gateway_correlate H G cmd key r =
     execute H G HM_Post (PostMessage (hg_base_url G) cmd key) (ht_correlated H) r"

section \<open>What a request leads to\<close>

text \<open>
  The reference: what a single attempt says, whether that settles the matter, and the number of
  attempts that settle nothing before the one that counts, which is the first that settles the
  matter or the last that is allowed.
\<close>

definition verdict :: "(byte list \<Rightarrow> 'a option) \<Rightarrow> send_outcome \<Rightarrow> (process_error, 'a) result" where
  "verdict decode outcome =
     (case outcome of
        Elapsed \<Rightarrow> Inl error_timeout
      | Transport_failed \<Rightarrow> Inl (error_unavailable ''Heart transport failure'')
      | Answered status body \<Rightarrow>
          if \<not> is_success status then Inl (error_status status)
          else (case Option.bind body decode of
                  None \<Rightarrow> Inl (new_process_error PE_InvalidResponse ''Heart returned invalid JSON'' False)
                | Some value \<Rightarrow> Inr value))"

definition conclusive :: "(process_error, 'a) result \<Rightarrow> bool" where
  "conclusive v = (case v of Inr _ \<Rightarrow> True | Inl e \<Rightarrow> \<not> pe_retryable e)"

primrec world_after :: "'w heart \<Rightarrow> heart_request \<Rightarrow> nat \<Rightarrow> 'w \<Rightarrow> 'w" where
  "world_after H request 0 w = w"
| "world_after H request (Suc n) w = world_after H request n (snd (ht_send H request w))"

definition attempt_verdict :: "'w heart \<Rightarrow> heart_request \<Rightarrow> (byte list \<Rightarrow> 'a option) \<Rightarrow> 'w \<Rightarrow> nat \<Rightarrow> (process_error, 'a) result" where
  "attempt_verdict H request decode w n = verdict decode (fst (ht_send H request (world_after H request n w)))"

definition fruitless :: "'w heart \<Rightarrow> heart_request \<Rightarrow> (byte list \<Rightarrow> 'a option) \<Rightarrow> nat \<Rightarrow> 'w \<Rightarrow> nat" where
  "fruitless H request decode retries w =
     length (takeWhile (\<lambda>n. \<not> conclusive (attempt_verdict H request decode w n)) [0..<retries])"

lemma retryable_errors [simp]:
  "pe_retryable error_timeout" "pe_retryable (error_unavailable m)"
  "pe_retryable (new_process_error k m b) = b"
  by (simp_all add: error_timeout_def error_unavailable_def new_process_error_def)

lemma observe_pause_sel [simp]:
  "hr_world (observe m o' r) = hr_world r" "hr_slept (observe m o' r) = hr_slept r"
  "hr_world (pause a r) = hr_world r" "hr_slept (pause a r) = hr_slept r @ [backoff a]"
  "hr_observed (pause a r) = hr_observed r" "hr_observed (observe m o' r) = hr_observed r @ [(m, o')]"
  by (simp_all add: observe_def pause_def)

lemma backoff_bounds: "100 \<le> backoff n" "backoff n \<le> 1600"
proof -
  have "(2::nat) ^ min n 4 \<le> 2 ^ 4" by (rule power_increasing) auto
  then show "100 \<le> backoff n" "backoff n \<le> 1600" by (simp_all add: backoff_def)
qed

text \<open>One turn of the loop.\<close>

lemma execute_from_Cons:
  obtains o' where
    "execute_from H G m req dec (a # as) r =
      (let v = verdict dec (fst (ht_send H req (hr_world r)));
           r' = observe m o' (r\<lparr> hr_world := snd (ht_send H req (hr_world r)) \<rparr>)
       in if \<not> conclusive v \<and> a < hg_retries G then execute_from H G m req dec as (pause a r') else (Some v, r'))"
proof -
  obtain oc w where send: "ht_send H req (hr_world r) = (oc, w)" by (cases "ht_send H req (hr_world r)")
  note turn = send verdict_def conclusive_def Let_def
  show ?thesis
  proof (cases oc)
    case Elapsed
    show ?thesis by (rule that [of HR_Timeout]) (simp add: turn Elapsed)
  next
    case Transport_failed
    show ?thesis by (rule that [of HR_Transport]) (simp add: turn Transport_failed)
  next
    case (Answered status body)
    show ?thesis
      by (rule that [of "if is_success status then (if Option.bind body dec = None then HR_InvalidResponse else HR_Success)
            else if is_client_error status then HR_Http4xx else if is_server_error status then HR_Http5xx else HR_HttpOther"])
        (simp add: turn Answered split: option.split)
  qed
qed

declare execute_from.simps(2) [simp del]

text \<open>The loop does what the reference says, from any attempt on.\<close>

lemma attempt_verdict_Suc:
  "attempt_verdict H req dec w (Suc n) = attempt_verdict H req dec (snd (ht_send H req w)) n"
  by (simp add: attempt_verdict_def)

lemma fruitless_Suc:
  "fruitless H req dec (Suc n) w =
     (if conclusive (verdict dec (fst (ht_send H req w))) then 0 else Suc (fruitless H req dec n (snd (ht_send H req w))))"
proof -
  have "[0..<Suc n] = 0 # map Suc [0..<n]" unfolding map_Suc_upt by (rule upt_conv_Cons) simp
  then show ?thesis
    by (simp add: fruitless_def takeWhile_map attempt_verdict_Suc comp_def) (simp add: attempt_verdict_def)
qed

lemma execute_from_reference:
  assumes "a + n = hg_retries G"
  shows "\<exists>r' k. k = fruitless H req dec n (hr_world r) \<and> k \<le> n \<and>
    execute_from H G m req dec [a..<Suc (hg_retries G)] r = (Some (attempt_verdict H req dec (hr_world r) k), r') \<and>
    hr_world r' = world_after H req (Suc k) (hr_world r) \<and> hr_slept r' = hr_slept r @ map backoff [a..<a + k] \<and>
    length (hr_observed r') = length (hr_observed r) + Suc k"
  using assms
proof (induction n arbitrary: a r)
  case 0
  then have "[a..<Suc (hg_retries G)] = [a]" by simp
  moreover obtain o' where "execute_from H G m req dec [a] r = (Some (verdict dec (fst (ht_send H req (hr_world r)))),
      observe m o' (r\<lparr> hr_world := snd (ht_send H req (hr_world r)) \<rparr>))"
    by (rule execute_from_Cons [of H G m req dec a "[]" r]) (use 0 in \<open>simp add: Let_def\<close>)
  ultimately show ?case by (simp add: fruitless_def attempt_verdict_def)
next
  case (Suc n)
  let ?w = "snd (ht_send H req (hr_world r))"
  have upt: "[a..<Suc (hg_retries G)] = a # [Suc a..<Suc (hg_retries G)]" using Suc.prems by (intro upt_conv_Cons) simp
  obtain o' where turn: "execute_from H G m req dec [a..<Suc (hg_retries G)] r =
      (let v = verdict dec (fst (ht_send H req (hr_world r))); r' = observe m o' (r\<lparr> hr_world := ?w \<rparr>)
       in if \<not> conclusive v \<and> a < hg_retries G then execute_from H G m req dec [Suc a..<Suc (hg_retries G)] (pause a r') else (Some v, r'))"
    unfolding upt by (rule execute_from_Cons)
  show ?case
  proof (cases "conclusive (verdict dec (fst (ht_send H req (hr_world r))))")
    case True
    then show ?thesis unfolding turn by (simp add: Let_def fruitless_Suc attempt_verdict_def)
  next
    case False
    from Suc.IH [of "Suc a" "pause a (observe m o' (r\<lparr> hr_world := ?w \<rparr>))"] Suc.prems
    obtain r' where "fruitless H req dec n ?w \<le> n"
      "execute_from H G m req dec [Suc a..<Suc (hg_retries G)] (pause a (observe m o' (r\<lparr> hr_world := ?w \<rparr>))) =
        (Some (attempt_verdict H req dec ?w (fruitless H req dec n ?w)), r')"
      "hr_world r' = world_after H req (Suc (fruitless H req dec n ?w)) ?w"
      "hr_slept r' = hr_slept r @ [backoff a] @ map backoff [Suc a..<Suc a + fruitless H req dec n ?w]"
      "length (hr_observed r') = length (hr_observed r) + Suc (Suc (fruitless H req dec n ?w))"
      by auto
    moreover have "map backoff [a..<a + Suc k] = backoff a # map backoff [Suc a..<Suc a + k]" for k
      using upt_conv_Cons [of a "a + Suc k"] by simp
    ultimately show ?thesis
      unfolding turn using False Suc.prems by (simp add: Let_def fruitless_Suc attempt_verdict_Suc)
  qed
qed

lemma takeWhile_upt_length:
  assumes "k = length (takeWhile P [0..<n])"
  shows "k \<le> n" "j < k \<Longrightarrow> P j" "k < n \<Longrightarrow> \<not> P k"
proof -
  have le: "k \<le> length [0..<n]" unfolding assms by (rule length_takeWhile_le)
  then show "k \<le> n" by simp
  show "P j" if "j < k"
    using nth_mem [of j "takeWhile P [0..<n]"] takeWhile_nth [of j P "[0..<n]"] that le set_takeWhileD
    unfolding assms by (metis add_0 length_upt less_le_trans nth_upt diff_zero)
  show "\<not> P k" if "k < n" using nth_length_takeWhile [of P "[0..<n]"] that unfolding assms by simp
qed

lemmas fruitless_cases = takeWhile_upt_length [OF fruitless_def]

lemma execute_reference:
  obtains r' where
    "execute H G m req dec r =
      (Some (attempt_verdict H req dec (hr_world r) (fruitless H req dec (hg_retries G) (hr_world r))), r')"
    "hr_world r' = world_after H req (Suc (fruitless H req dec (hg_retries G) (hr_world r))) (hr_world r)"
    "hr_slept r' = hr_slept r @ map backoff [0..<fruitless H req dec (hg_retries G) (hr_world r)]"
    "length (hr_observed r') = length (hr_observed r) + Suc (fruitless H req dec (hg_retries G) (hr_world r))"
  using execute_from_reference [of 0 "hg_retries G" G H req dec r m] unfolding execute_def by auto

lemma sum_backoff: "sum_list (map backoff xs) \<le> 1600 * length xs"
proof -
  have "sum_list (map backoff xs) \<le> sum_list (map (\<lambda>_. 1600) xs)" by (rule sum_list_mono) (rule backoff_bounds)
  then show ?thesis by (simp add: sum_list_triv)
qed

text \<open>At most \<open>n\<close> requests more, and no more than the pauses between them.\<close>

definition within :: "heart_gateway \<Rightarrow> nat \<Rightarrow> 'w heart_run \<Rightarrow> 'w heart_run \<Rightarrow> bool" where
  "within G n r r' \<longleftrightarrow> length (hr_observed r') \<le> length (hr_observed r) + n * Suc (hg_retries G) \<and>
     sum_list (hr_slept r') \<le> sum_list (hr_slept r) + n * (1600 * hg_retries G)"

lemma within_add: "within G n r r' \<Longrightarrow> within G k r' r'' \<Longrightarrow> within G (n + k) r r''"
  unfolding within_def add_mult_distrib by linarith

lemma within_more: "within G n r r' \<Longrightarrow> n \<le> k \<Longrightarrow> within G k r r'"
  unfolding within_def by (meson add_left_mono le_trans mult_le_mono1)

lemma within_refl: "within G n r r"
  by (simp add: within_def)

lemma execute_returns:
  obtains v r' where "execute H G m req dec r = (Some v, r')" "within G 1 r r'"
proof -
  let ?k = "fruitless H req dec (hg_retries G) (hr_world r)"
  from execute_reference obtain r' where r': "execute H G m req dec r = (Some (attempt_verdict H req dec (hr_world r) ?k), r')"
    "hr_slept r' = hr_slept r @ map backoff [0..<?k]" "length (hr_observed r') = length (hr_observed r) + Suc ?k" .
  have "?k \<le> hg_retries G" by (rule fruitless_cases(1))
  moreover have "sum_list (map backoff [0..<?k]) \<le> 1600 * ?k" using sum_backoff [of "[0..<?k]"] by simp
  ultimately have "within G 1 r r'" unfolding within_def r'(2,3) sum_list_append by simp
  with r'(1) show ?thesis by (rule that)
qed

lemma resolve_start_returns:
  obtains v r' where "resolve_start H G ns key r = (Some v, r')" "within G 1 r r'"
proof (cases "\<exists>url. ht_parse_url H (hg_base_url G @ lit ''/api/v1/instance-starts/'') = Some url \<and> url_has_segments url")
  case True
  then have "resolve_start H G ns key r = execute H G HM_Get (GetInstanceStart (hg_base_url G) ns key) (ht_started H) r"
    by (auto simp: resolve_start_def)
  then show ?thesis using that by (metis execute_returns)
next
  case False
  then obtain e where "resolve_start H G ns key r = (Some (Inl e), r)"
    by (cases "ht_parse_url H (hg_base_url G @ lit ''/api/v1/instance-starts/'')") (auto simp: resolve_start_def)
  then show ?thesis using that within_refl by blast
qed

lemma gateway_start_returns:
  obtains v r' where "gateway_start H G cmd key r = (Some v, r')" "within G 2 r r'"
proof -
  obtain v r1 where post: "execute H G HM_Post (PostInstance (hg_base_url G) cmd key) (ht_started H) r = (Some v, r1)" "within G 1 r r1"
    by (rule execute_returns)
  obtain u r2 where get: "resolve_start H G (sp_namespace cmd) key r1 = (Some u, r2)" "within G 1 r1 r2"
    by (rule resolve_start_returns)
  have "within G 2 r r1" "within G 2 r r2"
    using within_more [OF post(2), of 2] within_add [OF post(2) get(2)] by (simp_all add: numeral_2_eq_2)
  moreover have "\<exists>w. gateway_start H G cmd key r = (Some w, r1) \<or> gateway_start H G cmd key r = (Some w, r2)"
    by (cases v; cases u) (auto simp: gateway_start_def post(1) get(1))
  ultimately show ?thesis using that by blast
qed

text \<open>
  C17. Sending a request to Heart repeats it exactly as long as it makes sense: the answer is that
  of the first attempt which succeeds or fails in a way that a repetition would not help, and
  that of the last allowed attempt if there is none. Nothing is sent after that, and the pauses in
  between are the prescribed ones.
\<close>

theorem execute_first_conclusive:
  "\<exists>k r'. execute H G method request decode r = (Some (attempt_verdict H request decode (hr_world r) k), r') \<and>
    hr_world r' = world_after H request (Suc k) (hr_world r) \<and> hr_slept r' = hr_slept r @ map backoff [0..<k] \<and>
    k \<le> hg_retries G \<and> (\<forall>n < k. \<not> conclusive (attempt_verdict H request decode (hr_world r) n)) \<and>
    (k = hg_retries G \<or> conclusive (attempt_verdict H request decode (hr_world r) k))"
proof -
  let ?k = "fruitless H request decode (hg_retries G) (hr_world r)"
  note k = fruitless_cases [where H = H and request = request and decode = decode and n = "hg_retries G" and w = "hr_world r"]
  obtain r' where "execute H G method request decode r = (Some (attempt_verdict H request decode (hr_world r) ?k), r')"
    "hr_world r' = world_after H request (Suc ?k) (hr_world r)" "hr_slept r' = hr_slept r @ map backoff [0..<?k]"
    by (rule execute_reference)
  moreover have "?k = hg_retries G \<or> conclusive (attempt_verdict H request decode (hr_world r) ?k)"
    using k(1,3) by (cases "?k = hg_retries G") auto
  ultimately show ?thesis using k(1,2) by blast
qed


end
