(* ===== verification/Process_Store.thy ===== *)
theory Process_Store
  imports Process_Gateway
begin

text \<open>
  The tables of the process engine and the operations on them (\<open>ProcessRepository\<close> as it is
  implemented in \<open>src/db/sqlite.rs\<close>), with the checks that \<open>ProcessService\<close> in \<open>src/process.rs\<close> puts in
  front. A table is a map from its key; a column with a fixed vocabulary is a datatype. A
  transaction is one step, and one that fails leaves the tables as they were. New identifiers
  and the clock are arguments. The operations read the chat's channels, memberships and users,
  so these columns are part of the state; the details of an audit entry are left out.
\<close>

section \<open>Tables\<close>

datatype process_status = PS_Starting | PS_Active | PS_Failed

record process_link =
  pl_id :: process_link_id
  pl_channel_id :: channel_id
  pl_heart_instance_id :: "uuid option"
  pl_namespace :: rstr
  pl_definition_name :: rstr
  pl_definition_version :: "rstr option"
  pl_initiated_by :: user_id
  pl_status :: process_status

record link_row =
  lr_link :: process_link
  lr_request_id :: rstr
  lr_created_at :: instant
  lr_updated_at :: instant

datatype outbox_operation = Op_Start start_process | Op_Correlate correlate_message | Op_Inspect uuid

datatype outbox_kind = OK_Start | OK_Correlate | OK_Inspect

datatype outbox_status = OS_Pending | OS_Leased | OS_Completed | OS_Failed

record outbox_row =
  ob_link :: process_link_id
  ob_kind :: outbox_kind
  ob_payload :: "byte list"
  ob_status :: outbox_status
  ob_attempts :: nat
  ob_available_at :: instant
  ob_lease_until :: "instant option"
  ob_last_error :: "rstr option"
  ob_created_at :: instant
  ob_completed_at :: "instant option"

record outbox_job =
  oj_id :: outbox_id
  oj_link :: process_link_id
  oj_operation :: outbox_operation
  oj_attempts :: u32

text \<open>
  The key of an event is the text \<open>started\<close>, the identifier of a job, or \<open>failed:\<close> with such an
  identifier; its payload is one of the JSON objects that the code builds.
\<close>

datatype event_key = EK_Started | EK_Job outbox_id | EK_Failed outbox_id

datatype event_payload =
  EP_Started uuid
| EP_Failed process_error_kind rstr bool u32
| EP_Correlated nat "uuid list"
| EP_Inspected uuid rstr "rstr option"

record process_event =
  ev_id :: uuid
  ev_event_type :: string
  ev_payload :: event_payload
  ev_actor_id :: user_id
  ev_occurred_at :: instant

record process_view =
  vw_process :: process_link
  vw_events :: "process_event list"

record command_receipt =
  rc_link :: process_link_id
  rc_outbox :: outbox_id
  rc_command_type :: outbox_kind
  rc_created_at :: instant

record application_row =
  ap_owner_circle :: circle_id
  ap_key :: rstr
  ap_name :: rstr
  ap_enabled :: bool
  ap_updated_by :: user_id
  ap_created_at :: instant
  ap_updated_at :: instant

record work_application =
  wa_id :: uuid
  wa_key :: rstr
  wa_name :: rstr

record binding_row =
  bd_channel :: channel_id
  bd_process_key :: rstr
  bd_namespace :: rstr
  bd_definition_name :: rstr
  bd_definition_version :: rstr
  bd_enabled :: bool
  bd_revision :: nat
  bd_updated_by :: user_id
  bd_updated_at :: instant

record processor_row =
  pc_can_review :: bool
  pc_can_export :: bool
  pc_can_start_development :: bool

record route_row =
  rt_id :: uuid
  rt_channel :: channel_id
  rt_enabled :: bool

record audit_event =
  au_actor :: user_id
  au_action :: string
  au_target_kind :: string
  au_target :: uuid

record process_db =
  pt_channels :: "(channel_id, circle_id option) hmap"
  pt_members :: "(channel_id \<times> user_id, membership_role) hmap"
  pt_circle_members :: "(circle_id \<times> user_id, circle_role) hmap"
  pt_users :: "(user_id, principal_kind) hmap"
  pt_features :: "(circle_id \<times> rstr, bool \<times> user_id \<times> instant) hmap"
  pt_links :: "(process_link_id, link_row) hmap"
  pt_outbox :: "(outbox_id, outbox_row) hmap"
  pt_events :: "(process_link_id \<times> event_key, process_event) hmap"
  pt_receipts :: "(user_id \<times> rstr, command_receipt) hmap"
  pt_applications :: "(uuid, application_row) hmap"
  pt_bindings :: "(uuid, binding_row) hmap"
  pt_binding_applications :: "(uuid \<times> uuid) list"
  pt_processors :: "(uuid \<times> user_id, processor_row) hmap"
  pt_routes :: "(uuid \<times> rstr \<times> rstr, route_row) hmap"
  pt_roles :: "(uuid \<times> user_id \<times> rstr) list"
  pt_audit :: "audit_event list"

text \<open>
  The text of identifiers, the JSON form of an operation, and the texts of two errors of the
  database library: a column that is unexpectedly empty, and a payload that is not an operation.
\<close>

record process_lib =
  pb_uuid_text :: "uuid \<Rightarrow> rstr"
  pb_operation_json :: "outbox_operation json_type"
  pb_null_error :: rstr
  pb_json_error :: rstr

type_synonym 'a process_tx = "(repository_error, 'a) result \<times> process_db"

definition audit :: "user_id \<Rightarrow> string \<Rightarrow> string \<Rightarrow> uuid \<Rightarrow> process_db \<Rightarrow> process_db" where
  "audit actor action kind target db = db\<lparr> pt_audit := pt_audit db @ [\<lparr> au_actor = actor, au_action = action,
     au_target_kind = kind, au_target = target \<rparr>] \<rparr>"

definition millis :: "nat \<Rightarrow> instant" where "millis n = int n * 1000000"

definition timestamp :: "instant \<Rightarrow> instant" where "timestamp now = now div 1000000000"

section \<open>Commands\<close>

record enqueue_process_start =
  es_channel_id :: channel_id
  es_actor :: user_id
  es_request_id :: rstr
  es_namespace :: rstr
  es_definition_name :: rstr
  es_definition_version :: "rstr option"
  es_metadata :: json

record enqueue_correlation =
  ec_process_link_id :: process_link_id
  ec_actor :: user_id
  ec_request_id :: rstr
  ec_payload :: json

record enqueue_inspection =
  ei_process_link_id :: process_link_id
  ei_actor :: user_id
  ei_request_id :: rstr

record set_circle_feature =
  sf_circle_id :: circle_id
  sf_actor :: user_id
  sf_feature :: rstr
  sf_enabled :: bool

record configure_process_binding =
  cb_channel_id :: channel_id
  cb_actor :: user_id
  cb_process_key :: rstr
  cb_namespace :: rstr
  cb_definition_name :: rstr
  cb_definition_version :: rstr
  cb_enabled :: bool

record configure_application =
  ca_actor :: user_id
  ca_circle_id :: circle_id
  ca_key :: rstr
  ca_name :: rstr
  ca_enabled :: bool

record bind_process_application =
  ba_actor :: user_id
  ba_channel_id :: channel_id
  ba_process_key :: rstr
  ba_application_id :: uuid
  ba_enabled :: bool

record configure_application_processor =
  cp_actor :: user_id
  cp_application_id :: uuid
  cp_user_id :: user_id
  cp_can_review :: bool
  cp_can_export :: bool
  cp_can_start_development :: bool

record configure_task_route =
  tr_actor :: user_id
  tr_source_channel_id :: channel_id
  tr_process_key :: rstr
  tr_task_channel_id :: channel_id
  tr_task_key :: rstr
  tr_process_role :: rstr
  tr_enabled :: bool

record configure_process_role =
  cr_actor :: user_id
  cr_application_id :: uuid
  cr_user_id :: user_id
  cr_process_role :: rstr
  cr_enabled :: bool

section \<open>Processes\<close>

text \<open>The circle of a channel, and the role of a user in a channel whose circle has process planning switched on.\<close>

definition circle_of :: "process_db \<Rightarrow> channel_id \<Rightarrow> circle_id option" where
  "circle_of db c = (case hm_get (pt_channels db) c of None \<Rightarrow> None | Some k \<Rightarrow> k)"

definition planning :: "process_db \<Rightarrow> channel_id \<Rightarrow> bool" where
  "planning db c =
     (case circle_of db c of
        None \<Rightarrow> False
      | Some k \<Rightarrow> (case hm_get (pt_features db) (k, lit ''heart.event-planning'') of None \<Rightarrow> False | Some f \<Rightarrow> fst f))"

definition planning_role :: "process_db \<Rightarrow> channel_id \<Rightarrow> user_id \<Rightarrow> membership_role option" where
  "planning_role db c u = (if planning db c then hm_get (pt_members db) (c, u) else None)"

definition requested :: "user_id \<Rightarrow> rstr \<Rightarrow> process_link_id \<times> link_row \<Rightarrow> bool" where
  "requested actor request row \<longleftrightarrow> pl_initiated_by (lr_link (snd row)) = actor \<and> lr_request_id (snd row) = request"

definition bound_definition :: "process_db \<Rightarrow> enqueue_process_start \<Rightarrow> bool" where
  "bound_definition db cmd \<longleftrightarrow>
     (\<exists>b \<in> set (hm_values (pt_bindings db)). bd_channel b = es_channel_id cmd \<and> bd_namespace b = es_namespace cmd \<and>
        bd_definition_name b = es_definition_name cmd \<and>
        bd_definition_version b = (case es_definition_version cmd of None \<Rightarrow> [] | Some v \<Rightarrow> v) \<and> bd_enabled b)"

definition new_outbox_row :: "process_link_id \<Rightarrow> outbox_kind \<Rightarrow> byte list \<Rightarrow> instant \<Rightarrow> outbox_row" where
  "new_outbox_row link kind payload now = \<lparr> ob_link = link, ob_kind = kind, ob_payload = payload, ob_status = OS_Pending,
     ob_attempts = 0, ob_available_at = now, ob_lease_until = None, ob_last_error = None, ob_created_at = now,
     ob_completed_at = None \<rparr>"

definition new_process_link :: "process_link_id \<Rightarrow> enqueue_process_start \<Rightarrow> process_link" where
  "new_process_link link cmd = \<lparr> pl_id = link, pl_channel_id = es_channel_id cmd, pl_heart_instance_id = None,
     pl_namespace = es_namespace cmd, pl_definition_name = es_definition_name cmd,
     pl_definition_version = es_definition_version cmd, pl_initiated_by = es_actor cmd, pl_status = PS_Starting \<rparr>"

definition store_enqueue_start :: "process_lib \<Rightarrow> process_link_id \<Rightarrow> outbox_id \<Rightarrow> instant \<Rightarrow> enqueue_process_start \<Rightarrow>
    process_db \<Rightarrow> process_link process_tx" where
  "store_enqueue_start B link job now cmd db =
     (if \<not> can_start_process (planning_role db (es_channel_id cmd) (es_actor cmd)) then (Inl PermissionDenied, db)
      else case find (requested (es_actor cmd) (es_request_id cmd)) (pt_links db) of
        Some (i, row) \<Rightarrow>
          if pl_channel_id (lr_link row) \<noteq> es_channel_id cmd then (Inl Conflict, db)
          else (Inr (lr_link row), db)
      | None \<Rightarrow>
          if \<not> bound_definition db cmd then (Inl PermissionDenied, db)
          else if hm_has (pt_links db) link \<or> hm_has (pt_outbox db) job then (Inl Conflict, db)
          else (case to_json (pb_operation_json B) (Op_Start \<lparr> sp_namespace = es_namespace cmd,
                       sp_definition_name = es_definition_name cmd, sp_version = es_definition_version cmd,
                       sp_metadata = es_metadata cmd \<rparr>) of
                  Inl e \<Rightarrow> (Inl (Storage e), db)
                | Inr payload \<Rightarrow>
                    (Inr (new_process_link link cmd),
                     audit (es_actor cmd) ''process.started'' ''process_link'' (link_uuid link)
                       (db\<lparr> pt_links := hm_insert link \<lparr> lr_link = new_process_link link cmd, lr_request_id = es_request_id cmd,
                              lr_created_at = now, lr_updated_at = now \<rparr> (pt_links db),
                            pt_outbox := hm_insert job (new_outbox_row link OK_Start payload now) (pt_outbox db) \<rparr>))))"

text \<open>A command on a link puts a job and a receipt for its request into the tables.\<close>

definition enqueue_job :: "process_lib \<Rightarrow> outbox_id \<Rightarrow> instant \<Rightarrow> user_id \<Rightarrow> rstr \<Rightarrow> process_link_id \<Rightarrow> outbox_kind \<Rightarrow> outbox_operation \<Rightarrow>
    process_db \<Rightarrow> outbox_id process_tx" where
  "enqueue_job B job now actor request link kind operation db =
     (if hm_has (pt_outbox db) job then (Inl Conflict, db)
      else case to_json (pb_operation_json B) operation of
        Inl e \<Rightarrow> (Inl (Storage e), db)
      | Inr payload \<Rightarrow>
          (Inr job,
           audit actor (if kind = OK_Correlate then ''process.correlation_requested'' else ''process.inspection_requested'')
             ''process_link'' (link_uuid link)
             (db\<lparr> pt_outbox := hm_insert job (new_outbox_row link kind payload now) (pt_outbox db),
                  pt_receipts := hm_insert (actor, request) \<lparr> rc_link = link, rc_outbox = job, rc_command_type = kind,
                    rc_created_at = now \<rparr> (pt_receipts db) \<rparr>)))"

text \<open>What a member of the link's channel may act on, while planning is switched on.\<close>

definition link_access :: "process_db \<Rightarrow> process_link_id \<Rightarrow> user_id \<Rightarrow> (process_link \<times> membership_role) option" where
  "link_access db link actor =
     (case hm_get (pt_links db) link of
        None \<Rightarrow> None
      | Some row \<Rightarrow> (case planning_role db (pl_channel_id (lr_link row)) actor of None \<Rightarrow> None | Some role \<Rightarrow> Some (lr_link row, role)))"

definition store_enqueue_correlation :: "process_lib \<Rightarrow> outbox_id \<Rightarrow> instant \<Rightarrow> enqueue_correlation \<Rightarrow> process_db \<Rightarrow> outbox_id process_tx" where
  "store_enqueue_correlation B job now cmd db =
     (case hm_get (pt_receipts db) (ec_actor cmd, ec_request_id cmd) of
        Some receipt \<Rightarrow> (Inr (rc_outbox receipt), db)
      | None \<Rightarrow>
          (case link_access db (ec_process_link_id cmd) (ec_actor cmd) of
             None \<Rightarrow> (Inl PermissionDenied, db)
           | Some (link, role) \<Rightarrow>
               if \<not> can_complete_process_work (Some role) then (Inl PermissionDenied, db)
               else enqueue_job B job now (ec_actor cmd) (ec_request_id cmd) (ec_process_link_id cmd) OK_Correlate
                 (Op_Correlate \<lparr> cm_namespace = pl_namespace link, cm_correlation_key = lit ''process_link_id'',
                    cm_correlation_value = pb_uuid_text B (link_uuid (ec_process_link_id cmd)),
                    cm_payload = ec_payload cmd \<rparr>) db))"

definition store_enqueue_inspection :: "process_lib \<Rightarrow> outbox_id \<Rightarrow> instant \<Rightarrow> enqueue_inspection \<Rightarrow> process_db \<Rightarrow> outbox_id process_tx" where
  "store_enqueue_inspection B job now cmd db =
     (case hm_get (pt_receipts db) (ei_actor cmd, ei_request_id cmd) of
        Some receipt \<Rightarrow> (Inr (rc_outbox receipt), db)
      | None \<Rightarrow>
          (case link_access db (ei_process_link_id cmd) (ei_actor cmd) of
             None \<Rightarrow> (Inl PermissionDenied, db)
           | Some (link, role) \<Rightarrow>
               (case pl_heart_instance_id link of
                  None \<Rightarrow> (Inl (Storage (pb_null_error B)), db)
                | Some instance_id \<Rightarrow>
                    if \<not> can_read_channel (Some role) then (Inl PermissionDenied, db)
                    else enqueue_job B job now (ei_actor cmd) (ei_request_id cmd) (ei_process_link_id cmd) OK_Inspect
                      (Op_Inspect instance_id) db)))"

definition store_get_process :: "user_id \<Rightarrow> process_link_id \<Rightarrow> process_db \<Rightarrow> (repository_error, process_view) result" where
  "store_get_process actor link db =
     (case hm_get (pt_links db) link of
        None \<Rightarrow> Inl PermissionDenied
      | Some row \<Rightarrow>
          (case hm_get (pt_members db) (pl_channel_id (lr_link row), actor) of
             None \<Rightarrow> Inl PermissionDenied
           | Some role \<Rightarrow>
               if \<not> can_read_channel (Some role) then Inl PermissionDenied
               else Inr \<lparr> vw_process = lr_link row,
                 vw_events = sort_key (\<lambda>e. (ev_occurred_at e, ev_id e))
                   (map snd (filter (\<lambda>((l, _), _). l = link) (pt_events db))) \<rparr>))"

section \<open>The outbox\<close>

definition is_due :: "instant \<Rightarrow> outbox_row \<Rightarrow> bool" where
  "is_due now row \<longleftrightarrow>
     (ob_status row = OS_Pending \<or>
      (ob_status row = OS_Leased \<and> (case ob_lease_until row of None \<Rightarrow> False | Some t \<Rightarrow> t < now))) \<and>
     ob_available_at row \<le> now"

text \<open>
  The query takes the oldest row that is due. Which one of equally old rows comes first is up to
  the database: \<open>tie\<close>.
\<close>

definition next_due :: "(outbox_id \<Rightarrow> nat) \<Rightarrow> instant \<Rightarrow> process_db \<Rightarrow> (outbox_id \<times> outbox_row) option" where
  "next_due tie now db =
     (case sort_key (\<lambda>(i, row). (ob_created_at row, tie i)) (filter (\<lambda>(_, row). is_due now row) (pt_outbox db)) of
        [] \<Rightarrow> None
      | x # _ \<Rightarrow> Some x)"

definition outbox_from_row :: "process_lib \<Rightarrow> outbox_id \<Rightarrow> outbox_row \<Rightarrow> (repository_error, outbox_job) result" where
  "outbox_from_row B i row =
     (case from_json (pb_operation_json B) (ob_payload row) of
        None \<Rightarrow> Inl (Storage (pb_json_error B))
      | Some operation \<Rightarrow> Inr \<lparr> oj_id = i, oj_link = ob_link row, oj_operation = operation, oj_attempts = as_u32 (ob_attempts row) \<rparr>)"

definition lease_next :: "process_lib \<Rightarrow> (outbox_id \<Rightarrow> nat) \<Rightarrow> instant \<Rightarrow> instant \<Rightarrow> process_db \<Rightarrow> outbox_job option process_tx" where
  "lease_next B tie now lease_for db =
     (case next_due tie now db of
        None \<Rightarrow> (Inr None, db)
      | Some (i, row) \<Rightarrow>
          if \<not> (ob_status row = OS_Pending \<or> (case ob_lease_until row of None \<Rightarrow> False | Some t \<Rightarrow> t < now))
          then (Inr None, db)
          else (case outbox_from_row B i row of
                  Inl e \<Rightarrow> (Inl e, db)
                | Inr job \<Rightarrow>
                    (Inr (Some (job\<lparr> oj_attempts := oj_attempts job + 1 \<rparr>)),
                     db\<lparr> pt_outbox := hm_insert i (row\<lparr> ob_status := OS_Leased, ob_lease_until := Some (now + lease_for),
                           ob_attempts := ob_attempts row + 1 \<rparr>) (pt_outbox db) \<rparr>)))"

text \<open>
  An event has to belong to a link (a foreign key); one that has the key of an earlier event of
  the link is dropped.
\<close>

definition insert_event :: "process_link_id \<Rightarrow> event_key \<Rightarrow> process_event \<Rightarrow> process_db \<Rightarrow> unit process_tx" where
  "insert_event link key event db =
     (if \<not> hm_has (pt_links db) link then (Inl PermissionDenied, db)
      else (Inr (), db\<lparr> pt_events := hm_or_insert (link, key) event (pt_events db) \<rparr>))"

definition update_outbox :: "outbox_id \<Rightarrow> (outbox_row \<Rightarrow> outbox_row) \<Rightarrow> process_db \<Rightarrow> process_db" where
  "update_outbox i f db =
     (case hm_get (pt_outbox db) i of None \<Rightarrow> db | Some row \<Rightarrow> db\<lparr> pt_outbox := hm_insert i (f row) (pt_outbox db) \<rparr>)"

definition update_link :: "process_link_id \<Rightarrow> (process_link \<Rightarrow> process_link) \<Rightarrow> instant \<Rightarrow> process_db \<Rightarrow> process_db" where
  "update_link i f now db =
     (case hm_get (pt_links db) i of
        None \<Rightarrow> db
      | Some row \<Rightarrow> db\<lparr> pt_links := hm_insert i (row\<lparr> lr_link := f (lr_link row), lr_updated_at := now \<rparr>) (pt_links db) \<rparr>)"

definition initiator :: "process_db \<Rightarrow> process_link_id \<Rightarrow> user_id option" where
  "initiator db link = map_option (pl_initiated_by \<circ> lr_link) (hm_get (pt_links db) link)"

text \<open>Who asked for a job: the user of its receipt, otherwise the one who started the process.\<close>

definition job_actor :: "process_db \<Rightarrow> outbox_job \<Rightarrow> user_id option" where
  "job_actor db job =
     (case find (\<lambda>(_, r). rc_outbox r = oj_id job) (pt_receipts db) of
        Some ((actor, _), _) \<Rightarrow> Some actor
      | None \<Rightarrow> initiator db (oj_link job))"

definition completed :: "instant \<Rightarrow> outbox_row \<Rightarrow> outbox_row" where
  "completed now row = row\<lparr> ob_status := OS_Completed, ob_completed_at := Some now, ob_lease_until := None \<rparr>"

text \<open>The instance of a link is set once; no two links have the same instance (a unique column).\<close>

definition activate_link :: "process_link_id \<Rightarrow> uuid \<Rightarrow> instant \<Rightarrow> process_db \<Rightarrow> unit process_tx" where
  "activate_link link inst now db =
     (case hm_get (pt_links db) link of
        None \<Rightarrow> (Inr (), db)
      | Some row \<Rightarrow>
          if pl_heart_instance_id (lr_link row) \<noteq> None \<and> pl_heart_instance_id (lr_link row) \<noteq> Some inst then (Inr (), db)
          else if \<exists>(i, other) \<in> set (pt_links db). i \<noteq> link \<and> pl_heart_instance_id (lr_link other) = Some inst
          then (Inl Conflict, db)
          else (Inr (), update_link link (\<lambda>l. l\<lparr> pl_heart_instance_id := Some inst, pl_status := PS_Active \<rparr>) now db))"

definition complete_start :: "uuid \<Rightarrow> instant \<Rightarrow> outbox_job \<Rightarrow> started_process \<Rightarrow> process_db \<Rightarrow> unit process_tx" where
  "complete_start event_id now job res db =
     (case activate_link (oj_link job) (st_instance_id res) now db of
        (Inl e, _) \<Rightarrow> (Inl e, db)
      | (Inr _, db1) \<Rightarrow>
          (case initiator db1 (oj_link job) of
             None \<Rightarrow> (Inl PermissionDenied, db)
           | Some actor \<Rightarrow>
               (case insert_event (oj_link job) EK_Started \<lparr> ev_id = event_id, ev_event_type = ''process.started'',
                       ev_payload = EP_Started (st_instance_id res), ev_actor_id = actor, ev_occurred_at = now \<rparr> db1 of
                  (Inl e, _) \<Rightarrow> (Inl e, db)
                | (Inr _, db2) \<Rightarrow> (Inr (), update_outbox (oj_id job) (completed now) db2))))"

definition complete_operation :: "uuid \<Rightarrow> instant \<Rightarrow> outbox_job \<Rightarrow> string \<Rightarrow> event_payload \<Rightarrow> process_db \<Rightarrow> unit process_tx" where
  "complete_operation event_id now job event_type payload db =
     (case job_actor db job of
        None \<Rightarrow> (Inl PermissionDenied, db)
      | Some actor \<Rightarrow>
          (case insert_event (oj_link job) (EK_Job (oj_id job)) \<lparr> ev_id = event_id, ev_event_type = event_type,
                  ev_payload = payload, ev_actor_id = actor, ev_occurred_at = now \<rparr> db of
             (Inl e, _) \<Rightarrow> (Inl e, db)
           | (Inr _, db1) \<Rightarrow> (Inr (), update_outbox (oj_id job) (completed now) db1)))"

definition error_display :: "process_error \<Rightarrow> rstr" where
  "error_display e = lit ''Heart '' @ lit (case pe_kind e of PE_InvalidRequest \<Rightarrow> ''InvalidRequest'' | PE_Unauthorized \<Rightarrow> ''Unauthorized''
       | PE_NotFound \<Rightarrow> ''NotFound'' | PE_Conflict \<Rightarrow> ''Conflict'' | PE_RateLimited \<Rightarrow> ''RateLimited''
       | PE_Unavailable \<Rightarrow> ''Unavailable'' | PE_Timeout \<Rightarrow> ''Timeout'' | PE_InvalidResponse \<Rightarrow> ''InvalidResponse'') @
     lit '': '' @ pe_message e"

definition reschedule :: "uuid \<Rightarrow> instant \<Rightarrow> outbox_job \<Rightarrow> process_error \<Rightarrow> nat \<Rightarrow> process_db \<Rightarrow> unit process_tx" where
  "reschedule event_id now job error delay db =
     (let terminal = (\<not> pe_retryable error \<or> 8 \<le> oj_attempts job);
          db1 = update_outbox (oj_id job) (\<lambda>row. row\<lparr> ob_status := (if terminal then OS_Failed else OS_Pending),
            ob_available_at := now + millis delay, ob_lease_until := None, ob_last_error := Some (error_display error) \<rparr>) db
      in if \<not> terminal then (Inr (), db1)
         else let db2 = update_link (oj_link job) (\<lambda>l. l\<lparr> pl_status := PS_Failed \<rparr>) now db1
              in case job_actor db2 job of
                   None \<Rightarrow> (Inl PermissionDenied, db)
                 | Some actor \<Rightarrow>
                     (case insert_event (oj_link job) (EK_Failed (oj_id job)) \<lparr> ev_id = event_id, ev_event_type = ''process.failed'',
                             ev_payload = EP_Failed (pe_kind error) (pe_message error) (pe_retryable error) (oj_attempts job),
                             ev_actor_id = actor, ev_occurred_at = now \<rparr> db2 of
                        (Inl e, _) \<Rightarrow> (Inl e, db)
                      | (Inr _, db3) \<Rightarrow> (Inr (), db3)))"

section \<open>Configuration\<close>

definition owns_circle :: "process_db \<Rightarrow> circle_id \<Rightarrow> user_id \<Rightarrow> bool" where
  "owns_circle db k u \<longleftrightarrow> hm_get (pt_circle_members db) (k, u) = Some CircleOwner"

definition owns_channel_circle :: "process_db \<Rightarrow> channel_id \<Rightarrow> user_id \<Rightarrow> bool" where
  "owns_channel_circle db c u = (case circle_of db c of None \<Rightarrow> False | Some k \<Rightarrow> owns_circle db k u)"

definition store_set_circle_feature :: "instant \<Rightarrow> set_circle_feature \<Rightarrow> process_db \<Rightarrow> unit process_tx" where
  "store_set_circle_feature now cmd db =
     (if \<not> owns_circle db (sf_circle_id cmd) (sf_actor cmd) then (Inl PermissionDenied, db)
      else let key = (sf_circle_id cmd, sf_feature cmd);
               changed = (case hm_get (pt_features db) key of
                            None \<Rightarrow> True
                          | Some (enabled, by, _) \<Rightarrow> enabled \<noteq> sf_enabled cmd \<or> by \<noteq> sf_actor cmd);
               db1 = db\<lparr> pt_features := hm_insert key (sf_enabled cmd, sf_actor cmd, now) (pt_features db) \<rparr>
           in (Inr (), if changed then audit (sf_actor cmd) ''circle.feature_changed'' ''circle'' (circle_uuid (sf_circle_id cmd)) db1 else db1))"

text \<open>The binding of a channel for a process.\<close>

definition find_binding :: "process_db \<Rightarrow> channel_id \<Rightarrow> rstr \<Rightarrow> (uuid \<times> binding_row) option" where
  "find_binding db c key = find (\<lambda>(_, b). bd_channel b = c \<and> bd_process_key b = key) (pt_bindings db)"

definition store_configure_process_binding :: "uuid \<Rightarrow> instant \<Rightarrow> configure_process_binding \<Rightarrow> process_db \<Rightarrow> unit process_tx" where
  "store_configure_process_binding fresh now cmd db =
     (if \<not> owns_channel_circle db (cb_channel_id cmd) (cb_actor cmd) then (Inl PermissionDenied, db)
      else let old = find_binding db (cb_channel_id cmd) (cb_process_key cmd);
               i = (case old of None \<Rightarrow> fresh | Some (i, _) \<Rightarrow> i);
               revision = (case old of None \<Rightarrow> 1 | Some (_, b) \<Rightarrow> bd_revision b + 1)
           in if (old = None \<and> hm_has (pt_bindings db) fresh) \<or>
                 (\<exists>(j, b) \<in> set (pt_bindings db). j \<noteq> i \<and> bd_channel b = cb_channel_id cmd \<and> bd_namespace b = cb_namespace cmd \<and>
                    bd_definition_name b = cb_definition_name cmd \<and> bd_definition_version b = cb_definition_version cmd)
              then (Inl Conflict, db)
              else (Inr (), audit (cb_actor cmd) ''process.binding_changed'' ''channel'' (channel_uuid (cb_channel_id cmd))
                (db\<lparr> pt_bindings := hm_insert i \<lparr> bd_channel = cb_channel_id cmd, bd_process_key = cb_process_key cmd,
                   bd_namespace = cb_namespace cmd, bd_definition_name = cb_definition_name cmd,
                   bd_definition_version = cb_definition_version cmd, bd_enabled = cb_enabled cmd, bd_revision = revision,
                   bd_updated_by = cb_actor cmd, bd_updated_at = timestamp now \<rparr> (pt_bindings db) \<rparr>)))"

text \<open>An application keeps the circle that made it: another circle cannot take over its key.\<close>

definition store_configure_application :: "uuid \<Rightarrow> instant \<Rightarrow> configure_application \<Rightarrow> process_db \<Rightarrow> work_application process_tx" where
  "store_configure_application fresh now cmd db =
     (if \<not> owns_circle db (ca_circle_id cmd) (ca_actor cmd) then (Inl PermissionDenied, db)
      else let write = (\<lambda>i created. (Inr \<lparr> wa_id = i, wa_key = ca_key cmd, wa_name = trim (ca_name cmd) \<rparr>,
                 audit (ca_actor cmd) ''work.application_changed'' ''work_application'' i
                   (db\<lparr> pt_applications := hm_insert i \<lparr> ap_owner_circle = ca_circle_id cmd, ap_key = ca_key cmd,
                      ap_name = trim (ca_name cmd), ap_enabled = ca_enabled cmd, ap_updated_by = ca_actor cmd,
                      ap_created_at = created, ap_updated_at = timestamp now \<rparr> (pt_applications db) \<rparr>)))
           in case find (\<lambda>(_, a). ap_key a = ca_key cmd) (pt_applications db) of
                None \<Rightarrow> if hm_has (pt_applications db) fresh then (Inl Conflict, db) else write fresh (timestamp now)
              | Some (i, a) \<Rightarrow>
                  if ap_owner_circle a \<noteq> ca_circle_id cmd then (Inl PermissionDenied, db) else write i (ap_created_at a))"

definition store_bind_process_application :: "bind_process_application \<Rightarrow> process_db \<Rightarrow> unit process_tx" where
  "store_bind_process_application cmd db =
     (case (find_binding db (ba_channel_id cmd) (ba_process_key cmd), hm_get (pt_applications db) (ba_application_id cmd)) of
        (Some (i, b), Some a) \<Rightarrow>
          if circle_of db (ba_channel_id cmd) = Some (ap_owner_circle a) \<and> owns_channel_circle db (ba_channel_id cmd) (ba_actor cmd)
          then (Inr (), audit (ba_actor cmd) ''work.application_binding_changed'' ''work_application'' (ba_application_id cmd)
            (db\<lparr> pt_binding_applications := (if ba_enabled cmd then hs_insert else hs_remove) (i, ba_application_id cmd)
               (pt_binding_applications db) \<rparr>))
          else (Inl PermissionDenied, db)
      | _ \<Rightarrow> (Inl PermissionDenied, db))"

text \<open>Who may give rights in an application to whom: the owner of its circle, to people.\<close>

definition manages_application :: "process_db \<Rightarrow> uuid \<Rightarrow> user_id \<Rightarrow> user_id \<Rightarrow> bool" where
  "manages_application db app actor user =
     (case hm_get (pt_applications db) app of
        None \<Rightarrow> False
      | Some a \<Rightarrow> owns_circle db (ap_owner_circle a) actor \<and> hm_get (pt_users db) user = Some Human)"

definition store_configure_application_processor :: "configure_application_processor \<Rightarrow> process_db \<Rightarrow> unit process_tx" where
  "store_configure_application_processor cmd db =
     (if \<not> manages_application db (cp_application_id cmd) (cp_actor cmd) (cp_user_id cmd) then (Inl PermissionDenied, db)
      else (Inr (), audit (cp_actor cmd) ''work.processor_changed'' ''work_application'' (cp_application_id cmd)
        (db\<lparr> pt_processors := hm_insert (cp_application_id cmd, cp_user_id cmd) \<lparr> pc_can_review = cp_can_review cmd,
           pc_can_export = cp_can_export cmd, pc_can_start_development = cp_can_start_development cmd \<rparr> (pt_processors db) \<rparr>)))"

definition store_configure_process_role :: "configure_process_role \<Rightarrow> process_db \<Rightarrow> unit process_tx" where
  "store_configure_process_role cmd db =
     (if \<not> manages_application db (cr_application_id cmd) (cr_actor cmd) (cr_user_id cmd) then (Inl PermissionDenied, db)
      else (Inr (), audit (cr_actor cmd) ''work.process_role_changed'' ''work_application'' (cr_application_id cmd)
        (db\<lparr> pt_roles := (if cr_enabled cmd then hs_insert else hs_remove)
           (cr_application_id cmd, cr_user_id cmd, cr_process_role cmd) (pt_roles db) \<rparr>)))"

definition store_configure_task_route :: "uuid \<Rightarrow> configure_task_route \<Rightarrow> process_db \<Rightarrow> unit process_tx" where
  "store_configure_task_route fresh cmd db =
     (case find_binding db (tr_source_channel_id cmd) (tr_process_key cmd) of
        None \<Rightarrow> (Inl PermissionDenied, db)
      | Some (i, b) \<Rightarrow>
          if circle_of db (tr_task_channel_id cmd) = circle_of db (tr_source_channel_id cmd) \<and>
             owns_channel_circle db (tr_source_channel_id cmd) (tr_actor cmd)
          then let key = (i, tr_task_key cmd, tr_process_role cmd);
                   j = (case hm_get (pt_routes db) key of None \<Rightarrow> fresh | Some route \<Rightarrow> rt_id route)
               in (Inr (), audit (tr_actor cmd) ''process.task_route_changed'' ''channel'' (channel_uuid (tr_source_channel_id cmd))
                    (db\<lparr> pt_routes := hm_insert key \<lparr> rt_id = j, rt_channel = tr_task_channel_id cmd, rt_enabled = tr_enabled cmd \<rparr>
                       (pt_routes db) \<rparr>))
          else (Inl PermissionDenied, db))"

definition store_list_process_applications :: "user_id \<Rightarrow> channel_id \<Rightarrow> rstr \<Rightarrow> process_db \<Rightarrow> (repository_error, work_application list) result" where
  "store_list_process_applications actor c key db =
     (if \<not> can_send_to_channel (hm_get (pt_members db) (c, actor)) then Inl PermissionDenied
      else Inr (case find_binding db c key of
             None \<Rightarrow> []
           | Some (i, b) \<Rightarrow>
               if \<not> bd_enabled b then []
               else sort_key (\<lambda>a. (wa_name a, wa_id a))
                 (List.map_filter (\<lambda>(j, a). if (i, j) \<in> set (pt_binding_applications db) \<and> ap_enabled a
                     then Some \<lparr> wa_id = j, wa_key = ap_key a, wa_name = ap_name a \<rparr> else None) (pt_applications db))))"

text \<open>When a channel is deleted, the rows that depend on it go too.\<close>

definition delete_channel_rows :: "channel_id \<Rightarrow> process_db \<Rightarrow> process_db" where
  "delete_channel_rows c db =
     (let links = map fst (filter (\<lambda>(_, row). pl_channel_id (lr_link row) = c) (pt_links db));
          bindings = map fst (filter (\<lambda>(_, b). bd_channel b = c) (pt_bindings db))
      in db\<lparr> pt_channels := hm_remove c (pt_channels db),
             pt_members := hm_retain (\<lambda>k _. fst k \<noteq> c) (pt_members db),
             pt_links := hm_retain (\<lambda>i _. i \<notin> set links) (pt_links db),
             pt_outbox := hm_retain (\<lambda>_ row. ob_link row \<notin> set links) (pt_outbox db),
             pt_events := hm_retain (\<lambda>k _. fst k \<notin> set links) (pt_events db),
             pt_receipts := hm_retain (\<lambda>_ r. rc_link r \<notin> set links) (pt_receipts db),
             pt_bindings := hm_retain (\<lambda>i _. i \<notin> set bindings) (pt_bindings db),
             pt_binding_applications := filter (\<lambda>x. fst x \<notin> set bindings) (pt_binding_applications db),
             pt_routes := hm_retain (\<lambda>k r. fst k \<notin> set bindings \<and> rt_channel r \<noteq> c) (pt_routes db) \<rparr>)"

section \<open>The service\<close>

definition valid_application_key :: "rstr \<Rightarrow> bool" where
  "valid_application_key value \<longleftrightarrow> 2 \<le> utf8_len value \<and> utf8_len value \<le> 64 \<and>
     (case value of [] \<Rightarrow> False | c # _ \<Rightarrow> is_ascii_lower c) \<and>
     list_all (\<lambda>c. is_ascii_lower c \<or> is_ascii_digit c \<or> c = 45) value"

definition valid_policy_key :: "rstr \<Rightarrow> bool" where
  "valid_policy_key value \<longleftrightarrow> value \<noteq> [] \<and> utf8_len value \<le> 120 \<and>
     list_all (\<lambda>c. is_ascii_lower c \<or> is_ascii_upper c \<or> is_ascii_digit c \<or> c \<in> set (lit ''-_.'')) value"

definition conflict_unless :: "bool \<Rightarrow> (process_db \<Rightarrow> 'a process_tx) \<Rightarrow> process_db \<Rightarrow> 'a process_tx" where
  "conflict_unless valid f db = (if valid then f db else (Inl Conflict, db))"

text \<open>The definition of the user-task pilot cannot be started as an ordinary process.\<close>

definition service_enqueue_start :: "process_lib \<Rightarrow> process_link_id \<Rightarrow> outbox_id \<Rightarrow> instant \<Rightarrow> enqueue_process_start \<Rightarrow>
    process_db \<Rightarrow> process_link process_tx" where
  "service_enqueue_start B link job now cmd db =
     (if es_definition_name cmd = lit ''sproyt-user-task-pilot'' then (Inl PermissionDenied, db)
      else store_enqueue_start B link job now cmd db)"

definition service_configure_process_binding :: "uuid \<Rightarrow> instant \<Rightarrow> configure_process_binding \<Rightarrow> process_db \<Rightarrow> unit process_tx" where
  "service_configure_process_binding fresh now cmd =
     conflict_unless (valid_policy_key (cb_process_key cmd) \<and> valid_policy_key (cb_namespace cmd) \<and>
         valid_policy_key (cb_definition_name cmd) \<and> utf8_len (cb_definition_version cmd) \<le> 120 \<and>
         list_all (\<lambda>c. \<not> is_control c) (cb_definition_version cmd))
       (store_configure_process_binding fresh now cmd)"

definition service_configure_application :: "uuid \<Rightarrow> instant \<Rightarrow> configure_application \<Rightarrow> process_db \<Rightarrow> work_application process_tx" where
  "service_configure_application fresh now cmd =
     conflict_unless (valid_application_key (ca_key cmd) \<and> trim (ca_name cmd) \<noteq> [] \<and> length (trim (ca_name cmd)) \<le> 120 \<and>
         list_all (\<lambda>c. \<not> is_control c) (ca_name cmd))
       (store_configure_application fresh now cmd)"

definition service_bind_process_application :: "bind_process_application \<Rightarrow> process_db \<Rightarrow> unit process_tx" where
  "service_bind_process_application cmd =
     conflict_unless (valid_policy_key (ba_process_key cmd)) (store_bind_process_application cmd)"

definition service_configure_application_processor :: "configure_application_processor \<Rightarrow> process_db \<Rightarrow> unit process_tx" where
  "service_configure_application_processor cmd =
     conflict_unless (\<not> ((cp_can_export cmd \<or> cp_can_start_development cmd) \<and> \<not> cp_can_review cmd))
       (store_configure_application_processor cmd)"

definition service_configure_task_route :: "uuid \<Rightarrow> configure_task_route \<Rightarrow> process_db \<Rightarrow> unit process_tx" where
  "service_configure_task_route fresh cmd =
     conflict_unless (valid_policy_key (tr_process_key cmd) \<and> valid_policy_key (tr_task_key cmd) \<and> valid_policy_key (tr_process_role cmd))
       (store_configure_task_route fresh cmd)"

definition service_configure_process_role :: "configure_process_role \<Rightarrow> process_db \<Rightarrow> unit process_tx" where
  "service_configure_process_role cmd =
     conflict_unless (valid_policy_key (cr_process_role cmd)) (store_configure_process_role cmd)"

definition service_list_process_applications :: "user_id \<Rightarrow> channel_id \<Rightarrow> rstr \<Rightarrow> process_db \<Rightarrow>
    (repository_error, work_application list) result" where
  "service_list_process_applications actor c key db =
     (if valid_policy_key key then store_list_process_applications actor c key db else Inl Conflict)"

end
