(* ===== verification/Process_Outbox.thy ===== *)
theory Process_Outbox
  imports Process_Store
begin

text \<open>
  The workers that carry out the jobs of the outbox (\<open>run_outbox\<close> in \<open>src/process.rs\<close>), and the whole
  process engine as a state machine: any number of workers, on one server or several, lease jobs,
  call Heart and write down the outcome, and may crash in between; leases run out; users start
  processes and send commands; circles are configured; channels are deleted. It is shown that a
  request starts one process, whatever the interleaving.
\<close>

section \<open>A turn of a worker\<close>

datatype worker_result = W_Started started_process | W_Event string event_payload

definition perform :: "'w heart \<Rightarrow> heart_gateway \<Rightarrow> outbox_job \<Rightarrow> 'w heart_run \<Rightarrow> ('w, worker_result) gateway_result" where
  "perform H G job r =
     (let key = outbox_uuid (oj_id job)
      in case oj_operation job of
           Op_Start cmd \<Rightarrow> apfst (map_option (map_sum id W_Started)) (gateway_start H G cmd key r)
         | Op_Correlate cmd \<Rightarrow> apfst (map_option (map_sum id (\<lambda>res. W_Event ''process.correlated''
             (EP_Correlated (cd_matched_instances res) (cd_instance_ids res))))) (gateway_correlate H G cmd key r)
         | Op_Inspect instance_id \<Rightarrow> apfst (map_option (map_sum id (\<lambda>res. W_Event ''process.inspected''
             (EP_Inspected (pi_id res) (pi_status res) (pi_current_node res))))) (gateway_inspect H G instance_id key r))"

definition settle :: "uuid \<Rightarrow> instant \<Rightarrow> outbox_job \<Rightarrow> (process_error, worker_result) result \<Rightarrow> process_db \<Rightarrow> unit process_tx" where
  "settle event_id now job outcome db =
     (case outcome of
        Inr (W_Started res) \<Rightarrow> complete_start event_id now job res db
      | Inr (W_Event event_type payload) \<Rightarrow> complete_operation event_id now job event_type payload db
      | Inl error \<Rightarrow> reschedule event_id now job error (backoff (unat (oj_attempts job))) db)"

definition lease_time :: instant where "lease_time = millis 30000"

text \<open>
  The body of the loop, undisturbed: the pause in milliseconds, if any, and the new states. An
  error of the tables is logged only.
\<close>

definition outbox_turn :: "process_lib \<Rightarrow> 'w heart \<Rightarrow> heart_gateway \<Rightarrow> (outbox_id \<Rightarrow> nat) \<Rightarrow> instant \<Rightarrow> instant \<Rightarrow> uuid \<Rightarrow>
    process_db \<times> 'w heart_run \<Rightarrow> (nat option \<times> process_db \<times> 'w heart_run) option" where
  "outbox_turn B H G tie now later event_id st =
     (case lease_next B tie now lease_time (fst st) of
        (Inr (Some job), db) \<Rightarrow>
          (case perform H G job (snd st) of
             (None, r) \<Rightarrow> None
           | (Some outcome, r) \<Rightarrow> Some (None, snd (settle event_id later job outcome db), r))
      | (Inr None, db) \<Rightarrow> Some (Some 500, db, snd st)
      | (Inl e, db) \<Rightarrow> Some (Some 2000, db, snd st))"

section \<open>The machine\<close>

datatype process_change =
  PC_Feature instant set_circle_feature
| PC_Binding uuid instant configure_process_binding
| PC_Application uuid instant configure_application
| PC_BindApplication bind_process_application
| PC_Processor configure_application_processor
| PC_Role configure_process_role
| PC_Route uuid configure_task_route

primrec apply_change :: "process_change \<Rightarrow> process_db \<Rightarrow> process_db" where
  "apply_change (PC_Feature now cmd) db = snd (store_set_circle_feature now cmd db)"
| "apply_change (PC_Binding fresh now cmd) db = snd (service_configure_process_binding fresh now cmd db)"
| "apply_change (PC_Application fresh now cmd) db = snd (service_configure_application fresh now cmd db)"
| "apply_change (PC_BindApplication cmd) db = snd (service_bind_process_application cmd db)"
| "apply_change (PC_Processor cmd) db = snd (service_configure_application_processor cmd db)"
| "apply_change (PC_Role cmd) db = snd (service_configure_process_role cmd db)"
| "apply_change (PC_Route fresh cmd) db = snd (service_configure_task_route fresh cmd db)"

record 'w process_state =
  ps_db :: process_db
  ps_leased :: "outbox_job list"
  ps_answered :: "(outbox_job \<times> (process_error, worker_result) result) list"
  ps_heart :: "'w heart_run"

definition in_flight :: "'w process_state \<Rightarrow> outbox_job set" where
  "in_flight s = set (ps_leased s) \<union> fst ` set (ps_answered s)"

definition fresh_job :: "outbox_id \<Rightarrow> 'w process_state \<Rightarrow> bool" where
  "fresh_job i s \<longleftrightarrow> (\<forall>job \<in> in_flight s. oj_id job \<noteq> i)"

definition fresh_link :: "process_link_id \<Rightarrow> 'w process_state \<Rightarrow> bool" where
  "fresh_link i s \<longleftrightarrow> (\<forall>job \<in> in_flight s. oj_link job \<noteq> i)"

text \<open>
  What Heart promises: it remembers which instance was started under a key, and an answer to a
  start or to a question about a start names that instance. In a memory \<open>inst\<close> of the world.
\<close>

definition heart_facts :: "'w heart \<Rightarrow> ('w \<Rightarrow> uuid \<rightharpoonup> uuid) \<Rightarrow> bool" where
  "heart_facts H inst \<longleftrightarrow>
     (\<forall>req w. inst w \<subseteq>\<^sub>m inst (snd (ht_send H req w))) \<and>
     (\<forall>url cmd key w status body w' res. ht_send H (PostInstance url cmd key) w = (Answered status (Some body), w') \<longrightarrow>
        is_success status \<longrightarrow> ht_started H body = Some res \<longrightarrow> inst w' key = Some (st_instance_id res)) \<and>
     (\<forall>url ns key w status body w' res. ht_send H (GetInstanceStart url ns key) w = (Answered status (Some body), w') \<longrightarrow>
        is_success status \<longrightarrow> ht_started H body = Some res \<longrightarrow> inst w' key = Some (st_instance_id res))"

inductive process_step :: "process_lib \<Rightarrow> 'w heart \<Rightarrow> heart_gateway \<Rightarrow> ('w \<Rightarrow> uuid \<rightharpoonup> uuid) \<Rightarrow> 'w process_state \<Rightarrow> 'w process_state \<Rightarrow> bool"
  for B :: process_lib and H :: "'w heart" and G :: heart_gateway and inst :: "'w \<Rightarrow> uuid \<rightharpoonup> uuid" where
  step_start: "fresh_link link s \<Longrightarrow> fresh_job job s \<Longrightarrow> service_enqueue_start B link job now cmd (ps_db s) = (res, db) \<Longrightarrow>
    process_step B H G inst s (s\<lparr> ps_db := db \<rparr>)"
| step_correlation: "fresh_job job s \<Longrightarrow> store_enqueue_correlation B job now cmd (ps_db s) = (res', db) \<Longrightarrow>
    process_step B H G inst s (s\<lparr> ps_db := db \<rparr>)"
| step_inspection: "fresh_job job s \<Longrightarrow> store_enqueue_inspection B job now cmd' (ps_db s) = (res', db) \<Longrightarrow>
    process_step B H G inst s (s\<lparr> ps_db := db \<rparr>)"
| step_change: "process_step B H G inst s (s\<lparr> ps_db := apply_change change (ps_db s) \<rparr>)"
| step_chat: "process_step B H G inst s (s\<lparr> ps_db := (ps_db s)\<lparr> pt_channels := cs, pt_members := ms,
    pt_circle_members := ks, pt_users := us \<rparr> \<rparr>)"
| step_delete: "process_step B H G inst s (s\<lparr> ps_db := delete_channel_rows c (ps_db s) \<rparr>)"
| step_lease: "lease_next B tie now lease_time (ps_db s) = (Inr (Some leased), db) \<Longrightarrow>
    process_step B H G inst s (s\<lparr> ps_db := db, ps_leased := leased # ps_leased s \<rparr>)"
| step_perform: "leased \<in> set (ps_leased s) \<Longrightarrow> perform H G leased (ps_heart s) = (Some outcome, r) \<Longrightarrow>
    process_step B H G inst s (s\<lparr> ps_leased := remove1 leased (ps_leased s), ps_answered := (leased, outcome) # ps_answered s,
      ps_heart := r \<rparr>)"
| step_settle: "(leased, outcome) \<in> set (ps_answered s) \<Longrightarrow> settle event_id now leased outcome (ps_db s) = (settled, db) \<Longrightarrow>
    process_step B H G inst s (s\<lparr> ps_db := db, ps_answered := remove1 (leased, outcome) (ps_answered s) \<rparr>)"
| step_crash: "set ls \<subseteq> set (ps_leased s) \<Longrightarrow> set as \<subseteq> set (ps_answered s) \<Longrightarrow>
    process_step B H G inst s (s\<lparr> ps_leased := ls, ps_answered := as \<rparr>)"
| step_heart: "inst (hr_world (ps_heart s)) \<subseteq>\<^sub>m inst w \<Longrightarrow>
    process_step B H G inst s (s\<lparr> ps_heart := (ps_heart s)\<lparr> hr_world := w \<rparr> \<rparr>)"

definition process_run :: "process_lib \<Rightarrow> 'w heart \<Rightarrow> heart_gateway \<Rightarrow> ('w \<Rightarrow> uuid \<rightharpoonup> uuid) \<Rightarrow> 'w process_state \<Rightarrow> 'w process_state \<Rightarrow> bool" where
  "process_run B H G inst = (process_step B H G inst)\<^sup>*\<^sup>*"

definition process_new :: "process_db \<Rightarrow> 'w heart_run \<Rightarrow> 'w process_state" where
  "process_new db r = \<lparr> ps_db = db\<lparr> pt_links := [], pt_outbox := [], pt_events := [], pt_receipts := [] \<rparr>,
     ps_leased = [], ps_answered = [], ps_heart = r \<rparr>"

end
