(* ===== verification/Process_Properties.thy ===== *)
theory Process_Properties
  imports Process_Outbox
begin

text \<open>
  That a request starts one process. What matters of the tables is abstracted to three views: of a
  link who asked for it, with which request, and its instance; of a job its kind, its link and its
  payload; of the events the one that reports the start. Most steps leave the views alone; the
  invariant is kept by the few abstract changes that are left.
\<close>

section \<open>Views of the tables\<close>

type_synonym link_view = "process_link_id \<rightharpoonup> user_id \<times> rstr \<times> uuid option"
type_synonym row_view = "outbox_id \<rightharpoonup> outbox_kind \<times> process_link_id \<times> byte list"
type_synonym started_view = "process_link_id \<rightharpoonup> event_payload"

definition view_of_link :: "link_row \<Rightarrow> user_id \<times> rstr \<times> uuid option" where
  "view_of_link row = (pl_initiated_by (lr_link row), lr_request_id row, pl_heart_instance_id (lr_link row))"

definition view_of_row :: "outbox_row \<Rightarrow> outbox_kind \<times> process_link_id \<times> byte list" where
  "view_of_row row = (ob_kind row, ob_link row, ob_payload row)"

definition link_view :: "process_db \<Rightarrow> link_view" where
  "link_view db i = map_option view_of_link (map_of (pt_links db) i)"

definition row_view :: "process_db \<Rightarrow> row_view" where
  "row_view db k = map_option view_of_row (map_of (pt_outbox db) k)"

definition started_view :: "process_db \<Rightarrow> started_view" where
  "started_view db i = map_option ev_payload (map_of (pt_events db) (i, EK_Started))"

fun kind_of :: "outbox_operation \<Rightarrow> outbox_kind" where
  "kind_of (Op_Start _) = OK_Start"
| "kind_of (Op_Correlate _) = OK_Correlate"
| "kind_of (Op_Inspect _) = OK_Inspect"

section \<open>The invariant and its abstract changes\<close>

definition links_ok :: "process_lib \<Rightarrow> (uuid \<rightharpoonup> uuid) \<Rightarrow> link_view \<Rightarrow> row_view \<Rightarrow> started_view \<Rightarrow> bool" where
  "links_ok B m L R E \<longleftrightarrow>
     (\<forall>i j a q x y. L i = Some (a, q, x) \<and> L j = Some (a, q, y) \<longrightarrow> i = j) \<and>
     (\<forall>i. L i \<noteq> None \<longrightarrow> (\<exists>!k. \<exists>p. R k = Some (OK_Start, i, p))) \<and>
     (\<forall>k kind i p. R k = Some (kind, i, p) \<longrightarrow>
        L i \<noteq> None \<and> (\<forall>op. from_json (pb_operation_json B) p = Some op \<longrightarrow> kind_of op = kind)) \<and>
     (\<forall>i a q x. L i = Some (a, q, Some x) \<longrightarrow>
        (\<exists>k p. R k = Some (OK_Start, i, p) \<and> m (outbox_uuid k) = Some x) \<and> E i = Some (EP_Started x)) \<and>
     (\<forall>i. E i \<noteq> None \<longrightarrow> (\<exists>a q x. L i = Some (a, q, Some x)))"

definition jobs_ok :: "link_view \<Rightarrow> row_view \<Rightarrow> outbox_job set \<Rightarrow> bool" where
  "jobs_ok L R jobs \<longleftrightarrow>
     (\<forall>job \<in> jobs. L (oj_link job) \<noteq> None \<longrightarrow> (\<exists>p. R (oj_id job) = Some (kind_of (oj_operation job), oj_link job, p)))"

definition answers_ok :: "(uuid \<rightharpoonup> uuid) \<Rightarrow> (outbox_job \<times> (process_error, worker_result) result) set \<Rightarrow> bool" where
  "answers_ok m answers \<longleftrightarrow>
     (\<forall>job res. (job, Inr (W_Started res)) \<in> answers \<longrightarrow>
        kind_of (oj_operation job) = OK_Start \<and> m (outbox_uuid (oj_id job)) = Some (st_instance_id res))"

lemma links_okD:
  assumes "links_ok B m L R E"
  shows "L i = Some (a, q, h) \<Longrightarrow> L j = Some (a, q, h') \<Longrightarrow> i = j"
    and "L i \<noteq> None \<Longrightarrow> \<exists>!k. \<exists>p. R k = Some (OK_Start, i, p)"
    and "R k = Some (kind, i, p) \<Longrightarrow> L i \<noteq> None"
    and "R k = Some (kind, i, p) \<Longrightarrow> from_json (pb_operation_json B) p = Some op \<Longrightarrow> kind_of op = kind"
    and "L i = Some (a, q, Some x) \<Longrightarrow> \<exists>k p. R k = Some (OK_Start, i, p) \<and> m (outbox_uuid k) = Some x"
    and "L i = Some (a, q, Some x) \<Longrightarrow> E i = Some (EP_Started x)"
    and "E i \<noteq> None \<Longrightarrow> \<exists>a q x. L i = Some (a, q, Some x)"
proof -
  note all = assms [unfolded links_ok_def]
  note rest = all [THEN conjunct2] and two = all [THEN conjunct2, THEN conjunct2]
  show "L i = Some (a, q, h) \<Longrightarrow> L j = Some (a, q, h') \<Longrightarrow> i = j" using all [THEN conjunct1] by blast
  show "L i \<noteq> None \<Longrightarrow> \<exists>!k. \<exists>p. R k = Some (OK_Start, i, p)" using rest [THEN conjunct1] by blast
  show "R k = Some (kind, i, p) \<Longrightarrow> L i \<noteq> None" using two [THEN conjunct1] by blast
  show "R k = Some (kind, i, p) \<Longrightarrow> from_json (pb_operation_json B) p = Some op \<Longrightarrow> kind_of op = kind"
    using two [THEN conjunct1] by blast
  show "L i = Some (a, q, Some x) \<Longrightarrow> \<exists>k p. R k = Some (OK_Start, i, p) \<and> m (outbox_uuid k) = Some x"
    using two [THEN conjunct2, THEN conjunct1] by blast
  show "L i = Some (a, q, Some x) \<Longrightarrow> E i = Some (EP_Started x)" using two [THEN conjunct2, THEN conjunct1] by blast
  show "E i \<noteq> None \<Longrightarrow> \<exists>a q x. L i = Some (a, q, Some x)" using two [THEN conjunct2, THEN conjunct2] by blast
qed

lemma links_okI:
  assumes "\<And>i j a q h h'. L i = Some (a, q, h) \<Longrightarrow> L j = Some (a, q, h') \<Longrightarrow> i = j"
    and "\<And>i. L i \<noteq> None \<Longrightarrow> \<exists>!k. \<exists>p. R k = Some (OK_Start, i, p)"
    and "\<And>k kind i p. R k = Some (kind, i, p) \<Longrightarrow> L i \<noteq> None"
    and "\<And>k kind i p op. R k = Some (kind, i, p) \<Longrightarrow> from_json (pb_operation_json B) p = Some op \<Longrightarrow> kind_of op = kind"
    and "\<And>i a q x. L i = Some (a, q, Some x) \<Longrightarrow> \<exists>k p. R k = Some (OK_Start, i, p) \<and> m (outbox_uuid k) = Some x"
    and "\<And>i a q x. L i = Some (a, q, Some x) \<Longrightarrow> E i = Some (EP_Started x)"
    and "\<And>i. E i \<noteq> None \<Longrightarrow> \<exists>a q x. L i = Some (a, q, Some x)"
  shows "links_ok B m L R E"
  unfolding links_ok_def by (intro conjI allI impI; (elim conjE)?) (fact assms | (erule assms; assumption))+

lemma links_ok_start_unique:
  assumes "links_ok B m L R E" "R k = Some (OK_Start, i, p)" "R k' = Some (OK_Start, i, p')"
  shows "k = k'"
  using links_okD(2) [OF assms(1) links_okD(3) [OF assms(1,2)]] assms(2,3) by blast

lemma links_ok_mono:
  assumes inv: "links_ok B m L R E" and le: "m \<subseteq>\<^sub>m m'"
  shows "links_ok B m' L R E"
proof (rule links_okI)
  show "\<exists>k p. R k = Some (OK_Start, i, p) \<and> m' (outbox_uuid k) = Some x" if "L i = Some (a, q, Some x)" for i a q x
  proof -
    from links_okD(5) [OF inv that] obtain k p where k: "R k = Some (OK_Start, i, p)" "m (outbox_uuid k) = Some x" by blast
    with le have "m' (outbox_uuid k) = Some x" unfolding map_le_def by (metis domI)
    with k(1) show ?thesis by blast
  qed
qed (fact links_okD [OF inv])+

lemma answers_ok_mono: "answers_ok m A \<Longrightarrow> m \<subseteq>\<^sub>m m' \<Longrightarrow> answers_ok m' A"
  unfolding answers_ok_def map_le_def by (metis domI)

lemma links_ok_new_link:
  assumes inv: "links_ok B m L R E" and new: "L i = None" "R k = None" and req: "\<And>j x. L j \<noteq> Some (a, q, x)"
    and kind: "\<And>op. from_json (pb_operation_json B) p = Some op \<Longrightarrow> kind_of op = OK_Start"
  shows "links_ok B m (L(i \<mapsto> (a, q, None))) (R(k \<mapsto> (OK_Start, i, p))) E" (is "links_ok B m ?L ?R E")
proof (rule links_okI)
  have no: "R j \<noteq> Some (kd, i, p')" for j kd p' using links_okD(3) [OF inv, of j kd i p'] new(1) by auto
  show "\<exists>!k'. \<exists>p'. ?R k' = Some (OK_Start, j, p')" if "?L j \<noteq> None" for j
  proof (cases "j = i")
    case True
    then show ?thesis using no by (intro ex1I [of _ k]) (auto split: if_splits)
  next
    case False
    with that have "L j \<noteq> None" by simp
    from links_okD(2) [OF inv this] obtain k' p' where k': "R k' = Some (OK_Start, j, p')" by blast
    note u = links_ok_start_unique [OF inv _ k']
    from k' new(2) have "k' \<noteq> k" by auto
    show ?thesis
    proof (intro ex1I [of _ k'])
      show "\<exists>p'. ?R k' = Some (OK_Start, j, p')" using k' \<open>k' \<noteq> k\<close> by simp
    next
      fix k'' assume "\<exists>p'. ?R k'' = Some (OK_Start, j, p')"
      with False obtain p'' where "R k'' = Some (OK_Start, j, p'')" by (auto split: if_splits)
      then show "k'' = k'" by (rule u)
    qed
  qed
  show "\<exists>k' p'. ?R k' = Some (OK_Start, j, p') \<and> m (outbox_uuid k') = Some x" if "?L j = Some (b, r, Some x)" for j b r x
  proof -
    from that have "L j = Some (b, r, Some x)" by (auto split: if_splits)
    from links_okD(5) [OF inv this] obtain k' p' where "R k' = Some (OK_Start, j, p')" "m (outbox_uuid k') = Some x" by blast
    then show ?thesis using new(2) by (intro exI [of _ k'] exI [of _ p']) auto
  qed
  show "i' = j" if "?L i' = Some (b, r, h)" "?L j = Some (b, r, h')" for i' j b r h h'
    using that req links_okD(1) [OF inv, of i' b r h j h'] by (auto split: if_splits)
  show "?L j \<noteq> None" if "?R k' = Some (kd, j, p')" for k' kd j p'
    using that links_okD(3) [OF inv, of k' kd j p'] by (auto split: if_splits)
  show "kind_of op = kd" if "?R k' = Some (kd, j, p')" "from_json (pb_operation_json B) p' = Some op" for k' kd j p' op
    using that kind links_okD(4) [OF inv, of k' kd j p' op] by (auto split: if_splits)
  show "E j = Some (EP_Started x)" if "?L j = Some (b, r, Some x)" for j b r x
    using that links_okD(6) [OF inv] by (auto split: if_splits)
  show "\<exists>b r x. ?L j = Some (b, r, Some x)" if "E j \<noteq> None" for j
    using links_okD(7) [OF inv that] new(1) by auto
qed

lemma links_ok_new_row:
  assumes inv: "links_ok B m L R E" and new: "R k = None" "L i \<noteq> None" and kind: "kd \<noteq> OK_Start"
    "\<And>op. from_json (pb_operation_json B) p = Some op \<Longrightarrow> kind_of op = kd"
  shows "links_ok B m L (R(k \<mapsto> (kd, i, p))) E" (is "links_ok B m L ?R E")
proof (rule links_okI)
  have start: "?R k' = Some (OK_Start, j, p') \<longleftrightarrow> R k' = Some (OK_Start, j, p')" for k' j p' using new(1) kind(1) by auto
  show "\<exists>!k'. \<exists>p'. ?R k' = Some (OK_Start, j, p')" if "L j \<noteq> None" for j
    using links_okD(2) [OF inv that] unfolding start .
  show "\<exists>k' p'. ?R k' = Some (OK_Start, j, p') \<and> m (outbox_uuid k') = Some x" if "L j = Some (a, q, Some x)" for j a q x
    using links_okD(5) [OF inv that] unfolding start .
  show "L j \<noteq> None" if "?R k' = Some (kd', j, p')" for k' kd' j p'
    using that new(2) links_okD(3) [OF inv, of k' kd' j p'] by (auto split: if_splits)
  show "kind_of op = kd'" if "?R k' = Some (kd', j, p')" "from_json (pb_operation_json B) p' = Some op" for k' kd' j p' op
    using that kind(2) links_okD(4) [OF inv, of k' kd' j p' op] by (auto split: if_splits)
qed (fact links_okD [OF inv])+

lemma links_ok_activate:
  assumes inv: "links_ok B m L R E" and row: "L i = Some (a, q, h)" and job: "R k = Some (OK_Start, i, p)" "m (outbox_uuid k) = Some x"
  shows "h \<in> {None, Some x}" "E i \<in> {None, Some (EP_Started x)}"
    "links_ok B m (L(i \<mapsto> (a, q, Some x))) R (E(i \<mapsto> EP_Started x))"
proof -
  show h: "h \<in> {None, Some x}"
  proof (cases h)
    case (Some y)
    from links_okD(5) [OF inv, of i a q y] row Some obtain k' p' where "R k' = Some (OK_Start, i, p')" "m (outbox_uuid k') = Some y" by auto
    with links_ok_start_unique [OF inv this(1) job(1)] job(2) Some show ?thesis by simp
  qed simp
  show "E i \<in> {None, Some (EP_Started x)}"
  proof (cases "E i = None")
    case False
    from links_okD(7) [OF inv False] row h have "h = Some x" by auto
    with links_okD(6) [OF inv, of i a q x] row show ?thesis by simp
  qed simp
  show "links_ok B m (L(i \<mapsto> (a, q, Some x))) R (E(i \<mapsto> EP_Started x))" (is "links_ok B m ?L R ?E")
  proof (rule links_okI)
    show "i' = j" if "?L i' = Some (b, r, g)" "?L j = Some (b, r, g')" for i' j b r g g'
      using that row links_okD(1) [OF inv, of i' b r _ j] by (auto split: if_splits)
    show "\<exists>k' p'. R k' = Some (OK_Start, j, p') \<and> m (outbox_uuid k') = Some y" if "?L j = Some (b, r, Some y)" for j b r y
      using that job links_okD(5) [OF inv, of j b r y] by (auto split: if_splits)
    show "?E j = Some (EP_Started y)" if "?L j = Some (b, r, Some y)" for j b r y
      using that links_okD(6) [OF inv, of j b r y] by (auto split: if_splits)
    show "\<exists>b r y. ?L j = Some (b, r, Some y)" if "?E j \<noteq> None" for j
      using that links_okD(7) [OF inv, of j] by (auto split: if_splits)
    show "\<exists>!k. \<exists>p. R k = Some (OK_Start, j, p)" if "?L j \<noteq> None" for j
      using that row links_okD(2) [OF inv, of j] by (auto split: if_splits)
    show "?L j \<noteq> None" if "R k' = Some (kd', j, p')" for k' kd' j p'
      using that links_okD(3) [OF inv, of k' kd' j p'] by auto
  qed (fact links_okD(4) [OF inv])
qed

definition drop_rows :: "process_link_id set \<Rightarrow> row_view \<Rightarrow> row_view" where
  "drop_rows D R k = (case R k of None \<Rightarrow> None | Some x \<Rightarrow> if fst (snd x) \<in> D then None else Some x)"

lemma drop_rows_Some: "drop_rows D R k = Some (kd, i, p) \<longleftrightarrow> R k = Some (kd, i, p) \<and> i \<notin> D"
  by (auto simp: drop_rows_def split: option.splits if_splits)

lemma restrict_compl:
  "(f |` (- D)) i = Some x \<longleftrightarrow> f i = Some x \<and> i \<notin> D" "(f |` (- D)) i \<noteq> None \<longleftrightarrow> f i \<noteq> None \<and> i \<notin> D"
  by (auto simp: restrict_map_def)

lemma links_ok_delete:
  assumes inv: "links_ok B m L R E"
  shows "links_ok B m (L |` (- D)) (drop_rows D R) (E |` (- D))"
proof (rule links_okI, unfold drop_rows_Some restrict_compl)
  show "\<exists>!k. \<exists>p. R k = Some (OK_Start, i, p) \<and> i \<notin> D" if "L i \<noteq> None \<and> i \<notin> D" for i
    using links_okD(2) [OF inv, of i] that by simp
  show "\<exists>k p. (R k = Some (OK_Start, i, p) \<and> i \<notin> D) \<and> m (outbox_uuid k) = Some x" if "L i = Some (a, q, Some x) \<and> i \<notin> D" for i a q x
    using links_okD(5) [OF inv, of i a q x] that by simp
  show "\<exists>a q x. L i = Some (a, q, Some x) \<and> i \<notin> D" if "E i \<noteq> None \<and> i \<notin> D" for i
    using links_okD(7) [OF inv, of i] that by simp
qed (elim conjE; (intro conjI)?; (assumption | (erule links_okD [OF inv]; assumption)))+

section \<open>What the operations do to the views\<close>

definition tables_wf :: "process_db \<Rightarrow> bool" where
  "tables_wf db \<longleftrightarrow> hm_wf (pt_links db) \<and> hm_wf (pt_outbox db) \<and> hm_wf (pt_events db)"

definition same_views :: "process_db \<Rightarrow> process_db \<Rightarrow> bool" where
  "same_views db db' \<longleftrightarrow> link_view db' = link_view db \<and> row_view db' = row_view db \<and> started_view db' = started_view db \<and>
     (tables_wf db \<longrightarrow> tables_wf db')"

lemma same_viewsI:
  "pt_links db' = pt_links db \<Longrightarrow> pt_outbox db' = pt_outbox db \<Longrightarrow> pt_events db' = pt_events db \<Longrightarrow> same_views db db'"
  by (simp add: same_views_def tables_wf_def link_view_def row_view_def started_view_def fun_eq_iff)

lemma same_views_refl [simp]: "same_views db db"
  by (simp add: same_views_def)

lemma same_views_trans: "same_views db db1 \<Longrightarrow> same_views db1 db2 \<Longrightarrow> same_views db db2"
  by (simp add: same_views_def)

lemma audit_core [simp]:
  "pt_links (audit a b c d db) = pt_links db" "pt_outbox (audit a b c d db) = pt_outbox db"
  "pt_events (audit a b c d db) = pt_events db"
  by (simp_all add: audit_def)

lemma apply_change_core [simp]:
  "pt_links (apply_change ch db) = pt_links db" "pt_outbox (apply_change ch db) = pt_outbox db"
  "pt_events (apply_change ch db) = pt_events db"
  by (cases ch; simp add: store_set_circle_feature_def service_configure_process_binding_def conflict_unless_def
      store_configure_process_binding_def service_configure_application_def store_configure_application_def
      service_bind_process_application_def store_bind_process_application_def service_configure_application_processor_def
      store_configure_application_processor_def service_configure_process_role_def store_configure_process_role_def
      service_configure_task_route_def store_configure_task_route_def Let_def split: option.split prod.split)+

lemma update_outbox_views:
  assumes "\<And>row. view_of_row (f row) = view_of_row row"
  shows "same_views db (update_outbox i f db)"
  by (auto simp: same_views_def tables_wf_def update_outbox_def link_view_def row_view_def started_view_def fun_eq_iff assms split: option.split)

lemma update_link_views:
  "link_view (update_link i f now db) =
     (case map_of (pt_links db) i of
        None \<Rightarrow> link_view db
      | Some row \<Rightarrow> (link_view db)(i \<mapsto> (pl_initiated_by (f (lr_link row)), lr_request_id row, pl_heart_instance_id (f (lr_link row)))))"
  "row_view (update_link i f now db) = row_view db" "started_view (update_link i f now db) = started_view db"
  "tables_wf db \<Longrightarrow> tables_wf (update_link i f now db)"
  by (auto simp: update_link_def tables_wf_def link_view_def row_view_def started_view_def view_of_link_def fun_eq_iff split: option.split)

lemma update_link_same:
  assumes "\<And>l. pl_initiated_by (f l) = pl_initiated_by l" "\<And>l. pl_heart_instance_id (f l) = pl_heart_instance_id l"
  shows "same_views db (update_link i f now db)"
  unfolding same_views_def update_link_views(1-3) assms
  by (auto simp: update_link_views(4) link_view_def view_of_link_def fun_eq_iff split: option.split)

lemma insert_event_views:
  assumes "insert_event l key e db = (Inr u, db')"
  shows "hm_has (pt_links db) l" "link_view db' = link_view db" "row_view db' = row_view db" "tables_wf db \<Longrightarrow> tables_wf db'"
    "started_view db' = (if key = EK_Started \<and> started_view db l = None then (started_view db)(l \<mapsto> ev_payload e) else started_view db)"
  using assms by (auto simp: insert_event_def tables_wf_def link_view_def row_view_def started_view_def hm_has_iff fun_eq_iff split: if_splits)

lemma insert_event_other:
  assumes "insert_event l key e db = (Inr u, db')" "key \<noteq> EK_Started"
  shows "same_views db db'"
  using insert_event_views [OF assms(1)] assms(2) by (simp add: same_views_def)

lemma completed_view [simp]: "view_of_row (completed now row) = view_of_row row"
  by (simp add: view_of_row_def completed_def)

lemma complete_operation_views: "same_views db (snd (complete_operation ev now job ty payload db))"
proof -
  have "same_views db (update_outbox (oj_id job) (completed now) db1)" if "same_views db db1" for db1
    using that update_outbox_views [of "completed now" db1] by (rule same_views_trans) simp
  then show ?thesis
    using insert_event_other by (auto simp: complete_operation_def split: option.split prod.split sum.split)
qed

lemma reschedule_views: "same_views db (snd (reschedule ev now job e delay db))"
proof -
  let ?t = "\<not> pe_retryable e \<or> 8 \<le> oj_attempts job"
  let ?db1 = "update_outbox (oj_id job) (\<lambda>row. row\<lparr> ob_status := (if ?t then OS_Failed else OS_Pending),
      ob_available_at := now + millis delay, ob_lease_until := None, ob_last_error := Some (error_display e) \<rparr>) db"
  let ?db2 = "update_link (oj_link job) (\<lambda>l. l\<lparr> pl_status := PS_Failed \<rparr>) now ?db1"
  have 1: "same_views db ?db1" by (rule update_outbox_views) (simp add: view_of_row_def)
  have 2: "same_views db ?db2" using 1 by (rule same_views_trans) (rule update_link_same, simp_all)
  have "same_views db db3" if "insert_event (oj_link job) (EK_Failed (oj_id job)) x ?db2 = (Inr u, db3)" for x u db3
    using 2 insert_event_other [OF that] by (rule same_views_trans) simp
  with 1 show ?thesis unfolding reschedule_def Let_def
    by (cases ?t) (auto split: option.split prod.split sum.split)
qed

lemma complete_start_views:
  assumes run: "complete_start ev now job res db = (r, db')"
    and fits: "\<And>a q h. link_view db (oj_link job) = Some (a, q, h) \<Longrightarrow> h \<in> {None, Some (st_instance_id res)} \<and>
      started_view db (oj_link job) \<in> {None, Some (EP_Started (st_instance_id res))}"
  obtains "db' = db"
  | a q h where "link_view db (oj_link job) = Some (a, q, h)"
      "link_view db' = (link_view db)(oj_link job \<mapsto> (a, q, Some (st_instance_id res)))" "row_view db' = row_view db"
      "started_view db' = (started_view db)(oj_link job \<mapsto> EP_Started (st_instance_id res))"
      "tables_wf db \<Longrightarrow> tables_wf db'"
proof (cases "db' = db")
  case False
  let ?x = "st_instance_id res" and ?i = "oj_link job"
  from run False obtain db1 actor db2 where
    act: "activate_link ?i ?x now db = (Inr (), db1)" and actor: "initiator db1 ?i = Some actor" and
    ev: "insert_event ?i EK_Started \<lparr> ev_id = ev, ev_event_type = ''process.started'', ev_payload = EP_Started ?x,
           ev_actor_id = actor, ev_occurred_at = now \<rparr> db1 = (Inr (), db2)" and
    db': "db' = update_outbox (oj_id job) (completed now) db2"
    unfolding complete_start_def by (auto split: prod.splits sum.splits option.splits)
  have out: "same_views db2 db'" unfolding db' by (rule update_outbox_views) simp
  note evs = insert_event_views [OF ev]
  from actor obtain row1 where "map_of (pt_links db1) ?i = Some row1" by (auto simp: initiator_def)
  with act obtain row where row: "map_of (pt_links db) ?i = Some row"
    by (cases "map_of (pt_links db) ?i") (auto simp: activate_link_def)
  obtain a q h where v: "link_view db ?i = Some (a, q, h)" and aqh: "view_of_link row = (a, q, h)"
    using row by (cases "view_of_link row") (auto simp: link_view_def)
  note h = fits [OF v]
  from act row h aqh have db1: "db1 = update_link ?i (\<lambda>l. l\<lparr> pl_heart_instance_id := Some ?x, pl_status := PS_Active \<rparr>) now db"
    by (auto simp: activate_link_def view_of_link_def split: if_splits)
  have l1: "link_view db1 = (link_view db)(?i \<mapsto> (a, q, Some ?x))" and r1: "row_view db1 = row_view db"
    and e1: "started_view db1 = started_view db" "tables_wf db \<Longrightarrow> tables_wf db1"
    using row aqh unfolding db1 update_link_views(1-3) by (simp_all add: view_of_link_def update_link_views(4))
  have "started_view db2 = (started_view db)(?i \<mapsto> EP_Started ?x)"
    using h unfolding evs(5) e1(1) by (auto simp: fun_eq_iff)
  with out evs(2-4) l1 r1 e1 v show ?thesis by (intro that(2)) (simp_all add: same_views_def)
qed (rule that(1))

lemma enqueue_start_views:
  assumes json: "json_facts (pb_operation_json B)"
    and run: "service_enqueue_start B link job now cmd db = (r, db')"
  obtains "db' = db"
  | p where "link_view db link = None" "row_view db job = None"
      "\<And>j x. link_view db j \<noteq> Some (es_actor cmd, es_request_id cmd, x)"
      "\<And>op. from_json (pb_operation_json B) p = Some op \<Longrightarrow> kind_of op = OK_Start"
      "link_view db' = (link_view db)(link \<mapsto> (es_actor cmd, es_request_id cmd, None))"
      "row_view db' = (row_view db)(job \<mapsto> (OK_Start, link, p))" "started_view db' = started_view db"
      "tables_wf db \<Longrightarrow> tables_wf db'"
proof (cases "db' = db")
  case False
  from run False obtain p where none: "find (requested (es_actor cmd) (es_request_id cmd)) (pt_links db) = None"
    and new: "\<not> hm_has (pt_links db) link" "\<not> hm_has (pt_outbox db) job"
    and p: "to_json (pb_operation_json B) (Op_Start \<lparr> sp_namespace = es_namespace cmd, sp_definition_name = es_definition_name cmd,
        sp_version = es_definition_version cmd, sp_metadata = es_metadata cmd \<rparr>) = Inr p"
    and db': "db' = audit (es_actor cmd) ''process.started'' ''process_link'' (link_uuid link)
        (db\<lparr> pt_links := hm_insert link \<lparr> lr_link = new_process_link link cmd, lr_request_id = es_request_id cmd,
           lr_created_at = now, lr_updated_at = now \<rparr> (pt_links db),
           pt_outbox := hm_insert job (new_outbox_row link OK_Start p now) (pt_outbox db) \<rparr>)"
    unfolding service_enqueue_start_def store_enqueue_start_def by (auto split: if_splits option.splits sum.splits prod.splits)
  have "link_view db j \<noteq> Some (es_actor cmd, es_request_id cmd, x)" for j x
    using none map_of_SomeD [of "pt_links db" j]
    by (auto simp: link_view_def view_of_link_def find_None_iff requested_def)
  moreover have "from_json (pb_operation_json B) p = Some (Op_Start \<lparr> sp_namespace = es_namespace cmd,
      sp_definition_name = es_definition_name cmd, sp_version = es_definition_version cmd, sp_metadata = es_metadata cmd \<rparr>)"
    using json p unfolding json_facts_def by blast
  ultimately show ?thesis using new
    by (intro that(2) [of p]) (auto simp: db' tables_wf_def link_view_def row_view_def started_view_def hm_has_iff fun_eq_iff view_of_link_def
        view_of_row_def new_process_link_def new_outbox_row_def)
qed (rule that(1))

lemma enqueue_job_views:
  assumes json: "json_facts (pb_operation_json B)" and kind: "kind = kind_of operation"
    and run: "enqueue_job B job now actor request link kind operation db = (r, db')"
  obtains "db' = db"
  | p where "row_view db job = None" "\<And>op. from_json (pb_operation_json B) p = Some op \<Longrightarrow> kind_of op = kind"
      "link_view db' = link_view db" "row_view db' = (row_view db)(job \<mapsto> (kind, link, p))" "started_view db' = started_view db"
      "tables_wf db \<Longrightarrow> tables_wf db'"
proof (cases "db' = db")
  case False
  from run False obtain p where new: "\<not> hm_has (pt_outbox db) job" and p: "to_json (pb_operation_json B) operation = Inr p"
    and db': "pt_links db' = pt_links db" "pt_events db' = pt_events db"
      "pt_outbox db' = hm_insert job (new_outbox_row link kind p now) (pt_outbox db)"
    unfolding enqueue_job_def by (auto split: if_splits sum.splits)
  have "from_json (pb_operation_json B) p = Some operation" using json p unfolding json_facts_def by blast
  with new show ?thesis
    by (intro that(2) [of p]) (auto simp: db' kind tables_wf_def link_view_def row_view_def started_view_def hm_has_iff fun_eq_iff
        view_of_row_def new_outbox_row_def)
qed (rule that(1))

lemma link_access_link: "link_access db link actor = Some x \<Longrightarrow> link_view db link \<noteq> None"
  by (auto simp: link_access_def link_view_def split: option.splits)

text \<open>A command on a link adds a job for it at most.\<close>

definition adds_job :: "process_lib \<Rightarrow> outbox_id \<Rightarrow> process_db \<Rightarrow> process_db \<Rightarrow> bool" where
  "adds_job B job db db' \<longleftrightarrow> db' = db \<or>
     (\<exists>kind link p. kind \<noteq> OK_Start \<and> link_view db link \<noteq> None \<and> row_view db job = None \<and>
        (\<forall>op. from_json (pb_operation_json B) p = Some op \<longrightarrow> kind_of op = kind) \<and>
        link_view db' = link_view db \<and> row_view db' = (row_view db)(job \<mapsto> (kind, link, p)) \<and>
        started_view db' = started_view db \<and> (tables_wf db \<longrightarrow> tables_wf db'))"

lemma enqueue_job_adds:
  assumes "json_facts (pb_operation_json B)" "kind = kind_of operation" "kind \<noteq> OK_Start" "link_view db link \<noteq> None"
    and "enqueue_job B job now actor request link kind operation db = (r, db')"
  shows "adds_job B job db db'"
  unfolding adds_job_def by (rule enqueue_job_views [OF assms(1,2,5)]) (use assms(3,4) in blast)+

lemma correlation_adds:
  assumes json: "json_facts (pb_operation_json B)" and run: "store_enqueue_correlation B job now cmd db = (r, db')"
  shows "adds_job B job db db'"
proof (cases "db' = db")
  case False
  with run obtain link role operation where acc: "link_access db (ec_process_link_id cmd) (ec_actor cmd) = Some (link, role)"
    and enq: "enqueue_job B job now (ec_actor cmd) (ec_request_id cmd) (ec_process_link_id cmd) OK_Correlate (Op_Correlate operation) db = (r, db')"
    unfolding store_enqueue_correlation_def by (auto split: option.splits if_splits)
  from enqueue_job_adds [OF json _ _ link_access_link [OF acc] enq] show ?thesis by simp
qed (simp add: adds_job_def)

lemma inspection_adds:
  assumes json: "json_facts (pb_operation_json B)" and run: "store_enqueue_inspection B job now cmd db = (r, db')"
  shows "adds_job B job db db'"
proof (cases "db' = db")
  case False
  with run obtain link role operation where acc: "link_access db (ei_process_link_id cmd) (ei_actor cmd) = Some (link, role)"
    and enq: "enqueue_job B job now (ei_actor cmd) (ei_request_id cmd) (ei_process_link_id cmd) OK_Inspect (Op_Inspect operation) db = (r, db')"
    unfolding store_enqueue_inspection_def by (auto split: option.splits if_splits)
  from enqueue_job_adds [OF json _ _ link_access_link [OF acc] enq] show ?thesis by simp
qed (simp add: adds_job_def)

lemma next_due_in: "next_due tie now db = Some (i, row) \<Longrightarrow> (i, row) \<in> set (pt_outbox db)"
proof -
  assume "next_due tie now db = Some (i, row)"
  then have "(i, row) \<in> set (sort_key (\<lambda>(i, row). (ob_created_at row, tie i)) (filter (\<lambda>(_, row). is_due now row) (pt_outbox db)))"
    unfolding next_due_def by (cases "sort_key (\<lambda>(i, row). (ob_created_at row, tie i)) (filter (\<lambda>(_, row). is_due now row) (pt_outbox db))") simp_all
  then show ?thesis by simp
qed

lemma lease_next_views:
  assumes wf: "tables_wf db" and run: "lease_next B tie now t db = (Inr (Some job), db')"
  shows "same_views db db'" "\<exists>kind p. row_view db (oj_id job) = Some (kind, oj_link job, p) \<and>
    from_json (pb_operation_json B) p = Some (oj_operation job)"
proof -
  from run obtain i row job0 where due: "next_due tie now db = Some (i, row)" and job0: "outbox_from_row B i row = Inr job0"
    and job: "job = job0\<lparr> oj_attempts := oj_attempts job0 + 1 \<rparr>"
    and db': "db' = db\<lparr> pt_outbox := hm_insert i (row\<lparr> ob_status := OS_Leased, ob_lease_until := Some (now + t),
       ob_attempts := ob_attempts row + 1 \<rparr>) (pt_outbox db) \<rparr>"
    unfolding lease_next_def by (auto split: option.splits prod.splits sum.splits if_splits)
  have row: "map_of (pt_outbox db) i = Some row" using next_due_in [OF due] wf by (simp add: hm_entry_iff tables_wf_def)
  then show "same_views db db'"
    by (auto simp: db' same_views_def tables_wf_def link_view_def row_view_def started_view_def view_of_row_def fun_eq_iff)
  show "\<exists>kind p. row_view db (oj_id job) = Some (kind, oj_link job, p) \<and> from_json (pb_operation_json B) p = Some (oj_operation job)"
    using job0 row by (auto simp: outbox_from_row_def job row_view_def view_of_row_def split: option.splits)
qed

lemma delete_channel_views:
  assumes wf: "tables_wf db"
  shows "\<exists>D. link_view (delete_channel_rows c db) = link_view db |` (- D) \<and>
    row_view (delete_channel_rows c db) = drop_rows D (row_view db) \<and>
    started_view (delete_channel_rows c db) = started_view db |` (- D)" "tables_wf (delete_channel_rows c db)"
proof -
  note get = wf [unfolded tables_wf_def, THEN conjunct1, THEN hm_get_retain]
    wf [unfolded tables_wf_def, THEN conjunct2, THEN conjunct1, THEN hm_get_retain]
    wf [unfolded tables_wf_def, THEN conjunct2, THEN conjunct2, THEN hm_get_retain]
  show "\<exists>D. link_view (delete_channel_rows c db) = link_view db |` (- D) \<and>
    row_view (delete_channel_rows c db) = drop_rows D (row_view db) \<and>
    started_view (delete_channel_rows c db) = started_view db |` (- D)"
    by (intro exI [of _ "set (map fst (filter (\<lambda>(_, row). pl_channel_id (lr_link row) = c) (pt_links db)))"] conjI ext)
      (simp_all add: delete_channel_rows_def link_view_def row_view_def started_view_def drop_rows_def view_of_row_def Let_def
        get restrict_map_def split: option.split)
  show "tables_wf (delete_channel_rows c db)" using wf by (simp add: tables_wf_def delete_channel_rows_def Let_def hm_wf_retain)
qed

section \<open>What Heart answers\<close>

lemma heart_factsD:
  assumes "heart_facts H inst"
  shows "inst w \<subseteq>\<^sub>m inst (snd (ht_send H req w))"
    and "ht_send H (PostInstance url cmd key) w = (Answered status (Some body), w') \<Longrightarrow> is_success status \<Longrightarrow>
      ht_started H body = Some res \<Longrightarrow> inst w' key = Some (st_instance_id res)"
    and "ht_send H (GetInstanceStart url ns key) w = (Answered status (Some body), w') \<Longrightarrow> is_success status \<Longrightarrow>
      ht_started H body = Some res \<Longrightarrow> inst w' key = Some (st_instance_id res)"
  using assms unfolding heart_facts_def by blast+

lemma world_after_mono: "heart_facts H inst \<Longrightarrow> inst w \<subseteq>\<^sub>m inst (world_after H req n w)"
  by (induction n arbitrary: w) (auto intro: map_le_trans heart_factsD(1))

lemma world_after_last: "world_after H req (Suc n) w = snd (ht_send H req (world_after H req n w))"
  by (induction n arbitrary: w) simp_all

lemma execute_last_send:
  assumes "heart_facts H inst" "execute H G m req dec r = (Some v, r')"
  obtains w where "v = verdict dec (fst (ht_send H req w))" "hr_world r' = snd (ht_send H req w)"
    "inst (hr_world r) \<subseteq>\<^sub>m inst (hr_world r')"
proof -
  let ?k = "fruitless H req dec (hg_retries G) (hr_world r)"
  from execute_reference obtain r'' where "execute H G m req dec r = (Some (attempt_verdict H req dec (hr_world r) ?k), r'')"
    "hr_world r'' = world_after H req (Suc ?k) (hr_world r)" .
  with assms(2) have v: "v = attempt_verdict H req dec (hr_world r) ?k" and w: "hr_world r' = world_after H req (Suc ?k) (hr_world r)" by auto
  show ?thesis
    by (rule that [of "world_after H req ?k (hr_world r)"])
      (simp_all only: v w attempt_verdict_def world_after_last, metis world_after_mono [OF assms(1)] world_after_last)
qed

lemma verdict_Inr: "verdict dec oc = Inr x \<Longrightarrow> \<exists>status body. oc = Answered status (Some body) \<and> is_success status \<and> dec body = Some x"
  by (auto simp: verdict_def bind_eq_Some_conv split: send_outcome.splits if_splits option.splits)

lemma execute_started:
  assumes facts: "heart_facts H inst" and run: "execute H G m req (ht_started H) r = (Some v, r')"
    and req: "req = PostInstance url cmd key \<or> req = GetInstanceStart url ns key"
  shows "inst (hr_world r) \<subseteq>\<^sub>m inst (hr_world r')"
    and "v = Inr res \<Longrightarrow> inst (hr_world r') key = Some (st_instance_id res)"
proof -
  obtain w where v: "v = verdict (ht_started H) (fst (ht_send H req w))" and w: "hr_world r' = snd (ht_send H req w)"
    and le: "inst (hr_world r) \<subseteq>\<^sub>m inst (hr_world r')"
    by (rule execute_last_send [OF facts run])
  show "inst (hr_world r) \<subseteq>\<^sub>m inst (hr_world r')" by (rule le)
  show "inst (hr_world r') key = Some (st_instance_id res)" if "v = Inr res"
  proof -
    from verdict_Inr [of "ht_started H" "fst (ht_send H req w)" res] that v obtain status body where
      "fst (ht_send H req w) = Answered status (Some body)" "is_success status" "ht_started H body = Some res" by auto
    moreover from this(1) w have "ht_send H req w = (Answered status (Some body), hr_world r')" by (metis prod.collapse)
    ultimately show ?thesis using req heart_factsD(2,3) [OF facts] by metis
  qed
qed

lemma gateway_start_started:
  assumes facts: "heart_facts H inst" and run: "gateway_start H G cmd key r = (Some v, r')"
  shows "inst (hr_world r) \<subseteq>\<^sub>m inst (hr_world r')"
    and "v = Inr res \<Longrightarrow> inst (hr_world r') key = Some (st_instance_id res)"
proof -
  obtain v1 r1 where post: "execute H G HM_Post (PostInstance (hg_base_url G) cmd key) (ht_started H) r = (Some v1, r1)"
    by (rule execute_returns)
  note p = execute_started [OF facts post, where url = "hg_base_url G" and cmd = cmd and key = key, simplified]
  have res: "inst (hr_world r1) \<subseteq>\<^sub>m inst (hr_world r2) \<and> (\<forall>res. v2 = Inr res \<longrightarrow> inst (hr_world r2) key = Some (st_instance_id res))"
    if "resolve_start H G ns key r1 = (Some v2, r2)" for ns v2 r2
  proof (cases "\<exists>res. resolve_start H G ns key r1 = (Some (Inl res), r1)")
    case False
    with that have "execute H G HM_Get (GetInstanceStart (hg_base_url G) ns key) (ht_started H) r1 = (Some v2, r2)"
      by (auto simp: resolve_start_def split: option.splits if_splits)
    note q = execute_started [OF facts this, where url = "hg_base_url G" and ns = ns and key = key, simplified]
    show ?thesis using q by blast
  qed (use that in auto)
  show "inst (hr_world r) \<subseteq>\<^sub>m inst (hr_world r')"
    using run p(1) res map_le_trans [OF p(1)]
    by (auto simp: gateway_start_def post split: sum.splits if_splits prod.splits option.splits)
  show "inst (hr_world r') key = Some (st_instance_id res)" if "v = Inr res"
    using run that p(2) res
    by (auto simp: gateway_start_def post split: sum.splits if_splits prod.splits option.splits)
qed

lemma perform_answers:
  assumes facts: "heart_facts H inst" and run: "perform H G job r = (Some outcome, r')"
  shows "inst (hr_world r) \<subseteq>\<^sub>m inst (hr_world r')"
    and "outcome = Inr (W_Started res) \<Longrightarrow> kind_of (oj_operation job) = OK_Start \<and>
      inst (hr_world r') (outbox_uuid (oj_id job)) = Some (st_instance_id res)"
proof -
  have "inst (hr_world r) \<subseteq>\<^sub>m inst (hr_world r') \<and> (\<forall>res. outcome = Inr (W_Started res) \<longrightarrow> kind_of (oj_operation job) = OK_Start \<and>
      inst (hr_world r') (outbox_uuid (oj_id job)) = Some (st_instance_id res))"
  proof (cases "oj_operation job")
    case (Op_Start cmd)
    from run Op_Start obtain v where v: "gateway_start H G cmd (outbox_uuid (oj_id job)) r = (Some v, r')"
      "outcome = map_sum id W_Started v"
      by (cases "gateway_start H G cmd (outbox_uuid (oj_id job)) r") (auto simp: perform_def Let_def)
    show ?thesis using gateway_start_started [OF facts v(1)] v(2) Op_Start by (cases v) auto
  next
    case (Op_Correlate cmd)
    from run Op_Correlate obtain v where v: "gateway_correlate H G cmd (outbox_uuid (oj_id job)) r = (Some v, r')"
      "outcome = map_sum id (\<lambda>x. W_Event ''process.correlated'' (EP_Correlated (cd_matched_instances x) (cd_instance_ids x))) v"
      by (cases "gateway_correlate H G cmd (outbox_uuid (oj_id job)) r") (auto simp: perform_def Let_def)
    have "\<forall>res. outcome \<noteq> Inr (W_Started res)" using v(2) by (cases v) auto
    with execute_last_send [OF facts v(1) [unfolded gateway_correlate_def]] show ?thesis by blast
  next
    case (Op_Inspect i)
    from run Op_Inspect obtain v where v: "gateway_inspect H G i (outbox_uuid (oj_id job)) r = (Some v, r')"
      "outcome = map_sum id (\<lambda>x. W_Event ''process.inspected'' (EP_Inspected (pi_id x) (pi_status x) (pi_current_node x))) v"
      by (cases "gateway_inspect H G i (outbox_uuid (oj_id job)) r") (auto simp: perform_def Let_def)
    have "\<forall>res. outcome \<noteq> Inr (W_Started res)" using v(2) by (cases v) auto
    with execute_last_send [OF facts v(1) [unfolded gateway_inspect_def]] show ?thesis by blast
  qed
  then show "inst (hr_world r) \<subseteq>\<^sub>m inst (hr_world r')"
    "outcome = Inr (W_Started res) \<Longrightarrow> kind_of (oj_operation job) = OK_Start \<and>
      inst (hr_world r') (outbox_uuid (oj_id job)) = Some (st_instance_id res)" by blast+
qed

section \<open>Every reachable state\<close>

abbreviation memory :: "('w \<Rightarrow> uuid \<rightharpoonup> uuid) \<Rightarrow> 'w process_state \<Rightarrow> uuid \<rightharpoonup> uuid" where
  "memory inst s \<equiv> inst (hr_world (ps_heart s))"

definition tables_ok :: "process_lib \<Rightarrow> (uuid \<rightharpoonup> uuid) \<Rightarrow> process_db \<Rightarrow> outbox_job set \<Rightarrow> bool" where
  "tables_ok B m db jobs \<longleftrightarrow> tables_wf db \<and> links_ok B m (link_view db) (row_view db) (started_view db) \<and>
     jobs_ok (link_view db) (row_view db) jobs"

definition process_inv :: "process_lib \<Rightarrow> ('w \<Rightarrow> uuid \<rightharpoonup> uuid) \<Rightarrow> 'w process_state \<Rightarrow> bool" where
  "process_inv B inst s \<longleftrightarrow> tables_ok B (memory inst s) (ps_db s) (in_flight s) \<and> answers_ok (memory inst s) (set (ps_answered s))"

text \<open>A link that has an instance keeps it as long as it exists.\<close>

definition instances_kept :: "process_db \<Rightarrow> process_db \<Rightarrow> bool" where
  "instances_kept db db' \<longleftrightarrow>
     (\<forall>i a q x. link_view db i = Some (a, q, Some x) \<longrightarrow> link_view db' i \<in> {None, Some (a, q, Some x)})"

lemma tables_ok_jobs: "tables_ok B m db jobs \<Longrightarrow> jobs' \<subseteq> jobs \<Longrightarrow> tables_ok B m db jobs'"
  unfolding tables_ok_def jobs_ok_def by blast

lemma tables_ok_mono: "tables_ok B m db jobs \<Longrightarrow> m \<subseteq>\<^sub>m m' \<Longrightarrow> tables_ok B m' db jobs"
  unfolding tables_ok_def by (blast intro: links_ok_mono)

lemma tables_ok_same: "same_views db db' \<Longrightarrow> tables_ok B m db jobs \<Longrightarrow> tables_ok B m db' jobs"
  by (simp add: same_views_def tables_ok_def)

lemma kept_same: "same_views db db' \<Longrightarrow> instances_kept db db'"
  by (simp add: same_views_def instances_kept_def)

lemma enqueue_start_ok:
  assumes json: "json_facts (pb_operation_json B)" and run: "service_enqueue_start B link job now cmd db = (r, db')"
    and inv: "tables_ok B m db jobs" and fresh: "\<forall>j \<in> jobs. oj_link j \<noteq> link" "\<forall>j \<in> jobs. oj_id j \<noteq> job"
  shows "tables_ok B m db' jobs \<and> instances_kept db db'"
  using json run
proof (cases rule: enqueue_start_views)
  case 1
  then show ?thesis using inv by (simp add: kept_same)
next
  case (2 p)
  have l: "links_ok B m (link_view db') (row_view db') (started_view db')"
    unfolding 2(5-7) using inv 2(1-4) unfolding tables_ok_def by (intro links_ok_new_link) auto
  have "jobs_ok (link_view db') (row_view db') jobs"
    using inv fresh unfolding tables_ok_def jobs_ok_def 2(5,6) by auto
  moreover have "instances_kept db db'" unfolding instances_kept_def 2(5) using 2(1) by auto
  ultimately show ?thesis using l inv 2(8) by (simp add: tables_ok_def)
qed

lemma adds_job_ok:
  assumes adds: "adds_job B job db db'" and inv: "tables_ok B m db jobs" and fresh: "\<forall>j \<in> jobs. oj_id j \<noteq> job"
  shows "tables_ok B m db' jobs \<and> instances_kept db db'"
proof (cases "db' = db")
  case False
  with adds obtain kind link p where new: "kind \<noteq> OK_Start" "link_view db link \<noteq> None" "row_view db job = None"
      "\<And>op. from_json (pb_operation_json B) p = Some op \<Longrightarrow> kind_of op = kind"
    and v: "link_view db' = link_view db" "row_view db' = (row_view db)(job \<mapsto> (kind, link, p))"
      "started_view db' = started_view db" "tables_wf db \<longrightarrow> tables_wf db'"
    unfolding adds_job_def by blast
  have "links_ok B m (link_view db') (row_view db') (started_view db')"
    unfolding v(1-3) using inv new unfolding tables_ok_def by (intro links_ok_new_row) auto
  moreover have "jobs_ok (link_view db') (row_view db') jobs"
    using inv fresh unfolding tables_ok_def jobs_ok_def v(1,2) by auto
  ultimately show ?thesis using inv v by (simp add: tables_ok_def instances_kept_def)
qed (use inv in \<open>simp add: kept_same\<close>)

lemma complete_start_ok:
  assumes inv: "tables_ok B m db jobs" and job: "job \<in> jobs" "kind_of (oj_operation job) = OK_Start"
      "m (outbox_uuid (oj_id job)) = Some (st_instance_id res)"
    and run: "complete_start ev now job res db = (r, db')"
  shows "tables_ok B m db' jobs \<and> instances_kept db db'"
proof -
  let ?x = "st_instance_id res" and ?i = "oj_link job"
  have links: "links_ok B m (link_view db) (row_view db) (started_view db)" using inv by (simp add: tables_ok_def)
  have row: "\<exists>p. row_view db (oj_id job) = Some (OK_Start, ?i, p)" if "link_view db ?i = Some (a, q, h)" for a q h
    using inv job that unfolding tables_ok_def jobs_ok_def by force
  have fits: "h \<in> {None, Some ?x} \<and> started_view db ?i \<in> {None, Some (EP_Started ?x)}"
    if "link_view db ?i = Some (a, q, h)" for a q h
    using row [OF that] links_ok_activate(1,2) [OF links that _ job(3)] by blast
  show ?thesis
  proof (rule complete_start_views [OF run])
    show "h \<in> {None, Some ?x} \<and> started_view db ?i \<in> {None, Some (EP_Started ?x)}" if "link_view db ?i = Some (a, q, h)" for a q h
      by (rule fits [OF that])
  next
    assume "db' = db"
    then show ?thesis using inv by (simp add: kept_same)
  next
    fix a q h assume 2: "link_view db ?i = Some (a, q, h)" "link_view db' = (link_view db)(?i \<mapsto> (a, q, Some ?x))"
      "row_view db' = row_view db" "started_view db' = (started_view db)(?i \<mapsto> EP_Started ?x)" "tables_wf db \<Longrightarrow> tables_wf db'"
    obtain p where p: "row_view db (oj_id job) = Some (OK_Start, ?i, p)" using row [OF 2(1)] by blast
    have "links_ok B m (link_view db') (row_view db') (started_view db')"
      unfolding 2(2-4) by (rule links_ok_activate(3) [OF links 2(1) p job(3)])
    moreover have "jobs_ok (link_view db') (row_view db') jobs"
      using inv 2(1) unfolding tables_ok_def jobs_ok_def 2(2,3) by (auto split: if_splits)
    moreover have "instances_kept db db'"
      using fits [OF 2(1)] 2(1) unfolding instances_kept_def 2(2) by auto
    ultimately show ?thesis using inv 2(5) by (simp add: tables_ok_def)
  qed
qed

lemma delete_channel_ok:
  assumes inv: "tables_ok B m db jobs"
  shows "tables_ok B m (delete_channel_rows c db) jobs \<and> instances_kept db (delete_channel_rows c db)"
proof -
  have wf: "tables_wf db" using inv by (simp add: tables_ok_def)
  obtain D where v: "link_view (delete_channel_rows c db) = link_view db |` (- D)"
    "row_view (delete_channel_rows c db) = drop_rows D (row_view db)"
    "started_view (delete_channel_rows c db) = started_view db |` (- D)"
    using delete_channel_views(1) [OF wf] by blast
  have "jobs_ok (link_view db |` (- D)) (drop_rows D (row_view db)) jobs"
    using inv unfolding tables_ok_def jobs_ok_def drop_rows_Some restrict_compl by blast
  then show ?thesis
    using inv links_ok_delete delete_channel_views(2) [OF wf]
    by (auto simp: tables_ok_def v instances_kept_def restrict_map_def)
qed

lemma settle_ok:
  assumes inv: "tables_ok B m db jobs" and answers: "answers_ok m answers" "(job, outcome) \<in> answers" "job \<in> jobs"
    and run: "settle ev now job outcome db = (r, db')"
  shows "tables_ok B m db' jobs \<and> instances_kept db db'"
proof (cases "\<exists>res. outcome = Inr (W_Started res)")
  case True
  then obtain res where o: "outcome = Inr (W_Started res)" by blast
  then have "complete_start ev now job res db = (r, db')" using run by (simp add: settle_def)
  moreover have "kind_of (oj_operation job) = OK_Start" "m (outbox_uuid (oj_id job)) = Some (st_instance_id res)"
    using answers(1,2) unfolding o answers_ok_def by blast+
  ultimately show ?thesis using complete_start_ok [OF inv answers(3)] by blast
next
  case False
  with run have "same_views db db'"
    using complete_operation_views [of db] reschedule_views [of db]
    by (auto simp: settle_def split: sum.splits worker_result.splits) (metis snd_conv)+
  then show ?thesis using inv by (simp add: tables_ok_same kept_same)
qed

lemma in_flight_update [simp]:
  "in_flight (s\<lparr> ps_db := db \<rparr>) = in_flight s" "in_flight (s\<lparr> ps_heart := r \<rparr>) = in_flight s"
  by (simp_all add: in_flight_def)

lemma process_step_inv:
  assumes json: "json_facts (pb_operation_json B)" and facts: "heart_facts H inst"
    and step: "process_step B H G inst s s'" and inv: "process_inv B inst s"
  shows "process_inv B inst s' \<and> instances_kept (ps_db s) (ps_db s')"
proof -
  have tabs: "tables_ok B (memory inst s) (ps_db s) (in_flight s)" and ans: "answers_ok (memory inst s) (set (ps_answered s))"
    using inv by (simp_all add: process_inv_def)
  have db_step: ?thesis if "s' = s\<lparr> ps_db := db \<rparr>" "tables_ok B (memory inst s) db (in_flight s) \<and> instances_kept (ps_db s) db" for db
    using that ans by (simp add: process_inv_def)
  have same_step: ?thesis if "s' = s\<lparr> ps_db := db \<rparr>" "same_views (ps_db s) db" for db
    using that(2) tabs by (intro db_step [OF that(1)]) (blast intro: tables_ok_same kept_same)
  from step show ?thesis
  proof cases
    case (step_start link job now cmd res db)
    then show ?thesis using enqueue_start_ok [OF json step_start(4) tabs] unfolding fresh_link_def fresh_job_def by (intro db_step)
  next
    case (step_correlation job now cmd res db)
    then show ?thesis using adds_job_ok [OF correlation_adds [OF json step_correlation(3)] tabs] unfolding fresh_job_def by (intro db_step)
  next
    case (step_inspection job now cmd res db)
    then show ?thesis using adds_job_ok [OF inspection_adds [OF json step_inspection(3)] tabs] unfolding fresh_job_def by (intro db_step)
  next
    case (step_change change)
    then show ?thesis by (rule same_step) (intro same_viewsI, simp_all)
  next
    case step_chat
    then show ?thesis by (rule same_step) (intro same_viewsI, simp_all)
  next
    case (step_delete c)
    then show ?thesis using delete_channel_ok [OF tabs] by (intro db_step)
  next
    case (step_lease tie now job db)
    have wf: "tables_wf (ps_db s)" using tabs by (simp add: tables_ok_def)
    note lease = lease_next_views [OF wf step_lease(2)]
    from lease(2) tabs have "jobs_ok (link_view (ps_db s)) (row_view (ps_db s)) (insert job (in_flight s))"
      unfolding tables_ok_def jobs_ok_def using links_okD(4) by (metis insert_iff)
    with tabs have "tables_ok B (memory inst s) (ps_db s) (insert job (in_flight s))" by (simp add: tables_ok_def)
    from tables_ok_same [OF lease(1) this] show ?thesis
      using ans kept_same [OF lease(1)] unfolding step_lease(1) by (simp add: process_inv_def in_flight_def)
  next
    case (step_perform job outcome r)
    note p = perform_answers [OF facts step_perform(3)]
    have "in_flight s' \<subseteq> in_flight s" 
      using step_perform(2) set_remove1_subset [of job "ps_leased s"] unfolding step_perform(1) in_flight_def by auto
    with tables_ok_jobs [OF tables_ok_mono [OF tabs p(1)]]
    have "tables_ok B (inst (hr_world r)) (ps_db s) (in_flight s')" by blast
    moreover have "answers_ok (inst (hr_world r)) (set ((job, outcome) # ps_answered s))"
      using answers_ok_mono [OF ans p(1)] p(2) unfolding answers_ok_def by auto
    ultimately show ?thesis unfolding step_perform(1) by (simp add: process_inv_def kept_same)
  next
    case (step_settle job outcome ev now settled db)
    have "job \<in> in_flight s" using step_settle(2) unfolding in_flight_def by force
    from settle_ok [OF tabs ans step_settle(2) this step_settle(3)]
    have "tables_ok B (memory inst s) db (in_flight s)" "instances_kept (ps_db s) db" by simp_all
    moreover have sub: "set (remove1 (job, outcome) (ps_answered s)) \<subseteq> set (ps_answered s)" by (rule set_remove1_subset)
    moreover from sub have "in_flight s' \<subseteq> in_flight s" unfolding step_settle(1) in_flight_def by auto
    ultimately show ?thesis using ans unfolding step_settle(1) process_inv_def
      by (auto intro: tables_ok_jobs simp: answers_ok_def)
  next
    case (step_crash ls as)
    then have "in_flight s' \<subseteq> in_flight s" unfolding in_flight_def by auto
    with tables_ok_jobs [OF tabs this] ans step_crash show ?thesis by (auto simp: process_inv_def answers_ok_def kept_same)
  next
    case (step_heart w)
    then show ?thesis using tables_ok_mono [OF tabs] answers_ok_mono [OF ans] by (simp add: process_inv_def kept_same)
  qed
qed

lemma process_run_inv:
  assumes "json_facts (pb_operation_json B)" "heart_facts H inst" "process_run B H G inst (process_new db r) s"
  shows "process_inv B inst s"
  using assms(3) unfolding process_run_def
proof (induction rule: rtranclp_induct)
  case base
  have "links_ok B m Map.empty Map.empty Map.empty" for m by (rule links_okI) simp_all
  then show ?case
    by (simp add: process_inv_def process_new_def tables_ok_def tables_wf_def jobs_ok_def answers_ok_def in_flight_def
        link_view_def [abs_def] row_view_def [abs_def] started_view_def [abs_def])
next
  case (step s1 s2)
  then show ?case using process_step_inv [OF assms(1,2)] by blast
qed

text \<open>
  C16. A request starts one process, however often jobs are repeated, however many workers there
  are and wherever they crash. In every reachable state, the link of a request is the only one of
  its user and request, and there is exactly one job to start it; if the link has an instance, it
  is the one that Heart has started under the identifier of that job, and the start is reported
  in the history with this instance. No step gives the link another instance.
\<close>

theorem process_started_once:
  assumes "json_facts (pb_operation_json B)" and "heart_facts H inst" and "process_run B H G inst (process_new db r) s"
    and "map_of (pt_links (ps_db s)) i = Some row"
  shows "(\<forall>j other. map_of (pt_links (ps_db s)) j = Some other \<and> lr_request_id other = lr_request_id row \<and>
      pl_initiated_by (lr_link other) = pl_initiated_by (lr_link row) \<longrightarrow> j = i) \<and>
    (\<exists>!k. \<exists>job. map_of (pt_outbox (ps_db s)) k = Some job \<and> ob_kind job = OK_Start \<and> ob_link job = i) \<and>
    (\<forall>x. pl_heart_instance_id (lr_link row) = Some x \<longrightarrow>
      (\<exists>k job. map_of (pt_outbox (ps_db s)) k = Some job \<and> ob_kind job = OK_Start \<and> ob_link job = i \<and>
         inst (hr_world (ps_heart s)) (outbox_uuid k) = Some x) \<and>
      (\<exists>e. map_of (pt_events (ps_db s)) (i, EK_Started) = Some e \<and> ev_payload e = EP_Started x) \<and>
      (\<forall>s' row'. process_step B H G inst s s' \<and> map_of (pt_links (ps_db s')) i = Some row' \<longrightarrow>
         pl_heart_instance_id (lr_link row') = Some x))"
proof -
  let ?L = "link_view (ps_db s)" and ?R = "row_view (ps_db s)" and ?E = "started_view (ps_db s)"
  note inv = process_run_inv [OF assms(1-3)]
  have ok: "links_ok B (memory inst s) ?L ?R ?E" using inv by (simp add: process_inv_def tables_ok_def)
  have start: "(\<exists>p. ?R k = Some (OK_Start, i, p)) \<longleftrightarrow>
      (\<exists>job. map_of (pt_outbox (ps_db s)) k = Some job \<and> ob_kind job = OK_Start \<and> ob_link job = i)" for k
    by (auto simp: row_view_def view_of_row_def)
  have row: "?L i = Some (pl_initiated_by (lr_link row), lr_request_id row, pl_heart_instance_id (lr_link row))"
    using assms(4) by (simp add: link_view_def view_of_link_def)
  have "j = i" if "map_of (pt_links (ps_db s)) j = Some other" "lr_request_id other = lr_request_id row"
    "pl_initiated_by (lr_link other) = pl_initiated_by (lr_link row)" for j other
    using links_okD(1) [OF ok _ row, of j] that by (simp add: link_view_def view_of_link_def)
  moreover have "\<exists>!k. \<exists>job. map_of (pt_outbox (ps_db s)) k = Some job \<and> ob_kind job = OK_Start \<and> ob_link job = i"
    using links_okD(2) [OF ok, of i] row unfolding start by simp
  moreover have "(\<exists>k job. map_of (pt_outbox (ps_db s)) k = Some job \<and> ob_kind job = OK_Start \<and> ob_link job = i \<and>
        memory inst s (outbox_uuid k) = Some x) \<and>
      (\<exists>e. map_of (pt_events (ps_db s)) (i, EK_Started) = Some e \<and> ev_payload e = EP_Started x) \<and>
      (\<forall>s' row'. process_step B H G inst s s' \<and> map_of (pt_links (ps_db s')) i = Some row' \<longrightarrow>
         pl_heart_instance_id (lr_link row') = Some x)" if x: "pl_heart_instance_id (lr_link row) = Some x" for x
  proof (intro conjI allI impI)
    note row = row [unfolded x]
    show "\<exists>k job. map_of (pt_outbox (ps_db s)) k = Some job \<and> ob_kind job = OK_Start \<and> ob_link job = i \<and>
        memory inst s (outbox_uuid k) = Some x"
      using links_okD(5) [OF ok row] start by blast
    show "\<exists>e. map_of (pt_events (ps_db s)) (i, EK_Started) = Some e \<and> ev_payload e = EP_Started x"
      using links_okD(6) [OF ok row] by (auto simp: started_view_def)
    fix s' row' assume s': "process_step B H G inst s s' \<and> map_of (pt_links (ps_db s')) i = Some row'"
    with process_step_inv [OF assms(1,2) _ inv] have "instances_kept (ps_db s) (ps_db s')" by blast
    with row have "link_view (ps_db s') i \<in> {None, Some (pl_initiated_by (lr_link row), lr_request_id row, Some x)}"
      unfolding instances_kept_def by blast
    with s' show "pl_heart_instance_id (lr_link row') = Some x" by (auto simp: link_view_def view_of_link_def)
  qed
  ultimately show ?thesis by blast
qed

end
