(* ===== verification/Process_Example.thy ===== *)
theory Process_Example
  imports Process_Properties
begin

text \<open>
  A run of the process engine: Kari starts a process in a channel whose circle plans with Heart.
  Heart is reachable or not; when it is, a start takes effect but its answer is lost, so that the
  gateway has to ask what has become of it. The run also shows that a worker that is late can
  mark a running process as failed.
\<close>

section \<open>A small Heart\<close>

type_synonym demo_world = "(uuid, uuid) hmap \<times> bool"

fun demo_send :: "heart_request \<Rightarrow> demo_world \<Rightarrow> send_outcome \<times> demo_world" where
  "demo_send (PostInstance url cmd key) (known, up) =
     (if up then (Elapsed, (hm_or_insert key 77 known, up)) else (Answered 401 None, (known, up)))"
| "demo_send (GetInstanceStart url ns key) (known, up) =
     (if up \<and> hm_get known key = Some 77 then (Answered 200 (Some [7]), (known, up)) else (Answered 404 None, (known, up)))"
| "demo_send request w = (Transport_failed, w)"

definition demo_heart :: "demo_world heart" where
  "demo_heart = \<lparr> ht_send = demo_send,
     ht_parse_url = (\<lambda>_. Some \<lparr> url_scheme = lit ''http'', url_username = [], url_password = None, url_query = None,
       url_fragment = None, url_has_segments = True \<rparr>),
     ht_started = (\<lambda>body. if body = [7] then Some \<lparr> st_instance_id = 77 \<rparr> else None),
     ht_instance = (\<lambda>_. None), ht_correlated = (\<lambda>_. None) \<rparr>"

definition demo_memory :: "demo_world \<Rightarrow> uuid \<rightharpoonup> uuid" where
  "demo_memory w = hm_get (fst w)"

lemma demo_heart_facts: "heart_facts demo_heart demo_memory"
  unfolding heart_facts_def
proof (intro conjI allI impI)
  show "demo_memory w \<subseteq>\<^sub>m demo_memory (snd (ht_send demo_heart req w))" for req w
    by (cases "(req, w)" rule: demo_send.cases)
      (auto simp: demo_heart_def demo_memory_def map_le_def hm_has_iff)
qed (auto simp: demo_heart_def demo_memory_def split: if_splits)

definition demo_gateway :: heart_gateway where
  "demo_gateway = \<lparr> hg_base_url = lit ''http://heart'', hg_timeout = 2000, hg_retries = 2 \<rparr>"

definition demo_run :: "(uuid, uuid) hmap \<Rightarrow> bool \<Rightarrow> demo_world heart_run" where
  "demo_run known up = \<lparr> hr_world = (known, up), hr_slept = [], hr_observed = [] \<rparr>"

definition demo_start :: start_process where
  "demo_start = \<lparr> sp_namespace = lit ''plan'', sp_definition_name = lit ''party'', sp_version = None, sp_metadata = lit ''{}'' \<rparr>"

text \<open>Two attempts in vain are followed by the last one, with pauses of 100 and 200 milliseconds.\<close>

theorem execute_first_conclusive_witness:
  "\<exists>r'. execute demo_heart demo_gateway HM_Post (PostInstance [] demo_start 2) (ht_started demo_heart) (demo_run [] True) =
      (Some (Inl error_timeout), r') \<and> hr_slept r' = [100, 200]"
proof -
  let ?req = "PostInstance [] demo_start 2" and ?w = "([], True) :: demo_world"
  have v: "attempt_verdict demo_heart ?req (ht_started demo_heart) w n = Inl error_timeout" if "snd w" for n and w :: demo_world
    using that
  proof (induction n arbitrary: w)
    case 0
    then show ?case by (cases w) (simp add: attempt_verdict_def demo_heart_def verdict_def)
  next
    case (Suc n)
    then show ?case by (cases w) (simp add: attempt_verdict_Suc demo_heart_def)
  qed
  obtain k r' where k: "execute demo_heart demo_gateway HM_Post ?req (ht_started demo_heart) (demo_run [] True) =
      (Some (attempt_verdict demo_heart ?req (ht_started demo_heart) ?w k), r')" "hr_slept r' = map backoff [0..<k]"
    "k = 2 \<or> conclusive (attempt_verdict demo_heart ?req (ht_started demo_heart) ?w k)"
    using execute_first_conclusive [of demo_heart demo_gateway HM_Post ?req "ht_started demo_heart" "demo_run [] True"]
    by (auto simp: demo_run_def demo_gateway_def)
  from k(3) v have "k = 2" by (simp add: conclusive_def)
  with k(1,2) v show ?thesis by (simp add: backoff_def upt_rec)
qed

section \<open>Tables with a circle that plans\<close>

definition demo_process_lib :: process_lib where
  "demo_process_lib = \<lparr> pb_uuid_text = (\<lambda>_. []),
     pb_operation_json = \<lparr> to_json = (\<lambda>op. if op = Op_Start demo_start then Inr [1] else Inl []),
       from_json = (\<lambda>bs. if bs = [1] then Some (Op_Start demo_start) else None) \<rparr>,
     pb_null_error = [], pb_json_error = [] \<rparr>"

definition demo_tables :: process_db where
  "demo_tables = \<lparr> pt_channels = [(ChannelId 1, Some (CircleId 1))], pt_members = [((ChannelId 1, UserId 1), Member)],
     pt_circle_members = [], pt_users = [], pt_features = [((CircleId 1, lit ''heart.event-planning''), True, UserId 1, 0)],
     pt_links = [], pt_outbox = [], pt_events = [], pt_receipts = [], pt_applications = [],
     pt_bindings = [(5, \<lparr> bd_channel = ChannelId 1, bd_process_key = lit ''party'', bd_namespace = lit ''plan'',
       bd_definition_name = lit ''party'', bd_definition_version = [], bd_enabled = True, bd_revision = 1,
       bd_updated_by = UserId 1, bd_updated_at = 0 \<rparr>)],
     pt_binding_applications = [], pt_processors = [], pt_routes = [], pt_roles = [], pt_audit = [] \<rparr>"

definition demo_command :: enqueue_process_start where
  "demo_command = \<lparr> es_channel_id = ChannelId 1, es_actor = UserId 1, es_request_id = lit ''r1'', es_namespace = lit ''plan'',
     es_definition_name = lit ''party'', es_definition_version = None, es_metadata = lit ''{}'' \<rparr>"

definition demo_row :: "uuid option \<Rightarrow> process_status \<Rightarrow> instant \<Rightarrow> link_row" where
  "demo_row inst status updated = \<lparr> lr_link = (new_process_link (ProcessLinkId 1) demo_command)\<lparr> pl_heart_instance_id := inst,
     pl_status := status \<rparr>, lr_request_id = lit ''r1'', lr_created_at = 0, lr_updated_at = updated \<rparr>"

definition demo_job :: "outbox_status \<Rightarrow> instant option \<Rightarrow> nat \<Rightarrow> outbox_row" where
  "demo_job status lease attempts = (new_outbox_row (ProcessLinkId 1) OK_Start [1] 0)\<lparr> ob_status := status,
     ob_lease_until := lease, ob_attempts := attempts \<rparr>"

definition leased_job :: "u32 \<Rightarrow> outbox_job" where
  "leased_job attempts = \<lparr> oj_id = OutboxId 2, oj_link = ProcessLinkId 1, oj_operation = Op_Start demo_start, oj_attempts = attempts \<rparr>"

definition demo_error :: process_error where "demo_error = error_status 401"

lemma demo_json_facts: "json_facts (pb_operation_json demo_process_lib)"
  by (auto simp: json_facts_def demo_process_lib_def split: if_splits)

definition demo_db1 :: process_db where
  "demo_db1 = snd (service_enqueue_start demo_process_lib (ProcessLinkId 1) (OutboxId 2) 0 demo_command demo_tables)"

lemma demo_db1: "pt_links demo_db1 = [(ProcessLinkId 1, demo_row None PS_Starting 0)]"
  "pt_outbox demo_db1 = [(OutboxId 2, demo_job OS_Pending None 0)]" "pt_events demo_db1 = []" "pt_receipts demo_db1 = []"
  by (simp_all add: demo_db1_def service_enqueue_start_def store_enqueue_start_def demo_tables_def demo_command_def
      planning_role_def planning_def circle_of_def can_start_process_def can_complete_process_work_def can_send_to_channel_def
      bound_definition_def demo_process_lib_def demo_start_def hm_insert_def audit_def demo_row_def demo_job_def new_process_link_def
      new_outbox_row_def text_eval)

section \<open>The run\<close>

lemma demo_lease:
  assumes "pt_outbox db = [(OutboxId 2, demo_job status lease n)]" "is_due now (demo_job status lease n)"
  shows "lease_next demo_process_lib (\<lambda>_. 0) now t db = (Inr (Some (leased_job (as_u32 n + 1))),
    db\<lparr> pt_outbox := [(OutboxId 2, demo_job OS_Leased (Some (now + t)) (n + 1))] \<rparr>)"
  using assms(2)
  by (auto simp: lease_next_def next_due_def assms(1) is_due_def outbox_from_row_def demo_process_lib_def leased_job_def hm_insert_def
      demo_job_def new_outbox_row_def split: option.splits)

lemma demo_execute: "execute demo_heart demo_gateway m req dec r = execute_from demo_heart demo_gateway m req dec [0, 1, 2] r"
proof -
  have "[0..<Suc (hg_retries demo_gateway)] = [0, 1, 2]" by (simp add: demo_gateway_def upt_rec)
  then show ?thesis by (simp only: execute_def)
qed

lemma demo_sel:
  "ht_send demo_heart = demo_send" "ht_started demo_heart [7] = Some \<lparr> st_instance_id = 77 \<rparr>"
  "\<exists>u. ht_parse_url demo_heart x = Some u \<and> url_has_segments u" "hg_retries demo_gateway = 2"
  by (simp_all add: demo_heart_def demo_gateway_def)

lemma demo_resolve: "resolve_start demo_heart demo_gateway ns key r =
    execute demo_heart demo_gateway HM_Get (GetInstanceStart (hg_base_url demo_gateway) ns key) (ht_started demo_heart) r"
  using demo_sel(3) [of "hg_base_url demo_gateway @ lit ''/api/v1/instance-starts/''"] by (auto simp: resolve_start_def)

lemmas demo_call = perform_def leased_job_def gateway_start_def demo_execute execute_from.simps is_success_def demo_resolve demo_sel(1,2,4)

lemma demo_down:
  assumes "hr_world r = (known, False)"
  shows "\<exists>r'. perform demo_heart demo_gateway (leased_job n) r = (Some (Inl demo_error), r') \<and> hr_world r' = (known, False)"
  by (simp add: demo_call assms demo_error_def error_status_def Let_def)

lemma demo_up:
  assumes "hr_world r = ([], True)"
  shows "\<exists>r'. perform demo_heart demo_gateway (leased_job n) r = (Some (Inr (W_Started \<lparr> st_instance_id = 77 \<rparr>)), r') \<and>
    hr_world r' = ([(2, 77)], True)"
  by (simp add: demo_call assms hm_or_insert_def hm_insert_def hm_has_iff Let_def)

lemma demo_settle:
  assumes "pt_links db = [(ProcessLinkId 1, demo_row None PS_Starting t)]" "pt_outbox db = [(OutboxId 2, demo_job st lease k)]"
    "pt_events db = []" "pt_receipts db = []"
  shows "pt_links (snd (settle ev now (leased_job n) (Inr (W_Started \<lparr> st_instance_id = 77 \<rparr>)) db)) =
      [(ProcessLinkId 1, demo_row (Some 77) PS_Active now)]"
    and "pt_receipts (snd (settle ev now (leased_job n) (Inr (W_Started \<lparr> st_instance_id = 77 \<rparr>)) db)) = []"
  by (simp_all add: settle_def complete_start_def activate_link_def update_link_def leased_job_def initiator_def insert_event_def
      update_outbox_def assms hm_has_iff hm_insert_def demo_row_def new_process_link_def)

lemma demo_late:
  assumes "pt_links db = [(ProcessLinkId 1, demo_row (Some 77) PS_Active t)]" "pt_receipts db = []"
  shows "pt_links (snd (settle ev now (leased_job n) (Inl demo_error) db)) = [(ProcessLinkId 1, demo_row (Some 77) PS_Failed now)]"
  by (simp add: settle_def reschedule_def update_link_def leased_job_def initiator_def insert_event_def job_actor_def demo_error_def
      update_outbox_def assms hm_has_iff hm_insert_def demo_row_def new_process_link_def error_status_def Let_def split: option.split)

abbreviation demo_step :: "demo_world process_state \<Rightarrow> demo_world process_state \<Rightarrow> bool" where
  "demo_step \<equiv> process_step demo_process_lib demo_heart demo_gateway demo_memory"

abbreviation demo_reaches :: "demo_world process_state \<Rightarrow> bool" where
  "demo_reaches \<equiv> process_run demo_process_lib demo_heart demo_gateway demo_memory (process_new demo_tables (demo_run [] False))"

lemma demo_reaches_step: "demo_reaches s \<Longrightarrow> demo_step s s' \<Longrightarrow> demo_reaches s'"
  unfolding process_run_def by (rule rtranclp.rtrancl_into_rtrancl)

text \<open>
  The first worker gets a refusal from Heart and is slow to write it down. Its lease runs out,
  a second worker takes the job and starts the process.
\<close>

lemma demo_both_leased:
  "\<exists>s. demo_reaches s \<and> pt_links (ps_db s) = [(ProcessLinkId 1, demo_row None PS_Starting 0)] \<and>
     (\<exists>t k. pt_outbox (ps_db s) = [(OutboxId 2, demo_job OS_Leased t k)]) \<and> pt_events (ps_db s) = [] \<and> pt_receipts (ps_db s) = [] \<and>
     ps_leased s = [leased_job 2] \<and> ps_answered s = [(leased_job 1, Inl demo_error)] \<and> hr_world (ps_heart s) = ([], True)"
proof -
  let ?s0 = "process_new demo_tables (demo_run [] False)"
  have db0: "ps_db ?s0 = demo_tables" "ps_leased ?s0 = []" "ps_answered ?s0 = []" "ps_heart ?s0 = demo_run [] False"
    by (simp_all add: process_new_def demo_tables_def)
  let ?s1 = "?s0\<lparr> ps_db := demo_db1 \<rparr>"
  have fresh: "fresh_link (ProcessLinkId 1) ?s0" "fresh_job (OutboxId 2) ?s0"
    unfolding fresh_link_def fresh_job_def in_flight_def db0 by simp_all
  have "service_enqueue_start demo_process_lib (ProcessLinkId 1) (OutboxId 2) 0 demo_command (ps_db ?s0) =
      (fst (service_enqueue_start demo_process_lib (ProcessLinkId 1) (OutboxId 2) 0 demo_command demo_tables), demo_db1)"
    unfolding db0 demo_db1_def by simp
  from step_start [OF fresh this] have "demo_step ?s0 ?s1" .
  then have 1: "demo_reaches ?s1" by (rule demo_reaches_step [rotated]) (simp add: process_run_def)
  let ?db2 = "demo_db1\<lparr> pt_outbox := [(OutboxId 2, demo_job OS_Leased (Some (0 + lease_time)) (0 + 1))] \<rparr>"
  let ?s2 = "?s1\<lparr> ps_db := ?db2, ps_leased := leased_job 1 # ps_leased ?s1 \<rparr>"
  have "lease_next demo_process_lib (\<lambda>_. 0) 0 lease_time demo_db1 = (Inr (Some (leased_job 1)), ?db2)"
    using demo_lease [OF demo_db1(2), of 0 lease_time] by (simp add: is_due_def demo_job_def new_outbox_row_def as_u32_def)
  then have 2: "demo_reaches ?s2" by (intro demo_reaches_step [OF 1 step_lease]) simp
  have "hr_world (ps_heart ?s2) = ([], False)" by (simp add: db0) (simp add: demo_run_def)
  from demo_down [OF this, of 1] obtain r1 where
    r1: "perform demo_heart demo_gateway (leased_job 1) (ps_heart ?s2) = (Some (Inl demo_error), r1)" "hr_world r1 = ([], False)" by blast
  let ?s3 = "?s2\<lparr> ps_leased := remove1 (leased_job 1) (ps_leased ?s2), ps_answered := (leased_job 1, Inl demo_error) # ps_answered ?s2,
    ps_heart := r1 \<rparr>"
  have 3: "demo_reaches ?s3" by (rule demo_reaches_step [OF 2]) (rule step_perform [OF _ r1(1)], simp)
  let ?s4 = "?s3\<lparr> ps_heart := (ps_heart ?s3)\<lparr> hr_world := ([], True) \<rparr> \<rparr>"
  have 4: "demo_reaches ?s4" by (rule demo_reaches_step [OF 3]) (rule step_heart, simp add: r1(2) demo_memory_def)
  let ?db5 = "?db2\<lparr> pt_outbox := [(OutboxId 2, demo_job OS_Leased (Some (40000000000 + lease_time)) (1 + 1))] \<rparr>"
  let ?s5 = "?s4\<lparr> ps_db := ?db5, ps_leased := leased_job 2 # ps_leased ?s4 \<rparr>"
  have "lease_next demo_process_lib (\<lambda>_. 0) 40000000000 lease_time ?db2 = (Inr (Some (leased_job 2)), ?db5)"
    using demo_lease [of ?db2 OS_Leased "Some (0 + lease_time)" 1 40000000000 lease_time]
    by (simp add: is_due_def demo_job_def new_outbox_row_def as_u32_def lease_time_def millis_def)
  then have "demo_reaches ?s5" by (intro demo_reaches_step [OF 4 step_lease]) simp
  then show ?thesis by (intro exI [of _ ?s5]) (auto simp: demo_db1 db0)
qed

lemma demo_started:
  "\<exists>s. demo_reaches s \<and> pt_links (ps_db s) = [(ProcessLinkId 1, demo_row (Some 77) PS_Active 50000000000)] \<and>
     pt_receipts (ps_db s) = [] \<and> ps_answered s = [(leased_job 1, Inl demo_error)] \<and> hr_world (ps_heart s) = ([(2, 77)], True)"
proof -
  let ?start = "Inr (W_Started \<lparr> st_instance_id = 77 \<rparr>)"
  obtain s t k where s: "demo_reaches s" "pt_links (ps_db s) = [(ProcessLinkId 1, demo_row None PS_Starting 0)]"
    "pt_outbox (ps_db s) = [(OutboxId 2, demo_job OS_Leased t k)]" "pt_events (ps_db s) = []" "pt_receipts (ps_db s) = []"
    "ps_leased s = [leased_job 2]" "ps_answered s = [(leased_job 1, Inl demo_error)]" "hr_world (ps_heart s) = ([], True)"
    using demo_both_leased by blast
  obtain r where r: "perform demo_heart demo_gateway (leased_job 2) (ps_heart s) = (Some ?start, r)" "hr_world r = ([(2, 77)], True)"
    using demo_up [OF s(8), of 2] by blast
  let ?s1 = "s\<lparr> ps_leased := remove1 (leased_job 2) (ps_leased s), ps_answered := (leased_job 2, ?start) # ps_answered s, ps_heart := r \<rparr>"
  have 1: "demo_reaches ?s1" by (rule demo_reaches_step [OF s(1)]) (rule step_perform [OF _ r(1)], simp add: s(6))
  let ?x = "settle 9 50000000000 (leased_job 2) ?start (ps_db s)"
  let ?s2 = "?s1\<lparr> ps_db := snd ?x, ps_answered := remove1 (leased_job 2, ?start) (ps_answered ?s1) \<rparr>"
  have "demo_reaches ?s2" by (rule demo_reaches_step [OF 1], rule step_settle [of _ _ _ 9 50000000000 "fst ?x"]) simp_all
  then show ?thesis using demo_settle [OF s(2-5)] r(2) by (intro exI [of _ ?s2]) (simp add: s(7))
qed

theorem process_started_once_witness:
  "\<exists>s. demo_reaches s \<and> map_of (pt_links (ps_db s)) (ProcessLinkId 1) = Some (demo_row (Some 77) PS_Active 50000000000) \<and>
     (\<exists>e. map_of (pt_events (ps_db s)) (ProcessLinkId 1, EK_Started) = Some e \<and> ev_payload e = EP_Started 77)"
proof -
  obtain s where s: "demo_reaches s" "pt_links (ps_db s) = [(ProcessLinkId 1, demo_row (Some 77) PS_Active 50000000000)]"
    using demo_started by blast
  then have row: "map_of (pt_links (ps_db s)) (ProcessLinkId 1) = Some (demo_row (Some 77) PS_Active 50000000000)" by simp
  have "pl_heart_instance_id (lr_link (demo_row (Some 77) PS_Active 50000000000)) = Some 77" by (simp add: demo_row_def)
  with process_started_once [OF demo_json_facts demo_heart_facts s(1) row] s(1) row show ?thesis by blast
qed

text \<open>
  When the first worker finally writes down its refusal, the running process is marked as failed:
  rescheduling does not check that the worker still holds the lease.
\<close>

lemma late_failure_hides_running_process:
  "\<exists>s. demo_reaches s \<and> pt_links (ps_db s) = [(ProcessLinkId 1, demo_row (Some 77) PS_Failed 60000000000)] \<and>
     demo_memory (hr_world (ps_heart s)) 2 = Some 77"
proof -
  obtain s where s: "demo_reaches s" "pt_links (ps_db s) = [(ProcessLinkId 1, demo_row (Some 77) PS_Active 50000000000)]"
    "pt_receipts (ps_db s) = []" "ps_answered s = [(leased_job 1, Inl demo_error)]" "hr_world (ps_heart s) = ([(2, 77)], True)"
    using demo_started by blast
  let ?x = "settle 9 60000000000 (leased_job 1) (Inl demo_error) (ps_db s)"
  let ?s1 = "s\<lparr> ps_db := snd ?x, ps_answered := remove1 (leased_job 1, Inl demo_error) (ps_answered s) \<rparr>"
  have "demo_reaches ?s1" by (rule demo_reaches_step [OF s(1)], rule step_settle [of _ _ _ 9 60000000000 "fst ?x"]) (simp_all add: s(4))
  then show ?thesis using demo_late [OF s(2,3)] s(5) by (intro exI [of _ ?s1]) (simp add: demo_memory_def)
qed

end
