(* ===== verification/Spec2Isabelle.thy ===== *)
theory Spec2Isabelle
  imports Client_Core Server_Properties Auth_Example Native_Example Process_Example
begin

text \<open>
  \<^bold>\<open>A verification of the Sproyt chat server.\<close> Sproyt is a chat server in Rust: users talk in channels,
  channels can belong to circles, messages are stored in a repository and announced to the
  connected clients. This library models the parts below as HOL functions over explicit states
  and proves that they do what they promise. Paths are relative to \<open>src/\<close>.

  \<^bold>\<open>Parts and theories.\<close>
  \<^item> \<open>Sproyt_Prelude\<close>: results, hash maps as association lists, hash sets as lists without duplicates,
    the locale \<open>guarded_machine\<close> of state machines with a guard and an invariant.
  \<^item> \<open>Rust_Text\<close>: text as lists of Unicode scalar values with their length in UTF-8, and the validated
    text types of \<open>crates/sproyt-protocol/src/text.rs\<close> (bodies, slugs, names, handles). The Unicode
    tables of the standard library that matter are a parameter with its documented facts.
  \<^item> \<open>Protocol_Model\<close>, \<open>Protocol_Wire\<close>: identifiers, sequence numbers (\<open>u64\<close> kept at its width),
    enumerations, records, commands, events and envelopes of \<open>crates/sproyt-protocol\<close>.
  \<^item> \<open>Authorization\<close>: \<open>src/domain/policy.rs\<close>.
  \<^item> \<open>Client_Core\<close>: the durable-send and session-recovery machines of \<open>crates/sproyt-client-core\<close>.
  \<^item> \<open>Thread_Preview\<close>: the previews of thread roots (\<open>ThreadRootPreview\<close> in \<open>src/domain/repository.rs\<close>).
  \<^item> \<open>Repository_State\<close>, \<open>Repository_Users\<close>, \<open>Repository_Circles\<close>, \<open>Repository_Channels\<close>,
    \<open>Repository_Messages\<close>: the in-memory implementation of the trait \<open>ChatRepository\<close> in
    \<open>src/domain/repository.rs\<close>, one definition per operation, over the record \<open>repository_state\<close>. It is
    the executable contract that the SQL repositories are tested against; it is compiled for
    tests only.
  \<^item> \<open>Message_Log\<close>, \<open>Message_Operations\<close>, \<open>Message_Properties\<close>: the invariant of the messages
    (numbers without gaps, unique identifiers, threads, tombstones, receipts, read markers), that
    every message operation keeps it, and what the operations do.
  \<^item> \<open>Directory\<close>, \<open>Directory_Operations\<close>, \<open>Directory_Circles\<close>, \<open>Directory_Channels\<close>,
    \<open>Circle_Properties\<close>: the same for users, channels, circles, memberships and invitations.
  \<^item> \<open>Repository_Machine\<close>: the repository as a state machine over all operations that change it.
  \<^item> \<open>Chat_Actor\<close>, \<open>Actor_Properties\<close>, \<open>Actor_Delivery\<close>: the actor of \<open>src/chat.rs\<close> that
    owns the channels, for every repository; the locale \<open>message_repository\<close> is what it needs of a
    repository, interpreted on the in-memory one.
  \<^item> \<open>Chat_Engine\<close>: the methods of \<open>ChatEngine\<close>, which the transports call.
  \<^item> \<open>Socket_Session\<close>, \<open>Session_Properties\<close>: web socket sessions (\<open>src/ws.rs\<close>) and commands over HTTP
    (\<open>src/web/stream.rs\<close>): decoding, checks, dispatch of all commands, subscriptions, closing.
  \<^item> \<open>Server_Sessions\<close>, \<open>Server_Properties\<close>: the server machine, in which any number of sessions and
    HTTP requests take turns on one engine, its invariant and its refinement of the repository
    machine.
  \<^item> \<open>Auth_Codec\<close>, \<open>Auth_Sessions\<close>, \<open>Auth_Properties\<close>, \<open>Auth_Example\<close>: sealed texts with key rotation
    (\<open>src/native_sessions/codec.rs\<close> and the codec of \<open>src/auth.rs\<close>) and signing in with an OpenID
    provider: login, callback, the session cookies, authentication, renewal, logout.
  \<^item> \<open>Native_Sessions\<close>, \<open>Native_Machine\<close>, \<open>Native_Properties\<close>, \<open>Native_Example\<close>: the sessions of
    native clients (\<open>src/native_sessions.rs\<close>): the transactions on their tables, the machine in which
    they interleave, and its invariant.
  \<^item> \<open>Process_Gateway\<close>, \<open>Process_Store\<close>, \<open>Process_Outbox\<close>, \<open>Process_Properties\<close>, \<open>Process_Example\<close>:
    processes in the engine Heart (\<open>src/process.rs\<close>): the retry loop of the gateway, the tables and
    their operations (\<open>ProcessRepository\<close> in \<open>src/db/sqlite.rs\<close>), the outbox worker, and the machine of
    any number of workers.

  \<^bold>\<open>How states and effects are represented.\<close> A mutex or an actor makes an operation one step, so an
  operation is a function from the state to a result and the new state; an error is the left
  summand, a panic the value \<open>None\<close>. What the code generates (identifiers, tokens, the clock) is an
  argument; that generated identifiers are new is a guard of the machines. Functions of other
  crates (SHA-256, AES-GCM, base64, UUID text, grapheme clusters, the floating-point activity score,
  JSON) and the services Sproyt calls (the OpenID provider, Heart) are parameters; what is relied on
  of them are the predicates \<open>unicode_facts\<close>, \<open>crypto_facts\<close>, \<open>json_facts\<close>, \<open>native_facts\<close> and \<open>heart_facts\<close>,
  which the examples show to hold of concrete functions. Numbers that can overflow are machine words;
  lengths and times are not bounded. The only loop that could run on, the retry loop of the gateway, is
  recursion over the allowed attempts, and it is shown never to reach the end of that list.

  \<^bold>\<open>What is shown.\<close> Per operation: the effect on every branch, the invariant, exactly-once sending,
  single use of invitations, access control. Per machine: every reachable state of the
  repository is consistent; the durable-send machine ends once; a subscriber misses no message
  and gets none twice; presence is announced exactly. For the whole server: its repository only
  moves as the repository machine does, a refused command changes nothing, the connections of
  the actor are those of the open sessions, and lost access ends subscriptions. For signing in: a
  session cookie names the user until it expires, also when keys change, and renewal keeps the
  identity; the code of a native login is handed over once, a refresh token is used once, an ended
  session stays ended. For processes: every call of Heart returns, and a request starts one process
  whatever workers repeat, overlap or crash.

  \<^bold>\<open>Not modelled.\<close> The SQL of the chat repository (text that a database executes; only the names of
  direct channels are modelled) and of work items, the user-task pilot and the process overview, which
  read and write further tables; the server-sent event stream and the capacity of broadcast channels,
  as the order in which a socket is written is up to the runtime; enrollment pages, media files, push
  notifications, the chat bot and the integrations, which are input and output around external
  services; start-up, configuration and metrics.
\<close>

section \<open>A run of the repository\<close>

text \<open>Kari and Ola sign up; Kari makes a circle with a channel and writes in it.\<close>

definition sample_env :: environment where
  "sample_env = \<lparr> env_unicode = sample_unicode, env_simple = (\<lambda>_. []), env_hyphenated = (\<lambda>_. []), env_sha256 = (\<lambda>_. []) \<rparr>"

definition sample_commands :: "repo_command list" where
  "sample_commands = [R_UpsertUser (sample_user (UserId 1) ''Kari''), R_UpsertUser (sample_user (UserId 2) ''Ola''),
     R_CreateCircle 0 (CircleId 1) (CreateCircle (UserId 1) (ChannelSlug (lit ''laget'')) (DisplayName (lit ''Laget''))),
     R_CreateChannel (ChannelId 1) (CreateChannel (UserId 1) (ChannelSlug (lit ''prat'')) (DisplayName (lit ''Tur''))
       Local (Some (CircleId 1))),
     R_AppendMessage (MessageId 7) 0 sample_send]"

lemma sample_commands_run:
  "\<exists>s. repo_run sample_env sample_commands repository_default = Some s \<and> repo_reachable sample_env s \<and>
     hm_get (channels s) (ChannelId 1) = Some sample_circle_channel \<and>
     \<not> hm_has (circle_memberships s) (CircleId 1, UserId 2) \<and> channel_messages s (ChannelId 1) = [sample_message]"
proof -
  have "\<exists>s. repo_run sample_env sample_commands repository_default = Some s \<and>
     hm_get (channels s) (ChannelId 1) = Some sample_circle_channel \<and>
     \<not> hm_has (circle_memberships s) (CircleId 1, UserId 2) \<and> channel_messages s (ChannelId 1) = [sample_message]"
    by (simp add: sample_commands_def sample_user_def repository_default_def sample_send_def
        upsert_user_def assign_ordinal_def general_channel_def keep_established_def checked_add_u64_def
        create_circle_def fresh_circle_def create_channel_def fresh_channel_def admit_member_def
        can_create_channel_in_circle_def circle_role_of_def role_of_def append_message_def can_send_to_channel_def
        check_parent_def next_sequence_def fresh_message_def all_messages_def channel_messages_def
        new_membership_def push_message_def hm_has_iff hm_insert_def hm_get_or_def Let_def
        sample_circle_channel_def sample_message_def new_message_def seq_first_def text_eval)
  then show ?thesis using repo_run_reachable [OF reachable.start] by blast
qed

text \<open>
  Signing up makes a user a member of any channel with the slug \<open>general\<close>, also of one that belongs
  to a circle the user is not in. The SQL repositories only look for a channel without a circle.
\<close>

lemma upsert_joins_circle_general:
  "\<exists>s. repo_run sample_env
     [R_UpsertUser (sample_user (UserId 1) ''Kari''),
      R_CreateCircle 0 (CircleId 1) (CreateCircle (UserId 1) (ChannelSlug (lit ''laget'')) (DisplayName (lit ''Laget''))),
      R_CreateChannel (ChannelId 1) (CreateChannel (UserId 1) (ChannelSlug (lit ''general'')) (DisplayName (lit ''Tur''))
        Local (Some (CircleId 1))),
      R_UpsertUser (sample_user (UserId 2) ''Ola'')] repository_default = Some s \<and>
     is_member s (ChannelId 1) (UserId 2) \<and> \<not> hm_has (circle_memberships s) (CircleId 1, UserId 2)"
  by (simp add: sample_user_def repository_default_def
      upsert_user_def assign_ordinal_def general_channel_def keep_established_def checked_add_u64_def
      create_circle_def fresh_circle_def create_channel_def fresh_channel_def admit_member_def
      can_create_channel_in_circle_def circle_role_of_def
      new_membership_def hm_has_iff hm_insert_def hm_or_insert_def is_member_def hm_get_or_def Let_def text_eval)

section \<open>Every reachable state\<close>

lemma find_root_is_message:
  assumes "log_inv (messages s) (next_sequences s)" "find_root s i = Some r"
  shows "find_message s i = Some r"
  using find_message_unique [OF assms(1), of r] find_SomeD [OF assms(2) [unfolded find_root_def]]
  by (auto simp: all_messages_log)

text \<open>
  C2. After any sequence of repository operations the messages are in order: the messages of a
  channel carry the numbers 1, 2, 3 and so on without a gap, no identifier occurs twice in the
  whole repository, a reply points to an earlier root message of its own channel, a deleted
  message has neither its text nor a reaction, and no member has read further than the last
  message.
\<close>

theorem reachable_messages_in_order:
  assumes "repo_reachable E s"
  shows "(\<forall>c. map (\<lambda>m. seq_nat (msg_sequence m)) (channel_messages s c) = [1..<Suc (length (channel_messages s c))]) \<and>
    distinct (map msg_id (all_messages s)) \<and>
    (\<forall>c. \<forall>m \<in> set (channel_messages s c). msg_channel_id m = c \<and>
       (\<forall>p. msg_parent m = Some p \<longrightarrow> (\<exists>root \<in> set (channel_messages s c).
          msg_id root = p \<and> msg_parent root = None \<and> msg_sequence root < msg_sequence m))) \<and>
    (\<forall>m \<in> set (all_messages s). msg_deleted_at m \<noteq> None \<longrightarrow> msg_body m = tombstone_body \<and>
       (\<forall>u e. (msg_id m, u, e) \<notin> set (message_reactions s))) \<and>
    (\<forall>c u mb. hm_get (memberships s) (c, u) = Some mb \<longrightarrow>
       seq_nat (mb_last_read_sequence mb) \<le> length (channel_messages s c))"
proof -
  note inv = msg_invD [OF repo_invD(1) [OF repository.reachable_inv [OF assms]]]
  show ?thesis
    using log_invD(2,4) [OF inv(1)] inv(2,4,5)
    unfolding channel_messages_log all_messages_log run_ok_def parents_inv_def tombs_inv_def reads_inv_def
    by fastforce
qed

theorem reachable_messages_in_order_witness:
  "\<exists>s. repo_run sample_env sample_commands repository_default = Some s \<and>
     map (\<lambda>m. seq_nat (msg_sequence m)) (channel_messages s (ChannelId 1)) = [1]"
proof -
  obtain s where s: "repo_run sample_env sample_commands repository_default = Some s" "repo_reachable sample_env s"
    "channel_messages s (ChannelId 1) = [sample_message]"
    using sample_commands_run by blast
  from s(3) have n: "length (channel_messages s (ChannelId 1)) = 1" by simp
  have "map (\<lambda>m. seq_nat (msg_sequence m)) (channel_messages s (ChannelId 1)) = [1..<Suc (length (channel_messages s (ChannelId 1)))]"
    using reachable_messages_in_order [OF s(2)] by blast
  then show ?thesis using s(1) unfolding n by auto
qed



end
